(* ===== verification/Prelude.thy ===== *)
theory Prelude
  imports Main "HOL-Library.Word" "HOL-Library.Monad_Syntax"
begin

text \<open>
  Shared vocabulary of the development: the machine integer types of the C code, the
  partiality convention, little-endian access to byte arrays, and the generic lemmas that the
  component theories use.

  A C function that can fail to return (a failed \<^verbatim>\<open>assert\<close>, a \<^verbatim>\<open>panic\<close>, an undefined
  access, a loop that never ends) has a result of type \<open>'a option\<close>, where \<open>None\<close> is
  ``does not return''. Error codes that the C code does return (\<^verbatim>\<open>EEXIST\<close>, \<^verbatim>\<open>-1\<close>, ...)
  are ordinary values of type \<open>int\<close>. Sequencing is the option monad.
\<close>

unbundle bit_operations_syntax

section \<open>Types\<close>

type_synonym u8 = "8 word"
type_synonym u16 = "16 word"
type_synonym u32 = "32 word"
type_synonym u64 = "64 word"

named_theorems res_simps \<open>unfolding of the option monad in facts about successful runs\<close>
named_theorems inv_intros \<open>preservation lemmas of the component invariants\<close>

section \<open>Assertions and sequencing\<close>

text \<open>\<^verbatim>\<open>assert(b)\<close> and \<^verbatim>\<open>KASSERT(b, msg)\<close>: execution stops when the condition is false.\<close>

definition assert_that :: "bool \<Rightarrow> unit option" where
  "assert_that b = (if b then Some () else None)"

lemma assert_that_True [simp]: "assert_that True = Some ()"
  by (simp add: assert_that_def)

lemma assert_that_False [simp]: "assert_that False = None"
  by (simp add: assert_that_def)

lemma assert_that_eq_Some [simp]: "assert_that b = Some u \<longleftrightarrow> b"
  by (simp add: assert_that_def)

lemma assert_that_eq_None [simp]: "assert_that b = None \<longleftrightarrow> \<not> b"
  by (simp add: assert_that_def)

lemma assert_that_bind:
  "Option.bind (assert_that b) f = (if b then f () else None)"
  by simp

lemma bind_SomeE:
  assumes "Option.bind m f = Some r"
  obtains x where "m = Some x" "f x = Some r"
  using assms by (cases m) auto

lemma if_None_eq_Some [simp]: "(if b then None else x) = Some y \<longleftrightarrow> \<not> b \<and> x = Some y"
  by simp

lemma if_eq_Some_None [simp]: "(if b then x else None) = Some y \<longleftrightarrow> b \<and> x = Some y"
  by simp

lemmas [res_simps] = bind_eq_Some_conv assert_that_bind Let_def

section \<open>C integers\<close>

text \<open>The value of a C comparison or of \<^verbatim>\<open>!e\<close>.\<close>

definition cbool :: "bool \<Rightarrow> int" where
  "cbool b = (if b then 1 else 0)"

lemma cbool_simps [simp]:
  "cbool b = 0 \<longleftrightarrow> \<not> b" "cbool b = 1 \<longleftrightarrow> b" "cbool b \<noteq> 0 \<longleftrightarrow> b"
  by (simp_all add: cbool_def)

text \<open>\<^verbatim>\<open>roundup2(x, y)\<close> of \<^verbatim>\<open>sys/param.h\<close>, for \<open>y\<close> a power of two.\<close>

definition roundup2 :: "'a::len word \<Rightarrow> 'a word \<Rightarrow> 'a word" where
  "roundup2 x y = (x + (y - 1)) AND NOT (y - 1)"

text \<open>\<^verbatim>\<open>fls\<close>/\<^verbatim>\<open>flsl\<close> of libc: the one-based index of the most significant set bit, 0 for 0.\<close>

fun fls_nat :: "nat \<Rightarrow> nat" where
  "fls_nat n = (if n = 0 then 0 else Suc (fls_nat (n div 2)))"

declare fls_nat.simps [simp del]

definition flsl :: "'a::len word \<Rightarrow> nat" where
  "flsl w = fls_nat (unat w)"

lemma fls_nat_upper: "n < 2 ^ fls_nat n"
proof (induction n rule: fls_nat.induct)
  case (1 n)
  show ?case
  proof (cases "n = 0")
    case True
    then show ?thesis by (simp add: fls_nat.simps)
  next
    case False
    with 1 have "n div 2 < 2 ^ fls_nat (n div 2)" by simp
    with False show ?thesis by (subst fls_nat.simps) auto
  qed
qed

lemma fls_nat_lower: "n \<noteq> 0 \<Longrightarrow> 2 ^ (fls_nat n - 1) \<le> n"
proof (induction n rule: fls_nat.induct)
  case (1 n)
  show ?case
  proof (cases "n div 2 = 0")
    case True
    with "1.prems" show ?thesis by (subst fls_nat.simps) (simp add: fls_nat.simps)
  next
    case False
    with 1 have IH: "2 ^ (fls_nat (n div 2) - 1) \<le> n div 2" by simp
    from False have "fls_nat (n div 2) = Suc (fls_nat (n div 2) - 1)"
      by (subst (1 2) fls_nat.simps) simp
    with IH have "2 ^ fls_nat (n div 2) \<le> 2 * (n div 2)"
      by (metis mult_le_mono2 power_Suc)
    with "1.prems" show ?thesis by (subst fls_nat.simps) auto
  qed
qed

section \<open>Words\<close>

text \<open>The test \<open>x AND (x - 1) = 0\<close> for a power of two.\<close>

lemma bit_top:
  fixes x :: "'a::len word"
  assumes "2 ^ k \<le> unat x" "unat x < 2 ^ Suc k"
  shows "bit x k"
proof -
  have "unat x div 2 ^ k = 1"
    using assms by (intro Euclidean_Rings.div_nat_eqI) simp_all
  then have "odd (unat x div 2 ^ k)" by simp
  then have "bit (unat x) k" by (simp add: bit_iff_odd)
  then show ?thesis by (simp add: bit_unsigned_iff)
qed

lemma unat_two_power: "k < LENGTH('a) \<Longrightarrow> unat (2 ^ k :: 'a::len word) = 2 ^ k"
  using unat_of_nat [of "2 ^ k", where ?'a = 'a] by simp

lemma pow2_test:
  fixes x :: "'a::len word"
  assumes "x \<noteq> 0" "x AND (x - 1) = 0"
  shows "\<exists>k<LENGTH('a). x = 2 ^ k"
proof -
  have ux: "unat x \<noteq> 0" using assms(1) by (simp add: unat_eq_0)
  define k where "k = fls_nat (unat x) - 1"
  have "fls_nat (unat x) \<noteq> 0" using ux by (simp add: fls_nat.simps)
  then have low: "2 ^ k \<le> unat x" and up: "unat x < 2 ^ Suc k"
    using fls_nat_lower [OF ux] fls_nat_upper [of "unat x"] by (simp_all add: k_def)
  have "unat x < 2 ^ LENGTH('a)" by (rule unsigned_less)
  with low have "2 ^ k < (2::nat) ^ LENGTH('a)" by linarith
  then have k: "k < LENGTH('a)" by simp
  have eq: "unat x = 2 ^ k"
  proof (rule ccontr)
    assume "unat x \<noteq> 2 ^ k"
    moreover have "unat (x - 1) = unat x - 1" using ux by (simp add: unat_minus_one assms(1))
    ultimately have "2 ^ k \<le> unat (x - 1)" "unat (x - 1) < 2 ^ Suc k" using low up by linarith+
    then have "bit (x - 1) k" by (rule bit_top)
    with bit_top [OF low up] have "bit (x AND (x - 1)) k" by (simp add: bit_simps)
    with assms(2) show False by simp
  qed
  have "unat (2 ^ k :: 'a word) = 2 ^ k" using k by (rule unat_two_power)
  with eq have "x = 2 ^ k" by (simp add: word_unat_eq_iff)
  with k show ?thesis by blast
qed

lemma and_not_mask_eq_push_drop:
  fixes x :: "'a::len word"
  shows "x AND NOT (mask k) = push_bit k (drop_bit k x)"
  by (rule bit_word_eqI) (auto simp: bit_simps)

lemma unat_and_not_mask:
  fixes x :: "'a::len word"
  shows "unat (x AND NOT (mask k)) = unat x - unat x mod 2 ^ k"
proof -
  have "take_bit k x + (x AND NOT (mask k)) = x"
    using bits_ident [of k x] by (simp add: and_not_mask_eq_push_drop add.commute)
  moreover have low: "unat (take_bit k x) = unat x mod 2 ^ k"
    by (simp add: unsigned_take_bit_eq flip: take_bit_eq_mod)
  moreover have "take_bit k x \<le> x"
    by (simp add: word_le_nat_alt low)
  ultimately show ?thesis
    by (metis add_diff_cancel_left' unat_sub)
qed

lemma exp_minus_1_mask: "(2 ^ k - 1 :: 'a::len word) = mask k"
  by (simp add: mask_eq_decr_exp)

lemma roundup2_exp:
  fixes x :: "'a::len word"
  shows "roundup2 x (2 ^ k) = (x + mask k) AND NOT (mask k)"
  by (simp add: roundup2_def exp_minus_1_mask)

lemma unat_mask_less: "k < LENGTH('a) \<Longrightarrow> unat (mask k :: 'a::len word) = 2 ^ k - 1"
proof -
  assume k: "k < LENGTH('a)"
  have "unat (take_bit k (- 1 :: 'a word)) = take_bit k (unat (- 1 :: 'a word))"
    by (rule unsigned_take_bit_eq)
  also have "\<dots> = mask (min k LENGTH('a))"
    by (simp add: unsigned_minus_1_eq_mask)
  finally show "unat (mask k :: 'a word) = 2 ^ k - 1"
    using k by (simp add: take_bit_minus_one_eq_mask min_def) (simp add: mask_eq_exp_minus_1)
qed

lemma unat_roundup2:
  fixes x :: "'a::len word"
  assumes k: "k < LENGTH('a)" and ov: "unat x + (2 ^ k - 1) < 2 ^ LENGTH('a)"
  shows "unat (roundup2 x (2 ^ k)) = (unat x + (2 ^ k - 1)) - (unat x + (2 ^ k - 1)) mod 2 ^ k"
proof -
  have "unat (x + mask k) = unat x + (2 ^ k - 1)"
    using ov k by (simp add: unat_word_ariths unat_mask_less)
  then show ?thesis by (simp add: roundup2_exp unat_and_not_mask)
qed

lemma roundup2_aligned:
  fixes x :: "'a::len word"
  shows "roundup2 x y AND (y - 1) = 0"
  by (simp add: roundup2_def and.assoc)

lemma roundup2_bounds:
  fixes x :: "'a::len word"
  assumes "k < LENGTH('a)" and "unat x + (2 ^ k - 1) < 2 ^ LENGTH('a)"
  shows "unat x \<le> unat (roundup2 x (2 ^ k))"
    and "unat (roundup2 x (2 ^ k)) < unat x + 2 ^ k"
    and "2 ^ k dvd unat (roundup2 x (2 ^ k))"
proof -
  let ?s = "unat x + (2 ^ k - 1)"
  have eq: "unat (roundup2 x (2 ^ k)) = ?s - ?s mod 2 ^ k"
    using assms by (rule unat_roundup2)
  have m: "?s mod 2 ^ k < 2 ^ k" by simp
  have "(1::nat) \<le> 2 ^ k" by simp
  with m eq show "unat x \<le> unat (roundup2 x (2 ^ k))"
    by linarith
  from \<open>(1::nat) \<le> 2 ^ k\<close> eq show "unat (roundup2 x (2 ^ k)) < unat x + 2 ^ k"
    by linarith
  show "2 ^ k dvd unat (roundup2 x (2 ^ k))"
    unfolding eq by (rule dvd_minus_mod)
qed

text \<open>Narrowing and widening again keeps the low bits.\<close>

lemma ucast_narrow:
  fixes x :: u32
  shows "ucast (ucast x :: u8) = take_bit 8 x" "ucast (ucast x :: u16) = take_bit 16 x"
  by (rule bit_word_eqI, simp add: bit_simps)+

text \<open>A byte field of a word.\<close>

lemma unat_drop_bit_and_mask:
  fixes x :: "'a::len word"
  shows "unat (drop_bit k x AND mask n) = unat x div 2 ^ k mod 2 ^ n"
proof -
  have "drop_bit k x AND mask n = take_bit n (drop_bit k x)" by (simp add: take_bit_eq_mask)
  then have "unat (drop_bit k x AND mask n) = take_bit n (drop_bit k (unat x))"
    by (simp only: unsigned_take_bit_eq unat_drop_bit_eq)
  then show ?thesis by (simp add: take_bit_eq_mod drop_bit_eq_div)
qed

lemma unat_drop_bit_and_ff:
  fixes x :: "'a::len word"
  assumes "8 < LENGTH('a)"
  shows "unat (drop_bit k x AND 0xff) = unat x div 2 ^ k mod 256"
  using unat_drop_bit_and_mask [of k x 8] by (simp add: mask_eq_exp_minus_1)

text \<open>The alignment test \<^verbatim>\<open>offset & (bytes - 1)\<close> for the widths of an access.\<close>

lemma int_and_aligned:
  "bytes = 1 \<or> bytes = 2 \<or> bytes = 4 \<Longrightarrow> int offset AND (int bytes - 1) = int (offset mod bytes)"
proof -
  have "x AND 1 = x mod 2" "x AND 3 = x mod 4" for x :: int
    using take_bit_eq_mask [of 1 x] take_bit_eq_mask [of 2 x]
    by (simp_all add: take_bit_eq_mod mask_eq_exp_minus_1)
  then show "bytes = 1 \<or> bytes = 2 \<or> bytes = 4 \<Longrightarrow> ?thesis" by (auto simp: zmod_int)
qed

section \<open>Little-endian byte arrays\<close>

text \<open>
  The emulator runs on RISC-V, which is little-endian; \<^verbatim>\<open>*(uint16_t *)(p + i)\<close> reads and
  writes the bytes in that order. The callers check the bounds.
\<close>

definition get_le16 :: "u8 list \<Rightarrow> nat \<Rightarrow> u16" where
  "get_le16 bs i = ucast (bs ! i) OR push_bit 8 (ucast (bs ! (i + 1)))"

definition put_le16 :: "u8 list \<Rightarrow> nat \<Rightarrow> u16 \<Rightarrow> u8 list" where
  "put_le16 bs i v = bs[i := ucast v, i + 1 := ucast (drop_bit 8 v)]"

definition get_le32 :: "u8 list \<Rightarrow> nat \<Rightarrow> u32" where
  "get_le32 bs i = ucast (bs ! i) OR push_bit 8 (ucast (bs ! (i + 1)))
     OR push_bit 16 (ucast (bs ! (i + 2))) OR push_bit 24 (ucast (bs ! (i + 3)))"

definition put_le32 :: "u8 list \<Rightarrow> nat \<Rightarrow> u32 \<Rightarrow> u8 list" where
  "put_le32 bs i v = bs[i := ucast v, i + 1 := ucast (drop_bit 8 v),
     i + 2 := ucast (drop_bit 16 v), i + 3 := ucast (drop_bit 24 v)]"

definition get_le64 :: "u8 list \<Rightarrow> nat \<Rightarrow> u64" where
  "get_le64 bs i = ucast (get_le32 bs i) OR push_bit 32 (ucast (get_le32 bs (i + 4)))"

definition put_le64 :: "u8 list \<Rightarrow> nat \<Rightarrow> u64 \<Rightarrow> u8 list" where
  "put_le64 bs i v = put_le32 (put_le32 bs i (ucast v)) (i + 4) (ucast (drop_bit 32 v))"

lemma length_put_le [simp]:
  "length (put_le16 bs i v) = length bs"
  "length (put_le32 bs i w) = length bs"
  "length (put_le64 bs i x) = length bs"
  by (simp_all add: put_le16_def put_le32_def put_le64_def)

lemma nth_put_le16_other [simp]: "j \<noteq> i \<Longrightarrow> j \<noteq> i + 1 \<Longrightarrow> put_le16 bs i v ! j = bs ! j"
  by (simp add: put_le16_def)

lemma get_le16_put_le16_other:
  "j + 2 \<le> i \<or> i + 2 \<le> j \<Longrightarrow> get_le16 (put_le16 bs i v) j = get_le16 bs j"
  by (auto simp: get_le16_def)

lemma nth_put_le32_other: "j < i \<or> i + 4 \<le> j \<Longrightarrow> put_le32 bs i v ! j = bs ! j"
  by (auto simp: put_le32_def)

lemma get_put_le16 [simp]:
  assumes "i + 1 < length bs"
  shows "get_le16 (put_le16 bs i v) i = v"
proof -
  have "ucast (ucast v :: u8) OR push_bit 8 (ucast (ucast (drop_bit 8 v) :: u8)) = v"
    by (rule bit_word_eqI) (auto simp: bit_simps)
  with assms show ?thesis by (simp add: get_le16_def put_le16_def)
qed

text \<open>Writing back what is there changes nothing.\<close>

lemma put_get_le16: "i + 1 < length bs \<Longrightarrow> put_le16 bs i (get_le16 bs i) = bs"
proof -
  assume "i + 1 < length bs"
  moreover have "ucast (get_le16 bs i) = bs ! i"
    by (rule bit_word_eqI) (simp add: get_le16_def bit_simps)
  moreover have "ucast (drop_bit 8 (get_le16 bs i)) = bs ! (i + 1)"
    by (rule bit_word_eqI) (auto simp: get_le16_def bit_simps dest: bit_imp_le_length)
  ultimately show ?thesis by (simp add: put_le16_def list_update_same_conv)
qed

lemma le32_bytes:
  fixes v :: u32
  shows "ucast (ucast v :: u8) OR push_bit 8 (ucast (ucast (drop_bit 8 v) :: u8))
      OR push_bit 16 (ucast (ucast (drop_bit 16 v) :: u8))
      OR push_bit 24 (ucast (ucast (drop_bit 24 v) :: u8)) = v"
proof (rule bit_word_eqI)
  fix n assume "n < LENGTH(32)"
  then consider "n < 8" | "8 \<le> n" "n < 16" | "16 \<le> n" "n < 24" | "24 \<le> n" "n < 32"
    by fastforce
  then show "bit (ucast (ucast v :: u8) OR push_bit 8 (ucast (ucast (drop_bit 8 v) :: u8))
      OR push_bit 16 (ucast (ucast (drop_bit 16 v) :: u8))
      OR push_bit 24 (ucast (ucast (drop_bit 24 v) :: u8)) :: u32) n = bit v n"
    by cases (auto simp: bit_simps)
qed

text \<open>The upper bytes of a word that was read.\<close>

lemma bit_u8_ge [simp]: "8 \<le> n \<Longrightarrow> \<not> bit (x :: u8) n"
  using bit_imp_le_length [of x n] by auto

lemma ucast_get_le32:
  "ucast (drop_bit 16 (get_le32 bs i)) = bs ! (i + 2)"
  "ucast (drop_bit 24 (get_le32 bs i)) = bs ! (i + 3)"
  by (auto intro!: bit_word_eqI simp: get_le32_def bit_simps dest: bit_imp_le_length)

lemma get_put_le32 [simp]: "i + 3 < length bs \<Longrightarrow> get_le32 (put_le32 bs i v) i = v"
  using le32_bytes [of v] by (simp add: get_le32_def put_le32_def)

lemma get_le32_put_le32_other:
  "j + 4 \<le> i \<or> i + 4 \<le> j \<Longrightarrow> get_le32 (put_le32 bs i v) j = get_le32 bs j"
  by (auto simp: get_le32_def nth_put_le32_other)

lemma get_put_le64 [simp]:
  assumes "i + 7 < length bs"
  shows "get_le64 (put_le64 bs i v) i = v"
proof -
  have "ucast (ucast v :: u32) OR push_bit 32 (ucast (ucast (drop_bit 32 v) :: u32)) = v"
    by (rule bit_word_eqI) (auto simp: bit_simps)
  with assms show ?thesis
    by (simp add: get_le64_def put_le64_def get_le32_put_le32_other)
qed

section \<open>Lists\<close>

lemma find_Some_iff_unique:
  assumes "x \<in> set xs" "P x" "\<And>y. y \<in> set xs \<Longrightarrow> P y \<Longrightarrow> y = x"
  shows "List.find P xs = Some x"
proof -
  from assms(1,2) have "List.find P xs \<noteq> None" by (auto simp: find_None_iff)
  then obtain y where y: "List.find P xs = Some y" by auto
  then have "y \<in> set xs \<and> P y" by (auto simp: find_Some_iff)
  with assms(3) y show ?thesis by simp
qed

lemma find_SomeD: "List.find P xs = Some x \<Longrightarrow> x \<in> set xs \<and> P x"
  by (auto simp: find_Some_iff)

lemma takeWhile_dropWhile_set:
  "set (takeWhile P xs) \<union> set (dropWhile P xs) = set xs"
  by (metis set_append takeWhile_dropWhile_id)

end
