(* ===== verification/Pthread.thy ===== *)
theory Pthread
  imports Prelude
begin

text \<open>
  The threading shim of \<^verbatim>\<open>bhyve/pthread.c\<close>. The device model is single threaded: a mutex is an
  integer whose lock and unlock operations assert that it is free or held, a condition variable
  wait returns at once, and read-write locks do nothing. Locking a mutex that is already held is
  therefore not a deadlock but a failed assertion, and waiting for a condition that no other code
  can establish is an endless loop (see theory \<open>E1000State\<close>).
\<close>

record pthread_mutex =
  mutex_lock :: int

definition pthread_mutex_init :: "pthread_mutex \<Rightarrow> pthread_mutex" where
  "pthread_mutex_init m = m\<lparr>mutex_lock := 0\<rparr>"

definition pthread_mutex_lock :: "pthread_mutex \<Rightarrow> pthread_mutex option" where
  "pthread_mutex_lock m = do {
     assert_that (mutex_lock m = 0);
     Some (m\<lparr>mutex_lock := 1\<rparr>)
   }"

definition pthread_mutex_unlock :: "pthread_mutex \<Rightarrow> pthread_mutex option" where
  "pthread_mutex_unlock m = do {
     assert_that (mutex_lock m = 1);
     Some (m\<lparr>mutex_lock := 0\<rparr>)
   }"

definition pthread_mutex_isowned_np :: "pthread_mutex \<Rightarrow> int" where
  "pthread_mutex_isowned_np m = mutex_lock m"

text \<open>Operations that do nothing and return 0.\<close>

definition pthread_cond_wait :: int where "pthread_cond_wait = 0"
definition pthread_cond_signal :: int where "pthread_cond_signal = 0"
definition pthread_cond_broadcast :: int where "pthread_cond_broadcast = 0"
definition pthread_cond_init :: int where "pthread_cond_init = 0"
definition pthread_create :: int where "pthread_create = 0"
definition pthread_rwlock_init :: int where "pthread_rwlock_init = 0"
definition pthread_rwlock_rdlock :: int where "pthread_rwlock_rdlock = 0"
definition pthread_rwlock_wrlock :: int where "pthread_rwlock_wrlock = 0"
definition pthread_rwlock_unlock :: int where "pthread_rwlock_unlock = 0"

abbreviation mutex_free :: "pthread_mutex \<Rightarrow> bool" where
  "mutex_free m \<equiv> mutex_lock m = 0"

lemma lock_unlock:
  "mutex_free m \<Longrightarrow> Option.bind (pthread_mutex_lock m) pthread_mutex_unlock = Some m"
  by (simp add: pthread_mutex_lock_def pthread_mutex_unlock_def)

lemma lock_Some [simp]:
  "pthread_mutex_lock m = Some m' \<longleftrightarrow> mutex_free m \<and> m' = m\<lparr>mutex_lock := 1\<rparr>"
  by (auto simp: pthread_mutex_lock_def assert_that_bind)

lemma unlock_Some [simp]:
  "pthread_mutex_unlock m = Some m' \<longleftrightarrow> mutex_lock m = 1 \<and> m' = m\<lparr>mutex_lock := 0\<rparr>"
  by (auto simp: pthread_mutex_unlock_def assert_that_bind)

lemma relock_fails [simp]: "mutex_lock m = 1 \<Longrightarrow> pthread_mutex_lock m = None"
  by (simp add: pthread_mutex_lock_def)

text \<open>
  The interface the devices use. A critical section that starts on a free lock ends on a free
  lock and cannot be entered twice.
\<close>

locale lock_discipline =
  fixes acquire :: "'m \<Rightarrow> 'm option"
    and release :: "'m \<Rightarrow> 'm option"
    and free :: "'m \<Rightarrow> bool"
  assumes acquire_ok: "free m \<Longrightarrow> \<exists>m'. acquire m = Some m' \<and> \<not> free m'"
    and acquire_fail: "\<not> free m \<Longrightarrow> acquire m = None"
    and release_ok: "acquire m = Some m' \<Longrightarrow> release m' = Some m"
begin

lemma not_reentrant: "acquire m = Some m' \<Longrightarrow> acquire m' = None"
  using acquire_ok acquire_fail by (metis option.distinct(1) option.inject)

lemma section_restores: "free m \<Longrightarrow> Option.bind (acquire m) release = Some m"
  using acquire_ok release_ok by fastforce

end

interpretation mutex: lock_discipline pthread_mutex_lock pthread_mutex_unlock mutex_free
proof
  fix m :: pthread_mutex
  show "mutex_free m \<Longrightarrow> \<exists>m'. pthread_mutex_lock m = Some m' \<and> \<not> mutex_free m'"
    by simp
  show "\<not> mutex_free m \<Longrightarrow> pthread_mutex_lock m = None"
    by (simp add: pthread_mutex_lock_def)
  show "pthread_mutex_lock m = Some m' \<Longrightarrow> pthread_mutex_unlock m' = Some m" for m'
    by auto
qed

end
