(* ===== verification/PciCfg.thy ===== *)
theory PciCfg
  imports Pthread
begin

text \<open>
  The PCI device instance (\<^verbatim>\<open>struct pci_devinst\<close> of \<^verbatim>\<open>bhyve/pci_emul.h\<close>) and the accessors
  of its 256 byte configuration space.

  The abbreviations name the register offsets and bits of the PCI Local Bus Specification 3.0
  that the code takes from \<^verbatim>\<open>dev/pci/pcireg.h\<close>: the layout of the type 0 header and of the
  MSI, MSI-X and PCI Express capabilities. They are fixed by that specification, which
  \<^verbatim>\<open>pci_emul.c\<close> cites.
\<close>

section \<open>Registers of the PCI specification\<close>

abbreviation (input) "PCI_BUSMAX \<equiv> (255::nat)"
abbreviation (input) "PCI_SLOTMAX \<equiv> (31::nat)"
abbreviation (input) "PCI_FUNCMAX \<equiv> (7::nat)"
abbreviation (input) "PCI_REGMAX \<equiv> (255::nat)"

abbreviation (input) "PCIR_VENDOR \<equiv> (0x00::nat)"
abbreviation (input) "PCIR_DEVICE \<equiv> (0x02::nat)"
abbreviation (input) "PCIR_COMMAND \<equiv> (0x04::nat)"
abbreviation (input) "PCIR_STATUS \<equiv> (0x06::nat)"
abbreviation (input) "PCIR_REVID \<equiv> (0x08::nat)"
abbreviation (input) "PCIR_PROGIF \<equiv> (0x09::nat)"
abbreviation (input) "PCIR_SUBCLASS \<equiv> (0x0a::nat)"
abbreviation (input) "PCIR_CLASS \<equiv> (0x0b::nat)"
abbreviation (input) "PCIR_HDRTYPE \<equiv> (0x0e::nat)"
abbreviation (input) "PCIR_SUBVEND_0 \<equiv> (0x2c::nat)"
abbreviation (input) "PCIR_SUBDEV_0 \<equiv> (0x2e::nat)"
abbreviation (input) "PCIR_CAP_PTR \<equiv> (0x34::nat)"
abbreviation (input) "PCIR_INTLINE \<equiv> (0x3c::nat)"
abbreviation (input) "PCIR_INTPIN \<equiv> (0x3d::nat)"
abbreviation (input) "PCIR_MAX_BAR_0 \<equiv> (5::nat)"
abbreviation (input) "PCI_BARMAX \<equiv> PCIR_MAX_BAR_0"
abbreviation (input) PCIR_BAR :: "nat \<Rightarrow> nat" where "PCIR_BAR n \<equiv> 0x10 + 4 * n"

abbreviation (input) "PCIM_CMD_PORTEN \<equiv> (0x0001::u16)"
abbreviation (input) "PCIM_CMD_MEMEN \<equiv> (0x0002::u16)"
abbreviation (input) "PCIM_CMD_BUSMASTEREN \<equiv> (0x0004::u16)"
abbreviation (input) "PCIM_CMD_INTxDIS \<equiv> (0x0400::u16)"
abbreviation (input) "PCIM_STATUS_CAPPRESENT \<equiv> (0x0010::u16)"
abbreviation (input) "PCIM_HDRTYPE_NORMAL \<equiv> (0x00::u8)"
abbreviation (input) "PCIM_MFDEV \<equiv> (0x80::u32)"

abbreviation (input) "PCIM_BAR_IO_SPACE \<equiv> (1::u64)"
abbreviation (input) "PCIM_BAR_IO_BASE \<equiv> (0xfffffffc::u64)"
abbreviation (input) "PCIM_BAR_MEM_SPACE \<equiv> (0::u64)"
abbreviation (input) "PCIM_BAR_MEM_32 \<equiv> (0::u64)"
abbreviation (input) "PCIM_BAR_MEM_64 \<equiv> (4::u64)"
abbreviation (input) "PCIM_BAR_MEM_PREFETCH \<equiv> (8::u64)"
abbreviation (input) "PCIM_BAR_MEM_BASE \<equiv> (0xfffffffffffffff0::u64)"

abbreviation (input) "PCIY_MSI \<equiv> (0x05::u8)"
abbreviation (input) "PCIY_EXPRESS \<equiv> (0x10::u8)"
abbreviation (input) "PCIY_MSIX \<equiv> (0x11::u8)"
abbreviation (input) "PCIM_MSICTRL_64BIT \<equiv> (0x0080::u16)"
abbreviation (input) "PCIM_MSICTRL_MME_MASK \<equiv> (0x0070::u16)"
abbreviation (input) "PCIM_MSICTRL_MSI_ENABLE \<equiv> (0x0001::u16)"
abbreviation (input) "PCIM_MSIXCTRL_MSIX_ENABLE \<equiv> (0x8000::u16)"
abbreviation (input) "PCIM_MSIXCTRL_FUNCTION_MASK \<equiv> (0x4000::u16)"
abbreviation (input) "PCIM_MSIX_BIR_MASK \<equiv> (0x7::u32)"
abbreviation (input) "PCIM_MSIX_VCTRL_MASK \<equiv> (0x1::u32)"
abbreviation (input) "PCIEM_TYPE_ROOT_PORT \<equiv> (0x0040::u16)"

section \<open>The device instance\<close>

datatype pcibar_type = PCIBAR_NONE | PCIBAR_IO | PCIBAR_MEM32 | PCIBAR_MEM64 | PCIBAR_MEMHI64

record pcibar =
  bar_type :: pcibar_type
  bar_size :: u64
  bar_addr :: u64

datatype lintr_stat = IDLE | ASSERTED | PENDING

record lintr_info =
  lintr_pin :: int
  lintr_state :: lintr_stat
  lintr_pirq_pin :: int
  lintr_ioapic_irq :: int
  lintr_lock :: pthread_mutex

record msi_info =
  msi_enabled :: int
  msi_addr :: u64
  msi_msg_data :: u64
  msi_maxmsgnum :: int

text \<open>
  The MSI-X table is the byte array that the code allocates: entries of 16 bytes, the vector
  control word in the last 4.
\<close>

record msix_info =
  msix_enabled :: int
  msix_table_bar :: int
  msix_pba_bar :: int
  msix_table_offset :: u32
  msix_table_count :: int
  msix_pba_offset :: u32
  msix_pba_size :: int
  msix_function_mask :: int
  msix_table :: "u8 list option"

text \<open>
  \<open>pi_plic\<close> is the trace of the words the device has written to the interrupt controller, in
  order: register offset and value (\<^verbatim>\<open>mdx_iowrite_uint32\<close> in \<^verbatim>\<open>pci_irq_assert\<close>). The driver
  (\<^verbatim>\<open>pi_d\<close>) and its private data (\<^verbatim>\<open>pi_arg\<close>) are kept by the bus, theory \<open>PciBus\<close>.
\<close>

record pci_devinst =
  pi_bus :: nat
  pi_slot :: nat
  pi_func :: nat
  pi_name :: string
  pi_prevcap :: nat
  pi_capend :: nat
  pi_lintr :: lintr_info
  pi_msi :: msi_info
  pi_msix :: msix_info
  pi_cfgdata :: "u8 list"
  pi_bar :: "pcibar list"
  pi_plic :: "(u32 \<times> u32) list"

text \<open>The instance right after \<^verbatim>\<open>calloc\<close>.\<close>

definition pcibar_zero :: pcibar where
  "pcibar_zero = \<lparr>bar_type = PCIBAR_NONE, bar_size = 0, bar_addr = 0\<rparr>"

definition pci_devinst_zero :: pci_devinst where
  "pci_devinst_zero = \<lparr>
     pi_bus = 0, pi_slot = 0, pi_func = 0, pi_name = [], pi_prevcap = 0, pi_capend = 0,
     pi_lintr = \<lparr>lintr_pin = 0, lintr_state = IDLE, lintr_pirq_pin = 0, lintr_ioapic_irq = 0,
                 lintr_lock = \<lparr>mutex_lock = 0\<rparr>\<rparr>,
     pi_msi = \<lparr>msi_enabled = 0, msi_addr = 0, msi_msg_data = 0, msi_maxmsgnum = 0\<rparr>,
     pi_msix = \<lparr>msix_enabled = 0, msix_table_bar = 0, msix_pba_bar = 0, msix_table_offset = 0,
                msix_table_count = 0, msix_pba_offset = 0, msix_pba_size = 0,
                msix_function_mask = 0, msix_table = None\<rparr>,
     pi_cfgdata = replicate (PCI_REGMAX + 1) 0,
     pi_bar = replicate (PCI_BARMAX + 1) pcibar_zero,
     pi_plic = []\<rparr>"

section \<open>Configuration space accessors\<close>

definition pci_set_cfgdata8 :: "pci_devinst \<Rightarrow> nat \<Rightarrow> u8 \<Rightarrow> pci_devinst option" where
  "pci_set_cfgdata8 pi offset val = do {
     assert_that (offset \<le> PCI_REGMAX);
     Some (pi\<lparr>pi_cfgdata := (pi_cfgdata pi)[offset := val]\<rparr>)
   }"

definition pci_set_cfgdata16 :: "pci_devinst \<Rightarrow> nat \<Rightarrow> u16 \<Rightarrow> pci_devinst option" where
  "pci_set_cfgdata16 pi offset val = do {
     assert_that (offset \<le> PCI_REGMAX - 1 \<and> offset mod 2 = 0);
     Some (pi\<lparr>pi_cfgdata := put_le16 (pi_cfgdata pi) offset val\<rparr>)
   }"

definition pci_set_cfgdata32 :: "pci_devinst \<Rightarrow> nat \<Rightarrow> u32 \<Rightarrow> pci_devinst option" where
  "pci_set_cfgdata32 pi offset val = do {
     assert_that (offset \<le> PCI_REGMAX - 3 \<and> offset mod 4 = 0);
     Some (pi\<lparr>pi_cfgdata := put_le32 (pi_cfgdata pi) offset val\<rparr>)
   }"

definition pci_get_cfgdata8 :: "pci_devinst \<Rightarrow> nat \<Rightarrow> u8 option" where
  "pci_get_cfgdata8 pi offset = do {
     assert_that (offset \<le> PCI_REGMAX);
     Some (pi_cfgdata pi ! offset)
   }"

definition pci_get_cfgdata16 :: "pci_devinst \<Rightarrow> nat \<Rightarrow> u16 option" where
  "pci_get_cfgdata16 pi offset = do {
     assert_that (offset \<le> PCI_REGMAX - 1 \<and> offset mod 2 = 0);
     Some (get_le16 (pi_cfgdata pi) offset)
   }"

definition pci_get_cfgdata32 :: "pci_devinst \<Rightarrow> nat \<Rightarrow> u32 option" where
  "pci_get_cfgdata32 pi offset = do {
     assert_that (offset \<le> PCI_REGMAX - 3 \<and> offset mod 4 = 0);
     Some (get_le32 (pi_cfgdata pi) offset)
   }"

definition CFGWRITE :: "pci_devinst \<Rightarrow> nat \<Rightarrow> u32 \<Rightarrow> nat \<Rightarrow> pci_devinst option" where
  "CFGWRITE pi coff val bytes =
     (if bytes = 1 then pci_set_cfgdata8 pi coff (ucast val)
      else if bytes = 2 then pci_set_cfgdata16 pi coff (ucast val)
      else pci_set_cfgdata32 pi coff val)"

definition CFGREAD :: "pci_devinst \<Rightarrow> nat \<Rightarrow> nat \<Rightarrow> u32 option" where
  "CFGREAD pi coff bytes =
     (if bytes = 1 then map_option ucast (pci_get_cfgdata8 pi coff)
      else if bytes = 2 then map_option ucast (pci_get_cfgdata16 pi coff)
      else pci_get_cfgdata32 pi coff)"

section \<open>Laws of the configuration space\<close>

text \<open>The arrays have their declared sizes.\<close>

definition devinst_ok :: "pci_devinst \<Rightarrow> bool" where
  "devinst_ok pi \<longleftrightarrow> length (pi_cfgdata pi) = PCI_REGMAX + 1 \<and> length (pi_bar pi) = PCI_BARMAX + 1"

lemma devinst_ok_zero: "devinst_ok pci_devinst_zero"
  by (simp add: devinst_ok_def pci_devinst_zero_def)

text \<open>
  A register of some width in the configuration space: an access succeeds exactly at the valid
  offsets, a write is read back, and registers that do not share bytes do not interfere.
\<close>

locale cfg_register =
  fixes ok :: "'s \<Rightarrow> bool"
    and valid :: "nat \<Rightarrow> bool"
    and rd :: "'s \<Rightarrow> nat \<Rightarrow> 'v option"
    and wr :: "'s \<Rightarrow> nat \<Rightarrow> 'v \<Rightarrow> 's option"
    and width :: nat
  assumes rd_valid: "ok s \<Longrightarrow> rd s i = None \<longleftrightarrow> \<not> valid i"
    and wr_valid: "wr s i v = None \<longleftrightarrow> \<not> valid i"
    and wr_ok: "ok s \<Longrightarrow> wr s i v = Some s' \<Longrightarrow> ok s'"
    and rd_wr_same: "ok s \<Longrightarrow> wr s i v = Some s' \<Longrightarrow> rd s' i = Some v"
    and rd_wr_other: "ok s \<Longrightarrow> wr s i v = Some s' \<Longrightarrow> j + width \<le> i \<or> i + width \<le> j \<Longrightarrow> rd s' j = rd s j"
begin

lemma write_read: "ok s \<Longrightarrow> valid i \<Longrightarrow> \<exists>s'. wr s i v = Some s' \<and> ok s' \<and> rd s' i = Some v"
  using wr_valid [of s i v] wr_ok rd_wr_same by (metis option.exhaust)

lemma write_two:
  assumes "ok s" "valid i" "valid j" "j + width \<le> i \<or> i + width \<le> j"
  shows "\<exists>s' s''. wr s i v = Some s' \<and> wr s' j w = Some s'' \<and> ok s'' \<and>
    rd s'' i = Some v \<and> rd s'' j = Some w"
proof -
  obtain s' where s': "wr s i v = Some s'" "ok s'" "rd s' i = Some v"
    using write_read [OF assms(1,2)] by blast
  obtain s'' where s'': "wr s' j w = Some s''" "ok s''" "rd s'' j = Some w"
    using write_read [OF s'(2) assms(3)] by blast
  have "rd s'' i = rd s' i"
    using rd_wr_other [OF s'(2) s''(1)] assms(4) by blast
  with s' s'' show ?thesis by metis
qed

end

interpretation cfg8: cfg_register devinst_ok "\<lambda>i. i \<le> PCI_REGMAX"
  pci_get_cfgdata8 pci_set_cfgdata8 1
  by unfold_locales
    (auto simp: pci_get_cfgdata8_def pci_set_cfgdata8_def devinst_ok_def assert_that_bind split: if_splits)

interpretation cfg16: cfg_register devinst_ok "\<lambda>i. i \<le> PCI_REGMAX - 1 \<and> i mod 2 = 0"
  pci_get_cfgdata16 pci_set_cfgdata16 2
  by unfold_locales
    (auto simp: pci_get_cfgdata16_def pci_set_cfgdata16_def devinst_ok_def assert_that_bind
       get_le16_put_le16_other split: if_splits)

interpretation cfg32: cfg_register devinst_ok "\<lambda>i. i \<le> PCI_REGMAX - 3 \<and> i mod 4 = 0"
  pci_get_cfgdata32 pci_set_cfgdata32 4
  by unfold_locales
    (auto simp: pci_get_cfgdata32_def pci_set_cfgdata32_def devinst_ok_def assert_that_bind
       get_le32_put_le32_other split: if_splits)

end
