(* ===== verification/PciLintr.thy ===== *)
theory PciLintr
  imports PciCfg
begin

text \<open>
  Legacy interrupts: the platform side of \<^verbatim>\<open>bhyve/bhyve_support.c\<close> and the line state machine
  of \<^verbatim>\<open>bhyve/pci_emul.c\<close> (\<^verbatim>\<open>pci_lintr_assert\<close>, \<^verbatim>\<open>pci_lintr_deassert\<close>, \<^verbatim>\<open>pci_lintr_update\<close>).
  A device requests an interrupt; the line is signalled to the interrupt controller when the
  guest permits it and is remembered as pending when it does not.
\<close>

section \<open>The platform\<close>

text \<open>
  \<^verbatim>\<open>pci_irq_assert\<close> writes one word to the interrupt controller window; the two devices of the
  configuration have fixed names, any other name is a panic.
\<close>

definition pci_irq_assert :: "pci_devinst \<Rightarrow> pci_devinst option" where
  "pci_irq_assert pi =
     (if pi_name pi = ''ahci-hd-pci-1'' then Some (pi\<lparr>pi_plic := pi_plic pi @ [(4, 2)]\<rparr>)
      else if pi_name pi = ''e1000-pci-0'' then Some (pi\<lparr>pi_plic := pi_plic pi @ [(4, 1)]\<rparr>)
      else None)"

definition pci_irq_deassert :: "pci_devinst \<Rightarrow> pci_devinst" where
  "pci_irq_deassert pi = pi"

text \<open>Port ranges are accepted and forgotten.\<close>

record inout_port =
  iop_name :: string
  iop_port :: int
  iop_size :: int
  iop_flags :: u32

definition register_inout :: "inout_port \<Rightarrow> int" where
  "register_inout iop = 0"

definition unregister_inout :: "inout_port \<Rightarrow> int" where
  "unregister_inout iop = 0"

definition pirq_alloc_pin :: "pci_devinst \<Rightarrow> int" where
  "pirq_alloc_pin pi = 1"

definition pirq_irq :: "int \<Rightarrow> int" where
  "pirq_irq pin = 0"

section \<open>The line\<close>

definition pci_lintr_permitted :: "pci_devinst \<Rightarrow> bool option" where
  "pci_lintr_permitted pi = do {
     cmd \<leftarrow> pci_get_cfgdata16 pi PCIR_COMMAND;
     Some (\<not> (msi_enabled (pi_msi pi) \<noteq> 0 \<or> msix_enabled (pi_msix pi) \<noteq> 0 \<or>
              cmd AND PCIM_CMD_INTxDIS \<noteq> 0))
   }"

abbreviation set_lintr_state :: "lintr_stat \<Rightarrow> pci_devinst \<Rightarrow> pci_devinst" where
  "set_lintr_state st pi \<equiv> pi\<lparr>pi_lintr := (pi_lintr pi)\<lparr>lintr_state := st\<rparr>\<rparr>"

definition lock_lintr :: "pci_devinst \<Rightarrow> pci_devinst option" where
  "lock_lintr pi = do {
     m \<leftarrow> pthread_mutex_lock (lintr_lock (pi_lintr pi));
     Some (pi\<lparr>pi_lintr := (pi_lintr pi)\<lparr>lintr_lock := m\<rparr>\<rparr>)
   }"

definition unlock_lintr :: "pci_devinst \<Rightarrow> pci_devinst option" where
  "unlock_lintr pi = do {
     m \<leftarrow> pthread_mutex_unlock (lintr_lock (pi_lintr pi));
     Some (pi\<lparr>pi_lintr := (pi_lintr pi)\<lparr>lintr_lock := m\<rparr>\<rparr>)
   }"

definition pci_lintr_assert :: "pci_devinst \<Rightarrow> pci_devinst option" where
  "pci_lintr_assert pi = do {
     assert_that (lintr_pin (pi_lintr pi) > 0);
     pi \<leftarrow> lock_lintr pi;
     pi \<leftarrow>
       (if lintr_state (pi_lintr pi) = IDLE then do {
          perm \<leftarrow> pci_lintr_permitted pi;
          if perm then pci_irq_assert (set_lintr_state ASSERTED pi)
          else Some (set_lintr_state PENDING pi)
        } else Some pi);
     unlock_lintr pi
   }"

definition pci_lintr_deassert :: "pci_devinst \<Rightarrow> pci_devinst option" where
  "pci_lintr_deassert pi = do {
     assert_that (lintr_pin (pi_lintr pi) > 0);
     pi \<leftarrow> lock_lintr pi;
     let pi =
       (if lintr_state (pi_lintr pi) = ASSERTED then pci_irq_deassert (set_lintr_state IDLE pi)
        else if lintr_state (pi_lintr pi) = PENDING then set_lintr_state IDLE pi
        else pi);
     unlock_lintr pi
   }"

definition pci_lintr_update :: "pci_devinst \<Rightarrow> pci_devinst option" where
  "pci_lintr_update pi = do {
     pi \<leftarrow> lock_lintr pi;
     perm \<leftarrow> pci_lintr_permitted pi;
     pi \<leftarrow>
       (if lintr_state (pi_lintr pi) = ASSERTED \<and> \<not> perm then
          Some (set_lintr_state PENDING (pci_irq_deassert pi))
        else if lintr_state (pi_lintr pi) = PENDING \<and> perm then
          pci_irq_assert (set_lintr_state ASSERTED pi)
        else Some pi);
     unlock_lintr pi
   }"

section \<open>What the line promises\<close>

text \<open>
  The abstract line: what the device requests, what the guest permits; the interrupt is
  signalled exactly when both hold.
\<close>

definition requested :: "pci_devinst \<Rightarrow> bool" where
  "requested pi \<longleftrightarrow> lintr_state (pi_lintr pi) \<noteq> IDLE"

definition signalled :: "pci_devinst \<Rightarrow> bool" where
  "signalled pi \<longleftrightarrow> lintr_state (pi_lintr pi) = ASSERTED"

definition permitted :: "pci_devinst \<Rightarrow> bool" where
  "permitted pi \<longleftrightarrow> msi_enabled (pi_msi pi) = 0 \<and> msix_enabled (pi_msix pi) = 0 \<and>
     get_le16 (pi_cfgdata pi) PCIR_COMMAND AND PCIM_CMD_INTxDIS = 0"

text \<open>The word that signals a device, for the devices of the configuration.\<close>

definition plic_word :: "pci_devinst \<Rightarrow> u32 \<times> u32" where
  "plic_word pi = (4, if pi_name pi = ''ahci-hd-pci-1'' then 2 else 1)"

definition known_irq :: "pci_devinst \<Rightarrow> bool" where
  "known_irq pi \<longleftrightarrow> pi_name pi = ''ahci-hd-pci-1'' \<or> pi_name pi = ''e1000-pci-0''"

text \<open>The device can take part in interrupts; what no operation of the line changes.\<close>

definition lintr_wf :: "pci_devinst \<Rightarrow> bool" where
  "lintr_wf pi \<longleftrightarrow> devinst_ok pi \<and> known_irq pi \<and> lintr_pin (pi_lintr pi) > 0 \<and>
     mutex_free (lintr_lock (pi_lintr pi))"

definition lintr_ok :: "pci_devinst \<Rightarrow> bool" where
  "lintr_ok pi \<longleftrightarrow> lintr_wf pi \<and> (signalled pi \<longleftrightarrow> requested pi \<and> permitted pi)"

text \<open>Everything of the instance but the state of the line and the trace.\<close>

definition lintr_frame :: "pci_devinst \<Rightarrow> pci_devinst \<Rightarrow> bool" where
  "lintr_frame pi pi' \<longleftrightarrow>
     (\<exists>st tr. pi' = pi\<lparr>pi_lintr := (pi_lintr pi)\<lparr>lintr_state := st\<rparr>, pi_plic := tr\<rparr>)"

lemma permitted_eq: "pci_lintr_permitted pi = Some (permitted pi)"
  by (auto simp: pci_lintr_permitted_def pci_get_cfgdata16_def permitted_def assert_that_bind)

lemma permitted_simps [simp]:
  "permitted (pi\<lparr>pi_lintr := l\<rparr>) = permitted pi" "permitted (pi\<lparr>pi_plic := t\<rparr>) = permitted pi"
  by (simp_all add: permitted_def)

lemma irq_assert_known:
  "known_irq pi \<Longrightarrow> pci_irq_assert pi = Some (pi\<lparr>pi_plic := pi_plic pi @ [plic_word pi]\<rparr>)"
  by (auto simp: known_irq_def pci_irq_assert_def plic_word_def)

lemma known_irq_upd [simp]: "known_irq (pi\<lparr>pi_lintr := l\<rparr>) = known_irq pi"
  by (simp add: known_irq_def)

lemma plic_word_upd [simp]: "plic_word (pi\<lparr>pi_lintr := l\<rparr>) = plic_word pi"
  by (simp add: plic_word_def)

lemma lock_lintr_eq:
  "mutex_free (lintr_lock (pi_lintr pi)) \<Longrightarrow>
     lock_lintr pi = Some (pi\<lparr>pi_lintr := (pi_lintr pi)\<lparr>lintr_lock := \<lparr>mutex_lock = 1\<rparr>\<rparr>\<rparr>)"
  by (cases "lintr_lock (pi_lintr pi)")
    (simp add: lock_lintr_def pthread_mutex_lock_def)

lemma unlock_lintr_eq:
  "mutex_lock (lintr_lock (pi_lintr pi)) = 1 \<Longrightarrow>
     unlock_lintr pi = Some (pi\<lparr>pi_lintr := (pi_lintr pi)\<lparr>lintr_lock := \<lparr>mutex_lock = 0\<rparr>\<rparr>\<rparr>)"
  by (cases "lintr_lock (pi_lintr pi)")
    (simp add: unlock_lintr_def pthread_mutex_unlock_def)

lemma free_lock_upd [simp]:
  "mutex_free (lintr_lock l) \<Longrightarrow> l\<lparr>lintr_lock := \<lparr>mutex_lock = 0\<rparr>\<rparr> = l"
  by (cases l; cases "lintr_lock l") simp

lemma free_lock_upd_state [simp]:
  "mutex_free (lintr_lock l) \<Longrightarrow>
     l\<lparr>lintr_state := st, lintr_lock := \<lparr>mutex_lock = 0\<rparr>\<rparr> = l\<lparr>lintr_state := st\<rparr>"
  by (cases l; cases "lintr_lock l") simp

lemmas lintr_defs = lintr_ok_def lintr_wf_def devinst_ok_def requested_def signalled_def

text \<open>The three operations in closed form.\<close>

lemma lintr_assert_eq:
  assumes "lintr_wf pi"
  shows "pci_lintr_assert pi = Some
    (if requested pi then pi
     else if permitted pi then (set_lintr_state ASSERTED pi)\<lparr>pi_plic := pi_plic pi @ [plic_word pi]\<rparr>
     else set_lintr_state PENDING pi)"
  using assms
  by (cases "lintr_state (pi_lintr pi)")
    (simp_all add: pci_lintr_assert_def lintr_defs lock_lintr_eq unlock_lintr_eq permitted_eq
       irq_assert_known)

lemma lintr_deassert_eq:
  assumes "lintr_wf pi"
  shows "pci_lintr_deassert pi = Some (set_lintr_state IDLE pi)"
proof (cases "lintr_state (pi_lintr pi)")
  case IDLE
  then have "set_lintr_state IDLE pi = pi" by simp
  with assms IDLE show ?thesis
    by (simp add: pci_lintr_deassert_def lintr_defs lock_lintr_eq unlock_lintr_eq)
qed (use assms in \<open>simp_all add: pci_lintr_deassert_def lintr_defs lock_lintr_eq unlock_lintr_eq
       pci_irq_deassert_def\<close>)

lemma lintr_update_eq:
  assumes "devinst_ok pi" "mutex_free (lintr_lock (pi_lintr pi))" "known_irq pi"
  shows "pci_lintr_update pi = Some
    (if signalled pi \<and> \<not> permitted pi then set_lintr_state PENDING pi
     else if requested pi \<and> \<not> signalled pi \<and> permitted pi
     then (set_lintr_state ASSERTED pi)\<lparr>pi_plic := pi_plic pi @ [plic_word pi]\<rparr>
     else pi)"
  using assms
  by (cases "lintr_state (pi_lintr pi)")
    (simp_all add: pci_lintr_update_def lintr_defs lock_lintr_eq unlock_lintr_eq permitted_eq
       irq_assert_known pci_irq_deassert_def)

text \<open>An update of a line that nobody requests needs no interrupt word, hence no known name.\<close>

lemma lintr_update_idle:
  assumes "devinst_ok pi" "mutex_free (lintr_lock (pi_lintr pi))" "\<not> requested pi"
  shows "pci_lintr_update pi = Some pi"
  using assms
  by (simp add: pci_lintr_update_def lintr_defs lock_lintr_eq unlock_lintr_eq permitted_eq)

section \<open>The interface of a line\<close>

text \<open>What the device models use: a request is remembered until it is withdrawn.\<close>

locale interrupt_line =
  fixes ok :: "'s \<Rightarrow> bool"
    and req :: "'s \<Rightarrow> bool"
    and up :: "'s \<Rightarrow> 's option"
    and down :: "'s \<Rightarrow> 's option"
  assumes up_ok: "ok s \<Longrightarrow> \<exists>s'. up s = Some s' \<and> ok s' \<and> req s'"
    and up_idem: "ok s \<Longrightarrow> req s \<Longrightarrow> up s = Some s"
    and down_ok: "ok s \<Longrightarrow> \<exists>s'. down s = Some s' \<and> ok s' \<and> \<not> req s'"
    and down_idem: "ok s \<Longrightarrow> \<not> req s \<Longrightarrow> down s = Some s"
begin

text \<open>A line that follows a boolean input never fails and always shows the last input.\<close>

primrec drive :: "bool list \<Rightarrow> 's \<Rightarrow> 's option" where
  "drive [] s = Some s"
| "drive (b # bs) s = Option.bind (if b then up s else down s) (drive bs)"

lemma drive_ok: "ok s \<Longrightarrow> \<exists>s'. drive bs s = Some s' \<and> ok s' \<and> (req s' \<longleftrightarrow> last (req s # bs))"
proof (induction bs arbitrary: s)
  case Nil
  then show ?case by simp
next
  case (Cons b bs)
  obtain s' where s': "(if b then up s else down s) = Some s'" "ok s'" "req s' = b"
    using up_ok [OF Cons.prems] down_ok [OF Cons.prems] by (cases b) auto
  from Cons.IH [OF s'(2)] s' show ?case by (cases bs) auto
qed

lemma up_up: "ok s \<Longrightarrow> Option.bind (up s) up = up s"
  using up_ok up_idem by fastforce

end

interpretation lintr: interrupt_line lintr_ok requested pci_lintr_assert pci_lintr_deassert
proof
  fix s
  assume ok: "lintr_ok s"
  then have wf: "lintr_wf s" by (simp add: lintr_ok_def)
  show "\<exists>s'. pci_lintr_assert s = Some s' \<and> lintr_ok s' \<and> requested s'"
    using ok by (auto simp: lintr_assert_eq [OF wf] lintr_defs known_irq_def)
  show "pci_lintr_assert s = Some s" if "requested s"
    using that by (simp add: lintr_assert_eq [OF wf])
  show "\<exists>s'. pci_lintr_deassert s = Some s' \<and> lintr_ok s' \<and> \<not> requested s'"
    using ok by (auto simp: lintr_deassert_eq [OF wf] lintr_defs known_irq_def)
  show "pci_lintr_deassert s = Some s" if "\<not> requested s"
    using that by (simp add: lintr_deassert_eq [OF wf] requested_def)
qed

lemma lintr_frame_refl: "lintr_frame pi pi"
  unfolding lintr_frame_def
  by (intro exI [of _ "lintr_state (pi_lintr pi)"] exI [of _ "pi_plic pi"]) simp

lemma lintr_frame_state: "lintr_frame pi (set_lintr_state st pi)"
  unfolding lintr_frame_def by (intro exI [of _ st] exI [of _ "pi_plic pi"]) simp

lemma lintr_frame_signal: "lintr_frame pi ((set_lintr_state st pi)\<lparr>pi_plic := tr\<rparr>)"
  unfolding lintr_frame_def by (intro exI [of _ st] exI [of _ tr]) simp

lemmas lintr_frames = lintr_frame_refl lintr_frame_state lintr_frame_signal

lemma lintr_frame_simps:
  assumes "lintr_frame pi pi'"
  shows "pi_cfgdata pi' = pi_cfgdata pi" "pi_bar pi' = pi_bar pi" "pi_name pi' = pi_name pi"
    "pi_prevcap pi' = pi_prevcap pi" "pi_capend pi' = pi_capend pi" "pi_msi pi' = pi_msi pi"
    "pi_msix pi' = pi_msix pi" "pi_bus pi' = pi_bus pi" "pi_slot pi' = pi_slot pi"
    "pi_func pi' = pi_func pi" "lintr_wf pi' = lintr_wf pi" "permitted pi' = permitted pi"
  using assms by (auto simp: lintr_frame_def lintr_defs known_irq_def permitted_def)

lemma lintr_update_establishes:
  assumes "lintr_wf pi"
  shows "\<exists>pi'. pci_lintr_update pi = Some pi' \<and> lintr_ok pi' \<and> requested pi' = requested pi \<and>
    lintr_frame pi pi'"
proof -
  have pre: "devinst_ok pi" "mutex_free (lintr_lock (pi_lintr pi))" "known_irq pi"
    using assms by (simp_all add: lintr_wf_def)
  show ?thesis
    using assms unfolding lintr_update_eq [OF pre]
    by (cases "lintr_state (pi_lintr pi)"; cases "permitted pi")
      (auto simp: lintr_defs known_irq_def lintr_frames)
qed

end
