(* ===== verification/PciCap.thy ===== *)
theory PciCap
  imports PciLintr
begin

text \<open>
  Capabilities of \<^verbatim>\<open>bhyve/pci_emul.c\<close>: the MSI-X table, the list of capabilities that the
  device builds in its configuration space (\<^verbatim>\<open>pci_emul_add_capability\<close> and the functions that
  populate one), and the writes of the guest into that region (\<^verbatim>\<open>pci_emul_capwrite\<close>).
  \<^verbatim>\<open>pci_emul_add_msixcap\<close>, which also allocates a BAR, is in theory \<open>PciBar\<close>.
\<close>

section \<open>The MSI-X table\<close>

abbreviation (input) "MSIX_TABLE_ENTRY_SIZE \<equiv> (16::nat)"
abbreviation (input) "MAX_MSIX_TABLE_ENTRIES \<equiv> (2048::int)"

definition PBA_SIZE :: "int \<Rightarrow> int" where
  "PBA_SIZE msgnum = sint (roundup2 (word_of_int msgnum :: 32 word) 64) div 8"

definition pci_valid_pba_offset :: "pci_devinst \<Rightarrow> u64 \<Rightarrow> bool" where
  "pci_valid_pba_offset pi offset =
     (if offset < ucast (msix_pba_offset (pi_msix pi)) then False
      else if offset \<ge> ucast (msix_pba_offset (pi_msix pi) + word_of_int (msix_pba_size (pi_msix pi)))
      then False
      else True)"

text \<open>The conversion of the 64 bit quotient to \<^verbatim>\<open>int\<close>.\<close>

definition msix_tab_index :: "u64 \<Rightarrow> int" where
  "msix_tab_index offset = sint (ucast (offset div of_nat MSIX_TABLE_ENTRY_SIZE) :: 32 word)"

text \<open>The bytes of the table from an entry on; outside of the allocation it is undefined.\<close>

definition msix_dest :: "pci_devinst \<Rightarrow> int \<Rightarrow> nat \<Rightarrow> nat \<Rightarrow> (u8 list \<times> nat) option" where
  "msix_dest pi tab_index entry_offset sz = do {
     table \<leftarrow> msix_table (pi_msix pi);
     assert_that (0 \<le> tab_index \<and>
       nat tab_index * MSIX_TABLE_ENTRY_SIZE + entry_offset + sz \<le> length table);
     Some (table, nat tab_index * MSIX_TABLE_ENTRY_SIZE + entry_offset)
   }"

definition pci_emul_msix_twrite ::
  "pci_devinst \<Rightarrow> u64 \<Rightarrow> nat \<Rightarrow> u64 \<Rightarrow> (int \<times> pci_devinst) option" where
  "pci_emul_msix_twrite pi offset sz val =
     (if sz \<noteq> 4 \<and> sz \<noteq> 8 then Some (- 1, pi)
      else
        let tab_index = msix_tab_index offset;
            entry_offset = unat offset mod MSIX_TABLE_ENTRY_SIZE
        in if tab_index \<ge> msix_table_count (pi_msix pi) then Some (- 1, pi)
           else if entry_offset mod sz \<noteq> 0 then Some (- 1, pi)
           else do {
             (table, dest) \<leftarrow> msix_dest pi tab_index entry_offset sz;
             let table' = (if sz = 4 then put_le32 table dest (ucast val) else put_le64 table dest val);
             Some (0, pi\<lparr>pi_msix := (pi_msix pi)\<lparr>msix_table := Some table'\<rparr>\<rparr>)
           })"

definition pci_emul_msix_tread :: "pci_devinst \<Rightarrow> u64 \<Rightarrow> nat \<Rightarrow> u64 option" where
  "pci_emul_msix_tread pi offset sz =
     (if sz \<noteq> 1 \<and> sz \<noteq> 4 \<and> sz \<noteq> 8 then Some (- 1)
      else
        let entry_offset = unat offset mod MSIX_TABLE_ENTRY_SIZE;
            tab_index = msix_tab_index offset
        in if entry_offset mod sz \<noteq> 0 then Some (- 1)
           else if tab_index < msix_table_count (pi_msix pi) then do {
             (table, dest) \<leftarrow> msix_dest pi tab_index entry_offset sz;
             Some (if sz = 1 then ucast (table ! dest)
                   else if sz = 4 then ucast (get_le32 table dest)
                   else get_le64 table dest)
           }
           else if pci_valid_pba_offset pi offset then Some 0
           else Some (- 1))"

definition pci_msix_table_bar :: "pci_devinst \<Rightarrow> int" where
  "pci_msix_table_bar pi =
     (if msix_table (pi_msix pi) \<noteq> None then msix_table_bar (pi_msix pi) else - 1)"

definition pci_msix_pba_bar :: "pci_devinst \<Rightarrow> int" where
  "pci_msix_pba_bar pi =
     (if msix_table (pi_msix pi) \<noteq> None then msix_pba_bar (pi_msix pi) else - 1)"

text \<open>An entry of the fresh table: zero, but the mask bit of the vector control word.\<close>

definition pci_msix_table_init :: "pci_devinst \<Rightarrow> int \<Rightarrow> pci_devinst option" where
  "pci_msix_table_init pi table_entries = do {
     assert_that (table_entries > 0);
     assert_that (table_entries \<le> MAX_MSIX_TABLE_ENTRIES);
     Some (pi\<lparr>pi_msix := (pi_msix pi)\<lparr>msix_table := Some (concat (replicate (nat table_entries)
       (put_le32 (replicate MSIX_TABLE_ENTRY_SIZE 0) 12 PCIM_MSIX_VCTRL_MASK)))\<rparr>\<rparr>)
   }"

section \<open>Adding a capability\<close>

abbreviation (input) "CAP_START_OFFSET \<equiv> (0x40::nat)"

fun copy_capdata :: "pci_devinst \<Rightarrow> nat \<Rightarrow> u8 list \<Rightarrow> pci_devinst option" where
  "copy_capdata pi off [] = Some pi"
| "copy_capdata pi off (b # bs) = do {
     pi \<leftarrow> pci_set_cfgdata8 pi off b;
     copy_capdata pi (Suc off) bs
   }"

definition pci_emul_add_capability :: "pci_devinst \<Rightarrow> u8 list \<Rightarrow> (int \<times> pci_devinst) option" where
  "pci_emul_add_capability pi capdata = do {
     assert_that (length capdata > 0);
     let reallen = (length capdata + 3) div 4 * 4;
     sts \<leftarrow> pci_get_cfgdata16 pi PCIR_STATUS;
     let capoff = (if sts AND PCIM_STATUS_CAPPRESENT = 0 then CAP_START_OFFSET else pi_capend pi + 1);
     if capoff + reallen > PCI_REGMAX + 1 then Some (- 1, pi)
     else do {
       pi \<leftarrow>
         (if sts AND PCIM_STATUS_CAPPRESENT = 0 then do {
            pi \<leftarrow> pci_set_cfgdata8 pi PCIR_CAP_PTR (of_nat capoff);
            pci_set_cfgdata16 pi PCIR_STATUS (sts OR PCIM_STATUS_CAPPRESENT)
          } else pci_set_cfgdata8 pi (pi_prevcap pi + 1) (of_nat capoff));
       pi \<leftarrow> copy_capdata pi capoff capdata;
       pi \<leftarrow> pci_set_cfgdata8 pi (capoff + 1) 0;
       Some (0, pi\<lparr>pi_prevcap := capoff, pi_capend := capoff + reallen - 1\<rparr>)
     }
   }"

text \<open>The packed structures, as their bytes.\<close>

definition le16_bytes :: "u16 \<Rightarrow> u8 list" where
  "le16_bytes v = put_le16 (replicate 2 0) 0 v"

definition le32_bytes_of :: "u32 \<Rightarrow> u8 list" where
  "le32_bytes_of v = put_le32 (replicate 4 0) 0 v"

record msicap =
  msi_capid :: u8
  msi_nextptr :: u8
  msi_msgctrl :: u16
  msi_addrlo :: u32
  msi_addrhi :: u32
  msi_msgdata :: u16

definition msicap_bytes :: "msicap \<Rightarrow> u8 list" where
  "msicap_bytes c = [msi_capid c, msi_nextptr c] @ le16_bytes (msi_msgctrl c) @
     le32_bytes_of (msi_addrlo c) @ le32_bytes_of (msi_addrhi c) @ le16_bytes (msi_msgdata c)"

record msixcap =
  msix_capid :: u8
  msix_nextptr :: u8
  msix_msgctrl :: u16
  msix_table_info :: u32
  msix_pba_info :: u32

definition msixcap_bytes :: "msixcap \<Rightarrow> u8 list" where
  "msixcap_bytes c = [msix_capid c, msix_nextptr c] @ le16_bytes (msix_msgctrl c) @
     le32_bytes_of (msix_table_info c) @ le32_bytes_of (msix_pba_info c)"

text \<open>The PCI Express capability; the fields after \<^verbatim>\<open>link_status\<close> are never set.\<close>

record pciecap =
  pcie_capid :: u8
  pcie_nextptr :: u8
  pcie_capabilities :: u16
  pcie_dev_capabilities :: u32
  pcie_dev_control :: u16
  pcie_dev_status :: u16
  pcie_link_capabilities :: u32
  pcie_link_control :: u16
  pcie_link_status :: u16
  pcie_rest :: "u8 list"

definition pciecap_bytes :: "pciecap \<Rightarrow> u8 list" where
  "pciecap_bytes c = [pcie_capid c, pcie_nextptr c] @ le16_bytes (pcie_capabilities c) @
     le32_bytes_of (pcie_dev_capabilities c) @ le16_bytes (pcie_dev_control c) @
     le16_bytes (pcie_dev_status c) @ le32_bytes_of (pcie_link_capabilities c) @
     le16_bytes (pcie_link_control c) @ le16_bytes (pcie_link_status c) @ pcie_rest c"

text \<open>\<^verbatim>\<open>ffs(msgnum) - 1\<close> of a power of two is its logarithm.\<close>

definition pci_populate_msicap :: "nat \<Rightarrow> u8 \<Rightarrow> msicap option" where
  "pci_populate_msicap msgnum nextptr = do {
     assert_that (msgnum AND (msgnum - 1) = 0 \<and> msgnum \<ge> 1 \<and> msgnum \<le> 32);
     let mmc = fls_nat msgnum - 1;
     Some \<lparr>msi_capid = PCIY_MSI, msi_nextptr = nextptr,
           msi_msgctrl = PCIM_MSICTRL_64BIT OR push_bit 1 (of_nat mmc),
           msi_addrlo = 0, msi_addrhi = 0, msi_msgdata = 0\<rparr>
   }"

definition pci_emul_add_msicap :: "pci_devinst \<Rightarrow> nat \<Rightarrow> (int \<times> pci_devinst) option" where
  "pci_emul_add_msicap pi msgnum = do {
     c \<leftarrow> pci_populate_msicap msgnum 0;
     pci_emul_add_capability pi (msicap_bytes c)
   }"

definition pci_populate_msixcap :: "int \<Rightarrow> nat \<Rightarrow> u32 \<Rightarrow> msixcap option" where
  "pci_populate_msixcap msgnum barnum msix_tab_size = do {
     assert_that (unat msix_tab_size mod 4096 = 0);
     Some \<lparr>msix_capid = PCIY_MSIX, msix_nextptr = 0, msix_msgctrl = word_of_int (msgnum - 1),
           msix_table_info = of_nat barnum AND PCIM_MSIX_BIR_MASK,
           msix_pba_info = msix_tab_size OR (of_nat barnum AND PCIM_MSIX_BIR_MASK)\<rparr>
   }"

definition pci_emul_add_pciecap :: "pci_devinst \<Rightarrow> u16 \<Rightarrow> (int \<times> pci_devinst) option" where
  "pci_emul_add_pciecap pi type =
     (if type \<noteq> PCIEM_TYPE_ROOT_PORT then Some (- 1, pi)
      else pci_emul_add_capability pi (pciecap_bytes
        \<lparr>pcie_capid = PCIY_EXPRESS, pcie_nextptr = 0,
         pcie_capabilities = 2 OR PCIEM_TYPE_ROOT_PORT,
         pcie_dev_capabilities = 0, pcie_dev_control = 0, pcie_dev_status = 0,
         pcie_link_capabilities = 0x411, pcie_link_control = 0, pcie_link_status = 0x11,
         pcie_rest = replicate 40 0\<rparr>))"

section \<open>Guest writes\<close>

definition msixcap_cfgwrite ::
  "pci_devinst \<Rightarrow> nat \<Rightarrow> nat \<Rightarrow> nat \<Rightarrow> u32 \<Rightarrow> pci_devinst option" where
  "msixcap_cfgwrite pi capoff offset bytes val = do {
     (pi, val) \<leftarrow>
       (if int offset - int capoff = 2 \<and> bytes = 2 then do {
          let rwmask = PCIM_MSIXCTRL_MSIX_ENABLE OR PCIM_MSIXCTRL_FUNCTION_MASK;
          msgctrl \<leftarrow> pci_get_cfgdata16 pi offset;
          let msgctrl = (msgctrl AND NOT rwmask) OR (ucast val AND rwmask);
          let val = (ucast msgctrl :: u32);
          let pi = pi\<lparr>pi_msix := (pi_msix pi)\<lparr>
              msix_enabled := uint (msgctrl AND PCIM_MSIXCTRL_MSIX_ENABLE),
              msix_function_mask := uint (msgctrl AND PCIM_MSIXCTRL_FUNCTION_MASK)\<rparr>\<rparr>;
          pi \<leftarrow> pci_lintr_update pi;
          Some (pi, val)
        } else Some (pi, val));
     CFGWRITE pi offset val bytes
   }"

definition msicap_cfgwrite ::
  "pci_devinst \<Rightarrow> nat \<Rightarrow> nat \<Rightarrow> nat \<Rightarrow> u32 \<Rightarrow> pci_devinst option" where
  "msicap_cfgwrite pi capoff offset bytes val = do {
     (pi, val) \<leftarrow>
       (if int offset - int capoff = 2 \<and> bytes = 2 then do {
          let rwmask = PCIM_MSICTRL_MME_MASK OR PCIM_MSICTRL_MSI_ENABLE;
          msgctrl \<leftarrow> pci_get_cfgdata16 pi offset;
          let msgctrl = (msgctrl AND NOT rwmask) OR (ucast val AND rwmask);
          let val = (ucast msgctrl :: u32);
          addrlo \<leftarrow> pci_get_cfgdata32 pi (capoff + 4);
          msgdata \<leftarrow>
            (if msgctrl AND PCIM_MSICTRL_64BIT \<noteq> 0 then pci_get_cfgdata16 pi (capoff + 12)
             else pci_get_cfgdata16 pi (capoff + 8));
          let mme = msgctrl AND PCIM_MSICTRL_MME_MASK;
          let enabled = cbool (msgctrl AND PCIM_MSICTRL_MSI_ENABLE \<noteq> 0);
          let msi = (pi_msi pi)\<lparr>msi_enabled := enabled\<rparr>;
          let msi =
            (if enabled \<noteq> 0 then
               msi\<lparr>msi_addr := ucast addrlo, msi_msg_data := ucast msgdata,
                   msi_maxmsgnum := 2 ^ unat (drop_bit 4 mme)\<rparr>
             else msi\<lparr>msi_maxmsgnum := 0\<rparr>);
          pi \<leftarrow> pci_lintr_update (pi\<lparr>pi_msi := msi\<rparr>);
          Some (pi, val)
        } else Some (pi, val));
     CFGWRITE pi offset val bytes
   }"

definition pciecap_cfgwrite ::
  "pci_devinst \<Rightarrow> nat \<Rightarrow> nat \<Rightarrow> nat \<Rightarrow> u32 \<Rightarrow> pci_devinst option" where
  "pciecap_cfgwrite pi capoff offset bytes val = CFGWRITE pi offset val bytes"

text \<open>
  The search for the capability, \<^verbatim>\<open>while (1)\<close>: it ends at a null pointer or when the offset lies
  before the next capability; a list that never does either is an endless loop.
\<close>

partial_function (option) find_capability :: "pci_devinst \<Rightarrow> nat \<Rightarrow> u8 \<Rightarrow> u8 option" where
  "find_capability pi offset capoff =
     (case pci_get_cfgdata8 pi (unat capoff + 1) of
        None \<Rightarrow> None
      | Some nextoff \<Rightarrow>
          if nextoff = 0 then Some capoff
          else if offset \<ge> unat capoff \<and> offset < unat nextoff then Some capoff
          else find_capability pi offset nextoff)"

declare find_capability.simps [code]

definition pci_emul_capwrite :: "pci_devinst \<Rightarrow> nat \<Rightarrow> nat \<Rightarrow> u32 \<Rightarrow> pci_devinst option" where
  "pci_emul_capwrite pi offset bytes val =
     (if int offset AND (int bytes - 1) \<noteq> 0 then Some pi
      else do {
        cap \<leftarrow> find_capability pi offset (of_nat CAP_START_OFFSET);
        let capoff = unat cap;
        assert_that (offset \<ge> capoff);
        let readonly = (offset = capoff \<or> offset = capoff + 1);
        if readonly \<and> \<not> (offset = capoff \<and> bytes = 4) then Some pi
        else do {
          let (offset, bytes, val) =
            (if readonly then (offset + 2, 2, drop_bit 16 val) else (offset, bytes, val));
          capid \<leftarrow> pci_get_cfgdata8 pi capoff;
          if capid = PCIY_MSI then msicap_cfgwrite pi capoff offset bytes val
          else if capid = PCIY_MSIX then msixcap_cfgwrite pi capoff offset bytes val
          else if capid = PCIY_EXPRESS then pciecap_cfgwrite pi capoff offset bytes val
          else Some pi
        }
      })"

definition pci_emul_iscap :: "pci_devinst \<Rightarrow> nat \<Rightarrow> bool option" where
  "pci_emul_iscap pi offset = do {
     sts \<leftarrow> pci_get_cfgdata16 pi PCIR_STATUS;
     Some (sts AND PCIM_STATUS_CAPPRESENT \<noteq> 0 \<and> CAP_START_OFFSET \<le> offset \<and> offset \<le> pi_capend pi)
   }"

end
