(* ===== verification/Mem.thy ===== *)
theory Mem
  imports Pthread
begin

text \<open>
  The registry of memory mapped ranges, \<^verbatim>\<open>bhyve/mem.c\<close>: two red-black trees of ranges and a
  per-vCPU cache of the last range found. The trees of \<^verbatim>\<open>sys/tree.h\<close> are modelled by the list
  of their entries in order; \<^verbatim>\<open>RB_FIND\<close> returns an entry that the code's comparison function
  calls equal to the key, \<^verbatim>\<open>RB_INSERT\<close> returns such an entry or adds the new one at its place.
  Lemma \<open>rb_find_unique\<close> shows that the entry found does not depend on the search order.
  The read-write lock of \<^verbatim>\<open>bhyve/pthread.c\<close> does nothing and is left out.

  A handler is a value of a type \<open>'h\<close> (the function pointer), its first argument a pointer of
  type \<open>'p\<close>; the state is a record that later theories extend, so that a handler may change
  the registry and everything else.
\<close>

section \<open>Data\<close>

abbreviation (input) "ENOENT \<equiv> (2::int)"
abbreviation (input) "ESRCH \<equiv> (3::int)"
abbreviation (input) "E2BIG \<equiv> (7::int)"
abbreviation (input) "ENOMEM \<equiv> (12::int)"
abbreviation (input) "EBUSY \<equiv> (16::int)"
abbreviation (input) "EEXIST \<equiv> (17::int)"
abbreviation (input) "EINVAL \<equiv> (22::int)"
abbreviation (input) "EROFS \<equiv> (30::int)"
abbreviation (input) "EOPNOTSUPP \<equiv> (45::int)"

abbreviation (input) "VM_MAXCPU \<equiv> (1::nat)"

abbreviation (input) "MEM_F_READ \<equiv> (1::u32)"
abbreviation (input) "MEM_F_WRITE \<equiv> (2::u32)"
abbreviation (input) "MEM_F_RW \<equiv> (3::u32)"
abbreviation (input) "MEM_F_IMMUTABLE \<equiv> (4::u32)"

record ('h, 'p) mem_range =
  mem_name :: string
  mem_flags :: u32
  mem_handler :: 'h
  mem_arg1 :: "'p option"
  mem_arg2 :: int
  mem_base :: u64
  mem_size :: u64

text \<open>A tree entry: the search key, the address \<^verbatim>\<open>malloc\<close> gave it, and the parameters.\<close>

record mmio_key =
  mr_base :: u64
  mr_end :: u64

record ('h, 'p) mmio_rb_range = mmio_key +
  mr_ptr :: nat
  mr_param :: "('h, 'p) mem_range"

type_synonym ('h, 'p) mmio_rb_tree = "('h, 'p) mmio_rb_range list"

text \<open>
  The state: the trees, the cache, and the allocator (\<open>mem_ptr\<close> is the address the next
  \<^verbatim>\<open>malloc\<close> returns when \<open>mem_alloc_ok\<close> says that it does not fail).
\<close>

record ('h, 'p) mem_state =
  mmio_rb_root :: "('h, 'p) mmio_rb_tree"
  mmio_rb_fallback :: "('h, 'p) mmio_rb_tree"
  mmio_hint :: "('h, 'p) mmio_rb_range option list"
  mem_ptr :: nat
  mem_alloc_ok :: "nat \<Rightarrow> bool"

record emulate_mem_args =
  ema_write :: int
  ema_access_width :: nat
  ema_val :: u64

section \<open>Trees\<close>

definition mmio_rb_range_compare ::
  "'a mmio_key_scheme \<Rightarrow> 'b mmio_key_scheme \<Rightarrow> int" where
  "mmio_rb_range_compare a b =
     (if mr_end a < mr_base b then - 1
      else if mr_base a > mr_end b then 1
      else 0)"

definition rb_find :: "('h, 'p) mmio_rb_tree \<Rightarrow> 'a mmio_key_scheme \<Rightarrow> ('h, 'p) mmio_rb_range option" where
  "rb_find rbt key = List.find (\<lambda>e. mmio_rb_range_compare key e = 0) rbt"

definition rb_insert ::
  "('h, 'p) mmio_rb_tree \<Rightarrow> ('h, 'p) mmio_rb_range \<Rightarrow>
     ('h, 'p) mmio_rb_tree \<times> ('h, 'p) mmio_rb_range option" where
  "rb_insert rbt new =
     (case rb_find rbt new of
        Some e \<Rightarrow> (rbt, Some e)
      | None \<Rightarrow>
          (takeWhile (\<lambda>e. mmio_rb_range_compare e new < 0) rbt @ new #
             dropWhile (\<lambda>e. mmio_rb_range_compare e new < 0) rbt, None))"

definition rb_remove ::
  "('h, 'p) mmio_rb_tree \<Rightarrow> ('h, 'p) mmio_rb_range \<Rightarrow> ('h, 'p) mmio_rb_tree" where
  "rb_remove rbt entry = filter (\<lambda>e. mr_ptr e \<noteq> mr_ptr entry) rbt"

definition mmio_rb_lookup ::
  "('h, 'p) mmio_rb_tree \<Rightarrow> u64 \<Rightarrow> int + ('h, 'p) mmio_rb_range" where
  "mmio_rb_lookup rbt addr =
     (case rb_find rbt \<lparr>mr_base = addr, mr_end = addr\<rparr> of
        Some res \<Rightarrow> Inr res
      | None \<Rightarrow> Inl ENOENT)"

definition mmio_rb_add ::
  "('h, 'p) mmio_rb_tree \<Rightarrow> ('h, 'p) mmio_rb_range \<Rightarrow> int \<times> ('h, 'p) mmio_rb_tree" where
  "mmio_rb_add rbt new =
     (case rb_insert rbt new of
        (rbt', Some overlap) \<Rightarrow> (EEXIST, rbt')
      | (rbt', None) \<Rightarrow> (0, rbt'))"

section \<open>Access\<close>

text \<open>
  \<open>access_memory\<close> finds the range, updates the cache and calls back; the callback gets the
  range, its argument and the state and returns the error, the argument and the new state.
\<close>

definition access_memory ::
  "('h, 'p, 'z) mem_state_scheme \<Rightarrow> nat \<Rightarrow> u64 \<Rightarrow>
   (('h, 'p) mem_range \<Rightarrow> 'a \<Rightarrow> ('h, 'p, 'z) mem_state_scheme \<Rightarrow>
      (int \<times> 'a \<times> ('h, 'p, 'z) mem_state_scheme) option) \<Rightarrow> 'a \<Rightarrow>
   (int \<times> 'a \<times> ('h, 'p, 'z) mem_state_scheme) option" where
  "access_memory s vcpu paddr cb arg = do {
     assert_that (vcpu < length (mmio_hint s));
     let cached = (case mmio_hint s ! vcpu of
         Some h \<Rightarrow> if mr_base h \<le> paddr \<and> paddr \<le> mr_end h then Some h else None
       | None \<Rightarrow> None);
     case cached of
       Some entry \<Rightarrow> cb (mr_param entry) arg s
     | None \<Rightarrow>
         (case mmio_rb_lookup (mmio_rb_root s) paddr of
            Inr entry \<Rightarrow>
              cb (mr_param entry) arg (s\<lparr>mmio_hint := (mmio_hint s)[vcpu := Some entry]\<rparr>)
          | Inl _ \<Rightarrow>
              (case mmio_rb_lookup (mmio_rb_fallback s) paddr of
                 Inl _ \<Rightarrow> Some (ESRCH, arg, s)
               | Inr entry \<Rightarrow> cb (mr_param entry) arg s))
   }"

text \<open>
  Calling a handler: \<open>call handler state vcpu dir addr size val arg1 arg2\<close> gives the error, the
  new \<^verbatim>\<open>*val\<close> and the new state.
\<close>

type_synonym ('h, 'p, 's) mem_func =
  "'h \<Rightarrow> 's \<Rightarrow> nat \<Rightarrow> u32 \<Rightarrow> u64 \<Rightarrow> nat \<Rightarrow> u64 \<Rightarrow> 'p option \<Rightarrow> int \<Rightarrow> (int \<times> u64 \<times> 's) option"

definition emulate_mem_cb ::
  "('h, 'p, 's) mem_func \<Rightarrow> nat \<Rightarrow> u64 \<Rightarrow> ('h, 'p) mem_range \<Rightarrow> emulate_mem_args \<Rightarrow> 's \<Rightarrow>
     (int \<times> emulate_mem_args \<times> 's) option" where
  "emulate_mem_cb call vcpu paddr mr ema s = do {
     (error, val, s') \<leftarrow>
       (if ema_write ema = 0
        then call (mem_handler mr) s vcpu MEM_F_READ paddr (ema_access_width ema) (ema_val ema)
               (mem_arg1 mr) (mem_arg2 mr)
        else call (mem_handler mr) s vcpu MEM_F_WRITE paddr (ema_access_width ema) (ema_val ema)
               (mem_arg1 mr) (mem_arg2 mr));
     Some (error, ema\<lparr>ema_val := val\<rparr>, s')
   }"

definition emulate_mem ::
  "('h, 'p, ('h, 'p, 'z) mem_state_scheme) mem_func \<Rightarrow> ('h, 'p, 'z) mem_state_scheme \<Rightarrow>
     nat \<Rightarrow> u64 \<Rightarrow> int \<Rightarrow> nat \<Rightarrow> u64 \<Rightarrow> (int \<times> u64 \<times> ('h, 'p, 'z) mem_state_scheme) option" where
  "emulate_mem call s vcpu paddr write access_width val = do {
     (err, ema, s') \<leftarrow> access_memory s vcpu paddr (emulate_mem_cb call vcpu paddr)
       \<lparr>ema_write = write, ema_access_width = access_width, ema_val = val\<rparr>;
     Some (err, ema_val ema, s')
   }"

definition read_mem_cb ::
  "('h, 'p, 's) mem_func \<Rightarrow> nat \<Rightarrow> u64 \<Rightarrow> nat \<Rightarrow> ('h, 'p) mem_range \<Rightarrow> u64 \<Rightarrow> 's \<Rightarrow>
     (int \<times> u64 \<times> 's) option" where
  "read_mem_cb call vcpu paddr sz mr rval s =
     call (mem_handler mr) s vcpu MEM_F_READ paddr sz rval (mem_arg1 mr) (mem_arg2 mr)"

definition read_mem ::
  "('h, 'p, ('h, 'p, 'z) mem_state_scheme) mem_func \<Rightarrow> ('h, 'p, 'z) mem_state_scheme \<Rightarrow>
     nat \<Rightarrow> u64 \<Rightarrow> u64 \<Rightarrow> nat \<Rightarrow> (int \<times> u64 \<times> ('h, 'p, 'z) mem_state_scheme) option" where
  "read_mem call s vcpu gpa rval sz =
     access_memory s vcpu gpa (read_mem_cb call vcpu gpa sz) rval"

section \<open>Registration\<close>

definition new_entry :: "nat \<Rightarrow> ('h, 'p) mem_range \<Rightarrow> ('h, 'p) mmio_rb_range" where
  "new_entry ptr memp =
     \<lparr>mr_base = mem_base memp, mr_end = mem_base memp + mem_size memp - 1,
      mr_ptr = ptr, mr_param = memp\<rparr>"

text \<open>
  \<^verbatim>\<open>register_mem_int\<close> on one tree: the error and the new tree; the caller advances the allocator.
  When the base of the new range already lies in a registered one, the code returns 0 without
  inserting anything.
\<close>

definition register_mem_int ::
  "bool \<Rightarrow> nat \<Rightarrow> ('h, 'p) mmio_rb_tree \<Rightarrow> ('h, 'p) mem_range \<Rightarrow> int \<times> ('h, 'p) mmio_rb_tree" where
  "register_mem_int malloc_ok ptr rbt memp =
     (if \<not> malloc_ok then (ENOMEM, rbt)
      else
        let mrp = new_entry ptr memp
        in case mmio_rb_lookup rbt (mem_base memp) of
             Inl _ \<Rightarrow> mmio_rb_add rbt mrp
           | Inr _ \<Rightarrow> (0, rbt))"

definition register_mem ::
  "('h, 'p, 'z) mem_state_scheme \<Rightarrow> ('h, 'p) mem_range \<Rightarrow>
     int \<times> ('h, 'p, 'z) mem_state_scheme" where
  "register_mem s memp =
     (let (err, rbt) = register_mem_int (mem_alloc_ok s (mem_ptr s)) (mem_ptr s)
                         (mmio_rb_root s) memp
      in (err, s\<lparr>mmio_rb_root := rbt, mem_ptr := Suc (mem_ptr s)\<rparr>))"

definition register_mem_fallback ::
  "('h, 'p, 'z) mem_state_scheme \<Rightarrow> ('h, 'p) mem_range \<Rightarrow>
     int \<times> ('h, 'p, 'z) mem_state_scheme" where
  "register_mem_fallback s memp =
     (let (err, rbt) = register_mem_int (mem_alloc_ok s (mem_ptr s)) (mem_ptr s)
                         (mmio_rb_fallback s) memp
      in (err, s\<lparr>mmio_rb_fallback := rbt, mem_ptr := Suc (mem_ptr s)\<rparr>))"

definition flush_hint ::
  "('h, 'p) mmio_rb_range \<Rightarrow> ('h, 'p) mmio_rb_range option \<Rightarrow> ('h, 'p) mmio_rb_range option" where
  "flush_hint entry h =
     (case h of Some e \<Rightarrow> if mr_ptr e = mr_ptr entry then None else Some e | None \<Rightarrow> None)"

definition unregister_mem ::
  "('h, 'p, 'z) mem_state_scheme \<Rightarrow> ('h, 'p) mem_range \<Rightarrow>
     (int \<times> ('h, 'p, 'z) mem_state_scheme) option" where
  "unregister_mem s memp =
     (case mmio_rb_lookup (mmio_rb_root s) (mem_base memp) of
        Inl err \<Rightarrow> Some (err, s)
      | Inr entry \<Rightarrow> do {
          let mr = mr_param entry;
          assert_that (mem_name mr = mem_name memp);
          assert_that (mem_base mr = mem_base memp \<and> mem_size mr = mem_size memp);
          assert_that (mem_flags mr AND MEM_F_IMMUTABLE = 0);
          Some (0, s\<lparr>mmio_rb_root := rb_remove (mmio_rb_root s) entry,
                     mmio_hint := map (flush_hint entry) (mmio_hint s)\<rparr>)
        })"

definition init_mem :: "('h, 'p, 'z) mem_state_scheme \<Rightarrow> ('h, 'p, 'z) mem_state_scheme" where
  "init_mem s = s\<lparr>mmio_rb_root := [], mmio_rb_fallback := []\<rparr>"

end
