(* ===== verification/MemProps.thy ===== *)
theory MemProps
  imports Mem
begin

text \<open>
  Correctness of the range registry: the tree invariant (entries in order, non-empty and
  disjoint), its preservation, the meaning of lookup, registration and removal as an abstract
  map from addresses to ranges, and the coherence of the per-vCPU cache.
\<close>

section \<open>The tree invariant\<close>

definition covers :: "'a mmio_key_scheme \<Rightarrow> u64 \<Rightarrow> bool" where
  "covers e a \<longleftrightarrow> mr_base e \<le> a \<and> a \<le> mr_end e"

definition tree_inv :: "('h, 'p) mmio_rb_tree \<Rightarrow> bool" where
  "tree_inv t \<longleftrightarrow> sorted_wrt (\<lambda>a b. mr_end a < mr_base b) t \<and>
     (\<forall>e\<in>set t. mr_base e \<le> mr_end e) \<and> distinct (map mr_ptr t)"

text \<open>The abstract map a tree stands for.\<close>

definition tree_map :: "('h, 'p) mmio_rb_tree \<Rightarrow> u64 \<Rightarrow> ('h, 'p) mem_range option" where
  "tree_map t a = (case mmio_rb_lookup t a of Inl _ \<Rightarrow> None | Inr e \<Rightarrow> Some (mr_param e))"

lemma compare_eq_0_iff:
  "mmio_rb_range_compare a b = 0 \<longleftrightarrow> mr_base b \<le> mr_end a \<and> mr_base a \<le> mr_end b"
  by (auto simp: mmio_rb_range_compare_def not_less)

lemma compare_point [simp]:
  "mmio_rb_range_compare \<lparr>mr_base = a, mr_end = a\<rparr> e = 0 \<longleftrightarrow> covers e a"
  by (auto simp: compare_eq_0_iff covers_def)

lemma compare_less_0_iff: "mmio_rb_range_compare e new < 0 \<longleftrightarrow> mr_end e < mr_base new"
  by (simp add: mmio_rb_range_compare_def)

lemma tree_inv_Nil [simp]: "tree_inv []"
  by (simp add: tree_inv_def)

lemma tree_inv_Cons:
  "tree_inv (e # t) \<longleftrightarrow> tree_inv t \<and> mr_base e \<le> mr_end e \<and>
     (\<forall>f\<in>set t. mr_end e < mr_base f \<and> mr_ptr f \<noteq> mr_ptr e)"
  by (auto simp: tree_inv_def image_iff)

lemma tree_entry_unique:
  assumes "tree_inv t" "e \<in> set t" "f \<in> set t" "covers e a" "covers f a"
  shows "e = f"
  using assms
proof (induction t)
  case Nil
  then show ?case by simp
next
  case (Cons x t)
  have "\<not> covers f a" if "covers x a" "f \<in> set t" for f
    using that Cons.prems(1) by (auto simp: tree_inv_Cons covers_def)
  with Cons show ?case by (auto simp: tree_inv_Cons)
qed

lemma rb_find_unique:
  assumes "tree_inv t" "e \<in> set t" "covers e a"
  shows "mmio_rb_lookup t a = Inr e"
proof -
  have "List.find (\<lambda>e. covers e a) t = Some e"
    using assms by (intro find_Some_iff_unique) (auto intro: tree_entry_unique)
  then show ?thesis by (simp add: mmio_rb_lookup_def rb_find_def)
qed

lemma lookup_Inl_iff:
  "mmio_rb_lookup t a = Inl x \<longleftrightarrow> x = ENOENT \<and> (\<forall>e\<in>set t. \<not> covers e a)"
  by (auto simp: mmio_rb_lookup_def rb_find_def find_None_iff split: option.splits dest: find_SomeD)

lemma lookup_InrD: "mmio_rb_lookup t a = Inr e \<Longrightarrow> e \<in> set t \<and> covers e a"
  by (auto simp: mmio_rb_lookup_def rb_find_def split: option.splits dest: find_SomeD)

lemma tree_map_None_iff: "tree_map t a = None \<longleftrightarrow> (\<forall>e\<in>set t. \<not> covers e a)"
  using lookup_Inl_iff [of t a] lookup_InrD [of t a]
  by (auto simp: tree_map_def split: sum.splits)

lemma tree_map_Some:
  "tree_inv t \<Longrightarrow> e \<in> set t \<Longrightarrow> covers e a \<Longrightarrow> tree_map t a = Some (mr_param e)"
  by (simp add: tree_map_def rb_find_unique)

section \<open>Insertion\<close>

definition overlaps :: "'a mmio_key_scheme \<Rightarrow> 'b mmio_key_scheme \<Rightarrow> bool" where
  "overlaps a b \<longleftrightarrow> mr_base b \<le> mr_end a \<and> mr_base a \<le> mr_end b"

lemma rb_insert_overlap_iff:
  "snd (rb_insert t new) \<noteq> None \<longleftrightarrow> (\<exists>e\<in>set t. overlaps new e)"
  by (auto simp: rb_insert_def rb_find_def overlaps_def compare_eq_0_iff find_None_iff
      split: option.splits dest: find_SomeD)

lemma rb_insert_keeps:
  "snd (rb_insert t new) \<noteq> None \<Longrightarrow> fst (rb_insert t new) = t"
  by (auto simp: rb_insert_def split: option.splits)

lemma dropWhile_above:
  assumes "tree_inv t" "\<forall>e\<in>set t. \<not> overlaps new e"
    and "f \<in> set (dropWhile (\<lambda>e. mmio_rb_range_compare e new < 0) t)"
  shows "mr_end new < mr_base f"
  using assms
proof (induction t)
  case Nil
  then show ?case by simp
next
  case (Cons x t)
  show ?case
  proof (cases "mr_end x < mr_base new")
    case True
    with Cons show ?thesis by (auto simp: tree_inv_Cons compare_less_0_iff)
  next
    case False
    with Cons.prems have "mr_end new < mr_base x" by (auto simp: overlaps_def)
    with False Cons.prems show ?thesis
      by (auto simp: tree_inv_Cons compare_less_0_iff)
  qed
qed

lemma tree_inv_append:
  "tree_inv (t @ u) \<longleftrightarrow> tree_inv t \<and> tree_inv u \<and>
     (\<forall>a\<in>set t. \<forall>b\<in>set u. mr_end a < mr_base b \<and> mr_ptr a \<noteq> mr_ptr b)"
  by (induction t) (auto simp: tree_inv_Cons)

lemma rb_insert_tree_inv:
  assumes inv: "tree_inv t" and wf: "mr_base new \<le> mr_end new"
    and none: "\<forall>e\<in>set t. \<not> overlaps new e" and fresh: "mr_ptr new \<notin> mr_ptr ` set t"
  shows "tree_inv (fst (rb_insert t new)) \<and> set (fst (rb_insert t new)) = insert new (set t)"
proof -
  let ?P = "\<lambda>e. mmio_rb_range_compare e new < 0"
  let ?l = "takeWhile ?P t" and ?r = "dropWhile ?P t"
  have "snd (rb_insert t new) = None"
    using none rb_insert_overlap_iff by blast
  then have res: "fst (rb_insert t new) = ?l @ new # ?r"
    by (auto simp: rb_insert_def split: option.splits)
  have "tree_inv (?l @ ?r)" using inv by simp
  then have parts: "tree_inv ?l" "tree_inv ?r"
    and cross: "\<And>a b. a \<in> set ?l \<Longrightarrow> b \<in> set ?r \<Longrightarrow> mr_end a < mr_base b \<and> mr_ptr a \<noteq> mr_ptr b"
    unfolding tree_inv_append by auto
  have below: "mr_end a < mr_base new" if "a \<in> set ?l" for a
    using set_takeWhileD [OF that] by (simp add: compare_less_0_iff)
  have above: "mr_end new < mr_base b" if "b \<in> set ?r" for b
    using dropWhile_above [OF inv none that] .
  have ptr: "mr_ptr a \<noteq> mr_ptr new" if "a \<in> set ?l \<union> set ?r" for a
  proof -
    have "a \<in> set t" using that takeWhile_dropWhile_set [of ?P t] by blast
    with fresh show ?thesis by (metis imageI)
  qed
  have "tree_inv (?l @ new # ?r)"
    using parts cross below above ptr wf by (auto simp: tree_inv_append tree_inv_Cons)
  moreover have "set (?l @ new # ?r) = insert new (set t)"
    using takeWhile_dropWhile_set [of ?P t] by auto
  ultimately show ?thesis by (simp add: res)
qed

section \<open>The registry invariant\<close>

text \<open>A range that does not wrap around the end of the address space.\<close>

definition range_ok :: "('h, 'p) mem_range \<Rightarrow> bool" where
  "range_ok r \<longleftrightarrow> mem_base r \<le> mem_base r + mem_size r - 1"

definition in_range :: "('h, 'p) mem_range \<Rightarrow> u64 \<Rightarrow> bool" where
  "in_range r a \<longleftrightarrow> mem_base r \<le> a \<and> a \<le> mem_base r + mem_size r - 1"

definition entry_ok :: "('h, 'p) mmio_rb_range \<Rightarrow> bool" where
  "entry_ok e \<longleftrightarrow> mr_base e = mem_base (mr_param e) \<and>
     mr_end e = mem_base (mr_param e) + mem_size (mr_param e) - 1"

definition hint_ok :: "('h, 'p) mmio_rb_tree \<Rightarrow> ('h, 'p) mmio_rb_range option \<Rightarrow> bool" where
  "hint_ok t h \<longleftrightarrow> (\<forall>e. h = Some e \<longrightarrow> e \<in> set t)"

definition mem_inv :: "('h, 'p, 'z) mem_state_scheme \<Rightarrow> bool" where
  "mem_inv s \<longleftrightarrow> tree_inv (mmio_rb_root s) \<and> tree_inv (mmio_rb_fallback s) \<and>
     (\<forall>e\<in>set (mmio_rb_root s) \<union> set (mmio_rb_fallback s). entry_ok e \<and> mr_ptr e < mem_ptr s) \<and>
     length (mmio_hint s) = VM_MAXCPU \<and> (\<forall>h\<in>set (mmio_hint s). hint_ok (mmio_rb_root s) h)"

abbreviation mem_lookup :: "('h, 'p, 'z) mem_state_scheme \<Rightarrow> u64 \<Rightarrow> ('h, 'p) mem_range option" where
  "mem_lookup s \<equiv> tree_map (mmio_rb_root s)"

lemma covers_entry: "entry_ok e \<Longrightarrow> covers e a \<longleftrightarrow> in_range (mr_param e) a"
  by (simp add: entry_ok_def covers_def in_range_def)

lemma new_entry_simps [simp]:
  "mr_base (new_entry p r) = mem_base r" "mr_ptr (new_entry p r) = p"
  "mr_end (new_entry p r) = mem_base r + mem_size r - 1"
  "mr_param (new_entry p r) = r" "entry_ok (new_entry p r)"
  by (simp_all add: new_entry_def entry_ok_def)

lemma covers_new_entry [simp]: "covers (new_entry p r) a \<longleftrightarrow> in_range r a"
  by (simp add: covers_entry)

lemma in_range_base: "range_ok r \<Longrightarrow> in_range r (mem_base r)"
  by (simp add: range_ok_def in_range_def)

text \<open>Overlap with a registered entry, in terms of addresses.\<close>

lemma overlaps_iff_shared:
  assumes "mr_base a \<le> mr_end a" "mr_base b \<le> mr_end b"
  shows "overlaps a b \<longleftrightarrow> (\<exists>x. covers a x \<and> covers b x)"
proof
  assume "overlaps a b"
  then have "covers a (max (mr_base a) (mr_base b)) \<and> covers b (max (mr_base a) (mr_base b))"
    using assms by (auto simp: overlaps_def covers_def max_def)
  then show "\<exists>x. covers a x \<and> covers b x" by blast
qed (auto simp: overlaps_def covers_def)

lemma tree_no_overlap_iff:
  assumes "tree_inv t" "range_ok r"
  shows "(\<forall>e\<in>set t. \<not> overlaps (new_entry p r) e) \<longleftrightarrow> (\<forall>a. in_range r a \<longrightarrow> tree_map t a = None)"
proof -
  have "overlaps (new_entry p r) e \<longleftrightarrow> (\<exists>x. in_range r x \<and> covers e x)" if "e \<in> set t" for e
    using assms that overlaps_iff_shared [of "new_entry p r" e]
    by (auto simp: tree_inv_def range_ok_def)
  then show ?thesis by (auto simp: tree_map_None_iff)
qed

section \<open>Registration and removal\<close>

lemma mem_inv_trees:
  "mem_inv s \<Longrightarrow> tree_inv (mmio_rb_root s)" "mem_inv s \<Longrightarrow> tree_inv (mmio_rb_fallback s)"
  by (simp_all add: mem_inv_def)

lemma register_mem_int_taken:
  "tree_map t (mem_base r) \<noteq> None \<Longrightarrow> register_mem_int True p t r = (0, t)"
  by (auto simp: register_mem_int_def tree_map_def split: sum.splits)

lemma mmio_rb_add_eq:
  "mmio_rb_add t new =
     (if \<exists>e\<in>set t. overlaps new e then (EEXIST, t) else (0, fst (rb_insert t new)))"
proof (cases "snd (rb_insert t new)")
  case None
  then have "\<not> (\<exists>e\<in>set t. overlaps new e)" using rb_insert_overlap_iff by blast
  with None show ?thesis by (cases "rb_insert t new") (simp add: mmio_rb_add_def)
next
  case (Some e)
  then have "\<exists>e\<in>set t. overlaps new e" "fst (rb_insert t new) = t"
    using rb_insert_overlap_iff [of t new] rb_insert_keeps [of t new] by simp_all
  with Some show ?thesis by (cases "rb_insert t new") (simp add: mmio_rb_add_def)
qed

lemma register_mem_int_free:
  assumes "tree_map t (mem_base r) = None"
  shows "register_mem_int True p t r =
     (if \<exists>e\<in>set t. overlaps (new_entry p r) e then (EEXIST, t)
      else (0, fst (rb_insert t (new_entry p r))))"
  using assms by (auto simp: register_mem_int_def tree_map_def mmio_rb_add_eq split: sum.splits)

lemma tree_map_insert:
  assumes "tree_inv t'" "set t' = insert (new_entry p r) (set t)" "tree_inv t"
  shows "tree_map t' a = (if in_range r a then Some r else tree_map t a)"
proof (cases "tree_map t' a")
  case None
  then have "\<not> in_range r a" "tree_map t a = None"
    using assms by (auto simp: tree_map_None_iff)
  with None show ?thesis by simp
next
  case (Some v)
  then obtain e where e: "e \<in> set t'" "covers e a" "v = mr_param e"
    by (auto simp: tree_map_def split: sum.splits dest: lookup_InrD)
  show ?thesis
  proof (cases "in_range r a")
    case True
    then have "e = new_entry p r"
      using assms e by (intro tree_entry_unique [OF assms(1) e(1) _ e(2)]) auto
    with e Some True show ?thesis by simp
  next
    case False
    then have "e \<in> set t" using assms(2) e by auto
    then show ?thesis using False e assms(3) Some by (simp add: tree_map_Some)
  qed
qed

lemma register_mem_success:
  assumes inv: "mem_inv s" and ok: "mem_alloc_ok s (mem_ptr s)" and wf: "range_ok r"
    and free: "\<And>a. in_range r a \<Longrightarrow> mem_lookup s a = None"
  shows "\<exists>s'. register_mem s r = (0, s') \<and> mem_inv s' \<and> mem_alloc_ok s' = mem_alloc_ok s \<and>
     mem_lookup s' = (\<lambda>a. if in_range r a then Some r else mem_lookup s a) \<and>
     mem_state.more s' = mem_state.more s"
proof -
  let ?t = "mmio_rb_root s" and ?new = "new_entry (mem_ptr s) r"
  let ?t' = "fst (rb_insert ?t ?new)"
  have t: "tree_inv ?t" using inv by (rule mem_inv_trees)
  have none: "\<forall>e\<in>set ?t. \<not> overlaps ?new e"
    using free tree_no_overlap_iff [OF t wf] by blast
  have fresh: "mr_ptr ?new \<notin> mr_ptr ` set ?t"
    using inv by (auto simp: mem_inv_def)
  have ins: "tree_inv ?t'" "set ?t' = insert ?new (set ?t)"
    using rb_insert_tree_inv [OF t _ none fresh] wf by (auto simp: range_ok_def)
  have "register_mem_int True (mem_ptr s) ?t r = (0, ?t')"
    using none free [OF in_range_base [OF wf]] by (simp add: register_mem_int_free)
  then have res: "register_mem s r = (0, s\<lparr>mmio_rb_root := ?t', mem_ptr := Suc (mem_ptr s)\<rparr>)"
    using ok by (simp add: register_mem_def)
  have "mem_inv (s\<lparr>mmio_rb_root := ?t', mem_ptr := Suc (mem_ptr s)\<rparr>)"
    using inv ins by (auto simp: mem_inv_def hint_ok_def less_Suc_eq)
  moreover have "tree_map ?t' = (\<lambda>a. if in_range r a then Some r else mem_lookup s a)"
    using tree_map_insert [OF ins t] by (rule ext)
  ultimately show ?thesis using res by simp
qed

lemma register_mem_overlap:
  assumes inv: "mem_inv s" and ok: "mem_alloc_ok s (mem_ptr s)" and wf: "range_ok r"
    and base: "mem_lookup s (mem_base r) = None"
    and taken: "in_range r a" "mem_lookup s a \<noteq> None"
  shows "register_mem s r = (EEXIST, s\<lparr>mem_ptr := Suc (mem_ptr s)\<rparr>)"
proof -
  have "\<exists>e\<in>set (mmio_rb_root s). overlaps (new_entry (mem_ptr s) r) e"
    using tree_no_overlap_iff [OF _ wf] inv taken by (metis mem_inv_trees(1))
  with ok base show ?thesis
    by (simp add: register_mem_def register_mem_int_free)
qed

lemma register_mem_ignored:
  assumes "mem_alloc_ok s (mem_ptr s)" "mem_lookup s (mem_base r) \<noteq> None"
  shows "register_mem s r = (0, s\<lparr>mem_ptr := Suc (mem_ptr s)\<rparr>)"
  using assms by (simp add: register_mem_def register_mem_int_taken)

lemma register_mem_nomem:
  "\<not> mem_alloc_ok s (mem_ptr s) \<Longrightarrow> register_mem s r = (ENOMEM, s\<lparr>mem_ptr := Suc (mem_ptr s)\<rparr>)"
  by (simp add: register_mem_def register_mem_int_def)

lemma mem_inv_ptr [simp]: "mem_inv s \<Longrightarrow> mem_inv (s\<lparr>mem_ptr := Suc (mem_ptr s)\<rparr>)"
  by (auto simp: mem_inv_def less_Suc_eq)

lemma register_mem_inv [inv_intros]:
  assumes "mem_inv s" "range_ok r"
  shows "mem_inv (snd (register_mem s r))"
proof -
  consider "\<not> mem_alloc_ok s (mem_ptr s)"
    | "mem_alloc_ok s (mem_ptr s)" "mem_lookup s (mem_base r) \<noteq> None"
    | a where "mem_alloc_ok s (mem_ptr s)" "mem_lookup s (mem_base r) = None"
        "in_range r a" "mem_lookup s a \<noteq> None"
    | "mem_alloc_ok s (mem_ptr s)" "\<And>a. in_range r a \<Longrightarrow> mem_lookup s a = None"
    by blast
  then show ?thesis
  proof cases
    case 1
    then show ?thesis using assms by (simp add: register_mem_nomem)
  next
    case 2
    then show ?thesis using assms by (simp add: register_mem_ignored)
  next
    case 3
    then show ?thesis using assms by (simp add: register_mem_overlap)
  next
    case 4
    then obtain s' where "register_mem s r = (0, s')" "mem_inv s'"
      using register_mem_success [OF assms(1) 4(1) assms(2)] by blast
    then show ?thesis by simp
  qed
qed

text \<open>Two descriptions name the same registration when name, base and size agree.\<close>

definition same_range :: "('h, 'p) mem_range \<Rightarrow> ('h, 'p) mem_range \<Rightarrow> bool" where
  "same_range r q \<longleftrightarrow> mem_name r = mem_name q \<and> mem_base r = mem_base q \<and> mem_size r = mem_size q"

abbreviation removable :: "('h, 'p) mem_range \<Rightarrow> bool" where
  "removable r \<equiv> mem_flags r AND MEM_F_IMMUTABLE = 0"

lemma sorted_wrt_filter': "sorted_wrt R xs \<Longrightarrow> sorted_wrt R (filter P xs)"
  by (induction xs) auto

lemma tree_inv_filter: "tree_inv t \<Longrightarrow> tree_inv (filter P t)"
  by (auto simp: tree_inv_def sorted_wrt_filter' distinct_map_filter)

lemma rb_remove_set:
  assumes "tree_inv t" "e \<in> set t"
  shows "set (rb_remove t e) = set t - {e}"
proof -
  have "inj_on mr_ptr (set t)" using assms by (simp add: tree_inv_def distinct_map)
  with assms show ?thesis by (auto simp: rb_remove_def dest: inj_onD)
qed

lemma tree_map_remove:
  assumes inv: "tree_inv t" and e: "e \<in> set t" "entry_ok e"
  shows "tree_map (rb_remove t e) a = (if in_range (mr_param e) a then None else tree_map t a)"
proof -
  have inv': "tree_inv (rb_remove t e)"
    using inv by (simp add: rb_remove_def tree_inv_filter)
  have set': "set (rb_remove t e) = set t - {e}"
    using inv e by (simp add: rb_remove_set)
  show ?thesis
  proof (cases "in_range (mr_param e) a")
    case True
    then have "\<forall>f\<in>set (rb_remove t e). \<not> covers f a"
      using set' inv e tree_entry_unique by (fastforce simp: covers_entry)
    with True show ?thesis by (simp add: tree_map_None_iff)
  next
    case False
    then have ne: "\<not> covers e a" using e by (simp add: covers_entry)
    show ?thesis
    proof (cases "\<exists>f\<in>set t. covers f a")
      case True
      then obtain f where f: "f \<in> set t" "covers f a" by blast
      with ne set' have "f \<in> set (rb_remove t e)" by auto
      with f inv inv' False show ?thesis by (simp add: tree_map_Some)
    next
      case none: False
      then have "tree_map t a = None" "tree_map (rb_remove t e) a = None"
        using set' by (auto simp: tree_map_None_iff)
      with False show ?thesis by simp
    qed
  qed
qed

lemma flush_hint_ok:
  assumes "tree_inv t" "e \<in> set t" "hint_ok t h"
  shows "hint_ok (rb_remove t e) (flush_hint e h)"
  using assms by (auto simp: hint_ok_def flush_hint_def rb_remove_set split: option.splits)

lemma unregister_mem_success:
  assumes inv: "mem_inv s" and hit: "mem_lookup s (mem_base q) = Some r"
    and same: "same_range r q" and rem: "removable r"
  shows "\<exists>s'. unregister_mem s q = Some (0, s') \<and> mem_inv s' \<and>
     mem_alloc_ok s' = mem_alloc_ok s \<and>
     mem_lookup s' = (\<lambda>a. if in_range r a then None else mem_lookup s a) \<and>
     mem_state.more s' = mem_state.more s"
proof -
  obtain e where l: "mmio_rb_lookup (mmio_rb_root s) (mem_base q) = Inr e" and r: "r = mr_param e"
    using hit by (auto simp: tree_map_def split: sum.splits)
  then have e: "e \<in> set (mmio_rb_root s)" by (auto dest: lookup_InrD)
  have t: "tree_inv (mmio_rb_root s)" using inv by (rule mem_inv_trees)
  have ok: "entry_ok e" using inv e by (simp add: mem_inv_def)
  let ?s' = "s\<lparr>mmio_rb_root := rb_remove (mmio_rb_root s) e,
               mmio_hint := map (flush_hint e) (mmio_hint s)\<rparr>"
  have "unregister_mem s q = Some (0, ?s')"
    using l r same rem by (simp add: unregister_mem_def same_range_def)
  moreover have "mem_inv ?s'"
    using inv t e flush_hint_ok [OF t e]
    by (auto simp: mem_inv_def rb_remove_def tree_inv_filter)
  moreover have "mem_lookup ?s' = (\<lambda>a. if in_range r a then None else mem_lookup s a)"
    using tree_map_remove [OF t e ok] r by auto
  ultimately show ?thesis by (intro exI [of _ ?s']) simp
qed

section \<open>Access\<close>

text \<open>
  What an access does, without the cache: the range that covers the address in the main tree,
  else the one in the fallback tree, else \<^verbatim>\<open>ESRCH\<close>.
\<close>

definition access_spec ::
  "('h, 'p, 'z) mem_state_scheme \<Rightarrow> u64 \<Rightarrow>
   (('h, 'p) mem_range \<Rightarrow> 'a \<Rightarrow> ('h, 'p, 'z) mem_state_scheme \<Rightarrow>
      (int \<times> 'a \<times> ('h, 'p, 'z) mem_state_scheme) option) \<Rightarrow> 'a \<Rightarrow>
   (int \<times> 'a \<times> ('h, 'p, 'z) mem_state_scheme) option" where
  "access_spec s paddr cb arg =
     (case mem_lookup s paddr of
        Some r \<Rightarrow> cb r arg s
      | None \<Rightarrow>
          (case tree_map (mmio_rb_fallback s) paddr of
             Some r \<Rightarrow> cb r arg s
           | None \<Rightarrow> Some (ESRCH, arg, s)))"

lemma mem_inv_set_hint:
  assumes "mem_inv s" "e \<in> set (mmio_rb_root s)"
  shows "mem_inv (s\<lparr>mmio_hint := (mmio_hint s)[i := Some e]\<rparr>)"
proof -
  have "set ((mmio_hint s)[i := Some e]) \<subseteq> insert (Some e) (set (mmio_hint s))"
    by (rule set_update_subset_insert)
  with assms show ?thesis by (auto simp: mem_inv_def hint_ok_def)
qed

lemma access_memory_cases:
  assumes inv: "mem_inv s"
  shows "\<exists>h. mem_inv (s\<lparr>mmio_hint := h\<rparr>) \<and>
     access_memory s 0 a cb arg = access_spec (s\<lparr>mmio_hint := h\<rparr>) a cb arg"
proof -
  have t: "tree_inv (mmio_rb_root s)" and len: "0 < length (mmio_hint s)"
    and hints: "\<And>h. h \<in> set (mmio_hint s) \<Longrightarrow> hint_ok (mmio_rb_root s) h"
    using inv by (auto simp: mem_inv_def)
  have same: "s\<lparr>mmio_hint := mmio_hint s\<rparr> = s" by simp
  show ?thesis
  proof (cases "\<exists>e. mmio_hint s ! 0 = Some e \<and> covers e a")
    case True
    then obtain e where e: "mmio_hint s ! 0 = Some e" "covers e a" by blast
    then have "e \<in> set (mmio_rb_root s)"
      using hints [OF nth_mem [OF len]] by (simp add: hint_ok_def)
    then have "mem_lookup s a = Some (mr_param e)" using t e by (simp add: tree_map_Some)
    with e len have "access_memory s 0 a cb arg = access_spec s a cb arg"
      by (simp add: access_memory_def access_spec_def covers_def)
    with inv same show ?thesis by metis
  next
    case False
    then have nohit: "(case mmio_hint s ! 0 of
        Some h \<Rightarrow> if mr_base h \<le> a \<and> a \<le> mr_end h then Some h else None | None \<Rightarrow> None) = None"
      by (auto simp: covers_def split: option.splits)
    show ?thesis
    proof (cases "mmio_rb_lookup (mmio_rb_root s) a")
      case (Inl x)
      with nohit len have "access_memory s 0 a cb arg = access_spec s a cb arg"
        by (auto simp: access_memory_def access_spec_def tree_map_def split: sum.splits)
      with inv same show ?thesis by metis
    next
      case (Inr e)
      with nohit len have "access_memory s 0 a cb arg =
          access_spec (s\<lparr>mmio_hint := (mmio_hint s)[0 := Some e]\<rparr>) a cb arg"
        by (simp add: access_memory_def access_spec_def tree_map_def)
      then show ?thesis using mem_inv_set_hint [OF inv] lookup_InrD [OF Inr] by blast
    qed
  qed
qed

lemma access_memory_inv:
  assumes "mem_inv s" "access_memory s 0 a cb arg = Some (err, arg', s')"
    and "\<And>r s0 err arg' s'. mem_inv s0 \<Longrightarrow> cb r arg s0 = Some (err, arg', s') \<Longrightarrow> mem_inv s'"
  shows "mem_inv s'"
proof -
  obtain h where h: "mem_inv (s\<lparr>mmio_hint := h\<rparr>)"
      "access_memory s 0 a cb arg = access_spec (s\<lparr>mmio_hint := h\<rparr>) a cb arg"
    using access_memory_cases [OF assms(1), of a cb arg] by (elim exE conjE)
  with assms(2) have "access_spec (s\<lparr>mmio_hint := h\<rparr>) a cb arg = Some (err, arg', s')"
    by simp
  then show ?thesis
    using h(1) unfolding access_spec_def
    by (auto split: option.splits intro: assms(3) [OF h(1)])
qed

lemma mem_inv_init: "length (mmio_hint s) = VM_MAXCPU \<Longrightarrow> set (mmio_hint s) \<subseteq> {None} \<Longrightarrow> mem_inv (init_mem s)"
  by (auto simp: mem_inv_def init_mem_def hint_ok_def)

section \<open>The registry as an interface\<close>

text \<open>
  What the PCI code relies on: ranges can be registered where nothing is, removed again by a
  description with the same name, base and size, and neither touches other addresses.
\<close>

locale range_registry =
  fixes invar :: "'s \<Rightarrow> bool"
    and lookup :: "'s \<Rightarrow> 'a \<Rightarrow> 'r option"
    and inside :: "'r \<Rightarrow> 'a \<Rightarrow> bool"
    and base :: "'r \<Rightarrow> 'a"
    and wf :: "'r \<Rightarrow> bool"
    and matches :: "'r \<Rightarrow> 'r \<Rightarrow> bool"
    and register :: "'s \<Rightarrow> 'r \<Rightarrow> int \<times> 's"
    and unregister :: "'s \<Rightarrow> 'r \<Rightarrow> (int \<times> 's) option"
  assumes inside_base: "wf r \<Longrightarrow> inside r (base r)"
    and register_ok: "invar s \<Longrightarrow> wf r \<Longrightarrow> (\<And>a. inside r a \<Longrightarrow> lookup s a = None) \<Longrightarrow>
      \<exists>s'. register s r = (0, s') \<and> invar s' \<and>
        lookup s' = (\<lambda>a. if inside r a then Some r else lookup s a)"
    and unregister_ok: "invar s \<Longrightarrow> lookup s (base q) = Some r \<Longrightarrow> matches r q \<Longrightarrow>
      \<exists>s'. unregister s q = Some (0, s') \<and> invar s' \<and>
        lookup s' = (\<lambda>a. if inside r a then None else lookup s a)"
    and matches_base: "matches r q \<Longrightarrow> base r = base q"
begin

text \<open>Registering and removing a range leaves the address map as it was.\<close>

lemma register_unregister:
  assumes "invar s" "wf r" "\<And>a. inside r a \<Longrightarrow> lookup s a = None" "matches r q"
  shows "\<exists>s' s''. register s r = (0, s') \<and> unregister s' q = Some (0, s'') \<and>
    invar s'' \<and> lookup s'' = lookup s"
proof -
  obtain s' where s': "register s r = (0, s')" "invar s'"
      "lookup s' = (\<lambda>a. if inside r a then Some r else lookup s a)"
    using register_ok [OF assms(1,2,3)] by blast
  have "lookup s' (base q) = Some r"
    using s'(3) inside_base [OF assms(2)] matches_base [OF assms(4)] by simp
  then obtain s'' where "unregister s' q = Some (0, s'')" "invar s''"
      "lookup s'' = (\<lambda>a. if inside r a then None else lookup s' a)"
    using unregister_ok [OF s'(2) _ assms(4)] by blast
  with s' assms(3) show ?thesis by (intro exI [of _ s'] exI [of _ s'']) auto
qed

text \<open>Moving a range: remove the old one, register the new one where nothing else is.\<close>

lemma move:
  assumes "invar s" "lookup s (base q) = Some r" "matches r q" "wf n"
    and "\<And>a. inside n a \<Longrightarrow> lookup s a = None \<or> inside r a"
  shows "\<exists>s' s''. unregister s q = Some (0, s') \<and> register s' n = (0, s'') \<and> invar s'' \<and>
    lookup s'' = (\<lambda>a. if inside n a then Some n else if inside r a then None else lookup s a)"
proof -
  obtain s' where s': "unregister s q = Some (0, s')" "invar s'"
      "lookup s' = (\<lambda>a. if inside r a then None else lookup s a)"
    using unregister_ok [OF assms(1,2,3)] by blast
  have "lookup s' a = None" if "inside n a" for a
    using that assms(5) s'(3) by auto
  then obtain s'' where "register s' n = (0, s'')" "invar s''"
      "lookup s'' = (\<lambda>a. if inside n a then Some n else lookup s' a)"
    using register_ok [OF s'(2) assms(4)] by blast
  with s' show ?thesis by auto
qed

end

text \<open>The registry of \<^verbatim>\<open>mem.c\<close> provides the interface when \<^verbatim>\<open>malloc\<close> does not fail.\<close>

definition mem_ready :: "('h, 'p, 'z) mem_state_scheme \<Rightarrow> bool" where
  "mem_ready s \<longleftrightarrow> mem_inv s \<and> (\<forall>n. mem_alloc_ok s n)"

definition matches_range :: "('h, 'p) mem_range \<Rightarrow> ('h, 'p) mem_range \<Rightarrow> bool" where
  "matches_range r q \<longleftrightarrow> same_range r q \<and> removable r"

interpretation mem: range_registry mem_ready mem_lookup in_range mem_base range_ok matches_range
  register_mem unregister_mem
proof
  fix r q :: "('h, 'p) mem_range" and s :: "('h, 'p, 'z) mem_state_scheme"
  show "range_ok r \<Longrightarrow> in_range r (mem_base r)" by (rule in_range_base)
  show "matches_range r q \<Longrightarrow> mem_base r = mem_base q"
    by (simp add: matches_range_def same_range_def)
  show "\<exists>s'. register_mem s r = (0, s') \<and> mem_ready s' \<and>
      mem_lookup s' = (\<lambda>a. if in_range r a then Some r else mem_lookup s a)"
    if "mem_ready s" "range_ok r" "\<And>a. in_range r a \<Longrightarrow> mem_lookup s a = None"
    using that register_mem_success [of s r] by (fastforce simp: mem_ready_def)
  show "\<exists>s'. unregister_mem s q = Some (0, s') \<and> mem_ready s' \<and>
      mem_lookup s' = (\<lambda>a. if in_range r a then None else mem_lookup s a)"
    if "mem_ready s" "mem_lookup s (mem_base q) = Some r" "matches_range r q"
    using that unregister_mem_success [of s q r] by (fastforce simp: mem_ready_def matches_range_def)
qed

section \<open>Properties\<close>

lemma emulate_mem_cb_val:
  "Option.bind (emulate_mem_cb call vcpu paddr r
       \<lparr>ema_write = write, ema_access_width = width, ema_val = val\<rparr> t)
     (\<lambda>(err, ema, s'). Some (err, ema_val ema, s')) =
   call (mem_handler r) t vcpu (if write = 0 then MEM_F_READ else MEM_F_WRITE) paddr width val
     (mem_arg1 r) (mem_arg2 r)"
proof -
  have "Option.bind m (\<lambda>(err, v, s'). Some (err, v, s')) = m" for m :: "('x \<times> 'y \<times> 'z) option"
    by (cases m) auto
  then show ?thesis by (simp add: emulate_mem_cb_def Option.bind_assoc case_prod_unfold)
qed

lemma emulate_mem_cases:
  assumes "mem_inv s"
  shows "\<exists>h. mem_inv (s\<lparr>mmio_hint := h\<rparr>) \<and>
    emulate_mem call s 0 paddr write width val =
      (let dir = (if write = 0 then MEM_F_READ else MEM_F_WRITE);
           handle = (\<lambda>r. call (mem_handler r) (s\<lparr>mmio_hint := h\<rparr>) 0 dir paddr width val
             (mem_arg1 r) (mem_arg2 r))
       in case mem_lookup s paddr of
            Some r \<Rightarrow> handle r
          | None \<Rightarrow>
              (case tree_map (mmio_rb_fallback s) paddr of
                 Some r \<Rightarrow> handle r
               | None \<Rightarrow> Some (ESRCH, val, s\<lparr>mmio_hint := h\<rparr>)))"
proof -
  let ?ema = "\<lparr>ema_write = write, ema_access_width = width, ema_val = val\<rparr>"
  obtain h where h: "mem_inv (s\<lparr>mmio_hint := h\<rparr>)"
      "access_memory s 0 paddr (emulate_mem_cb call 0 paddr) ?ema =
       access_spec (s\<lparr>mmio_hint := h\<rparr>) paddr (emulate_mem_cb call 0 paddr) ?ema"
    using access_memory_cases [OF assms, of paddr "emulate_mem_cb call 0 paddr" ?ema]
    by (elim exE conjE)
  show ?thesis
    using h by (intro exI [of _ h])
      (simp add: emulate_mem_def access_spec_def Let_def emulate_mem_cb_val split: option.split)
qed

text \<open>C1. An access always reaches the range the address map names. Whatever the cache holds,
  \<^verbatim>\<open>emulate_mem\<close> calls the handler of the one registered range that contains the address with that
  range's arguments, else the fallback range, else it returns \<^verbatim>\<open>ESRCH\<close> and leaves the value
  alone; the only other effect of the registry is a cache that satisfies the invariant.\<close>

theorem emulate_mem_coherent:
  assumes "mem_inv s"
  shows "\<exists>h. mem_inv (s\<lparr>mmio_hint := h\<rparr>) \<and>
    emulate_mem call s 0 paddr write width val =
      (let dir = (if write = 0 then MEM_F_READ else MEM_F_WRITE);
           handle = (\<lambda>r. call (mem_handler r) (s\<lparr>mmio_hint := h\<rparr>) 0 dir paddr width val
             (mem_arg1 r) (mem_arg2 r))
       in case mem_lookup s paddr of
            Some r \<Rightarrow> handle r
          | None \<Rightarrow>
              (case tree_map (mmio_rb_fallback s) paddr of
                 Some r \<Rightarrow> handle r
               | None \<Rightarrow> Some (ESRCH, val, s\<lparr>mmio_hint := h\<rparr>)))"
  by (rule emulate_mem_cases [OF assms])

text \<open>C21. Registering a range where nothing is registered succeeds: exactly its addresses now
  belong to it, all others belong to whom they belonged, and the invariant holds again.\<close>

theorem register_mem_functional:
  assumes "mem_inv s" "mem_alloc_ok s (mem_ptr s)" "range_ok r"
    and "\<And>a. in_range r a \<Longrightarrow> mem_lookup s a = None"
  shows "\<exists>s'. register_mem s r = (0, s') \<and> mem_inv s' \<and>
    mem_lookup s' = (\<lambda>a. if in_range r a then Some r else mem_lookup s a)"
  using register_mem_success [OF assms] by auto

text \<open>A range that overlaps registered addresses is refused with \<^verbatim>\<open>EEXIST\<close> when its base is
  free, and the registered ranges stay as they were.\<close>

lemma register_mem_refuses_overlap:
  assumes "mem_inv s" "mem_alloc_ok s (mem_ptr s)" "range_ok r"
    and "mem_lookup s (mem_base r) = None" "in_range r a" "mem_lookup s a \<noteq> None"
  shows "\<exists>s'. register_mem s r = (EEXIST, s') \<and> mem_inv s' \<and> mem_lookup s' = mem_lookup s"
  using register_mem_overlap [OF assms] mem_inv_ptr [OF assms(1)] by simp

text \<open>When the base of the new range already belongs to a registered range, the registration
  reports success and yet registers nothing.\<close>

lemma register_mem_silently_ignored:
  assumes "mem_inv s" "mem_alloc_ok s (mem_ptr s)" "mem_lookup s (mem_base r) \<noteq> None"
  shows "\<exists>s'. register_mem s r = (0, s') \<and> mem_inv s' \<and> mem_lookup s' = mem_lookup s"
  using register_mem_ignored [OF assms(2,3)] mem_inv_ptr [OF assms(1)] by simp

text \<open>C22. Removal undoes registration: after both, every address belongs to whom it belonged
  before, and no cached pointer to the removed range survives.\<close>

theorem unregister_undoes_register:
  assumes "mem_ready s" "range_ok r" "\<And>a. in_range r a \<Longrightarrow> mem_lookup s a = None"
    and "matches_range r q"
  shows "\<exists>s' s''. register_mem s r = (0, s') \<and> unregister_mem s' q = Some (0, s'') \<and>
    mem_inv s'' \<and> mem_lookup s'' = mem_lookup s"
  using mem.register_unregister [OF assms] unfolding mem_ready_def by blast

section \<open>Witnesses\<close>

definition wit_mem :: "(unit, unit) mem_state" where
  "wit_mem = \<lparr>mmio_rb_root = [], mmio_rb_fallback = [], mmio_hint = [None], mem_ptr = 0,
     mem_alloc_ok = (\<lambda>_. True)\<rparr>"

definition wit_range :: "u64 \<Rightarrow> u64 \<Rightarrow> (unit, unit) mem_range" where
  "wit_range b sz = \<lparr>mem_name = ''dev'', mem_flags = MEM_F_RW, mem_handler = (), mem_arg1 = None,
     mem_arg2 = 0, mem_base = b, mem_size = sz\<rparr>"

definition wit_mem1 :: "(unit, unit) mem_state" where
  "wit_mem1 = snd (register_mem wit_mem (wit_range 0x1000 0x100))"

lemma wit_mem_inv: "mem_inv wit_mem" "mem_ready wit_mem"
  by (simp_all add: mem_inv_def wit_mem_def hint_ok_def mem_ready_def)

lemma wit_mem_lookup: "mem_lookup wit_mem a = None"
  by (simp add: wit_mem_def tree_map_None_iff)

lemma wit_mem_alloc: "mem_alloc_ok wit_mem (mem_ptr wit_mem)" "mem_alloc_ok wit_mem n"
  by (simp_all add: wit_mem_def)

lemma wit_range_ok: "range_ok (wit_range 0x1000 0x100)" "range_ok (wit_range 0xf80 0x100)"
  by (simp_all add: range_ok_def wit_range_def)

lemma wit_mem1_props: "mem_inv wit_mem1" "mem_alloc_ok wit_mem1 (mem_ptr wit_mem1)"
  "mem_lookup wit_mem1 = (\<lambda>a. if in_range (wit_range 0x1000 0x100) a then Some (wit_range 0x1000 0x100) else None)"
  using register_mem_success [OF wit_mem_inv(1) wit_mem_alloc(1) wit_range_ok(1) wit_mem_lookup]
  by (auto simp: wit_mem1_def wit_mem_lookup wit_mem_alloc)

theorem emulate_mem_coherent_witness:
  "\<exists>h. mem_inv (wit_mem1\<lparr>mmio_hint := h\<rparr>) \<and>
    emulate_mem (\<lambda>f s vcpu dir addr sz v p n. Some (0, v + 1, s)) wit_mem1 0 0x1010 0 4 7 =
      Some (0, 8, wit_mem1\<lparr>mmio_hint := h\<rparr>)"
  using emulate_mem_coherent [OF wit_mem1_props(1),
      of "\<lambda>f s vcpu dir addr sz v p n. Some (0, v + 1, s)" "0x1010" 0 4 7]
  by (simp add: wit_mem1_props(3) in_range_def wit_range_def)

theorem register_mem_functional_witness:
  "\<exists>s'. register_mem wit_mem (wit_range 0x1000 0x100) = (0, s') \<and> mem_inv s' \<and>
     mem_lookup s' 0x10ff = Some (wit_range 0x1000 0x100)"
  using register_mem_functional [OF wit_mem_inv(1) wit_mem_alloc(1) wit_range_ok(1) wit_mem_lookup]
  by (auto simp: in_range_def wit_range_def)

lemma register_mem_refuses_overlap_witness:
  "\<exists>s'. register_mem wit_mem1 (wit_range 0xf80 0x100) = (EEXIST, s') \<and> mem_inv s'"
  using register_mem_refuses_overlap [OF wit_mem1_props(1,2) wit_range_ok(2), of "0x1000"]
  by (auto simp: wit_mem1_props(3) in_range_def wit_range_def)

lemma register_mem_silently_ignored_witness:
  "\<exists>s'. register_mem wit_mem1 (wit_range 0x1080 0x1000) = (0, s') \<and> mem_lookup s' 0x1200 = None"
  using register_mem_silently_ignored [OF wit_mem1_props(1,2), of "wit_range 0x1080 0x1000"]
  by (auto simp: wit_mem1_props(3) in_range_def wit_range_def)

theorem unregister_undoes_register_witness:
  "\<exists>s' s''. register_mem wit_mem (wit_range 0x1000 0x100) = (0, s') \<and>
     unregister_mem s' (wit_range 0x1000 0x100) = Some (0, s'') \<and> mem_lookup s'' 0x1000 = None"
  using unregister_undoes_register [OF wit_mem_inv(2) wit_range_ok(1) wit_mem_lookup,
      of "wit_range 0x1000 0x100"]
  by (auto simp: matches_range_def same_range_def wit_range_def wit_mem_lookup)

end
