(* ===== verification/PciBar.thy ===== *)
theory PciBar
  imports PciCap MemProps
begin

text \<open>
  Base address registers of \<^verbatim>\<open>bhyve/pci_emul.c\<close>: the allocation of address space
  (\<^verbatim>\<open>pci_emul_alloc_resource\<close>, \<^verbatim>\<open>pci_emul_alloc_pbar\<close>), the registration of the decoded range
  with the range registry (\<^verbatim>\<open>modify_bar_registration\<close>), and the moves of the guest
  (\<^verbatim>\<open>update_bar_address\<close>).
\<close>

section \<open>State\<close>

text \<open>The handlers the code registers; their first argument names a function of the bus.\<close>

datatype mem_handler_fn = Pci_emul_mem_handler | Pci_emul_ecfg_handler

type_synonym pci_ref = "nat \<times> nat \<times> nat"
type_synonym pci_range = "(mem_handler_fn, pci_ref) mem_range"

record pci_space = "(mem_handler_fn, pci_ref) mem_state" +
  pci_emul_iobase :: u64
  pci_emul_membase32 :: u64
  pci_emul_membase64 :: u64

abbreviation (input) "PCI_EMUL_IOBASE \<equiv> (0x2000::u64)"
abbreviation (input) "PCI_EMUL_IOLIMIT \<equiv> (0x10000::u64)"
abbreviation (input) "PCI_EMUL_ECFG_BASE \<equiv> (0xFDC00000::u64)"
abbreviation (input) "PCI_EMUL_ECFG_SIZE \<equiv> (0x80000::u64)"
abbreviation (input) "PCI_EMUL_MEMLIMIT32 \<equiv> PCI_EMUL_ECFG_BASE"
abbreviation (input) "PCI_EMUL_MEMBASE64 \<equiv> (0xD000000000::u64)"
abbreviation (input) "PCI_EMUL_MEMLIMIT64 \<equiv> (0xFD00000000::u64)"
abbreviation (input) "IOPORT_F_INOUT \<equiv> (3::u32)"

definition pi_ref :: "pci_devinst \<Rightarrow> pci_ref" where
  "pi_ref pi = (pi_bus pi, pi_slot pi, pi_func pi)"

section \<open>Allocation of address space\<close>

text \<open>Returns the error, the new \<^verbatim>\<open>*baseptr\<close> and the address.\<close>

definition pci_emul_alloc_resource ::
  "u64 \<Rightarrow> u64 \<Rightarrow> u64 \<Rightarrow> (int \<times> u64 \<times> u64 option) option" where
  "pci_emul_alloc_resource baseptr limit sz = do {
     assert_that (sz AND (sz - 1) = 0);
     let base = roundup2 baseptr sz;
     if base + sz \<le> limit then Some (0, base + sz, Some base)
     else Some (- 1, baseptr, None)
   }"

section \<open>Registration\<close>

definition bar_inout :: "pci_devinst \<Rightarrow> pcibar \<Rightarrow> u32 \<Rightarrow> inout_port" where
  "bar_inout pi b flags = \<lparr>iop_name = pi_name pi, iop_port = sint (ucast (bar_addr b) :: 32 word),
     iop_size = sint (ucast (bar_size b) :: 32 word), iop_flags = flags\<rparr>"

text \<open>The range of a BAR. A removal only fills in the name, the base and the size, which are the
  fields that \<^verbatim>\<open>unregister_mem\<close> reads of its argument.\<close>

definition bar_range :: "pci_devinst \<Rightarrow> nat \<Rightarrow> pcibar \<Rightarrow> pci_range" where
  "bar_range pi idx b = \<lparr>mem_name = pi_name pi, mem_flags = MEM_F_RW,
     mem_handler = Pci_emul_mem_handler, mem_arg1 = Some (pi_ref pi), mem_arg2 = int idx,
     mem_base = bar_addr b, mem_size = bar_size b\<rparr>"

definition modify_bar_registration ::
  "'z pci_space_scheme \<Rightarrow> pci_devinst \<Rightarrow> nat \<Rightarrow> bool \<Rightarrow> 'z pci_space_scheme option" where
  "modify_bar_registration s pi idx registration = do {
     assert_that (idx < length (pi_bar pi));
     let b = pi_bar pi ! idx;
     (error, s) \<leftarrow>
       (case bar_type b of
          PCIBAR_IO \<Rightarrow>
            if registration then Some (register_inout (bar_inout pi b IOPORT_F_INOUT), s)
            else Some (unregister_inout (bar_inout pi b 0), s)
        | PCIBAR_MEM32 \<Rightarrow>
            if registration then Some (register_mem s (bar_range pi idx b))
            else unregister_mem s (bar_range pi idx b)
        | PCIBAR_MEM64 \<Rightarrow>
            if registration then Some (register_mem s (bar_range pi idx b))
            else unregister_mem s (bar_range pi idx b)
        | _ \<Rightarrow> Some (EINVAL, s));
     assert_that (error = 0);
     Some s
   }"

definition unregister_bar ::
  "'z pci_space_scheme \<Rightarrow> pci_devinst \<Rightarrow> nat \<Rightarrow> 'z pci_space_scheme option" where
  "unregister_bar s pi idx = modify_bar_registration s pi idx False"

definition register_bar ::
  "'z pci_space_scheme \<Rightarrow> pci_devinst \<Rightarrow> nat \<Rightarrow> 'z pci_space_scheme option" where
  "register_bar s pi idx = modify_bar_registration s pi idx True"

definition porten :: "pci_devinst \<Rightarrow> bool option" where
  "porten pi = do {
     cmd \<leftarrow> pci_get_cfgdata16 pi PCIR_COMMAND;
     Some (cmd AND PCIM_CMD_PORTEN \<noteq> 0)
   }"

definition memen :: "pci_devinst \<Rightarrow> bool option" where
  "memen pi = do {
     cmd \<leftarrow> pci_get_cfgdata16 pi PCIR_COMMAND;
     Some (cmd AND PCIM_CMD_MEMEN \<noteq> 0)
   }"

section \<open>Moving a BAR\<close>

definition new_bar_addr :: "pcibar_type \<Rightarrow> u64 \<Rightarrow> u64 \<Rightarrow> u64 option" where
  "new_bar_addr type old addr =
     (case type of
        PCIBAR_IO \<Rightarrow> Some addr
      | PCIBAR_MEM32 \<Rightarrow> Some addr
      | PCIBAR_MEM64 \<Rightarrow> Some ((old AND NOT 0xffffffff) OR addr)
      | PCIBAR_MEMHI64 \<Rightarrow> Some ((old AND 0xffffffff) OR addr)
      | PCIBAR_NONE \<Rightarrow> None)"

definition set_bar :: "pci_devinst \<Rightarrow> nat \<Rightarrow> pcibar \<Rightarrow> pci_devinst" where
  "set_bar pi idx b = pi\<lparr>pi_bar := (pi_bar pi)[idx := b]\<rparr>"

definition update_bar_address ::
  "'z pci_space_scheme \<Rightarrow> pci_devinst \<Rightarrow> u64 \<Rightarrow> nat \<Rightarrow> pcibar_type \<Rightarrow>
     ('z pci_space_scheme \<times> pci_devinst) option" where
  "update_bar_address s pi addr idx type = do {
     assert_that (idx < length (pi_bar pi));
     decode \<leftarrow> (if bar_type (pi_bar pi ! idx) = PCIBAR_IO then porten pi else memen pi);
     s \<leftarrow> (if decode then unregister_bar s pi idx else Some s);
     new \<leftarrow> new_bar_addr type (bar_addr (pi_bar pi ! idx)) addr;
     let pi = set_bar pi idx ((pi_bar pi ! idx)\<lparr>bar_addr := new\<rparr>);
     s \<leftarrow> (if decode then register_bar s pi idx else Some s);
     Some (s, pi)
   }"

section \<open>Allocating a BAR\<close>

text \<open>\<^verbatim>\<open>1UL << flsl(size)\<close>; a shift by 64 or more is undefined.\<close>

definition bar_rounded_size :: "pcibar_type \<Rightarrow> u64 \<Rightarrow> u64 option" where
  "bar_rounded_size type sz = do {
     sz \<leftarrow>
       (if sz AND (sz - 1) \<noteq> 0 then do {
          assert_that (flsl sz < 64);
          Some (push_bit (flsl sz) 1)
        } else Some sz);
     Some
       (if type = PCIBAR_IO then (if sz < 4 then 4 else sz)
        else (if sz < 16 then 16 else sz))
   }"

text \<open>
  The choice of the address space: which allocation pointer, the limit, and the mask and the low
  bits of the register. \<open>HostBase\<close> is the argument \<^verbatim>\<open>hostbase\<close>, a local variable.
\<close>

datatype bar_base = IoBase | MemBase32 | MemBase64 | HostBase

definition bar_class :: "pcibar_type \<Rightarrow> u64 \<Rightarrow> (bar_base \<times> u64 \<times> u64 \<times> u64) option" where
  "bar_class type sz =
     (case type of
        PCIBAR_IO \<Rightarrow> Some (IoBase, PCI_EMUL_IOLIMIT, PCIM_BAR_IO_BASE, PCIM_BAR_IO_SPACE)
      | PCIBAR_MEM64 \<Rightarrow>
          if sz > 32 * 1024 * 1024 then
            Some (if sz = 0x100000000 then HostBase else MemBase64, PCI_EMUL_MEMLIMIT64,
                  PCIM_BAR_MEM_BASE, PCIM_BAR_MEM_SPACE OR PCIM_BAR_MEM_64 OR PCIM_BAR_MEM_PREFETCH)
          else Some (MemBase32, PCI_EMUL_MEMLIMIT32, PCIM_BAR_MEM_BASE,
                     PCIM_BAR_MEM_SPACE OR PCIM_BAR_MEM_64)
      | PCIBAR_MEM32 \<Rightarrow> Some (MemBase32, PCI_EMUL_MEMLIMIT32, PCIM_BAR_MEM_BASE,
                            PCIM_BAR_MEM_SPACE OR PCIM_BAR_MEM_32)
      | _ \<Rightarrow> None)"

definition get_base :: "'z pci_space_scheme \<Rightarrow> u64 \<Rightarrow> bar_base \<Rightarrow> u64" where
  "get_base s hostbase b =
     (case b of IoBase \<Rightarrow> pci_emul_iobase s | MemBase32 \<Rightarrow> pci_emul_membase32 s
      | MemBase64 \<Rightarrow> pci_emul_membase64 s | HostBase \<Rightarrow> hostbase)"

definition set_base :: "'z pci_space_scheme \<Rightarrow> bar_base \<Rightarrow> u64 \<Rightarrow> 'z pci_space_scheme" where
  "set_base s b v =
     (case b of IoBase \<Rightarrow> s\<lparr>pci_emul_iobase := v\<rparr> | MemBase32 \<Rightarrow> s\<lparr>pci_emul_membase32 := v\<rparr>
      | MemBase64 \<Rightarrow> s\<lparr>pci_emul_membase64 := v\<rparr> | HostBase \<Rightarrow> s)"

text \<open>
  Types \<open>PCIBAR_NONE\<close> and \<open>PCIBAR_MEMHI64\<close> never return: the first fails the assertion of the
  registration, the second the one of the \<^verbatim>\<open>default\<close> case.
\<close>

definition pci_emul_alloc_pbar ::
  "'z pci_space_scheme \<Rightarrow> pci_devinst \<Rightarrow> nat \<Rightarrow> u64 \<Rightarrow> pcibar_type \<Rightarrow> u64 \<Rightarrow>
     (int \<times> 'z pci_space_scheme \<times> pci_devinst) option" where
  "pci_emul_alloc_pbar s pdi idx hostbase type sz = do {
     assert_that (idx \<le> PCI_BARMAX);
     sz \<leftarrow> bar_rounded_size type sz;
     (baseptr, limit, bmask, lobits) \<leftarrow> bar_class type sz;
     (error, base, addr) \<leftarrow> pci_emul_alloc_resource (get_base s hostbase baseptr) limit sz;
     case addr of
       None \<Rightarrow> Some (error, s, pdi)
     | Some addr \<Rightarrow> do {
         let s = set_base s baseptr base;
         let pdi = set_bar pdi idx \<lparr>bar_type = type, bar_size = sz, bar_addr = addr\<rparr>;
         let bar = (addr AND bmask) OR lobits;
         pdi \<leftarrow> pci_set_cfgdata32 pdi (PCIR_BAR idx) (ucast bar);
         pdi \<leftarrow>
           (if type = PCIBAR_MEM64 then do {
              assert_that (idx + 1 \<le> PCI_BARMAX);
              let pdi = set_bar pdi (idx + 1) ((pi_bar pdi ! (idx + 1))\<lparr>bar_type := PCIBAR_MEMHI64\<rparr>);
              pci_set_cfgdata32 pdi (PCIR_BAR (idx + 1)) (ucast (drop_bit 32 bar))
            } else Some pdi);
         s \<leftarrow> register_bar s pdi idx;
         Some (0, s, pdi)
       }
   }"

definition pci_emul_alloc_bar ::
  "'z pci_space_scheme \<Rightarrow> pci_devinst \<Rightarrow> nat \<Rightarrow> pcibar_type \<Rightarrow> u64 \<Rightarrow>
     (int \<times> 'z pci_space_scheme \<times> pci_devinst) option" where
  "pci_emul_alloc_bar s pdi idx type sz = pci_emul_alloc_pbar s pdi idx 0 type sz"

text \<open>The MSI-X capability, whose table lives in a BAR.\<close>

definition pci_emul_add_msixcap ::
  "'z pci_space_scheme \<Rightarrow> pci_devinst \<Rightarrow> int \<Rightarrow> nat \<Rightarrow>
     (int \<times> 'z pci_space_scheme \<times> pci_devinst) option" where
  "pci_emul_add_msixcap s pi msgnum barnum = do {
     assert_that (msgnum \<ge> 1 \<and> msgnum \<le> MAX_MSIX_TABLE_ENTRIES);
     assert_that (barnum \<le> PCIR_MAX_BAR_0);
     let tab_size = roundup2 (word_of_int (msgnum * int MSIX_TABLE_ENTRY_SIZE) :: u32) 4096;
     let pi = pi\<lparr>pi_msix := (pi_msix pi)\<lparr>msix_table_bar := int barnum, msix_pba_bar := int barnum,
       msix_table_offset := 0, msix_table_count := msgnum, msix_pba_offset := tab_size,
       msix_pba_size := PBA_SIZE msgnum\<rparr>\<rparr>;
     pi \<leftarrow> pci_msix_table_init pi msgnum;
     msixcap \<leftarrow> pci_populate_msixcap msgnum barnum tab_size;
     (_, s, pi) \<leftarrow> pci_emul_alloc_bar s pi barnum PCIBAR_MEM32
       (ucast (tab_size + word_of_int (msix_pba_size (pi_msix pi))));
     (err, pi) \<leftarrow> pci_emul_add_capability pi (msixcap_bytes msixcap);
     Some (err, s, pi)
   }"

end
