(* ===== verification/PciBus.thy ===== *)
theory PciBus
  imports PciBar
begin

text \<open>
  The PCI bus of \<^verbatim>\<open>bhyve/pci_emul.c\<close>: the table of buses, slots and functions, the start of the
  devices (\<^verbatim>\<open>init_pci\<close>, \<^verbatim>\<open>pci_emul_init\<close>), the interrupt pins, the configuration accesses of the
  guest (\<^verbatim>\<open>pci_cfgrw\<close>) and the handlers of the memory ranges.

  A device instance is its \<^verbatim>\<open>struct pci_devinst\<close> (\<open>dev_pi\<close>), the driver it points to
  (\<open>dev_emu\<close>, the name that identifies the entry of the linker set \<^verbatim>\<open>pci_devemu_set\<close>) and the
  private data of the driver (\<open>dev_arg\<close>, of any type \<open>'a\<close>). The linker set is the list \<open>devs\<close>;
  \<open>sys_world\<close> is what the drivers touch outside of the PCI bus: guest memory, disk and network.
\<close>

section \<open>The bus table\<close>

abbreviation (input) "MAXBUSES \<equiv> PCI_BUSMAX + 1"
abbreviation (input) "MAXSLOTS \<equiv> PCI_SLOTMAX + 1"
abbreviation (input) "MAXFUNCS \<equiv> PCI_FUNCMAX + 1"

record 'a pci_dev =
  dev_pi :: pci_devinst
  dev_emu :: string
  dev_arg :: 'a

record 'a funcinfo =
  fi_name :: "string option"
  fi_param :: "string option"
  fi_devi :: "'a pci_dev option"

record intxinfo =
  ii_count :: int
  ii_pirq_pin :: int
  ii_ioapic_irq :: int

record 'a slotinfo =
  si_intpins :: "intxinfo list"
  si_funcs :: "'a funcinfo list"

record 'a businfo =
  bi_iobase :: u16
  bi_iolimit :: u16
  bi_membase32 :: u32
  bi_memlimit32 :: u32
  bi_membase64 :: u64
  bi_memlimit64 :: u64
  bi_slotinfo :: "'a slotinfo list"

record ('a, 'w) pci_sys = pci_space +
  pci_businfo :: "'a businfo option list"
  sys_world :: 'w

text \<open>A driver, \<^verbatim>\<open>struct pci_devemu\<close>.\<close>

record ('a, 'w) pci_devemu =
  pe_emu :: string
  pe_init :: "('a, 'w) pci_sys \<Rightarrow> pci_devinst \<Rightarrow> string option \<Rightarrow>
      (int \<times> ('a, 'w) pci_sys \<times> pci_devinst \<times> 'a) option"
  pe_cfgwrite :: "(('a, 'w) pci_sys \<Rightarrow> 'a pci_dev \<Rightarrow> nat \<Rightarrow> nat \<Rightarrow> u32 \<Rightarrow>
      (int \<times> ('a, 'w) pci_sys \<times> 'a pci_dev) option) option"
  pe_cfgread :: "(('a, 'w) pci_sys \<Rightarrow> 'a pci_dev \<Rightarrow> nat \<Rightarrow> nat \<Rightarrow> u32 \<Rightarrow>
      (int \<times> u32 \<times> ('a, 'w) pci_sys \<times> 'a pci_dev) option) option"
  pe_barwrite :: "'w \<Rightarrow> 'a pci_dev \<Rightarrow> nat \<Rightarrow> u64 \<Rightarrow> nat \<Rightarrow> u64 \<Rightarrow> ('w \<times> 'a pci_dev) option"
  pe_barread :: "'w \<Rightarrow> 'a pci_dev \<Rightarrow> nat \<Rightarrow> u64 \<Rightarrow> nat \<Rightarrow> (u64 \<times> 'w \<times> 'a pci_dev) option"

definition funcinfo_zero :: "'a funcinfo" where
  "funcinfo_zero = \<lparr>fi_name = None, fi_param = None, fi_devi = None\<rparr>"

definition slotinfo_zero :: "'a slotinfo" where
  "slotinfo_zero = \<lparr>si_intpins = replicate 4 \<lparr>ii_count = 0, ii_pirq_pin = 0, ii_ioapic_irq = 0\<rparr>,
     si_funcs = replicate MAXFUNCS funcinfo_zero\<rparr>"

definition businfo_zero :: "'a businfo" where
  "businfo_zero = \<lparr>bi_iobase = 0, bi_iolimit = 0, bi_membase32 = 0, bi_memlimit32 = 0,
     bi_membase64 = 0, bi_memlimit64 = 0, bi_slotinfo = replicate MAXSLOTS slotinfo_zero\<rparr>"

text \<open>Indexing; an index beyond an array is undefined.\<close>

definition businfo_at :: "('a, 'w) pci_sys \<Rightarrow> nat \<Rightarrow> 'a businfo option option" where
  "businfo_at s bus = (if bus < length (pci_businfo s) then Some (pci_businfo s ! bus) else None)"

definition slot_of :: "'a businfo \<Rightarrow> nat \<Rightarrow> 'a slotinfo option" where
  "slot_of bi slot = (if slot < length (bi_slotinfo bi) then Some (bi_slotinfo bi ! slot) else None)"

definition func_of :: "'a slotinfo \<Rightarrow> nat \<Rightarrow> 'a funcinfo option" where
  "func_of si func = (if func < length (si_funcs si) then Some (si_funcs si ! func) else None)"

definition upd_slot :: "('a, 'w) pci_sys \<Rightarrow> nat \<Rightarrow> nat \<Rightarrow> ('a slotinfo \<Rightarrow> 'a slotinfo) \<Rightarrow> ('a, 'w) pci_sys" where
  "upd_slot s bus slot f = s\<lparr>pci_businfo := (pci_businfo s)[bus :=
     map_option (\<lambda>bi. bi\<lparr>bi_slotinfo := (bi_slotinfo bi)[slot := f (bi_slotinfo bi ! slot)]\<rparr>)
       (pci_businfo s ! bus)]\<rparr>"

definition upd_func ::
  "('a, 'w) pci_sys \<Rightarrow> pci_ref \<Rightarrow> ('a funcinfo \<Rightarrow> 'a funcinfo) \<Rightarrow> ('a, 'w) pci_sys" where
  "upd_func s ref f = (case ref of (bus, slot, func) \<Rightarrow>
     upd_slot s bus slot (\<lambda>si. si\<lparr>si_funcs := (si_funcs si)[func := f (si_funcs si ! func)]\<rparr>))"

text \<open>The device a function points to; the outer option is the array bound, the inner the pointer.\<close>

definition dev_at :: "('a, 'w) pci_sys \<Rightarrow> pci_ref \<Rightarrow> 'a pci_dev option option" where
  "dev_at s ref = (case ref of (bus, slot, func) \<Rightarrow> do {
     b \<leftarrow> businfo_at s bus;
     case b of
       None \<Rightarrow> Some None
     | Some bi \<Rightarrow> do {
         si \<leftarrow> slot_of bi slot;
         fi \<leftarrow> func_of si func;
         Some (fi_devi fi)
       }
   })"

definition set_dev :: "('a, 'w) pci_sys \<Rightarrow> pci_ref \<Rightarrow> 'a pci_dev \<Rightarrow> ('a, 'w) pci_sys" where
  "set_dev s ref d = upd_func s ref (\<lambda>fi. fi\<lparr>fi_devi := Some d\<rparr>)"

section \<open>Interrupt pins\<close>

fun best_pin :: "intxinfo list \<Rightarrow> nat \<Rightarrow> nat \<Rightarrow> int \<Rightarrow> nat" where
  "best_pin [] pin bestpin bestcount = bestpin"
| "best_pin (ii # iis) pin bestpin bestcount =
     (if ii_count ii < bestcount then best_pin iis (Suc pin) pin (ii_count ii)
      else best_pin iis (Suc pin) bestpin bestcount)"

definition pci_lintr_request ::
  "('a, 'w) pci_sys \<Rightarrow> pci_devinst \<Rightarrow> (('a, 'w) pci_sys \<times> pci_devinst) option" where
  "pci_lintr_request s pi = do {
     b \<leftarrow> businfo_at s (pi_bus pi);
     bi \<leftarrow> b;
     si \<leftarrow> slot_of bi (pi_slot pi);
     assert_that (length (si_intpins si) = 4);
     let bestpin = best_pin (tl (si_intpins si)) 1 0 (ii_count (si_intpins si ! 0));
     let s = upd_slot s (pi_bus pi) (pi_slot pi) (\<lambda>si. si\<lparr>si_intpins := (si_intpins si)[bestpin :=
       (si_intpins si ! bestpin)\<lparr>ii_count := ii_count (si_intpins si ! bestpin) + 1\<rparr>]\<rparr>);
     pi \<leftarrow> pci_set_cfgdata8 (pi\<lparr>pi_lintr := (pi_lintr pi)\<lparr>lintr_pin := int bestpin + 1\<rparr>\<rparr>)
       PCIR_INTPIN (of_nat (bestpin + 1));
     Some (s, pi)
   }"

definition pci_lintr_route ::
  "('a, 'w) pci_sys \<Rightarrow> pci_devinst \<Rightarrow> (('a, 'w) pci_sys \<times> pci_devinst) option" where
  "pci_lintr_route s pi =
     (if lintr_pin (pi_lintr pi) = 0 then Some (s, pi)
      else do {
        b \<leftarrow> businfo_at s (pi_bus pi);
        bi \<leftarrow> b;
        si \<leftarrow> slot_of bi (pi_slot pi);
        let pin = nat (lintr_pin (pi_lintr pi) - 1);
        assert_that (lintr_pin (pi_lintr pi) > 0 \<and> pin < length (si_intpins si));
        let ii = si_intpins si ! pin;
        let ii = (if ii_pirq_pin ii = 0 then ii\<lparr>ii_pirq_pin := pirq_alloc_pin pi\<rparr> else ii);
        assert_that (ii_pirq_pin ii > 0);
        let s = upd_slot s (pi_bus pi) (pi_slot pi)
          (\<lambda>si. si\<lparr>si_intpins := (si_intpins si)[pin := ii]\<rparr>);
        pi \<leftarrow> pci_set_cfgdata8
          (pi\<lparr>pi_lintr := (pi_lintr pi)\<lparr>lintr_ioapic_irq := ii_ioapic_irq ii,
             lintr_pirq_pin := ii_pirq_pin ii\<rparr>\<rparr>)
          PCIR_INTLINE (word_of_int (pirq_irq (ii_pirq_pin ii)));
        Some (s, pi)
      })"

definition pci_count_lintr :: "('a, 'w) pci_sys \<Rightarrow> nat \<Rightarrow> nat option" where
  "pci_count_lintr s bus = do {
     b \<leftarrow> businfo_at s bus;
     Some (case b of None \<Rightarrow> 0 | Some bi \<Rightarrow>
       sum_list (map (\<lambda>si. length (filter (\<lambda>ii. ii_count ii \<noteq> 0) (si_intpins si))) (bi_slotinfo bi)))
   }"

text \<open>The calls of the callback of \<^verbatim>\<open>pci_walk_lintr\<close>: slot, pin, PIRQ pin and IOAPIC irq.\<close>

definition pci_walk_lintr :: "('a, 'w) pci_sys \<Rightarrow> nat \<Rightarrow> (nat \<times> nat \<times> int \<times> int) list option" where
  "pci_walk_lintr s bus = do {
     b \<leftarrow> businfo_at s bus;
     Some (case b of None \<Rightarrow> [] | Some bi \<Rightarrow>
       concat (map (\<lambda>(slot, si). concat (map (\<lambda>(pin, ii).
           if ii_count ii \<noteq> 0 then [(slot, pin + 1, ii_pirq_pin ii, ii_ioapic_irq ii)] else [])
         (enumerate 0 (si_intpins si)))) (enumerate 0 (bi_slotinfo bi))))
   }"

definition pci_bus_configured :: "('a, 'w) pci_sys \<Rightarrow> nat \<Rightarrow> bool option" where
  "pci_bus_configured s bus = do {
     assert_that (bus < MAXBUSES);
     b \<leftarrow> businfo_at s bus;
     Some (b \<noteq> None)
   }"

section \<open>Message signalled interrupts\<close>

definition pci_msi_enabled :: "pci_devinst \<Rightarrow> int" where
  "pci_msi_enabled pi = msi_enabled (pi_msi pi)"

definition pci_msi_maxmsgnum :: "pci_devinst \<Rightarrow> int" where
  "pci_msi_maxmsgnum pi = (if msi_enabled (pi_msi pi) \<noteq> 0 then msi_maxmsgnum (pi_msi pi) else 0)"

definition pci_msix_enabled :: "pci_devinst \<Rightarrow> bool" where
  "pci_msix_enabled pi = (msix_enabled (pi_msix pi) \<noteq> 0 \<and> msi_enabled (pi_msi pi) = 0)"

text \<open>
  The delivery itself is compiled out in this port, so that a message only reads the table; a
  negative index is out of bounds.
\<close>

definition pci_generate_msix :: "pci_devinst \<Rightarrow> int \<Rightarrow> unit option" where
  "pci_generate_msix pi index =
     (if \<not> pci_msix_enabled pi then Some ()
      else if msix_function_mask (pi_msix pi) \<noteq> 0 then Some ()
      else if index \<ge> msix_table_count (pi_msix pi) then Some ()
      else do {
        _ \<leftarrow> msix_dest pi index 12 4;
        Some ()
      })"

definition pci_generate_msi :: "pci_devinst \<Rightarrow> int \<Rightarrow> unit" where
  "pci_generate_msi pi index = ()"

end
