(* ===== verification/PciInit.thy ===== *)
theory PciInit
  imports PciBus
begin

text \<open>
  The start of the PCI bus: \<^verbatim>\<open>pci_emul_finddev\<close>, \<^verbatim>\<open>pci_emul_init\<close>, \<^verbatim>\<open>init_pci\<close> and
  \<^verbatim>\<open>bhyve_pci_init\<close>. The loops over buses, slots and functions are recursions over the lists of
  their indices, so that an early return ends them.
\<close>

section \<open>Starting one device\<close>

definition pci_emul_finddev :: "('a, 'w) pci_devemu list \<Rightarrow> string \<Rightarrow> ('a, 'w) pci_devemu option" where
  "pci_emul_finddev devs name = List.find (\<lambda>pdp. pe_emu pdp = name) devs"

text \<open>The conversion \<^verbatim>\<open>%d\<close> of a non-negative number.\<close>

fun dec_string :: "nat \<Rightarrow> string" where
  "dec_string n = (if n < 10 then [''0123456789'' ! n]
     else dec_string (n div 10) @ [''0123456789'' ! (n mod 10)])"

declare dec_string.simps [simp del]

abbreviation (input) "PI_NAMESZ \<equiv> (40::nat)"

definition pi_name_of :: "string \<Rightarrow> nat \<Rightarrow> string" where
  "pi_name_of emu slot = take (PI_NAMESZ - 1) (emu @ ''-pci-'' @ dec_string slot)"

definition pci_emul_init ::
  "('a, 'w) pci_sys \<Rightarrow> ('a, 'w) pci_devemu \<Rightarrow> pci_ref \<Rightarrow> string option \<Rightarrow>
     (int \<times> ('a, 'w) pci_sys) option" where
  "pci_emul_init s pde ref param = (case ref of (bus, slot, func) \<Rightarrow> do {
     let pdi = pci_devinst_zero\<lparr>pi_bus := bus, pi_slot := slot, pi_func := func\<rparr>;
     let pdi = pdi\<lparr>pi_lintr := \<lparr>lintr_pin = 0, lintr_state = IDLE, lintr_pirq_pin = 0,
       lintr_ioapic_irq = 0, lintr_lock = pthread_mutex_init (lintr_lock (pi_lintr pdi))\<rparr>\<rparr>;
     let pdi = pdi\<lparr>pi_name := pi_name_of (pe_emu pde) slot\<rparr>;
     pdi \<leftarrow> pci_set_cfgdata8 pdi PCIR_INTLINE 255;
     pdi \<leftarrow> pci_set_cfgdata8 pdi PCIR_INTPIN 0;
     pdi \<leftarrow> pci_set_cfgdata8 pdi PCIR_COMMAND
       (ucast (PCIM_CMD_PORTEN OR PCIM_CMD_MEMEN OR PCIM_CMD_BUSMASTEREN));
     (err, s, pdi, arg) \<leftarrow> pe_init pde s pdi param;
     Some (err,
       if err = 0 then set_dev s ref \<lparr>dev_pi = pdi, dev_emu = pe_emu pde, dev_arg = arg\<rparr> else s)
   })"

section \<open>Starting all devices\<close>

definition fi_at :: "('a, 'w) pci_sys \<Rightarrow> pci_ref \<Rightarrow> 'a funcinfo option" where
  "fi_at s ref = (case ref of (bus, slot, func) \<Rightarrow> do {
     b \<leftarrow> businfo_at s bus;
     bi \<leftarrow> b;
     si \<leftarrow> slot_of bi slot;
     func_of si func
   })"

fun init_funcs ::
  "('a, 'w) pci_devemu list \<Rightarrow> nat \<Rightarrow> nat \<Rightarrow> nat list \<Rightarrow> ('a, 'w) pci_sys \<Rightarrow>
     (int \<times> ('a, 'w) pci_sys) option" where
  "init_funcs devs bus slot [] s = Some (0, s)"
| "init_funcs devs bus slot (func # funcs) s = do {
     fi \<leftarrow> fi_at s (bus, slot, func);
     case fi_name fi of
       None \<Rightarrow> init_funcs devs bus slot funcs s
     | Some name \<Rightarrow> do {
         pde \<leftarrow> pci_emul_finddev devs name;
         (error, s) \<leftarrow> pci_emul_init s pde (bus, slot, func) (fi_param fi);
         if error \<noteq> 0 then Some (error, s) else init_funcs devs bus slot funcs s
       }
   }"

fun init_slots ::
  "('a, 'w) pci_devemu list \<Rightarrow> nat \<Rightarrow> nat list \<Rightarrow> ('a, 'w) pci_sys \<Rightarrow>
     (int \<times> ('a, 'w) pci_sys) option" where
  "init_slots devs bus [] s = Some (0, s)"
| "init_slots devs bus (slot # slots) s = do {
     (error, s) \<leftarrow> init_funcs devs bus slot [0..<MAXFUNCS] s;
     if error \<noteq> 0 then Some (error, s) else init_slots devs bus slots s
   }"

abbreviation (input) "BUSIO_ROUNDUP \<equiv> (32::u64)"
abbreviation (input) "BUSMEM_ROUNDUP \<equiv> (1024 * 1024 ::u64)"

definition upd_bus :: "('a, 'w) pci_sys \<Rightarrow> nat \<Rightarrow> ('a businfo \<Rightarrow> 'a businfo) \<Rightarrow> ('a, 'w) pci_sys" where
  "upd_bus s bus f = s\<lparr>pci_businfo := (pci_businfo s)[bus := map_option f (pci_businfo s ! bus)]\<rparr>"

definition bus_slop :: "('a, 'w) pci_sys \<Rightarrow> nat \<Rightarrow> ('a, 'w) pci_sys" where
  "bus_slop s bus =
     (let s = s\<lparr>pci_emul_iobase := roundup2 (pci_emul_iobase s + BUSIO_ROUNDUP) BUSIO_ROUNDUP\<rparr>;
          s = s\<lparr>pci_emul_membase32 := roundup2 (pci_emul_membase32 s + BUSMEM_ROUNDUP) BUSMEM_ROUNDUP\<rparr>;
          s = s\<lparr>pci_emul_membase64 := roundup2 (pci_emul_membase64 s + BUSMEM_ROUNDUP) BUSMEM_ROUNDUP\<rparr>
      in upd_bus s bus (\<lambda>bi. bi\<lparr>bi_iolimit := ucast (pci_emul_iobase s),
           bi_memlimit32 := ucast (pci_emul_membase32 s), bi_memlimit64 := pci_emul_membase64 s\<rparr>))"

fun init_buses ::
  "('a, 'w) pci_devemu list \<Rightarrow> nat list \<Rightarrow> ('a, 'w) pci_sys \<Rightarrow> (int \<times> ('a, 'w) pci_sys) option" where
  "init_buses devs [] s = Some (0, s)"
| "init_buses devs (bus # buses) s = do {
     b \<leftarrow> businfo_at s bus;
     case b of
       None \<Rightarrow> init_buses devs buses s
     | Some _ \<Rightarrow> do {
         let s = upd_bus s bus (\<lambda>bi. bi\<lparr>bi_iobase := ucast (pci_emul_iobase s),
           bi_membase32 := ucast (pci_emul_membase32 s), bi_membase64 := pci_emul_membase64 s\<rparr>);
         (error, s) \<leftarrow> init_slots devs bus [0..<MAXSLOTS] s;
         if error \<noteq> 0 then Some (error, s) else init_buses devs buses (bus_slop s bus)
       }
   }"

text \<open>Routing, over the functions of the configured buses in order.\<close>

fun route_all :: "pci_ref list \<Rightarrow> ('a, 'w) pci_sys \<Rightarrow> ('a, 'w) pci_sys option" where
  "route_all [] s = Some s"
| "route_all (ref # refs) s = do {
     d \<leftarrow> dev_at s ref;
     case d of
       None \<Rightarrow> route_all refs s
     | Some d \<Rightarrow> do {
         (s, pi) \<leftarrow> pci_lintr_route s (dev_pi d);
         route_all refs (set_dev s ref (d\<lparr>dev_pi := pi\<rparr>))
       }
   }"

definition all_refs :: "nat list \<Rightarrow> pci_ref list" where
  "all_refs buses = concat (map (\<lambda>bus. concat (map (\<lambda>slot. map (\<lambda>func. (bus, slot, func))
     [0..<MAXFUNCS]) [0..<MAXSLOTS])) buses)"

definition pci_ecfg_base :: u64 where
  "pci_ecfg_base = PCI_EMUL_ECFG_BASE"

definition ecfg_range :: pci_range where
  "ecfg_range = \<lparr>mem_name = ''PCI ECFG'', mem_flags = MEM_F_RW OR MEM_F_IMMUTABLE,
     mem_handler = Pci_emul_ecfg_handler, mem_arg1 = None, mem_arg2 = 0,
     mem_base = PCI_EMUL_ECFG_BASE, mem_size = PCI_EMUL_ECFG_SIZE\<rparr>"

definition init_pci ::
  "('a, 'w) pci_devemu list \<Rightarrow> ('a, 'w) pci_sys \<Rightarrow> (int \<times> ('a, 'w) pci_sys) option" where
  "init_pci devs s = do {
     let s = s\<lparr>pci_emul_iobase := PCI_EMUL_IOBASE, pci_emul_membase32 := 0x60010000,
       pci_emul_membase64 := PCI_EMUL_MEMBASE64\<rparr>;
     (error, s) \<leftarrow> init_buses devs [0..<MAXBUSES] s;
     if error \<noteq> 0 then Some (error, s)
     else do {
       s \<leftarrow> route_all (all_refs [0..<MAXBUSES]) s;
       let (error, s) = register_mem s ecfg_range;
       assert_that (error = 0);
       Some (0, s)
     }
   }"

definition bhyve_pci_init ::
  "('a, 'w) pci_devemu list \<Rightarrow> ('a, 'w) pci_sys \<Rightarrow> (int \<times> ('a, 'w) pci_sys) option" where
  "bhyve_pci_init devs s = do {
     let s = init_mem s;
     assert_that (0 < length (pci_businfo s));
     let s = s\<lparr>pci_businfo := (pci_businfo s)[0 := Some businfo_zero]\<rparr>;
     let s = upd_func s (0, 0, 0) (\<lambda>fi. fi\<lparr>fi_name := Some ''e1000'', fi_param := None\<rparr>);
     let s = upd_func s (0, 1, 0) (\<lambda>fi. fi\<lparr>fi_name := Some ''ahci-hd'', fi_param := Some ''hd:test''\<rparr>);
     (error, s) \<leftarrow> init_pci devs s;
     assert_that (error = 0);
     Some (0, s)
   }"

end
