(* ===== verification/PciCfgrw.thy ===== *)
theory PciCfgrw
  imports PciInit
begin

text \<open>
  Guest accesses: the configuration space (\<^verbatim>\<open>pci_cfgrw\<close> with the special cases for BARs,
  capabilities and the command register), the two mechanisms that lead to it (ports and the
  extended configuration window) and the handlers of the ranges that the BARs decode.
\<close>

section \<open>Reads\<close>

definition pci_emul_is_mfdev :: "('a, 'w) pci_sys \<Rightarrow> nat \<Rightarrow> nat \<Rightarrow> bool option" where
  "pci_emul_is_mfdev s bus slot = do {
     b \<leftarrow> businfo_at s bus;
     case b of
       None \<Rightarrow> Some False
     | Some bi \<Rightarrow> do {
         si \<leftarrow> slot_of bi slot;
         Some (length (filter (\<lambda>fi. fi_devi fi \<noteq> None) (si_funcs si)) > 1)
       }
   }"

definition pci_emul_hdrtype_fixup ::
  "('a, 'w) pci_sys \<Rightarrow> nat \<Rightarrow> nat \<Rightarrow> nat \<Rightarrow> nat \<Rightarrow> u32 \<Rightarrow> u32 option" where
  "pci_emul_hdrtype_fixup s bus slot off bytes rv =
     (if off \<le> PCIR_HDRTYPE \<and> off + bytes > PCIR_HDRTYPE then do {
        mfdev \<leftarrow> pci_emul_is_mfdev s bus slot;
        Some
          (if bytes = 1 \<or> bytes = 2 then
             (let rv = rv AND NOT PCIM_MFDEV in if mfdev then rv OR PCIM_MFDEV else rv)
           else if bytes = 4 then
             (let rv = rv AND NOT (push_bit 16 PCIM_MFDEV)
              in if mfdev then rv OR push_bit 16 PCIM_MFDEV else rv)
           else rv)
      } else Some rv)"

section \<open>Writes to the command and status registers\<close>

text \<open>The loop over the BARs: those whose address space was switched on or off.\<close>

fun cmdsts_bars ::
  "'z pci_space_scheme \<Rightarrow> pci_devinst \<Rightarrow> u32 \<Rightarrow> nat list \<Rightarrow> 'z pci_space_scheme option" where
  "cmdsts_bars s pi changed [] = Some s"
| "cmdsts_bars s pi changed (i # is) = do {
     s \<leftarrow>
       (case bar_type (pi_bar pi ! i) of
          PCIBAR_NONE \<Rightarrow> Some s
        | PCIBAR_MEMHI64 \<Rightarrow> Some s
        | PCIBAR_IO \<Rightarrow>
            if changed AND ucast PCIM_CMD_PORTEN \<noteq> 0 then do {
              en \<leftarrow> porten pi;
              if en then register_bar s pi i else unregister_bar s pi i
            } else Some s
        | _ \<Rightarrow>
            if changed AND ucast PCIM_CMD_MEMEN \<noteq> 0 then do {
              en \<leftarrow> memen pi;
              if en then register_bar s pi i else unregister_bar s pi i
            } else Some s);
     cmdsts_bars s pi changed is
   }"

definition pci_emul_cmdsts_write ::
  "'z pci_space_scheme \<Rightarrow> pci_devinst \<Rightarrow> nat \<Rightarrow> u32 \<Rightarrow> nat \<Rightarrow>
     ('z pci_space_scheme \<times> pci_devinst) option" where
  "pci_emul_cmdsts_write s pi coff new bytes = do {
     cmd \<leftarrow> pci_get_cfgdata16 pi PCIR_COMMAND;
     let rshift = (coff mod 4) * 8;
     let readonly = drop_bit rshift (0xFFFFF880 :: u32);
     old \<leftarrow> CFGREAD pi coff bytes;
     let new = (new AND NOT readonly) OR (old AND readonly);
     pi \<leftarrow> CFGWRITE pi coff new bytes;
     cmd2 \<leftarrow> pci_get_cfgdata16 pi PCIR_COMMAND;
     let changed = ucast (cmd XOR cmd2);
     assert_that (length (pi_bar pi) = PCI_BARMAX + 1);
     s \<leftarrow> cmdsts_bars s pi changed [0..<PCI_BARMAX + 1];
     pi \<leftarrow> pci_lintr_update pi;
     Some (s, pi)
   }"

section \<open>Writes to a BAR register\<close>

text \<open>The switch over the type of the BAR: the new state, the instance and the register value.\<close>

definition bar_select ::
  "'z pci_space_scheme \<Rightarrow> pci_devinst \<Rightarrow> nat \<Rightarrow> u32 \<Rightarrow>
     ('z pci_space_scheme \<times> pci_devinst \<times> u64) option" where
  "bar_select s pi idx eax = do {
     let b = pi_bar pi ! idx;
     let bmask = NOT (bar_size b - 1);
     case bar_type b of
       PCIBAR_NONE \<Rightarrow> Some (s, set_bar pi idx (b\<lparr>bar_addr := 0\<rparr>), 0)
     | PCIBAR_IO \<Rightarrow> do {
         let addr = (ucast eax AND bmask) AND 0xffff;
         let bar = addr OR PCIM_BAR_IO_SPACE;
         (s, pi) \<leftarrow>
           (if addr \<noteq> bar_addr b then update_bar_address s pi addr idx PCIBAR_IO
            else Some (s, pi));
         Some (s, pi, bar)
       }
     | PCIBAR_MEM32 \<Rightarrow> do {
         let addr = ucast eax AND bmask;
         let bar = addr OR (PCIM_BAR_MEM_SPACE OR PCIM_BAR_MEM_32);
         (s, pi) \<leftarrow>
           (if addr \<noteq> bar_addr b then update_bar_address s pi addr idx PCIBAR_MEM32
            else Some (s, pi));
         Some (s, pi, bar)
       }
     | PCIBAR_MEM64 \<Rightarrow> do {
         let addr = ucast eax AND bmask;
         let bar = addr OR (PCIM_BAR_MEM_SPACE OR PCIM_BAR_MEM_64 OR PCIM_BAR_MEM_PREFETCH);
         (s, pi) \<leftarrow>
           (if addr \<noteq> ucast (ucast (bar_addr b) :: u32) then
              update_bar_address s pi addr idx PCIBAR_MEM64
            else Some (s, pi));
         Some (s, pi, bar)
       }
     | PCIBAR_MEMHI64 \<Rightarrow> do {
         assert_that (idx > 0);
         let lo = pi_bar pi ! (idx - 1);
         let bmask = NOT (bar_size lo - 1);
         let addr = push_bit 32 (ucast eax) AND bmask;
         let bar = drop_bit 32 addr;
         (s, pi) \<leftarrow>
           (if bar \<noteq> drop_bit 32 (bar_addr lo) then
              update_bar_address s pi addr (idx - 1) PCIBAR_MEMHI64
            else Some (s, pi));
         Some (s, pi, bar)
       }
   }"

definition bar_write ::
  "'z pci_space_scheme \<Rightarrow> pci_devinst \<Rightarrow> nat \<Rightarrow> nat \<Rightarrow> u32 \<Rightarrow>
     ('z pci_space_scheme \<times> pci_devinst) option" where
  "bar_write s pi coff bytes eax =
     (if bytes \<noteq> 4 \<or> coff mod 4 \<noteq> 0 then Some (s, pi)
      else do {
        let idx = (coff - PCIR_BAR 0) div 4;
        assert_that (idx < length (pi_bar pi));
        (s, pi, bar) \<leftarrow> bar_select s pi idx eax;
        pi \<leftarrow> pci_set_cfgdata32 pi coff (ucast bar);
        Some (s, pi)
      })"

section \<open>Configuration accesses\<close>

text \<open>The default handling of a write, by the register it addresses.\<close>

definition cfg_write_default ::
  "'z pci_space_scheme \<Rightarrow> pci_devinst \<Rightarrow> nat \<Rightarrow> nat \<Rightarrow> u32 \<Rightarrow>
     ('z pci_space_scheme \<times> pci_devinst) option" where
  "cfg_write_default s pi coff bytes eax =
     (if PCIR_BAR 0 \<le> coff \<and> coff < PCIR_BAR (PCI_BARMAX + 1) then bar_write s pi coff bytes eax
      else do {
        iscap \<leftarrow> pci_emul_iscap pi coff;
        if iscap then do {
          pi \<leftarrow> pci_emul_capwrite pi coff bytes eax;
          Some (s, pi)
        } else if PCIR_COMMAND \<le> coff \<and> coff < PCIR_REVID then
          pci_emul_cmdsts_write s pi coff eax bytes
        else do {
          pi \<leftarrow> CFGWRITE pi coff eax bytes;
          Some (s, pi)
        }
      })"

text \<open>Returns the new \<^verbatim>\<open>*eax\<close> and the state; \<open>inp\<close> is the argument \<^verbatim>\<open>in\<close>.\<close>

definition pci_cfgrw ::
  "('a, 'w) pci_devemu list \<Rightarrow> ('a, 'w) pci_sys \<Rightarrow> bool \<Rightarrow> nat \<Rightarrow> nat \<Rightarrow> nat \<Rightarrow> nat \<Rightarrow> nat \<Rightarrow> u32 \<Rightarrow>
     (u32 \<times> ('a, 'w) pci_sys) option" where
  "pci_cfgrw devs s inp bus slot func coff bytes eax = do {
     pi \<leftarrow> dev_at s (bus, slot, func);
     if pi = None \<or> (bytes \<noteq> 1 \<and> bytes \<noteq> 2 \<and> bytes \<noteq> 4) \<or> int coff AND (int bytes - 1) \<noteq> 0 then
       Some (if inp then 0xffffffff else eax, s)
     else if coff \<ge> PCI_REGMAX + 1 then
       Some (if inp then (if coff \<le> PCI_REGMAX + 4 then 0 else 0xffffffff) else eax, s)
     else do {
       d \<leftarrow> pi;
       pe \<leftarrow> pci_emul_finddev devs (dev_emu d);
       if inp then do {
         (needcfg, eax, s, d) \<leftarrow>
           (case pe_cfgread pe of
              Some cfgread \<Rightarrow> cfgread s d coff bytes eax
            | None \<Rightarrow> Some (1, eax, s, d));
         eax \<leftarrow> (if needcfg \<noteq> 0 then CFGREAD (dev_pi d) coff bytes else Some eax);
         let s = set_dev s (bus, slot, func) d;
         eax \<leftarrow> pci_emul_hdrtype_fixup s bus slot coff bytes eax;
         Some (eax, s)
       }
       else do {
         (ret, s, d) \<leftarrow>
           (case pe_cfgwrite pe of
              Some cfgwrite \<Rightarrow> cfgwrite s d coff bytes eax
            | None \<Rightarrow> Some (1, s, d));
         if ret = 0 then Some (eax, set_dev s (bus, slot, func) d)
         else do {
           (s, pi) \<leftarrow> cfg_write_default s (dev_pi d) coff bytes eax;
           Some (eax, set_dev s (bus, slot, func) (d\<lparr>dev_pi := pi\<rparr>))
         }
       }
     }
   }"

definition bhyve_pci_cfgrw ::
  "('a, 'w) pci_devemu list \<Rightarrow> ('a, 'w) pci_sys \<Rightarrow> bool \<Rightarrow> nat \<Rightarrow> nat \<Rightarrow> nat \<Rightarrow> nat \<Rightarrow> nat \<Rightarrow> u32 \<Rightarrow>
     (u32 \<times> ('a, 'w) pci_sys) option" where
  "bhyve_pci_cfgrw devs s inp bnum snum fnum coff bytes val =
     pci_cfgrw devs s inp bnum snum fnum coff bytes val"

section \<open>Ports\<close>

text \<open>The state of configuration mechanism 1.\<close>

record conf1 =
  cfgenable :: bool
  cfgbus :: u32
  cfgslot :: u32
  cfgfunc :: u32
  cfgoff :: u32

abbreviation (input) "CONF1_DATA_PORT \<equiv> (0xcfc::nat)"
abbreviation (input) "CONF1_ENABLE \<equiv> (0x80000000::u32)"

definition pci_emul_cfgaddr :: "conf1 \<Rightarrow> bool \<Rightarrow> nat \<Rightarrow> u32 \<Rightarrow> u32 \<times> conf1" where
  "pci_emul_cfgaddr c inp bytes eax =
     (if bytes \<noteq> 4 then (if inp then (if bytes = 2 then 0xffff else 0xff) else eax, c)
      else if inp then
        (let x = push_bit 16 (cfgbus c) OR push_bit 11 (cfgslot c) OR push_bit 8 (cfgfunc c) OR cfgoff c
         in (if cfgenable c then x OR CONF1_ENABLE else x, c))
      else
        (eax, \<lparr>cfgenable = (eax AND CONF1_ENABLE = CONF1_ENABLE),
           cfgbus = drop_bit 16 eax AND of_nat PCI_BUSMAX,
           cfgslot = drop_bit 11 eax AND of_nat PCI_SLOTMAX,
           cfgfunc = drop_bit 8 eax AND of_nat PCI_FUNCMAX,
           cfgoff = eax AND of_nat PCI_REGMAX\<rparr>))"

definition pci_emul_cfgdata ::
  "('a, 'w) pci_devemu list \<Rightarrow> ('a, 'w) pci_sys \<Rightarrow> conf1 \<Rightarrow> bool \<Rightarrow> nat \<Rightarrow> nat \<Rightarrow> u32 \<Rightarrow>
     (u32 \<times> ('a, 'w) pci_sys) option" where
  "pci_emul_cfgdata devs s c inp port bytes eax = do {
     assert_that (bytes = 1 \<or> bytes = 2 \<or> bytes = 4);
     let coff = unat (cfgoff c) + (port - CONF1_DATA_PORT);
     if cfgenable c then
       pci_cfgrw devs s inp (unat (cfgbus c)) (unat (cfgslot c)) (unat (cfgfunc c)) coff bytes eax
     else Some (if inp then 0xffffffff else eax, s)
   }"

section \<open>Handlers\<close>

definition pci_emul_ecfg_handler ::
  "('a, 'w) pci_devemu list \<Rightarrow> ('a, 'w) pci_sys \<Rightarrow> u32 \<Rightarrow> u64 \<Rightarrow> nat \<Rightarrow> u64 \<Rightarrow>
     (int \<times> u64 \<times> ('a, 'w) pci_sys) option" where
  "pci_emul_ecfg_handler devs s dir addr bytes val = do {
     let coff = unat (addr AND 0xfff);
     let func = unat (drop_bit 12 addr AND 0x7);
     let slot = unat (drop_bit 15 addr AND 0x1f);
     let bus = unat (drop_bit 20 addr AND 0xff);
     let inp = (dir = MEM_F_READ);
     let val = (if inp then - 1 else val);
     (eax, s) \<leftarrow> pci_cfgrw devs s inp bus slot func coff bytes (ucast val);
     Some (0, (val AND NOT 0xffffffff) OR ucast eax, s)
   }"

text \<open>A call of the driver, with the instance and the world it works on.\<close>

definition call_barwrite ::
  "('a, 'w) pci_devemu \<Rightarrow> ('a, 'w) pci_sys \<Rightarrow> pci_ref \<Rightarrow> 'a pci_dev \<Rightarrow> nat \<Rightarrow> u64 \<Rightarrow> nat \<Rightarrow> u64 \<Rightarrow>
     (('a, 'w) pci_sys \<times> 'a pci_dev) option" where
  "call_barwrite pe s ref d bidx offset sz val = do {
     (w, d) \<leftarrow> pe_barwrite pe (sys_world s) d bidx offset sz val;
     Some (set_dev (s\<lparr>sys_world := w\<rparr>) ref d, d)
   }"

definition call_barread ::
  "('a, 'w) pci_devemu \<Rightarrow> ('a, 'w) pci_sys \<Rightarrow> pci_ref \<Rightarrow> 'a pci_dev \<Rightarrow> nat \<Rightarrow> u64 \<Rightarrow> nat \<Rightarrow>
     (u64 \<times> ('a, 'w) pci_sys \<times> 'a pci_dev) option" where
  "call_barread pe s ref d bidx offset sz = do {
     (v, w, d) \<leftarrow> pe_barread pe (sys_world s) d bidx offset sz;
     Some (v, set_dev (s\<lparr>sys_world := w\<rparr>) ref d, d)
   }"

definition pci_emul_mem_handler ::
  "('a, 'w) pci_devemu list \<Rightarrow> ('a, 'w) pci_sys \<Rightarrow> u32 \<Rightarrow> u64 \<Rightarrow> nat \<Rightarrow> u64 \<Rightarrow> pci_ref option \<Rightarrow> int \<Rightarrow>
     (int \<times> u64 \<times> ('a, 'w) pci_sys) option" where
  "pci_emul_mem_handler devs s dir addr sz val arg1 arg2 = do {
     ref \<leftarrow> arg1;
     p \<leftarrow> dev_at s ref;
     d \<leftarrow> p;
     pe \<leftarrow> pci_emul_finddev devs (dev_emu d);
     assert_that (0 \<le> arg2 \<and> arg2 \<le> int PCI_BARMAX);
     let bidx = nat arg2;
     let b = pi_bar (dev_pi d) ! bidx;
     assert_that (bar_type b = PCIBAR_MEM32 \<or> bar_type b = PCIBAR_MEM64);
     assert_that (addr \<ge> bar_addr b \<and> addr + of_nat sz \<le> bar_addr b + bar_size b);
     let offset = addr - bar_addr b;
     if dir = MEM_F_WRITE then
       (if sz = 8 then do {
          (s, d) \<leftarrow> call_barwrite pe s ref d bidx offset 4 (val AND 0xffffffff);
          (s, d) \<leftarrow> call_barwrite pe s ref d bidx (offset + 4) 4 (drop_bit 32 val);
          Some (0, val, s)
        } else do {
          (s, d) \<leftarrow> call_barwrite pe s ref d bidx offset sz val;
          Some (0, val, s)
        })
     else
       (if sz = 8 then do {
          (lo, s, d) \<leftarrow> call_barread pe s ref d bidx offset 4;
          (hi, s, d) \<leftarrow> call_barread pe s ref d bidx (offset + 4) 4;
          Some (0, lo OR push_bit 32 hi, s)
        } else do {
          (v, s, d) \<leftarrow> call_barread pe s ref d bidx offset sz;
          Some (0, v, s)
        })
   }"

text \<open>The port handler: the first I/O BAR that contains the access; no BAR is -1.\<close>

fun io_bar :: "pcibar list \<Rightarrow> nat \<Rightarrow> int \<Rightarrow> nat \<Rightarrow> nat option" where
  "io_bar [] i port bytes = None"
| "io_bar (b # bs) i port bytes =
     (if bar_type b = PCIBAR_IO \<and> word_of_int port \<ge> bar_addr b \<and>
         word_of_int (port + int bytes) \<le> bar_addr b + bar_size b
      then Some i else io_bar bs (Suc i) port bytes)"

definition pci_emul_io_handler ::
  "('a, 'w) pci_devemu list \<Rightarrow> ('a, 'w) pci_sys \<Rightarrow> bool \<Rightarrow> int \<Rightarrow> nat \<Rightarrow> u32 \<Rightarrow> pci_ref \<Rightarrow>
     (int \<times> u32 \<times> ('a, 'w) pci_sys) option" where
  "pci_emul_io_handler devs s inp port bytes eax ref = do {
     p \<leftarrow> dev_at s ref;
     d \<leftarrow> p;
     pe \<leftarrow> pci_emul_finddev devs (dev_emu d);
     case io_bar (pi_bar (dev_pi d)) 0 port bytes of
       None \<Rightarrow> Some (- 1, eax, s)
     | Some i \<Rightarrow> do {
         let offset = word_of_int port - bar_addr (pi_bar (dev_pi d) ! i);
         if inp then do {
           (v, s, d) \<leftarrow> call_barread pe s ref d i offset bytes;
           Some (0, ucast v, s)
         } else do {
           (s, d) \<leftarrow> call_barwrite pe s ref d i offset bytes (ucast eax);
           Some (0, eax, s)
         }
       }
   }"

text \<open>The call through the function pointer of a range.\<close>

definition pci_mem_func ::
  "('a, 'w) pci_devemu list \<Rightarrow> (mem_handler_fn, pci_ref, ('a, 'w) pci_sys) mem_func" where
  "pci_mem_func devs h s vcpu dir addr sz val arg1 arg2 =
     (case h of
        Pci_emul_mem_handler \<Rightarrow> pci_emul_mem_handler devs s dir addr sz val arg1 arg2
      | Pci_emul_ecfg_handler \<Rightarrow> pci_emul_ecfg_handler devs s dir addr sz val)"

end
