(* ===== verification/PciCapProps.thy ===== *)
theory PciCapProps
  imports PciCap
begin

text \<open>
  Correctness of the capability list: the list that \<^verbatim>\<open>pci_emul_add_capability\<close> builds is well
  formed, every search in it ends, and no guest write can change a capability identifier or a
  next pointer or leave the capability it addresses.
\<close>

section \<open>Well-formed capability lists\<close>

fun cap_links :: "u8 list \<Rightarrow> nat list \<Rightarrow> bool" where
  "cap_links cfg [] \<longleftrightarrow> True"
| "cap_links cfg [c] \<longleftrightarrow> cfg ! (c + 1) = 0"
| "cap_links cfg (c # d # cs) \<longleftrightarrow>
     unat (cfg ! (c + 1)) = d \<and> c + 4 \<le> d \<and> cap_links cfg (d # cs)"

definition cap_present :: "pci_devinst \<Rightarrow> bool" where
  "cap_present pi \<longleftrightarrow> get_le16 (pi_cfgdata pi) PCIR_STATUS AND PCIM_STATUS_CAPPRESENT \<noteq> 0"

text \<open>\<open>caps_ok pi cs\<close>: the capabilities of the device start at the offsets \<open>cs\<close>.\<close>

definition cap_at :: "pci_devinst \<Rightarrow> nat \<Rightarrow> bool" where
  "cap_at pi c \<longleftrightarrow> c mod 4 = 0 \<and> CAP_START_OFFSET \<le> c \<and> c + 4 \<le> pi_capend pi + 1 \<and>
     (pi_cfgdata pi ! c = PCIY_MSI \<longrightarrow> c + 16 \<le> PCI_REGMAX + 1)"

definition caps_ok :: "pci_devinst \<Rightarrow> nat list \<Rightarrow> bool" where
  "caps_ok pi cs \<longleftrightarrow> devinst_ok pi \<and> (cap_present pi \<longleftrightarrow> cs \<noteq> []) \<and>
     cap_links (pi_cfgdata pi) cs \<and> (\<forall>c\<in>set cs. cap_at pi c) \<and>
     (cs \<noteq> [] \<longrightarrow> hd cs = CAP_START_OFFSET \<and> pi_prevcap pi = last cs \<and>
        pi_capend pi \<le> PCI_REGMAX \<and> pi_capend pi mod 4 = 3)"

lemma iscap_eq:
  "pci_emul_iscap pi offset =
     Some (cap_present pi \<and> CAP_START_OFFSET \<le> offset \<and> offset \<le> pi_capend pi)"
  by (simp add: pci_emul_iscap_def pci_get_cfgdata16_def cap_present_def assert_that_bind)

lemma cap_links_sorted: "cap_links cfg (c # cs) \<Longrightarrow> d \<in> set cs \<Longrightarrow> c + 4 \<le> d"
proof (induction cs arbitrary: c)
  case Nil
  then show ?case by simp
next
  case (Cons e cs)
  then have "c + 4 \<le> e" "cap_links cfg (e # cs)" by simp_all
  with Cons show ?case by (cases "d = e") fastforce+
qed

lemma cap_links_same:
  "(\<And>c. c \<in> set cs \<Longrightarrow> cfg' ! (c + 1) = cfg ! (c + 1)) \<Longrightarrow> cap_links cfg' cs = cap_links cfg cs"
  by (induction cfg cs rule: cap_links.induct) auto

text \<open>Appending a capability after the last one.\<close>

lemma cap_links_append:
  assumes "cap_links cfg cs" "cs \<noteq> []"
    and "\<And>c. c \<in> set cs \<Longrightarrow> c \<noteq> last cs \<Longrightarrow> cfg' ! (c + 1) = cfg ! (c + 1)"
    and "unat (cfg' ! (last cs + 1)) = n" "last cs + 4 \<le> n" "cfg' ! (n + 1) = 0"
  shows "cap_links cfg' (cs @ [n])"
  using assms
proof (induction cfg cs rule: cap_links.induct)
  case (3 cfg c d cs)
  have "c + 4 \<le> last (d # cs)"
    using cap_links_sorted [OF "3.prems"(1)] last_in_set [of "d # cs"] by blast
  then have "c \<noteq> last (d # cs)" by linarith
  with 3 show ?case by simp
qed auto

section \<open>The search\<close>

lemma find_capability_links:
  assumes "cap_links (pi_cfgdata pi) (c # cs)" "c \<le> offset" "\<And>d. d \<in> set (c # cs) \<Longrightarrow> d < PCI_REGMAX"
  shows "\<exists>d\<in>set (c # cs). find_capability pi offset (of_nat c) = Some (of_nat d) \<and> d \<le> offset \<and>
    (\<forall>e\<in>set (c # cs). e \<le> d \<or> offset < e)"
  using assms
proof (induction cs arbitrary: c)
  case Nil
  then have "unat (of_nat c :: u8) = c" by (simp add: unat_of_nat)
  with Nil show ?case
    by (subst find_capability.simps) (simp add: pci_get_cfgdata8_def)
next
  case (Cons n cs)
  have bounds: "c < 255" "n < 255" using Cons.prems(3) by simp_all
  then have c: "unat (of_nat c :: u8) = c" by (simp add: unat_of_nat)
  have next_ptr: "unat (pi_cfgdata pi ! (c + 1)) = n" "c + 4 \<le> n" using Cons.prems(1) by simp_all
  then have n: "pi_cfgdata pi ! (c + 1) = of_nat n" by (simp flip: next_ptr(1))
  have n0: "(of_nat n :: u8) \<noteq> 0"
    using next_ptr n by (metis add_is_0 le_zero_eq unat_0 zero_neq_numeral)
  have step: "find_capability pi offset (of_nat c) =
      (if offset < n then Some (of_nat c) else find_capability pi offset (of_nat n))"
    using bounds c n n0 next_ptr Cons.prems(2)
    by (subst find_capability.simps) (simp add: pci_get_cfgdata8_def)
  show ?case
  proof (cases "offset < n")
    case True
    have "\<forall>e\<in>set (n # cs). n \<le> e"
      using Cons.prems(1) cap_links_sorted [of "pi_cfgdata pi" n cs] by fastforce
    with True step Cons.prems(2) show ?thesis by (intro bexI [of _ c]) fastforce+
  next
    case False
    have "cap_links (pi_cfgdata pi) (n # cs)" using Cons.prems(1) by simp
    then obtain d where
      d: "d \<in> set (n # cs)" "find_capability pi offset (of_nat n) = Some (of_nat d)" "d \<le> offset"
        "\<forall>e\<in>set (n # cs). e \<le> d \<or> offset < e"
      using Cons.IH [of n] False Cons.prems(3) by (meson leI list.set_intros(2))
    have "c \<le> d" using d(1) cap_links_sorted [OF Cons.prems(1)] by fastforce
    with d step False show ?thesis by (intro bexI [of _ d]) auto
  qed
qed

text \<open>The capability that contains an offset of the region.\<close>

definition cap_of :: "nat list \<Rightarrow> nat \<Rightarrow> nat \<Rightarrow> bool" where
  "cap_of cs offset d \<longleftrightarrow> d \<in> set cs \<and> d \<le> offset \<and> (\<forall>e\<in>set cs. e \<le> d \<or> offset < e)"

lemma cap_at_bounds:
  assumes "caps_ok pi cs" "c \<in> set cs"
  shows "c < PCI_REGMAX" "c + 4 \<le> PCI_REGMAX + 1" "c mod 4 = 0" "CAP_START_OFFSET \<le> c"
proof -
  have "cap_at pi c" "pi_capend pi \<le> 255" using assms by (auto simp: caps_ok_def)
  then show "c < PCI_REGMAX" "c + 4 \<le> PCI_REGMAX + 1" "c mod 4 = 0" "CAP_START_OFFSET \<le> c"
    by (auto simp: cap_at_def)
qed

lemma find_capability_ok:
  assumes ok: "caps_ok pi cs" and ne: "cs \<noteq> []" and off: "CAP_START_OFFSET \<le> offset"
  shows "\<exists>d. find_capability pi offset (of_nat CAP_START_OFFSET) = Some (of_nat d) \<and>
    unat (of_nat d :: u8) = d \<and> cap_of cs offset d"
proof -
  obtain c ds where cs: "cs = c # ds" "c = CAP_START_OFFSET"
    using ok ne by (cases cs) (auto simp: caps_ok_def)
  have links: "cap_links (pi_cfgdata pi) (c # ds)" using ok cs by (simp add: caps_ok_def)
  have bound: "\<And>d. d \<in> set (c # ds) \<Longrightarrow> d < PCI_REGMAX"
    using cap_at_bounds(1) [OF ok] cs(1) by blast
  have "c \<le> offset" using off cs(2) by simp
  from find_capability_links [OF links this bound] cs(1) obtain d where
    d: "d \<in> set cs" "find_capability pi offset (of_nat c) = Some (of_nat d)" "d \<le> offset"
       "\<forall>e\<in>set cs. e \<le> d \<or> offset < e"
    by blast
  moreover have "unat (of_nat d :: u8) = d"
    using cap_at_bounds(1) [OF ok d(1)] by (simp add: unat_of_nat)
  ultimately show ?thesis
    unfolding cs(2) cap_of_def by blast
qed

section \<open>Guest writes\<close>

text \<open>What a write to the bytes from \<open>lo\<close> to \<open>hi\<close> leaves alone.\<close>

definition cfg_frame :: "nat \<Rightarrow> nat \<Rightarrow> pci_devinst \<Rightarrow> pci_devinst \<Rightarrow> bool" where
  "cfg_frame lo hi pi pi' \<longleftrightarrow>
     length (pi_cfgdata pi') = length (pi_cfgdata pi) \<and>
     (\<forall>i. i < lo \<or> hi \<le> i \<longrightarrow> pi_cfgdata pi' ! i = pi_cfgdata pi ! i) \<and>
     pi_bar pi' = pi_bar pi \<and> pi_prevcap pi' = pi_prevcap pi \<and> pi_capend pi' = pi_capend pi \<and>
     pi_name pi' = pi_name pi \<and> lintr_pin (pi_lintr pi') = lintr_pin (pi_lintr pi) \<and>
     lintr_lock (pi_lintr pi') = lintr_lock (pi_lintr pi) \<and>
     pi_bus pi' = pi_bus pi \<and> pi_slot pi' = pi_slot pi \<and> pi_func pi' = pi_func pi"

lemma cfg_frame_refl [simp]: "cfg_frame lo hi pi pi"
  by (simp add: cfg_frame_def)

lemma cfg_frame_trans: "cfg_frame lo hi p q \<Longrightarrow> cfg_frame lo hi q r \<Longrightarrow> cfg_frame lo hi p r"
  by (auto simp: cfg_frame_def)

lemma cfg_frame_lintr: "lintr_frame p q \<Longrightarrow> cfg_frame lo hi p q"
  by (auto simp: lintr_frame_def cfg_frame_def)

lemma cfg_frame_mono: "cfg_frame lo hi p q \<Longrightarrow> lo' \<le> lo \<Longrightarrow> hi \<le> hi' \<Longrightarrow> cfg_frame lo' hi' p q"
  by (auto simp: cfg_frame_def)

definition access_width_ok :: "nat \<Rightarrow> bool" where
  "access_width_ok bytes \<longleftrightarrow> bytes = 1 \<or> bytes = 2 \<or> bytes = 4"

lemma CFGWRITE_ok:
  assumes "access_width_ok bytes" "offset mod bytes = 0" "offset + bytes \<le> PCI_REGMAX + 1"
  shows "\<exists>cfg. CFGWRITE pi offset val bytes = Some (pi\<lparr>pi_cfgdata := cfg\<rparr>) \<and>
    cfg_frame offset (offset + bytes) pi (pi\<lparr>pi_cfgdata := cfg\<rparr>)"
proof -
  consider "bytes = 1" | "bytes = 2" | "bytes = 4" using assms(1) by (auto simp: access_width_ok_def)
  then show ?thesis
  proof cases
    case 1
    with assms show ?thesis
      by (intro exI [of _ "(pi_cfgdata pi)[offset := ucast val]"])
        (simp add: CFGWRITE_def pci_set_cfgdata8_def cfg_frame_def)
  next
    case 2
    with assms show ?thesis
      by (intro exI [of _ "put_le16 (pi_cfgdata pi) offset (ucast val)"])
        (simp add: CFGWRITE_def pci_set_cfgdata16_def cfg_frame_def)
  next
    case 3
    with assms show ?thesis
      by (intro exI [of _ "put_le32 (pi_cfgdata pi) offset val"])
        (simp add: CFGWRITE_def pci_set_cfgdata32_def cfg_frame_def nth_put_le32_other)
  qed
qed

lemma lintr_ok_cfg:
  assumes "lintr_ok pi" "cfg_frame lo hi pi (pi\<lparr>pi_cfgdata := cfg\<rparr>)" "6 \<le> lo"
  shows "lintr_ok (pi\<lparr>pi_cfgdata := cfg\<rparr>)"
proof -
  have "get_le16 cfg PCIR_COMMAND = get_le16 (pi_cfgdata pi) PCIR_COMMAND"
    using assms(2,3) by (simp add: cfg_frame_def get_le16_def)
  with assms(1,2) show ?thesis
    by (simp add: lintr_defs known_irq_def permitted_def cfg_frame_def)
qed

text \<open>A change of the enables followed by an update, then the write itself.\<close>

lemma update_then_write:
  assumes "lintr_wf pi" "cfg_frame lo hi pi0 pi" "lo = offset" "hi = offset + bytes"
    and "access_width_ok bytes" "offset mod bytes = 0" "offset + bytes \<le> PCI_REGMAX + 1" "6 \<le> offset"
  shows "\<exists>pi1 pi2. pci_lintr_update pi = Some pi1 \<and> CFGWRITE pi1 offset val bytes = Some pi2 \<and>
    lintr_ok pi2 \<and> cfg_frame lo hi pi0 pi2"
proof -
  obtain pi1 where pi1: "pci_lintr_update pi = Some pi1" "lintr_ok pi1" "lintr_frame pi pi1"
    using lintr_update_establishes [OF assms(1)] by blast
  obtain cfg where cfg: "CFGWRITE pi1 offset val bytes = Some (pi1\<lparr>pi_cfgdata := cfg\<rparr>)"
      "cfg_frame offset (offset + bytes) pi1 (pi1\<lparr>pi_cfgdata := cfg\<rparr>)"
    using CFGWRITE_ok [OF assms(5-7)] by blast
  have "cfg_frame lo hi pi0 (pi1\<lparr>pi_cfgdata := cfg\<rparr>)"
    using cfg_frame_trans [OF assms(2) cfg_frame_trans [OF cfg_frame_lintr [OF pi1(3)]]] cfg(2)
      assms(3,4) by blast
  with pi1 cfg lintr_ok_cfg [OF pi1(2) cfg(2) assms(8)] show ?thesis by blast
qed

lemma cfg_frame_msi: "cfg_frame lo hi pi (pi\<lparr>pi_msi := m\<rparr>)" "cfg_frame lo hi pi (pi\<lparr>pi_msix := x\<rparr>)"
  by (simp_all add: cfg_frame_def)

lemma lintr_wf_msi:
  "lintr_wf (pi\<lparr>pi_msi := m\<rparr>) = lintr_wf pi" "lintr_wf (pi\<lparr>pi_msix := x\<rparr>) = lintr_wf pi"
  by (simp_all add: lintr_wf_def devinst_ok_def known_irq_def)

lemma plain_write:
  assumes "lintr_ok pi" "access_width_ok bytes" "offset mod bytes = 0"
    "offset + bytes \<le> PCI_REGMAX + 1" "6 \<le> offset"
  shows "\<exists>pi2. CFGWRITE pi offset val bytes = Some pi2 \<and> lintr_ok pi2 \<and>
    cfg_frame offset (offset + bytes) pi pi2"
  using CFGWRITE_ok [OF assms(2-4), of pi val] lintr_ok_cfg [OF assms(1) _ assms(5)] by blast

lemma msixcap_cfgwrite_ok:
  assumes "lintr_ok pi" "access_width_ok bytes" "offset mod bytes = 0"
    "offset + bytes \<le> PCI_REGMAX + 1" "6 \<le> offset"
  shows "\<exists>pi'. msixcap_cfgwrite pi capoff offset bytes val = Some pi' \<and> lintr_ok pi' \<and>
    cfg_frame offset (offset + bytes) pi pi'"
proof (cases "int offset - int capoff = 2 \<and> bytes = 2")
  case True
  have wf: "lintr_wf pi" using assms(1) by (simp add: lintr_ok_def)
  let ?m = "get_le16 (pi_cfgdata pi) offset AND NOT (0x8000 OR 0x4000) OR ucast val AND (0x8000 OR 0x4000)"
  let ?pi = "pi\<lparr>pi_msix := (pi_msix pi)\<lparr>msix_enabled := uint (?m AND 0x8000),
    msix_function_mask := uint (?m AND 0x4000)\<rparr>\<rparr>"
  from assms True have g: "pci_get_cfgdata16 pi offset = Some (get_le16 (pi_cfgdata pi) offset)"
    by (auto simp: pci_get_cfgdata16_def)
  from update_then_write [of ?pi offset "offset + bytes" pi offset bytes "ucast ?m"]
  show ?thesis
    using True assms wf g unfolding msixcap_cfgwrite_def
    by (auto simp: lintr_wf_msi cfg_frame_msi Let_def)
next
  case False
  with plain_write [OF assms] show ?thesis
    unfolding msixcap_cfgwrite_def by (simp add: if_not_P)
qed

lemma msicap_cfgwrite_ok:
  assumes "lintr_ok pi" "access_width_ok bytes" "offset mod bytes = 0"
    "offset + bytes \<le> PCI_REGMAX + 1" "6 \<le> offset"
    and cap: "capoff mod 4 = 0" "capoff + 16 \<le> PCI_REGMAX + 1"
  shows "\<exists>pi'. msicap_cfgwrite pi capoff offset bytes val = Some pi' \<and> lintr_ok pi' \<and>
    cfg_frame offset (offset + bytes) pi pi'"
proof (cases "int offset - int capoff = 2 \<and> bytes = 2")
  case True
  have wf: "lintr_wf pi" using assms(1) by (simp add: lintr_ok_def)
  have g: "pci_get_cfgdata16 pi offset = Some (get_le16 (pi_cfgdata pi) offset)"
      "pci_get_cfgdata32 pi (capoff + 4) = Some (get_le32 (pi_cfgdata pi) (capoff + 4))"
      "pci_get_cfgdata16 pi (capoff + 12) = Some (get_le16 (pi_cfgdata pi) (capoff + 12))"
      "pci_get_cfgdata16 pi (capoff + 8) = Some (get_le16 (pi_cfgdata pi) (capoff + 8))"
    using assms True by (auto simp: pci_get_cfgdata16_def pci_get_cfgdata32_def)
  have "\<exists>pi'. Option.bind (pci_lintr_update (pi\<lparr>pi_msi := m\<rparr>))
      (\<lambda>pi. CFGWRITE pi offset v bytes) = Some pi' \<and> lintr_ok pi' \<and>
      cfg_frame offset (offset + bytes) pi pi'" for m v
    using update_then_write [of "pi\<lparr>pi_msi := m\<rparr>" offset "offset + bytes" pi offset bytes v] assms wf
    by (auto simp: lintr_wf_msi cfg_frame_msi)
  then show ?thesis
    using True g unfolding msicap_cfgwrite_def by (simp add: Let_def)
next
  case False
  with plain_write [OF assms(1-5)] show ?thesis
    unfolding msicap_cfgwrite_def by (simp add: if_not_P)
qed

text \<open>Invariance of the list under a write inside one capability, behind its header.\<close>

lemma caps_ok_frame:
  assumes ok: "caps_ok pi cs" and fr: "cfg_frame lo hi pi pi'" and lo: "PCIR_STATUS + 2 \<le> lo"
    and hdr: "\<And>c. c \<in> set cs \<Longrightarrow> hi \<le> c \<or> c + 2 \<le> lo"
  shows "caps_ok pi' cs" "\<And>c. c \<in> set cs \<Longrightarrow> pi_cfgdata pi' ! c = pi_cfgdata pi ! c \<and>
    pi_cfgdata pi' ! (c + 1) = pi_cfgdata pi ! (c + 1)"
proof -
  have keep: "i < lo \<or> hi \<le> i \<Longrightarrow> pi_cfgdata pi' ! i = pi_cfgdata pi ! i" for i
    using fr by (auto simp: cfg_frame_def)
  have *: "pi_cfgdata pi' ! c = pi_cfgdata pi ! c \<and>
      pi_cfgdata pi' ! (c + 1) = pi_cfgdata pi ! (c + 1)" if "c \<in> set cs" for c
    using hdr [OF that] keep [of c] keep [of "c + 1"] by linarith
  then show "\<And>c. c \<in> set cs \<Longrightarrow> pi_cfgdata pi' ! c = pi_cfgdata pi ! c \<and>
    pi_cfgdata pi' ! (c + 1) = pi_cfgdata pi ! (c + 1)" .
  have "cap_links (pi_cfgdata pi') cs"
    using ok * cap_links_same [of cs "pi_cfgdata pi'" "pi_cfgdata pi"] by (simp add: caps_ok_def)
  moreover have "\<forall>c\<in>set cs. cap_at pi' c"
    using ok fr * by (simp add: caps_ok_def cap_at_def cfg_frame_def)
  moreover have "cap_present pi' = cap_present pi"
    using fr lo by (simp add: cap_present_def cfg_frame_def get_le16_def)
  ultimately show "caps_ok pi' cs"
    using ok fr by (simp add: caps_ok_def cfg_frame_def devinst_ok_def)
qed

text \<open>A write that is aligned and lies behind the header of its capability keeps all headers.\<close>

lemma cap_of_headers:
  assumes ok: "caps_ok pi cs" and d: "cap_of cs offset d" "d + 2 \<le> lo" "lo \<le> offset + 2" "lo < d + 4 \<or> lo = offset"
    and al: "access_width_ok bytes" "lo mod bytes = 0" and e: "e \<in> set cs"
  shows "lo + bytes \<le> e \<or> e + 2 \<le> lo"
proof (cases "e \<le> d")
  case True
  with d(2) show ?thesis by linarith
next
  case False
  then have oe: "offset < e" and de: "d < e" using d(1) e by (auto simp: cap_of_def)
  have m: "e mod 4 = 0" "d mod 4 = 0"
    using cap_at_bounds(3) [OF ok] e d(1) by (auto simp: cap_of_def)
  from de m have "d + 4 \<le> e" by presburger
  with d(4) oe have "lo < e" by linarith
  with m al have "lo + bytes \<le> e" by (auto simp: access_width_ok_def) presburger+
  then show ?thesis ..
qed

text \<open>The write that follows the search, by the kind of the capability.\<close>

lemma cap_dispatch:
  assumes ok: "caps_ok pi cs" and line: "lintr_ok pi" and d: "d \<in> set cs"
    and w: "access_width_ok bytes" "off mod bytes = 0" "off + bytes \<le> PCI_REGMAX + 1" "6 \<le> off"
  shows "\<exists>pi'. Option.bind (pci_get_cfgdata8 pi d) (\<lambda>capid.
       if capid = PCIY_MSI then msicap_cfgwrite pi d off bytes val
       else if capid = PCIY_MSIX then msixcap_cfgwrite pi d off bytes val
       else if capid = PCIY_EXPRESS then pciecap_cfgwrite pi d off bytes val
       else Some pi) = Some pi' \<and> lintr_ok pi' \<and> cfg_frame off (off + bytes) pi pi'"
proof -
  let ?id = "pi_cfgdata pi ! d"
  have get: "pci_get_cfgdata8 pi d = Some ?id"
    using cap_at_bounds(1) [OF ok d] by (simp add: pci_get_cfgdata8_def)
  have msi: "d mod 4 = 0" "?id = PCIY_MSI \<Longrightarrow> d + 16 \<le> PCI_REGMAX + 1"
    using ok d by (auto simp: caps_ok_def cap_at_def)
  consider "?id = PCIY_MSI" | "?id = PCIY_MSIX" | "?id = PCIY_EXPRESS"
    | "?id \<noteq> PCIY_MSI" "?id \<noteq> PCIY_MSIX" "?id \<noteq> PCIY_EXPRESS" by blast
  then show ?thesis
  proof cases
    case 1
    with get msicap_cfgwrite_ok [OF line w msi(1) msi(2)] show ?thesis by simp
  next
    case 2
    with get msixcap_cfgwrite_ok [OF line w] show ?thesis by simp
  next
    case 3
    with get plain_write [OF line w] show ?thesis by (simp add: pciecap_cfgwrite_def)
  next
    case 4
    with get line show ?thesis by simp
  qed
qed

text \<open>
  The write of the guest: it always returns, changes nothing outside of the capability it
  addresses, keeps the list and all headers, and leaves the interrupt line consistent.
\<close>

lemma capwrite_ok:
  assumes ok: "caps_ok pi cs" and line: "lintr_ok pi" and ne: "cs \<noteq> []"
    and off: "CAP_START_OFFSET \<le> offset" "offset \<le> pi_capend pi" and w: "access_width_ok bytes"
  shows "\<exists>pi'. pci_emul_capwrite pi offset bytes val = Some pi' \<and> caps_ok pi' cs \<and> lintr_ok pi' \<and>
    cfg_frame offset (offset + 4) pi pi' \<and>
    (\<forall>c\<in>set cs. pi_cfgdata pi' ! c = pi_cfgdata pi ! c \<and>
       pi_cfgdata pi' ! (c + 1) = pi_cfgdata pi ! (c + 1))"
proof (cases "int offset AND (int bytes - 1) = 0")
  case False
  then show ?thesis using ok line by (simp add: pci_emul_capwrite_def)
next
  case True
  then have al: "offset mod bytes = 0"
    using w int_and_aligned [of bytes offset] by (simp add: access_width_ok_def)
  obtain d where d: "find_capability pi offset (of_nat CAP_START_OFFSET) = Some (of_nat d)"
      "unat (of_nat d :: u8) = d" "cap_of cs offset d"
    using find_capability_ok [OF ok ne off(1)] by blast
  then have dm: "d \<in> set cs" "d \<le> offset" by (simp_all add: cap_of_def)
  have cap: "pi_capend pi \<le> PCI_REGMAX" "pi_capend pi mod 4 = 3" using ok ne by (auto simp: caps_ok_def)
  have top: "offset + bytes \<le> PCI_REGMAX + 1"
    using off(2) cap al w unfolding access_width_ok_def by (elim disjE) (simp, presburger, presburger)
  note d4 = cap_at_bounds(2,3,4) [OF ok dm(1)]
  have finish: ?thesis if run: "pci_emul_capwrite pi offset bytes val = Some pi'" and line': "lintr_ok pi'"
      and fr: "cfg_frame lo (lo + b) pi pi'" and lo: "offset \<le> lo" "lo + b \<le> offset + 4" "d + 2 \<le> lo"
        "lo < d + 4 \<or> lo = offset" "lo \<le> offset + 2" and b: "access_width_ok b" "lo mod b = 0" for pi' lo b
  proof -
    have hdr: "lo + b \<le> e \<or> e + 2 \<le> lo" if "e \<in> set cs" for e
      using cap_of_headers [OF ok d(3) lo(3) lo(5) lo(4) b that] .
    have "PCIR_STATUS + 2 \<le> lo" using off(1) lo(1) by linarith
    note res = caps_ok_frame [OF ok fr this hdr]
    have "cfg_frame offset (offset + 4) pi pi'" using cfg_frame_mono [OF fr lo(1,2)] .
    with run line' res show ?thesis by blast
  qed
  consider (ro) "offset = d \<and> bytes \<noteq> 4 \<or> offset = d + 1" | (trim) "offset = d" "bytes = 4"
    | (rw) "d + 2 \<le> offset" using dm(2) by linarith
  then show ?thesis
  proof cases
    case ro
    then have "pci_emul_capwrite pi offset bytes val = Some pi"
      using True d dm by (auto simp: pci_emul_capwrite_def)
    with ok line show ?thesis by simp
  next
    case trim
    have pre: "access_width_ok 2" "(d + 2) mod 2 = 0" "d + 2 + 2 \<le> PCI_REGMAX + 1" "6 \<le> d + 2"
      using d4 by (auto simp: access_width_ok_def)
    from cap_dispatch [OF ok line dm(1) pre] obtain pi' where
      pi': "Option.bind (pci_get_cfgdata8 pi d) (\<lambda>capid.
         if capid = PCIY_MSI then msicap_cfgwrite pi d (d + 2) 2 (drop_bit 16 val)
         else if capid = PCIY_MSIX then msixcap_cfgwrite pi d (d + 2) 2 (drop_bit 16 val)
         else if capid = PCIY_EXPRESS then pciecap_cfgwrite pi d (d + 2) 2 (drop_bit 16 val)
         else Some pi) = Some pi'" "lintr_ok pi'" "cfg_frame (d + 2) (d + 2 + 2) pi pi'" by blast
    have "pci_emul_capwrite pi offset bytes val = Some pi'"
      using True d dm trim pi'(1) by (simp add: pci_emul_capwrite_def del: add_2_eq_Suc')
    from finish [OF this pi'(2,3)] trim pre show ?thesis by simp
  next
    case rw
    have "6 \<le> offset" using off(1) by linarith
    from cap_dispatch [OF ok line dm(1) w al top this] obtain pi' where
      pi': "Option.bind (pci_get_cfgdata8 pi d) (\<lambda>capid.
         if capid = PCIY_MSI then msicap_cfgwrite pi d offset bytes val
         else if capid = PCIY_MSIX then msixcap_cfgwrite pi d offset bytes val
         else if capid = PCIY_EXPRESS then pciecap_cfgwrite pi d offset bytes val
         else Some pi) = Some pi'" "lintr_ok pi'" "cfg_frame offset (offset + bytes) pi pi'" by blast
    have "pci_emul_capwrite pi offset bytes val = Some pi'"
      using True d dm rw pi'(1) by (simp add: pci_emul_capwrite_def)
    from finish [OF this pi'(2,3)] rw w al show ?thesis by (auto simp: access_width_ok_def)
  qed
qed

section \<open>Adding a capability\<close>

definition cap_space :: "u8 list \<Rightarrow> nat" where
  "cap_space capdata = (length capdata + 3) div 4 * 4"

text \<open>The data fits the promise of \<open>cap_at\<close>: an MSI capability has its data register.\<close>

definition capdata_ok :: "u8 list \<Rightarrow> bool" where
  "capdata_ok capdata \<longleftrightarrow> 2 \<le> length capdata \<and> (capdata ! 0 = PCIY_MSI \<longrightarrow> 13 \<le> length capdata)"

definition next_capoff :: "pci_devinst \<Rightarrow> nat" where
  "next_capoff pi = (if cap_present pi then pi_capend pi + 1 else CAP_START_OFFSET)"

lemma copy_capdata_ok:
  "off + length bs \<le> PCI_REGMAX + 1 \<Longrightarrow> devinst_ok pi \<Longrightarrow>
   \<exists>cfg. copy_capdata pi off bs = Some (pi\<lparr>pi_cfgdata := cfg\<rparr>) \<and> length cfg = length (pi_cfgdata pi) \<and>
     (\<forall>i. cfg ! i = (if off \<le> i \<and> i < off + length bs then bs ! (i - off) else pi_cfgdata pi ! i))"
proof (induction bs arbitrary: pi off)
  case Nil
  show ?case by (intro exI [of _ "pi_cfgdata pi"]) auto
next
  case (Cons b bs)
  let ?pi = "pi\<lparr>pi_cfgdata := (pi_cfgdata pi)[off := b]\<rparr>"
  have "devinst_ok ?pi" using Cons.prems(2) by (simp add: devinst_ok_def)
  from Cons.IH [OF _ this, of "Suc off"] Cons.prems(1) obtain cfg where
    cfg: "copy_capdata ?pi (Suc off) bs = Some (?pi\<lparr>pi_cfgdata := cfg\<rparr>)"
      "length cfg = length (pi_cfgdata pi)"
      "\<And>i. cfg ! i = (if Suc off \<le> i \<and> i < Suc off + length bs then bs ! (i - Suc off)
         else (pi_cfgdata pi)[off := b] ! i)"
    by auto
  have "copy_capdata pi off (b # bs) = Some (pi\<lparr>pi_cfgdata := cfg\<rparr>)"
    using Cons.prems(1) cfg(1) by (simp add: pci_set_cfgdata8_def)
  moreover have "cfg ! i = (if off \<le> i \<and> i < off + length (b # bs) then (b # bs) ! (i - off)
      else pi_cfgdata pi ! i)" for i
    using Cons.prems cfg(3) [of i]
    by (cases "i = off") (auto simp: devinst_ok_def nth_Cons' nth_list_update)
  ultimately show ?case using cfg(2) by blast
qed

text \<open>
  With room for it, the capability is appended: its bytes are in place (the next pointer cleared),
  the list grows by its offset, and nothing else changes but the link to it and, for the first
  one, the status and the capability pointer. Without room the function returns -1.
\<close>

lemma add_capability_no_room:
  "caps_ok pi cs \<Longrightarrow> capdata \<noteq> [] \<Longrightarrow> next_capoff pi + cap_space capdata > PCI_REGMAX + 1 \<Longrightarrow>
     pci_emul_add_capability pi capdata = Some (- 1, pi)"
  by (auto simp: pci_emul_add_capability_def pci_get_cfgdata16_def next_capoff_def cap_present_def
      cap_space_def Let_def)

lemma link_ok:
  assumes ok: "caps_ok pi cs" and room: "next_capoff pi < PCI_REGMAX"
  shows "\<exists>cfg. (if get_le16 (pi_cfgdata pi) PCIR_STATUS AND PCIM_STATUS_CAPPRESENT = 0 then do {
          p \<leftarrow> pci_set_cfgdata8 pi PCIR_CAP_PTR (of_nat (next_capoff pi));
          pci_set_cfgdata16 p PCIR_STATUS
            (get_le16 (pi_cfgdata pi) PCIR_STATUS OR PCIM_STATUS_CAPPRESENT)
        } else pci_set_cfgdata8 pi (pi_prevcap pi + 1) (of_nat (next_capoff pi))) =
        Some (pi\<lparr>pi_cfgdata := cfg\<rparr>) \<and> length cfg = PCI_REGMAX + 1 \<and>
      cap_present (pi\<lparr>pi_cfgdata := cfg\<rparr>) \<and>
      (cs \<noteq> [] \<longrightarrow> cfg = (pi_cfgdata pi)[last cs + 1 := of_nat (next_capoff pi)]) \<and>
      (\<forall>i. i \<notin> {PCIR_STATUS, PCIR_STATUS + 1, PCIR_CAP_PTR} \<union> (\<lambda>c. c + 1) ` set cs \<longrightarrow>
         cfg ! i = pi_cfgdata pi ! i)"
proof (cases "cs = []")
  case True
  let ?cfg = "put_le16 ((pi_cfgdata pi)[PCIR_CAP_PTR := of_nat (next_capoff pi)]) PCIR_STATUS
    (get_le16 (pi_cfgdata pi) PCIR_STATUS OR PCIM_STATUS_CAPPRESENT)"
  have "cap_present (pi\<lparr>pi_cfgdata := ?cfg\<rparr>)"
    using ok by (simp add: cap_present_def caps_ok_def devinst_ok_def bit.conj_disj_distrib2 and.commute)
  with True ok show ?thesis
    by (intro exI [of _ ?cfg])
      (simp add: caps_ok_def cap_present_def pci_set_cfgdata8_def pci_set_cfgdata16_def devinst_ok_def)
next
  case False
  have "last cs \<in> set cs" using False by simp
  note b = cap_at_bounds [OF ok this]
  let ?cfg = "(pi_cfgdata pi)[last cs + 1 := of_nat (next_capoff pi)]"
  have "get_le16 ?cfg PCIR_STATUS = get_le16 (pi_cfgdata pi) PCIR_STATUS"
    using b by (simp add: get_le16_def)
  moreover have "?cfg ! i = pi_cfgdata pi ! i" if "i \<notin> (\<lambda>c. c + 1) ` set cs" for i
    using \<open>last cs \<in> set cs\<close> that by (intro nth_list_update_neq) blast
  ultimately show ?thesis using False ok b
    by (intro exI [of _ ?cfg])
      (auto simp: caps_ok_def cap_present_def pci_set_cfgdata8_def devinst_ok_def)
qed

lemma add_capability_ok:
  assumes ok: "caps_ok pi cs" and data: "capdata_ok capdata"
    and room: "next_capoff pi + cap_space capdata \<le> PCI_REGMAX + 1"
  shows "\<exists>cfg. pci_emul_add_capability pi capdata = Some (0, pi\<lparr>pi_cfgdata := cfg,
        pi_prevcap := next_capoff pi, pi_capend := next_capoff pi + cap_space capdata - 1\<rparr>) \<and>
      caps_ok (pi\<lparr>pi_cfgdata := cfg, pi_prevcap := next_capoff pi,
        pi_capend := next_capoff pi + cap_space capdata - 1\<rparr>) (cs @ [next_capoff pi]) \<and>
      (\<forall>i<length capdata. i \<noteq> 1 \<longrightarrow> cfg ! (next_capoff pi + i) = capdata ! i) \<and>
      (\<forall>i. i \<notin> {PCIR_STATUS, PCIR_STATUS + 1, PCIR_CAP_PTR} \<union> (\<lambda>c. c + 1) ` set cs \<union>
           {next_capoff pi ..< next_capoff pi + length capdata} \<longrightarrow> cfg ! i = pi_cfgdata pi ! i)"
proof -
  let ?n = "next_capoff pi" and ?sp = "cap_space capdata"
  have sp: "length capdata \<le> ?sp" "4 \<le> ?sp" "?sp mod 4 = 0" and len: "2 \<le> length capdata"
    using data by (auto simp: cap_space_def capdata_ok_def)
  have n: "?n < PCI_REGMAX" "CAP_START_OFFSET \<le> ?n" "?n mod 4 = 0" "?n + length capdata \<le> PCI_REGMAX + 1"
  proof -
    show "?n < PCI_REGMAX" "?n + length capdata \<le> PCI_REGMAX + 1" using room sp by linarith+
    show "CAP_START_OFFSET \<le> ?n" "?n mod 4 = 0"
      using ok hd_in_set [of cs] by (auto simp: next_capoff_def caps_ok_def cap_at_def mod_Suc)
  qed
  obtain cfg1 where cfg1: "length cfg1 = PCI_REGMAX + 1" "cap_present (pi\<lparr>pi_cfgdata := cfg1\<rparr>)"
      "cs \<noteq> [] \<Longrightarrow> cfg1 = (pi_cfgdata pi)[last cs + 1 := of_nat ?n]"
      "\<And>i. i \<notin> {PCIR_STATUS, PCIR_STATUS + 1, PCIR_CAP_PTR} \<union> (\<lambda>c. c + 1) ` set cs \<Longrightarrow>
         cfg1 ! i = pi_cfgdata pi ! i"
    and link: "(if get_le16 (pi_cfgdata pi) PCIR_STATUS AND PCIM_STATUS_CAPPRESENT = 0 then do {
          p \<leftarrow> pci_set_cfgdata8 pi PCIR_CAP_PTR (of_nat ?n);
          pci_set_cfgdata16 p PCIR_STATUS
            (get_le16 (pi_cfgdata pi) PCIR_STATUS OR PCIM_STATUS_CAPPRESENT)
        } else pci_set_cfgdata8 pi (pi_prevcap pi + 1) (of_nat ?n)) =
        Some (pi\<lparr>pi_cfgdata := cfg1\<rparr>)"
    using link_ok [OF ok n(1)] by blast
  have dev1: "devinst_ok (pi\<lparr>pi_cfgdata := cfg1\<rparr>)"
    using ok cfg1(1) by (simp add: caps_ok_def devinst_ok_def)
  obtain cfg2 where cfg2: "copy_capdata (pi\<lparr>pi_cfgdata := cfg1\<rparr>) ?n capdata = Some (pi\<lparr>pi_cfgdata := cfg2\<rparr>)"
      "length cfg2 = PCI_REGMAX + 1"
      "\<And>i. cfg2 ! i = (if ?n \<le> i \<and> i < ?n + length capdata then capdata ! (i - ?n) else cfg1 ! i)"
    using copy_capdata_ok [OF n(4) dev1] cfg1(1) by auto
  let ?cfg = "cfg2[?n + 1 := 0]"
  let ?pi' = "pi\<lparr>pi_cfgdata := ?cfg, pi_prevcap := ?n, pi_capend := ?n + ?sp - 1\<rparr>"
  have sts: "pci_get_cfgdata16 pi PCIR_STATUS = Some (get_le16 (pi_cfgdata pi) PCIR_STATUS)"
    by (simp add: pci_get_cfgdata16_def)
  have capoff: "(if get_le16 (pi_cfgdata pi) PCIR_STATUS AND PCIM_STATUS_CAPPRESENT = 0
      then CAP_START_OFFSET else pi_capend pi + 1) = ?n"
    by (simp add: next_capoff_def cap_present_def)
  have room': "\<not> PCI_REGMAX + 1 < ?n + ?sp" and ne: "0 < length capdata"
    and zero_at: "?n + 1 \<le> PCI_REGMAX" using room n(1) len by linarith+
  have run: "pci_emul_add_capability pi capdata = Some (0, ?pi')"
    unfolding pci_emul_add_capability_def Let_def sts Option.bind.bind_lunit capoff
      cap_space_def [symmetric] link cfg2(1) if_not_P [OF room']
    using ne zero_at by (simp add: pci_set_cfgdata8_def)
  have byte: "?cfg ! i = (if i = ?n + 1 then 0 else if ?n \<le> i \<and> i < ?n + length capdata
      then capdata ! (i - ?n) else cfg1 ! i)" for i
    using cfg2(2,3) n(1) by (auto simp: nth_list_update)
  have old_low: "c + 4 \<le> ?n" if "c \<in> set cs" for c
    using ok that by (auto simp: next_capoff_def caps_ok_def cap_at_def)
  have hdr: "?cfg ! c = pi_cfgdata pi ! c" if "c \<in> set cs" for c
  proof -
    have "c \<noteq> d + 1" if "d \<in> set cs" for d
      using cap_at_bounds(3) [OF ok \<open>c \<in> set cs\<close>] cap_at_bounds(3) [OF ok that] by presburger
    then have "c \<notin> (\<lambda>d. d + 1) ` set cs" by blast
    with byte [of c] cfg1(4) [of c] old_low [OF that] cap_at_bounds(4) [OF ok that]
    show ?thesis by simp
  qed
  have ptr: "?cfg ! (c + 1) = pi_cfgdata pi ! (c + 1)" if "c \<in> set cs" "c \<noteq> last cs" for c
    using byte [of "c + 1"] old_low [OF that(1)] that cfg1(3) by (cases cs) auto
  have last_ptr: "?cfg ! (last cs + 1) = of_nat ?n" if "cs \<noteq> []"
  proof -
    have l: "last cs \<in> set cs" using that by simp
    show ?thesis
      using byte [of "last cs + 1"] old_low [OF l] cap_at_bounds(1) [OF ok l] cfg1(3) [OF that] ok
      by (simp add: caps_ok_def devinst_ok_def)
  qed
  have zero: "?cfg ! (?n + 1) = 0" using byte by simp
  have n8: "unat (of_nat ?n :: u8) = ?n" using n(1) by (simp add: unat_of_nat)
  have links: "cap_links ?cfg (cs @ [?n])"
  proof (cases "cs = []")
    case True
    with zero show ?thesis by simp
  next
    case False
    then have l: "last cs + 4 \<le> ?n" using old_low by simp
    show ?thesis
      by (rule cap_links_append [of "pi_cfgdata pi"])
        (use ok False ptr last_ptr n8 zero l in \<open>simp_all add: caps_ok_def\<close>)
  qed
  have ats: "cap_at ?pi' c" if "c \<in> set (cs @ [?n])" for c
  proof (cases "c = ?n")
    case True
    have "?cfg ! ?n = capdata ! 0" using byte [of ?n] len by auto
    moreover have "capdata ! 0 = PCIY_MSI \<Longrightarrow> 16 \<le> ?sp"
      using data unfolding capdata_ok_def cap_space_def by presburger
    ultimately show ?thesis using True n(2,3) sp room by (auto simp: cap_at_def)
  next
    case False
    then have c: "c \<in> set cs" using that by simp
    have "cap_at pi c" using ok c by (simp add: caps_ok_def)
    with hdr [OF c] old_low [OF c] sp show ?thesis by (simp add: cap_at_def)
  qed
  have present: "cap_present ?pi'"
    using cfg1(2) byte [of 6] byte [of 7] n(2) by (simp add: cap_present_def get_le16_def)
  have "hd (cs @ [?n]) = CAP_START_OFFSET"
    using ok by (cases cs) (auto simp: caps_ok_def next_capoff_def)
  moreover have "(?n + ?sp - 1) mod 4 = 3"
  proof -
    have "(?n + ?sp) mod 4 = 0" using n(3) sp(3) by (metis add_0 mod_0 mod_add_eq)
    then have "Suc (?n + ?sp - 1) mod 4 = 0" using sp(2) by simp
    then show ?thesis by (simp add: mod_Suc split: if_splits)
  qed
  moreover have "?n + ?sp - 1 \<le> PCI_REGMAX" using room by linarith
  moreover have "devinst_ok ?pi'" using cfg2(2) ok by (simp add: caps_ok_def devinst_ok_def)
  moreover have "\<forall>c\<in>set (cs @ [?n]). cap_at ?pi' c" using ats by blast
  ultimately have "caps_ok ?pi' (cs @ [?n])"
    unfolding caps_ok_def using links present by (simp del: set_append)
  moreover have "\<forall>i<length capdata. i \<noteq> 1 \<longrightarrow> ?cfg ! (?n + i) = capdata ! i"
    using byte by simp
  moreover have "\<forall>i. i \<notin> {PCIR_STATUS, PCIR_STATUS + 1, PCIR_CAP_PTR} \<union> (\<lambda>c. c + 1) ` set cs \<union>
      {?n ..< ?n + length capdata} \<longrightarrow> ?cfg ! i = pi_cfgdata pi ! i"
    using byte cfg1(4) len by auto
  ultimately show ?thesis using run by (intro exI [of _ ?cfg]) blast
qed

end
