(* ===== verification/PciBarProps.thy ===== *)
theory PciBarProps
  imports PciBar
begin

text \<open>
  Correctness of the BARs: allocation gives aligned ranges below the limit that never overlap,
  a BAR that is registered stays registered for the same device while the guest moves it, and
  the sizes are the powers of two that the PCI standard asks for.
\<close>

section \<open>Allocation\<close>

lemma alloc_resource_pow2:
  assumes k: "k < 64" and nowrap: "unat baseptr + 2 * 2 ^ k \<le> 2 ^ 64"
  shows "pci_emul_alloc_resource baseptr limit (2 ^ k) =
    (let base = roundup2 baseptr (2 ^ k) in
     Some (if unat base + 2 ^ k \<le> unat limit then (0, base + 2 ^ k, Some base)
           else (- 1, baseptr, None)))"
    and "unat (roundup2 baseptr (2 ^ k)) + 2 ^ k < 2 ^ 64"
proof -
  have p: "unat (2 ^ k :: u64) = 2 ^ k" using k by (simp add: unat_two_power)
  have ov: "unat baseptr + (2 ^ k - 1) < 2 ^ LENGTH(64)"
    using nowrap zero_less_power [of "2::nat" k] by (simp del: zero_less_power)
  have k': "k < LENGTH(64)" using k by simp
  note b = roundup2_bounds [OF k' ov]
  show lt: "unat (roundup2 baseptr (2 ^ k)) + 2 ^ k < 2 ^ 64"
    using b(2) nowrap by linarith
  then have "unat (roundup2 baseptr (2 ^ k) + 2 ^ k) = unat (roundup2 baseptr (2 ^ k)) + 2 ^ k"
    using p by (simp add: unat_word_ariths)
  moreover have "(2 ^ k :: u64) AND (2 ^ k - 1) = 0"
    by (rule bit_word_eqI) (auto simp: bit_simps exp_minus_1_mask)
  ultimately show "pci_emul_alloc_resource baseptr limit (2 ^ k) =
    (let base = roundup2 baseptr (2 ^ k) in
     Some (if unat base + 2 ^ k \<le> unat limit then (0, base + 2 ^ k, Some base)
           else (- 1, baseptr, None)))"
    by (simp add: pci_emul_alloc_resource_def Let_def word_le_nat_alt)
qed

text \<open>A successful allocation, in terms of addresses.\<close>

lemma alloc_resource_ok:
  assumes "k < 64" "unat baseptr + 2 * 2 ^ k \<le> 2 ^ 64"
    and run: "pci_emul_alloc_resource baseptr limit (2 ^ k) = Some (err, base', Some a)"
  shows "err = 0" "2 ^ k dvd unat a" "unat baseptr \<le> unat a" "unat base' = unat a + 2 ^ k"
    "unat base' \<le> unat limit"
proof -
  have ov: "unat baseptr + (2 ^ k - 1) < 2 ^ LENGTH(64)" and k: "k < LENGTH(64)"
    using assms(1,2) zero_less_power [of "2::nat" k] by (simp_all del: zero_less_power)
  have p: "unat (2 ^ k :: u64) = 2 ^ k" using assms(1) by (simp add: unat_two_power)
  have res: "err = 0 \<and> base' = a + 2 ^ k \<and> a = roundup2 baseptr (2 ^ k) \<and>
      unat a + 2 ^ k \<le> unat limit"
    using run alloc_resource_pow2(1) [OF assms(1,2)] by (auto simp: Let_def split: if_splits)
  then show "err = 0" by simp
  show "2 ^ k dvd unat a" "unat baseptr \<le> unat a"
    using res roundup2_bounds [OF k ov] by simp_all
  show "unat base' = unat a + 2 ^ k"
    using res alloc_resource_pow2(2) [OF assms(1,2)] p by (simp add: unat_word_ariths)
  moreover have "unat a + 2 ^ k \<le> unat limit" using res by blast
  ultimately show "unat base' \<le> unat limit" by simp
qed

text \<open>
  A sequence of allocations from one pointer; the requests are the exponents of the sizes. A
  failing request leaves the pointer alone.
\<close>

fun alloc_all :: "u64 \<Rightarrow> u64 \<Rightarrow> nat list \<Rightarrow> (u64 \<times> nat) list option" where
  "alloc_all baseptr limit [] = Some []"
| "alloc_all baseptr limit (k # ks) = do {
     (err, baseptr', a) \<leftarrow> pci_emul_alloc_resource baseptr limit (2 ^ k);
     rest \<leftarrow> alloc_all baseptr' limit ks;
     Some (case a of Some x \<Rightarrow> (x, k) # rest | None \<Rightarrow> rest)
   }"

definition range_of :: "u64 \<times> nat \<Rightarrow> nat set" where
  "range_of r = {unat (fst r) ..< unat (fst r) + 2 ^ snd r}"

lemma alloc_all_ranges:
  assumes "unat baseptr \<le> unat limit" "unat limit \<le> 2 ^ 63" "\<forall>k\<in>set ks. k \<le> 62"
    and "alloc_all baseptr limit ks = Some rs"
  shows "pairwise (\<lambda>r q. range_of r \<inter> range_of q = {}) (set rs) \<and>
    (\<forall>r\<in>set rs. range_of r \<subseteq> {unat baseptr ..< unat limit} \<and> 2 ^ snd r dvd unat (fst r))"
  using assms
proof (induction ks arbitrary: baseptr rs)
  case Nil
  then show ?case by simp
next
  case (Cons k ks)
  have k: "k < 64" "k \<le> 62" using Cons.prems(3) by simp_all
  have "(2::nat) ^ k \<le> 2 ^ 62" using k(2) by (rule power_increasing) simp
  then have nowrap: "unat baseptr + 2 * 2 ^ k \<le> 2 ^ 64" using Cons.prems(1,2) by simp
  from Cons.prems(4) obtain err b' a rest where
    step: "pci_emul_alloc_resource baseptr limit (2 ^ k) = Some (err, b', a)"
      "alloc_all b' limit ks = Some rest" "rs = (case a of Some x \<Rightarrow> (x, k) # rest | None \<Rightarrow> rest)"
    by (auto simp: bind_eq_Some_conv)
  have ks: "\<forall>k\<in>set ks. k \<le> 62" using Cons.prems(3) by simp
  show ?case
  proof (cases a)
    case None
    then have "b' = baseptr"
      using step(1) alloc_resource_pow2(1) [OF k(1) nowrap] by (auto simp: Let_def split: if_splits)
    with Cons.IH [OF _ Cons.prems(2) ks step(2)] Cons.prems(1) step(3) None show ?thesis by simp
  next
    case (Some x)
    note a = alloc_resource_ok [OF k(1) nowrap step(1) [unfolded Some]]
    have IH: "pairwise (\<lambda>r q. range_of r \<inter> range_of q = {}) (set rest)"
        "\<And>r. r \<in> set rest \<Longrightarrow> range_of r \<subseteq> {unat b' ..< unat limit} \<and> 2 ^ snd r dvd unat (fst r)"
      using Cons.IH [OF a(5) Cons.prems(2) ks step(2)] by blast+
    have mine: "range_of (x, k) = {unat x ..< unat b'}" using a(4) by (simp add: range_of_def)
    have "range_of (x, k) \<inter> range_of r = {}" if "r \<in> set rest" for r
      using IH(2) [OF that] unfolding mine by fastforce
    moreover have "range_of r \<subseteq> {unat baseptr ..< unat limit}" if "r \<in> set rest" for r
      using IH(2) [OF that] a(3,4) by fastforce
    moreover have "range_of (x, k) \<subseteq> {unat baseptr ..< unat limit}"
      unfolding mine using a(3,5) by auto
    ultimately show ?thesis
      using IH step(3) Some a(2) by (auto simp: pairwise_insert)
  qed
qed

section \<open>The size of a BAR\<close>

text \<open>The code rounds every size to a power of two, at least the minimum of the standard.\<close>

lemma flsl_bounds:
  fixes x :: "'a::len word"
  shows "unat x < 2 ^ flsl x"
  by (simp add: flsl_def fls_nat_upper)

lemma bar_rounded_size_pow2:
  assumes run: "bar_rounded_size type sz = Some r"
  shows "\<exists>k<64. r = 2 ^ k \<and> unat sz \<le> unat r \<and> (if type = PCIBAR_IO then 2 \<le> k else 4 \<le> k)"
proof -
  define m where "m = (if type = PCIBAR_IO then 2 else 4 :: nat)"
  obtain q where q: "r = (if q < 2 ^ m then 2 ^ m else q)" "unat sz \<le> unat q" "q = 0 \<or> (\<exists>k<64. q = 2 ^ k)"
  proof (cases "sz AND (sz - 1) = 0")
    case True
    with run have "r = (if sz < 2 ^ m then 2 ^ m else sz)"
      by (auto simp: bar_rounded_size_def m_def split: if_splits)
    moreover have "sz = 0 \<or> (\<exists>k<64. sz = 2 ^ k)"
      using pow2_test [of sz] True by auto
    ultimately show ?thesis using that [of sz] by simp
  next
    case False
    let ?q = "push_bit (flsl sz) 1 :: u64"
    from run False have k: "flsl sz < 64" and r: "r = (if ?q < 2 ^ m then 2 ^ m else ?q)"
      by (auto simp: bar_rounded_size_def bind_eq_Some_conv m_def split: if_splits)
    have e: "?q = 2 ^ flsl sz" by (simp add: push_bit_eq_mult)
    then have "unat ?q = 2 ^ flsl sz" using k by (simp add: unat_two_power)
    with flsl_bounds [of sz] e k r show ?thesis using that [of ?q] by auto
  qed
  have m: "m < 64" "unat (2 ^ m :: u64) = 2 ^ m" by (simp_all add: m_def)
  show ?thesis
  proof (cases "q < 2 ^ m")
    case True
    then have "unat q < unat (2 ^ m :: u64)" by (simp add: word_less_nat_alt)
    with q(1,2) True m show ?thesis by (intro exI [of _ m]) (auto simp: m_def)
  next
    case False
    with q obtain k where k: "k < 64" "q = 2 ^ k" by (auto simp: m_def split: if_splits)
    have "m \<le> k"
    proof (rule ccontr)
      assume "\<not> m \<le> k"
      then have "(2::nat) ^ k < 2 ^ m" by (intro power_strict_increasing) simp_all
      then have "q < 2 ^ m" using k m by (simp add: word_less_nat_alt unat_two_power)
      with False show False by simp
    qed
    with False q k show ?thesis by (intro exI [of _ k]) (auto simp: m_def)
  qed
qed

section \<open>The registered range\<close>

text \<open>The BAR is decoded: the registry sends its addresses to this device and BAR.\<close>

definition bar_live :: "'z pci_space_scheme \<Rightarrow> pci_devinst \<Rightarrow> nat \<Rightarrow> bool" where
  "bar_live s pi idx \<longleftrightarrow> idx < length (pi_bar pi) \<and>
     bar_type (pi_bar pi ! idx) \<in> {PCIBAR_MEM32, PCIBAR_MEM64} \<and>
     mem_lookup s (bar_addr (pi_bar pi ! idx)) = Some (bar_range pi idx (pi_bar pi ! idx))"

definition bar_at :: "pci_devinst \<Rightarrow> nat \<Rightarrow> u64 \<Rightarrow> pci_range" where
  "bar_at pi idx addr = bar_range pi idx ((pi_bar pi ! idx)\<lparr>bar_addr := addr\<rparr>)"

lemma matches_bar: "matches_range (bar_range pi idx b) (bar_range pi idx b)"
  by (simp add: matches_range_def same_range_def bar_range_def)

lemma bar_range_set_bar [simp]: "bar_range (set_bar pi i c) idx b = bar_range pi idx b"
  by (simp add: set_bar_def bar_range_def pi_ref_def)

lemma memen_eq:
  "memen pi = Some (get_le16 (pi_cfgdata pi) PCIR_COMMAND AND PCIM_CMD_MEMEN \<noteq> 0)"
  by (simp add: memen_def pci_get_cfgdata16_def)

lemma register_bar_mem:
  assumes "idx < length (pi_bar pi)" "bar_type (pi_bar pi ! idx) \<in> {PCIBAR_MEM32, PCIBAR_MEM64}"
  shows "register_bar s pi idx = (let (err, s') = register_mem s (bar_range pi idx (pi_bar pi ! idx))
      in if err = 0 then Some s' else None)"
    and "unregister_bar s pi idx =
      Option.bind (unregister_mem s (bar_range pi idx (pi_bar pi ! idx)))
        (\<lambda>(err, s'). if err = 0 then Some s' else None)"
  using assms
  by (auto simp: register_bar_def unregister_bar_def modify_bar_registration_def assert_that_bind
      split: prod.split)

text \<open>
  A move while the device decodes memory: the old range goes, the new one comes, no other address
  changes hands.
\<close>

lemma update_bar_moves:
  assumes ready: "mem_ready s" and live: "bar_live s pi idx"
    and en: "memen pi = Some True" and new: "new_bar_addr type (bar_addr (pi_bar pi ! idx)) addr = Some a"
    and wf: "range_ok (bar_at pi idx a)"
    and free: "\<And>x. in_range (bar_at pi idx a) x \<Longrightarrow>
      mem_lookup s x = None \<or> in_range (bar_range pi idx (pi_bar pi ! idx)) x"
  shows "\<exists>s'. update_bar_address s pi addr idx type =
      Some (s', set_bar pi idx ((pi_bar pi ! idx)\<lparr>bar_addr := a\<rparr>)) \<and> mem_ready s' \<and>
    bar_live s' (set_bar pi idx ((pi_bar pi ! idx)\<lparr>bar_addr := a\<rparr>)) idx \<and>
    mem_lookup s' = (\<lambda>x. if in_range (bar_at pi idx a) x then Some (bar_at pi idx a)
       else if in_range (bar_range pi idx (pi_bar pi ! idx)) x then None else mem_lookup s x)"
proof -
  let ?b = "pi_bar pi ! idx" and ?pi = "set_bar pi idx ((pi_bar pi ! idx)\<lparr>bar_addr := a\<rparr>)"
  have idx: "idx < length (pi_bar pi)" and ty: "bar_type ?b \<in> {PCIBAR_MEM32, PCIBAR_MEM64}"
    and look: "mem_lookup s (mem_base (bar_range pi idx ?b)) = Some (bar_range pi idx ?b)"
    using live by (simp_all add: bar_live_def bar_range_def)
  have bar': "pi_bar ?pi ! idx = ?b\<lparr>bar_addr := a\<rparr>" "idx < length (pi_bar ?pi)"
    using idx by (simp_all add: set_bar_def)
  have ty': "bar_type (pi_bar ?pi ! idx) \<in> {PCIBAR_MEM32, PCIBAR_MEM64}" using bar' ty by simp
  from mem.move [OF ready look matches_bar wf free] obtain s1 s2 where
    s1: "unregister_mem s (bar_range pi idx ?b) = Some (0, s1)" and
    s2: "register_mem s1 (bar_at pi idx a) = (0, s2)" "mem_ready s2"
      "mem_lookup s2 = (\<lambda>x. if in_range (bar_at pi idx a) x then Some (bar_at pi idx a)
         else if in_range (bar_range pi idx ?b) x then None else mem_lookup s x)" by blast
  have "register_bar s1 ?pi idx = Some s2"
    using register_bar_mem(1) [OF bar'(2) ty', of s1] bar'(1) s2(1) by (simp add: bar_at_def)
  moreover have "unregister_bar s pi idx = Some s1"
    using register_bar_mem(2) [OF idx ty, of s] s1 by simp
  moreover have "bar_type ?b \<noteq> PCIBAR_IO" using ty by auto
  ultimately have "update_bar_address s pi addr idx type = Some (s2, ?pi)"
    using idx en new by (simp add: update_bar_address_def)
  moreover have "bar_live s2 ?pi idx"
    using bar' ty' s2(3) in_range_base [OF wf]
    by (simp add: bar_live_def bar_at_def) (simp add: bar_range_def)
  ultimately show ?thesis using s2 by blast
qed

section \<open>Allocating a memory BAR\<close>

text \<open>The part of the 32 bit window that is not yet allocated is not registered.\<close>

definition space_ok :: "'z pci_space_scheme \<Rightarrow> bool" where
  "space_ok s \<longleftrightarrow> mem_ready s \<and>
     (\<forall>x. pci_emul_membase32 s \<le> x \<and> x < PCI_EMUL_MEMLIMIT32 \<longrightarrow> mem_lookup s x = None)"

lemma mem_ready_set_base [simp]: "mem_ready (s\<lparr>pci_emul_membase32 := b\<rparr>) = mem_ready s"
  by (simp add: mem_ready_def mem_inv_def)

definition mem32_bar :: "u64 \<Rightarrow> u64 \<Rightarrow> pcibar" where
  "mem32_bar sz a = \<lparr>bar_type = PCIBAR_MEM32, bar_size = sz, bar_addr = a\<rparr>"

lemma mem32_in_range:
  assumes "unat a + 2 ^ k < 2 ^ 64" "k < 64"
  shows "in_range (bar_range pi idx (mem32_bar (2 ^ k) a)) x \<longleftrightarrow> unat a \<le> unat x \<and> unat x < unat a + 2 ^ k"
    and "range_ok (bar_range pi idx (mem32_bar (2 ^ k) a))"
proof -
  have p: "unat (2 ^ k :: u64) = 2 ^ k" using assms(2) by (simp add: unat_two_power)
  have s: "unat (a + 2 ^ k) = unat a + 2 ^ k" using assms(1) p by (simp add: unat_word_ariths)
  then have "a + 2 ^ k \<noteq> 0" by (metis add_is_0 power_not_zero unat_0 zero_neq_numeral)
  with s have "unat (a + 2 ^ k - 1) = unat a + 2 ^ k - 1" by (simp add: unat_minus_one)
  moreover have "0 < (2::nat) ^ k" by simp
  ultimately have e: "unat (a + 2 ^ k - 1) = unat a + 2 ^ k - 1" "0 < (2::nat) ^ k" by blast+
  show "in_range (bar_range pi idx (mem32_bar (2 ^ k) a)) x \<longleftrightarrow> unat a \<le> unat x \<and> unat x < unat a + 2 ^ k"
  proof -
    have "unat x \<le> unat a + 2 ^ k - 1 \<longleftrightarrow> unat x < unat a + 2 ^ k" using e(2) by linarith
    then show ?thesis
      using e by (simp add: in_range_def bar_range_def mem32_bar_def word_le_nat_alt)
  qed
  show "range_ok (bar_range pi idx (mem32_bar (2 ^ k) a))"
  proof -
    have "unat a \<le> unat a + 2 ^ k - 1" using e(2) by linarith
    then show ?thesis
      using e by (simp add: range_ok_def bar_range_def mem32_bar_def word_le_nat_alt)
  qed
qed

lemma alloc_mem32_ok:
  assumes space: "space_ok s" and dev: "devinst_ok pi" and idx: "idx \<le> PCI_BARMAX"
    and size: "bar_rounded_size PCIBAR_MEM32 sz = Some (2 ^ k)" and k: "k \<le> 31"
    and base: "unat (pci_emul_membase32 s) \<le> 2 ^ 32"
    and fits: "unat (roundup2 (pci_emul_membase32 s) (2 ^ k)) + 2 ^ k \<le> unat PCI_EMUL_MEMLIMIT32"
  defines "a \<equiv> roundup2 (pci_emul_membase32 s) (2 ^ k)"
  shows "\<exists>s' cfg. pci_emul_alloc_bar s pi idx PCIBAR_MEM32 sz =
      Some (0, s', (set_bar pi idx (mem32_bar (2 ^ k) a))\<lparr>pi_cfgdata := cfg\<rparr>) \<and>
    cfg = put_le32 (pi_cfgdata pi) (PCIR_BAR idx) (ucast (a AND PCIM_BAR_MEM_BASE)) \<and>
    space_ok s' \<and> bar_live s' ((set_bar pi idx (mem32_bar (2 ^ k) a))\<lparr>pi_cfgdata := cfg\<rparr>) idx \<and>
    pci_emul_membase32 s' = a + 2 ^ k \<and> pci_emul_iobase s' = pci_emul_iobase s \<and>
    (\<forall>x. unat x < unat a \<or> unat a + 2 ^ k \<le> unat x \<longrightarrow> mem_lookup s' x = mem_lookup s x)"
proof -
  have k64: "k < 64" using k by simp
  have "(2::nat) ^ k \<le> 2 ^ 31" using k by (rule power_increasing) simp
  then have nowrap: "unat (pci_emul_membase32 s) + 2 * 2 ^ k \<le> 2 ^ 64" using base by simp
  have res: "pci_emul_alloc_resource (pci_emul_membase32 s) PCI_EMUL_MEMLIMIT32 (2 ^ k) =
      Some (0, a + 2 ^ k, Some a)"
    using alloc_resource_pow2(1) [OF k64 nowrap, of PCI_EMUL_MEMLIMIT32] fits
    by (simp add: Let_def a_def)
  note ar = alloc_resource_ok [OF k64 nowrap res]
  have top: "unat a + 2 ^ k < 2 ^ 64" using fits by (simp add: a_def)
  let ?s = "s\<lparr>pci_emul_membase32 := a + 2 ^ k\<rparr>"
  let ?cfg = "put_le32 (pi_cfgdata pi) (PCIR_BAR idx) (ucast (a AND PCIM_BAR_MEM_BASE))"
  let ?pi = "(set_bar pi idx (mem32_bar (2 ^ k) a))\<lparr>pi_cfgdata := ?cfg\<rparr>"
  let ?r = "bar_range pi idx (mem32_bar (2 ^ k) a)"
  have ready: "mem_ready ?s" using space by (simp add: space_ok_def)
  have look: "mem_lookup ?s x = mem_lookup s x" for x by simp
  note rng = mem32_in_range [OF top k64]
  have "mem_lookup ?s x = None" if "in_range ?r x" for x
  proof -
    have "pci_emul_membase32 s \<le> x" "x < PCI_EMUL_MEMLIMIT32"
      using that rng(1) ar(3,4,5) by (auto simp: word_le_nat_alt word_less_nat_alt)
    with space show ?thesis by (simp add: space_ok_def)
  qed
  from mem.register_ok [OF ready rng(2) this] obtain s' where
    s': "register_mem ?s ?r = (0, s')" "mem_ready s'"
      "mem_lookup s' = (\<lambda>x. if in_range ?r x then Some ?r else mem_lookup ?s x)" by blast
  have bases: "pci_emul_membase32 s' = a + 2 ^ k" "pci_emul_iobase s' = pci_emul_iobase s"
    using s'(1) by (auto simp: register_mem_def split: prod.splits)
  have bar: "pi_bar ?pi ! idx = mem32_bar (2 ^ k) a" "idx < length (pi_bar ?pi)"
    using dev idx by (simp_all add: set_bar_def devinst_ok_def)
  have rr: "bar_range ?pi idx b = bar_range pi idx b" for b
    by (simp add: bar_range_def set_bar_def pi_ref_def)
  have reg: "register_bar ?s ?pi idx = Some s'"
    using register_bar_mem(1) [OF bar(2), of ?s] bar(1) s'(1) rr by (simp add: mem32_bar_def)
  have cfgw: "pci_set_cfgdata32 (set_bar pi idx (mem32_bar (2 ^ k) a)) (PCIR_BAR idx)
      (ucast (a AND PCIM_BAR_MEM_BASE)) = Some ?pi"
    using idx by (simp add: pci_set_cfgdata32_def set_bar_def)
  have "pci_emul_alloc_bar s pi idx PCIBAR_MEM32 sz = Some (0, s', ?pi)"
    using idx size res cfgw reg
    by (simp add: pci_emul_alloc_bar_def pci_emul_alloc_pbar_def bar_class_def get_base_def
        set_base_def mem32_bar_def)
  moreover have "space_ok s'"
  proof -
    have "mem_lookup s' x = None" if "a + 2 ^ k \<le> x" "x < PCI_EMUL_MEMLIMIT32" for x
      using space that s'(3) rng(1) ar(3,4) by (auto simp: space_ok_def word_le_nat_alt)
    then show ?thesis using s'(2) bases by (simp add: space_ok_def)
  qed
  moreover have "bar_live s' ?pi idx"
    using bar s'(3) in_range_base [OF rng(2)] rr
    by (simp add: bar_live_def) (simp add: mem32_bar_def bar_range_def)
  moreover have "mem_lookup s' x = mem_lookup s x" if "unat x < unat a \<or> unat a + 2 ^ k \<le> unat x" for x
    using that s'(3) rng(1) look by auto
  ultimately show ?thesis using bases by blast
qed

end
