(* ===== verification/PciCfgrwProps.thy ===== *)
theory PciCfgrwProps
  imports PciCfgrw PciCapProps PciBarProps
begin

text \<open>
  Correctness of the configuration accesses: whatever the guest writes, the status register and
  the capability headers stay as the device made them, the capability list stays well formed and
  the interrupt line consistent; reads never fail; a plain register reads back what was written.
\<close>

section \<open>The device invariant\<close>

definition dev_inv :: "pci_devinst \<Rightarrow> nat list \<Rightarrow> bool" where
  "dev_inv pi cs \<longleftrightarrow> caps_ok pi cs \<and> lintr_ok pi"

text \<open>What the guest cannot change: identity, the status register, the capability headers.\<close>

definition guest_frame :: "nat list \<Rightarrow> pci_devinst \<Rightarrow> pci_devinst \<Rightarrow> bool" where
  "guest_frame cs pi pi' \<longleftrightarrow> pi_ref pi' = pi_ref pi \<and> pi_name pi' = pi_name pi \<and>
     pi_capend pi' = pi_capend pi \<and> length (pi_bar pi') = length (pi_bar pi) \<and>
     map bar_type (pi_bar pi') = map bar_type (pi_bar pi) \<and>
     map bar_size (pi_bar pi') = map bar_size (pi_bar pi) \<and>
     get_le16 (pi_cfgdata pi') PCIR_STATUS = get_le16 (pi_cfgdata pi) PCIR_STATUS \<and>
     (\<forall>c\<in>set cs. pi_cfgdata pi' ! c = pi_cfgdata pi ! c \<and>
        pi_cfgdata pi' ! (c + 1) = pi_cfgdata pi ! (c + 1))"

lemma guest_frame_refl: "guest_frame cs pi pi"
  by (simp add: guest_frame_def)

lemma guest_frame_trans: "guest_frame cs p q \<Longrightarrow> guest_frame cs q r \<Longrightarrow> guest_frame cs p r"
  by (auto simp: guest_frame_def)

text \<open>A plain write that touches neither the command and status registers nor a capability.\<close>

lemma plain_write_inv:
  assumes inv: "dev_inv pi cs" and fr: "cfg_frame lo hi pi (pi\<lparr>pi_cfgdata := cfg\<rparr>)"
    and loc: "hi \<le> 4 \<or> PCIR_STATUS + 2 \<le> lo" "\<And>c. c \<in> set cs \<Longrightarrow> hi \<le> c \<or> c + 2 \<le> lo"
  shows "dev_inv (pi\<lparr>pi_cfgdata := cfg\<rparr>) cs \<and> guest_frame cs pi (pi\<lparr>pi_cfgdata := cfg\<rparr>)"
proof -
  let ?pi = "pi\<lparr>pi_cfgdata := cfg\<rparr>"
  have keep: "cfg ! i = pi_cfgdata pi ! i" if "i < lo \<or> hi \<le> i" for i
    using fr that by (auto simp: cfg_frame_def)
  have cmd: "cfg ! i = pi_cfgdata pi ! i" if "i = 4 \<or> i = 5 \<or> i = 6 \<or> i = 7" for i
    using keep [of i] loc(1) that by auto
  have regs: "get_le16 cfg PCIR_COMMAND = get_le16 (pi_cfgdata pi) PCIR_COMMAND"
      "get_le16 cfg PCIR_STATUS = get_le16 (pi_cfgdata pi) PCIR_STATUS"
    by (simp_all add: get_le16_def cmd)
  have hdr: "cfg ! c = pi_cfgdata pi ! c \<and> cfg ! (c + 1) = pi_cfgdata pi ! (c + 1)" if "c \<in> set cs" for c
    using loc(2) [OF that] keep [of c] keep [of "c + 1"] by linarith
  have "cap_links cfg cs"
    using inv hdr cap_links_same [of cs cfg "pi_cfgdata pi"] by (simp add: dev_inv_def caps_ok_def)
  moreover have "\<forall>c\<in>set cs. cap_at ?pi c"
    using inv hdr by (simp add: dev_inv_def caps_ok_def cap_at_def)
  moreover have "length cfg = length (pi_cfgdata pi)" using fr by (simp add: cfg_frame_def)
  ultimately have "dev_inv ?pi cs"
    using inv regs
    by (simp add: dev_inv_def caps_ok_def cap_present_def devinst_ok_def lintr_defs known_irq_def
        permitted_def)
  then show ?thesis using regs hdr by (simp add: guest_frame_def pi_ref_def)
qed

section \<open>Writes to the command and status registers\<close>

text \<open>The read-only mask: bit 7, bits 11 to 15, and the whole status register.\<close>

lemma bit_readonly: "bit (0xFFFFF880 :: u32) m \<longleftrightarrow> m = 7 \<or> 11 \<le> m \<and> m < 32"
proof -
  have eq: "(0xFFFFF880 :: u32) = NOT (mask 11) OR push_bit 7 1" by (simp add: mask_eq_exp_minus_1)
  show ?thesis unfolding eq by (auto simp: bit_simps simp del: push_bit_of_1)
qed

definition cmdsts_merge :: "nat \<Rightarrow> u32 \<Rightarrow> u32 \<Rightarrow> u32" where
  "cmdsts_merge r new old = (new AND NOT (drop_bit r 0xFFFFF880)) OR (old AND drop_bit r 0xFFFFF880)"

lemma bit_cmdsts_merge:
  "bit (cmdsts_merge r new old) n \<longleftrightarrow>
     n < 32 \<and> (if r + n = 7 \<or> 11 \<le> r + n \<and> r + n < 32 then bit old n else bit new n)"
proof -
  define m where "m = drop_bit r (0xFFFFF880 :: u32)"
  have m: "bit m n \<longleftrightarrow> r + n = 7 \<or> 11 \<le> r + n \<and> r + n < 32"
    by (simp only: m_def bit_drop_bit_eq o_def bit_readonly)
  have "cmdsts_merge r new old = (new AND NOT m) OR (old AND m)"
    by (simp only: cmdsts_merge_def m_def)
  with m show ?thesis by (auto simp: bit_simps dest: bit_imp_le_length)
qed

text \<open>The status half of what \<^verbatim>\<open>pci_emul_cmdsts_write\<close> writes is the old one.\<close>

lemma status_kept:
  assumes al: "access_width_ok bytes" "coff mod bytes = 0" and c: "4 \<le> coff" "coff < 8"
    and len: "length (pi_cfgdata pi) = PCI_REGMAX + 1"
    and old: "CFGREAD pi coff bytes = Some old"
    and w: "CFGWRITE pi coff (cmdsts_merge ((coff mod 4) * 8) new old) bytes = Some pi'"
    and i: "i = 6 \<or> i = 7"
  shows "pi_cfgdata pi' ! i = pi_cfgdata pi ! i"
proof -
  let ?v = "cmdsts_merge ((coff mod 4) * 8) new old"
  consider "bytes = 1" | "bytes = 2" "coff = 4" | "bytes = 2" "coff = 6" | "bytes = 4" "coff = 4"
  proof -
    have "coff = 4 \<or> coff = 5 \<or> coff = 6 \<or> coff = 7" using c by linarith
    then show ?thesis using al that by (auto simp: access_width_ok_def)
  qed
  then show ?thesis
  proof cases
    case 1
    have o: "old = ucast (pi_cfgdata pi ! coff)"
      using old 1 c by (simp add: CFGREAD_def pci_get_cfgdata8_def)
    have p: "pi_cfgdata pi' = (pi_cfgdata pi)[coff := ucast ?v]"
      using w 1 c by (auto simp: CFGWRITE_def pci_set_cfgdata8_def)
    have "ucast ?v = pi_cfgdata pi ! coff" if "6 \<le> coff"
    proof (rule bit_word_eqI)
      fix n assume n: "n < LENGTH(8)"
      have "16 \<le> (coff mod 4) * 8 \<and> (coff mod 4) * 8 \<le> 24"
      proof -
        have "coff = 6 \<or> coff = 7" using that c by linarith
        then show ?thesis by auto
      qed
      with n show "bit (ucast ?v :: u8) n = bit (pi_cfgdata pi ! coff) n"
        by (simp add: bit_simps bit_cmdsts_merge o)
    qed
    with p i c len show ?thesis by (cases "i = coff") auto
  next
    case 2
    with w i show ?thesis by (auto simp: CFGWRITE_def pci_set_cfgdata16_def)
  next
    case 3
    have o: "old = ucast (get_le16 (pi_cfgdata pi) 6)"
      using old 3 by (simp add: CFGREAD_def pci_get_cfgdata16_def)
    have "ucast ?v = get_le16 (pi_cfgdata pi) 6"
      by (rule bit_word_eqI) (simp add: bit_simps bit_cmdsts_merge o 3)
    then have "pi_cfgdata pi' = put_le16 (pi_cfgdata pi) 6 (get_le16 (pi_cfgdata pi) 6)"
      using w 3 by (auto simp: CFGWRITE_def pci_set_cfgdata16_def)
    with i len show ?thesis by (auto simp: put_get_le16)
  next
    case 4
    have o: "old = get_le32 (pi_cfgdata pi) 4"
      using old 4 by (simp add: CFGREAD_def pci_get_cfgdata32_def)
    have p: "pi_cfgdata pi' = put_le32 (pi_cfgdata pi) 4 ?v"
      using w 4 by (auto simp: CFGWRITE_def pci_set_cfgdata32_def)
    have "bit ?v n = bit old n" if "16 \<le> n" "n < 32" for n
      using that 4 by (simp add: bit_cmdsts_merge)
    then have "ucast (drop_bit 16 ?v) = (ucast (drop_bit 16 old) :: u8)"
        "ucast (drop_bit 24 ?v) = (ucast (drop_bit 24 old) :: u8)"
      by (auto intro!: bit_word_eqI simp: bit_ucast_iff bit_drop_bit_eq)
    then have "ucast (drop_bit 16 ?v) = pi_cfgdata pi ! 6" "ucast (drop_bit 24 ?v) = pi_cfgdata pi ! 7"
      by (simp_all add: o ucast_get_le32)
    with p i len show ?thesis by (auto simp: put_le32_def)
  qed
qed

lemma lintr_frame_guest:
  assumes "lintr_frame pi pi'" "lintr_ok pi'" "caps_ok pi cs"
  shows "dev_inv pi' cs \<and> guest_frame cs pi pi'"
  using assms lintr_frame_simps [OF assms(1)]
  by (simp add: dev_inv_def caps_ok_def cap_present_def cap_at_def devinst_ok_def guest_frame_def pi_ref_def)

lemma caps_ok_low_write:
  assumes ok: "caps_ok pi cs" and fr: "cfg_frame 4 8 pi (pi\<lparr>pi_cfgdata := cfg\<rparr>)"
    and st: "\<And>i. i = 6 \<or> i = 7 \<Longrightarrow> cfg ! i = pi_cfgdata pi ! i"
  shows "caps_ok (pi\<lparr>pi_cfgdata := cfg\<rparr>) cs \<and> guest_frame cs pi (pi\<lparr>pi_cfgdata := cfg\<rparr>)"
proof -
  have keep: "cfg ! i = pi_cfgdata pi ! i" if "8 \<le> i" for i
    using fr that by (auto simp: cfg_frame_def)
  have sts: "get_le16 cfg PCIR_STATUS = get_le16 (pi_cfgdata pi) PCIR_STATUS"
    using st by (simp add: get_le16_def)
  have hdr: "cfg ! c = pi_cfgdata pi ! c \<and> cfg ! (c + 1) = pi_cfgdata pi ! (c + 1)" if "c \<in> set cs" for c
    using keep [of c] keep [of "c + 1"] cap_at_bounds(4) [OF ok that] by simp
  have "cap_links cfg cs"
    using ok hdr cap_links_same [of cs cfg "pi_cfgdata pi"] by (simp add: caps_ok_def)
  moreover have "\<forall>c\<in>set cs. cap_at (pi\<lparr>pi_cfgdata := cfg\<rparr>) c"
    using ok hdr by (simp add: caps_ok_def cap_at_def)
  moreover have "length cfg = length (pi_cfgdata pi)" using fr by (simp add: cfg_frame_def)
  ultimately show ?thesis
    using ok sts hdr by (simp add: caps_ok_def cap_present_def devinst_ok_def guest_frame_def pi_ref_def)
qed

lemma lintr_wf_cfg: "length cfg = length (pi_cfgdata pi) \<Longrightarrow> lintr_wf (pi\<lparr>pi_cfgdata := cfg\<rparr>) = lintr_wf pi"
  by (simp add: lintr_wf_def devinst_ok_def known_irq_def)

lemma cmdsts_write_inv:
  assumes inv: "dev_inv pi cs" and al: "access_width_ok bytes" "coff mod bytes = 0" "4 \<le> coff" "coff < 8"
    and run: "pci_emul_cmdsts_write s pi coff new bytes = Some (s', pi')"
  shows "dev_inv pi' cs \<and> guest_frame cs pi pi'"
proof -
  have len: "length (pi_cfgdata pi) = PCI_REGMAX + 1"
    using inv by (simp add: dev_inv_def caps_ok_def devinst_ok_def)
  from run obtain old pi1 where
    old: "CFGREAD pi coff bytes = Some old" and
    w: "CFGWRITE pi coff (cmdsts_merge ((coff mod 4) * 8) new old) bytes = Some pi1" and
    u: "pci_lintr_update pi1 = Some pi'"
    by (auto simp: pci_emul_cmdsts_write_def bind_eq_Some_conv cmdsts_merge_def Let_def)
  have top: "coff + bytes \<le> PCI_REGMAX + 1" "coff + bytes \<le> 8"
  proof -
    have "coff = 4 \<or> coff = 5 \<or> coff = 6 \<or> coff = 7" using al by linarith
    then show "coff + bytes \<le> 8" using al by (auto simp: access_width_ok_def)
    then show "coff + bytes \<le> PCI_REGMAX + 1" by simp
  qed
  obtain cfg where pi1: "pi1 = pi\<lparr>pi_cfgdata := cfg\<rparr>" and fr: "cfg_frame coff (coff + bytes) pi pi1"
    using CFGWRITE_ok [OF al(1,2) top(1), of pi] w by (metis option.inject)
  have fr4: "cfg_frame 4 8 pi (pi\<lparr>pi_cfgdata := cfg\<rparr>)"
    using cfg_frame_mono [OF fr al(3) top(2)] pi1 by simp
  have "cfg ! i = pi_cfgdata pi ! i" if "i = 6 \<or> i = 7" for i
    using status_kept [OF al len old w that] pi1 by simp
  then have c1: "caps_ok pi1 cs \<and> guest_frame cs pi pi1"
    using caps_ok_low_write [OF _ fr4] inv unfolding pi1 dev_inv_def by blast
  have "lintr_wf pi1"
    using inv fr4 by (simp add: dev_inv_def lintr_ok_def pi1 lintr_wf_cfg cfg_frame_def)
  then obtain pi2 where "pci_lintr_update pi1 = Some pi2" "lintr_ok pi2" "lintr_frame pi1 pi2"
    using lintr_update_establishes by blast
  with u have "lintr_frame pi1 pi'" "lintr_ok pi'" by simp_all
  with lintr_frame_guest c1 guest_frame_trans show ?thesis by blast
qed

section \<open>Writes to a BAR register\<close>

definition bar_frame :: "pci_devinst \<Rightarrow> pci_devinst \<Rightarrow> bool" where
  "bar_frame pi pi' \<longleftrightarrow> (\<exists>bars. pi' = pi\<lparr>pi_bar := bars\<rparr> \<and>
     map bar_type bars = map bar_type (pi_bar pi) \<and> map bar_size bars = map bar_size (pi_bar pi))"

lemma bar_frame_refl [simp]: "bar_frame pi pi"
  unfolding bar_frame_def by (rule exI [of _ "pi_bar pi"]) simp

lemma bar_frame_set_addr:
  "bar_frame pi (set_bar pi idx ((pi_bar pi ! idx)\<lparr>bar_addr := a\<rparr>))"
proof (cases "idx < length (pi_bar pi)")
  case True
  then show ?thesis unfolding bar_frame_def set_bar_def
    by (intro exI [of _ "(pi_bar pi)[idx := (pi_bar pi ! idx)\<lparr>bar_addr := a\<rparr>]"])
      (simp add: map_update list_update_same_conv)
next
  case False
  then show ?thesis by (simp add: set_bar_def list_update_beyond)
qed

lemma update_bar_address_frame:
  "update_bar_address s pi addr idx type = Some (s', pi') \<Longrightarrow> bar_frame pi pi'"
  by (auto simp: update_bar_address_def bind_eq_Some_conv Let_def bar_frame_set_addr)

lemma bar_select_frame:
  "bar_select s pi idx eax = Some (s', pi', bar) \<Longrightarrow> bar_frame pi pi'"
  by (cases "bar_type (pi_bar pi ! idx)")
    (auto simp: bar_select_def bind_eq_Some_conv Let_def bar_frame_set_addr split: if_splits
       dest: update_bar_address_frame)

lemma bar_write_cases:
  assumes "bar_write s pi coff bytes eax = Some (s', pi')"
  obtains (same) "pi' = pi"
    | (written) pi1 v where "bytes = 4" "coff mod 4 = 0" "bar_frame pi pi1"
        "pci_set_cfgdata32 pi1 coff v = Some pi'"
proof (cases "bytes \<noteq> 4 \<or> coff mod 4 \<noteq> 0")
  case True
  with assms same show ?thesis by (simp add: bar_write_def)
next
  case False
  with assms obtain s1 pi1 bar where
    "bar_select s pi ((coff - PCIR_BAR 0) div 4) eax = Some (s1, pi1, bar)"
    "pci_set_cfgdata32 pi1 coff (ucast bar) = Some pi'"
    by (auto simp: bar_write_def bind_eq_Some_conv Let_def)
  with False written bar_select_frame show ?thesis by blast
qed

lemma dev_inv_bar_frame:
  assumes "dev_inv pi cs" "bar_frame pi pi'"
  shows "dev_inv pi' cs \<and> guest_frame cs pi pi'"
proof -
  from assms(2) obtain bars where b: "pi' = pi\<lparr>pi_bar := bars\<rparr>"
    "map bar_type bars = map bar_type (pi_bar pi)" "map bar_size bars = map bar_size (pi_bar pi)"
    unfolding bar_frame_def by (elim exE conjE)
  from b(2) have "length bars = length (pi_bar pi)" by (rule map_eq_imp_length_eq)
  with assms(1) b show ?thesis
    by (simp add: dev_inv_def caps_ok_def cap_present_def cap_at_def devinst_ok_def lintr_defs
        known_irq_def permitted_def guest_frame_def pi_ref_def)
qed

lemma bar_write_inv:
  assumes inv: "dev_inv pi cs" and c: "PCIR_BAR 0 \<le> coff" "coff < PCIR_BAR (PCI_BARMAX + 1)"
    and run: "bar_write s pi coff bytes eax = Some (s', pi')"
  shows "dev_inv pi' cs \<and> guest_frame cs pi pi'"
  using run
proof (cases rule: bar_write_cases)
  case same
  with inv show ?thesis by (simp add: guest_frame_refl)
next
  case b: (written pi1 v)
  have i1: "dev_inv pi1 cs" "guest_frame cs pi pi1"
    using dev_inv_bar_frame [OF inv b(3)] by blast+
  let ?cfg = "put_le32 (pi_cfgdata pi1) coff v"
  have pi': "pi' = pi1\<lparr>pi_cfgdata := ?cfg\<rparr>"
    using b(4) by (auto simp: pci_set_cfgdata32_def bind_eq_Some_conv)
  have top: "coff + 4 \<le> 0x28" using c b(2) by simp presburger
  have fr: "cfg_frame coff (coff + 4) pi1 (pi1\<lparr>pi_cfgdata := ?cfg\<rparr>)"
    by (simp add: cfg_frame_def nth_put_le32_other)
  have "coff + 4 \<le> 4 \<or> PCIR_STATUS + 2 \<le> coff" using c by simp
  moreover have "coff + 4 \<le> k \<or> k + 2 \<le> coff" if "k \<in> set cs" for k
    using cap_at_bounds(4) [of pi cs k] inv that top by (simp add: dev_inv_def)
  ultimately have "dev_inv pi' cs \<and> guest_frame cs pi1 pi'"
    using plain_write_inv [OF i1(1) fr] unfolding pi' by blast
  with i1 guest_frame_trans show ?thesis by blast
qed

section \<open>Any write of the guest\<close>

lemma cfg_write_inv:
  assumes inv: "dev_inv pi cs" and al: "access_width_ok bytes" "coff mod bytes = 0" "coff \<le> PCI_REGMAX"
    and run: "cfg_write_default s pi coff bytes eax = Some (s', pi')"
  shows "dev_inv pi' cs \<and> guest_frame cs pi pi'"
proof -
  have ok: "caps_ok pi cs" and line: "lintr_ok pi" using inv by (simp_all add: dev_inv_def)
  consider (bar) "PCIR_BAR 0 \<le> coff" "coff < PCIR_BAR (PCI_BARMAX + 1)"
    | (cap) "\<not> (PCIR_BAR 0 \<le> coff \<and> coff < PCIR_BAR (PCI_BARMAX + 1))" "cs \<noteq> []"
        "CAP_START_OFFSET \<le> coff" "coff \<le> pi_capend pi"
    | (cmd) "PCIR_COMMAND \<le> coff" "coff < PCIR_REVID"
    | (plain) "\<not> (PCIR_BAR 0 \<le> coff \<and> coff < PCIR_BAR (PCI_BARMAX + 1))"
        "\<not> (cs \<noteq> [] \<and> CAP_START_OFFSET \<le> coff \<and> coff \<le> pi_capend pi)"
        "\<not> (PCIR_COMMAND \<le> coff \<and> coff < PCIR_REVID)"
    by linarith
  then show ?thesis
  proof cases
    case bar
    with run have "bar_write s pi coff bytes eax = Some (s', pi')"
      by (simp add: cfg_write_default_def)
    from bar_write_inv [OF inv bar this] show ?thesis .
  next
    case cap
    with ok have "cap_present pi" by (simp add: caps_ok_def)
    with cap run have "pci_emul_capwrite pi coff bytes eax = Some pi'"
      by (auto simp: cfg_write_default_def iscap_eq bind_eq_Some_conv split: if_splits)
    with capwrite_ok [OF ok line cap(2,3,4) al(1), of eax] have
      c: "caps_ok pi' cs" "lintr_ok pi'" "cfg_frame coff (coff + 4) pi pi'"
        "\<forall>c\<in>set cs. pi_cfgdata pi' ! c = pi_cfgdata pi ! c \<and> pi_cfgdata pi' ! (c + 1) = pi_cfgdata pi ! (c + 1)"
      by auto
    have "get_le16 (pi_cfgdata pi') PCIR_STATUS = get_le16 (pi_cfgdata pi) PCIR_STATUS"
      using c(3) cap(3) by (simp add: cfg_frame_def get_le16_def)
    with c show ?thesis by (simp add: dev_inv_def guest_frame_def cfg_frame_def pi_ref_def)
  next
    case cmd
    with run have "pci_emul_cmdsts_write s pi coff eax bytes = Some (s', pi')"
      by (simp add: cfg_write_default_def iscap_eq)
    from cmdsts_write_inv [OF inv al(1,2) _ _ this] cmd show ?thesis by simp
  next
    case plain
    have "\<not> (cap_present pi \<and> CAP_START_OFFSET \<le> coff \<and> coff \<le> pi_capend pi)"
      using plain(2) ok by (simp add: caps_ok_def)
    then have w: "CFGWRITE pi coff eax bytes = Some pi'"
      using run plain(1,3) by (auto simp: cfg_write_default_def iscap_eq bind_eq_Some_conv split: if_splits)
    have top: "coff + bytes \<le> PCI_REGMAX + 1"
      using al w by (auto simp: access_width_ok_def CFGWRITE_def pci_set_cfgdata16_def
          pci_set_cfgdata32_def bind_eq_Some_conv)
    obtain cfg where pi': "pi' = pi\<lparr>pi_cfgdata := cfg\<rparr>" and fr: "cfg_frame coff (coff + bytes) pi pi'"
      using CFGWRITE_ok [OF al(1,2) top, of pi eax] w by (metis option.inject)
    have loc: "coff + bytes \<le> 4 \<or> PCIR_STATUS + 2 \<le> coff"
      using plain(3) al by (auto simp: access_width_ok_def)
    have caps: "coff + bytes \<le> k \<or> k + 2 \<le> coff" if "k \<in> set cs" for k
    proof (cases "CAP_START_OFFSET \<le> coff")
      case True
      have "cs \<noteq> []" using that by auto
      with True plain(2) have "pi_capend pi < coff" by simp
      moreover have "cap_at pi k" using ok that by (simp add: caps_ok_def)
      ultimately show ?thesis by (simp add: cap_at_def)
    next
      case False
      then have "coff + bytes \<le> 0x40" using al by (auto simp: access_width_ok_def)
      with cap_at_bounds(4) [OF ok that] show ?thesis by linarith
    qed
    from plain_write_inv [OF inv fr [unfolded pi'] loc caps] show ?thesis by (simp add: pi')
  qed
qed

text \<open>
  The history of a device: writes of the guest to its configuration space, interleaved with
  requests and withdrawals of its interrupt.
\<close>

inductive dev_step ::
  "'z pci_space_scheme \<times> pci_devinst \<Rightarrow> 'z pci_space_scheme \<times> pci_devinst \<Rightarrow> bool" where
  guest_write: "access_width_ok bytes \<Longrightarrow> coff mod bytes = 0 \<Longrightarrow> coff \<le> PCI_REGMAX \<Longrightarrow>
    cfg_write_default s pi coff bytes eax = Some (s', pi') \<Longrightarrow> dev_step (s, pi) (s', pi')"
| raise_line: "pci_lintr_assert pi = Some pi' \<Longrightarrow> dev_step (s, pi) (s, pi')"
| lower_line: "pci_lintr_deassert pi = Some pi' \<Longrightarrow> dev_step (s, pi) (s, pi')"

inductive_cases dev_stepE: "dev_step (s, pi) t"
inductive_simps dev_step_simp: "dev_step (s, pi) (s', pi')"

lemma line_step_inv:
  assumes "dev_inv pi cs" "pci_lintr_assert pi = Some pi' \<or> pci_lintr_deassert pi = Some pi'"
  shows "dev_inv pi' cs \<and> guest_frame cs pi pi'"
proof -
  have ok: "lintr_ok pi" "caps_ok pi cs" using assms(1) by (simp_all add: dev_inv_def)
  then have wf: "lintr_wf pi" by (simp add: lintr_ok_def)
  have "lintr_ok pi'"
    using assms(2) lintr.up_ok [OF ok(1)] lintr.down_ok [OF ok(1)] by auto
  moreover have "lintr_frame pi pi'"
    using assms(2) by (auto simp: lintr_assert_eq [OF wf] lintr_deassert_eq [OF wf] lintr_frames
        split: if_splits)
  ultimately show ?thesis using lintr_frame_guest ok(2) by blast
qed

lemma dev_step_inv:
  assumes "dev_step (s, pi) (s', pi')" "dev_inv pi cs"
  shows "dev_inv pi' cs \<and> guest_frame cs pi pi'"
  using assms(1)
proof (cases rule: dev_step.cases)
  case (guest_write bytes coff eax)
  then show ?thesis by (intro cfg_write_inv [OF assms(2)])
qed (use line_step_inv [OF assms(2)] in blast)+

lemma dev_steps_inv:
  assumes "dev_step\<^sup>*\<^sup>* x y" "dev_inv (snd x) cs"
  shows "dev_inv (snd y) cs \<and> guest_frame cs (snd x) (snd y)"
  using assms
proof (induction rule: rtranclp_induct)
  case base
  then show ?case by (simp add: guest_frame_refl)
next
  case (step y z)
  then show ?case
    using dev_step_inv [of "fst y" "snd y" "fst z" "snd z" cs] guest_frame_trans by auto
qed

end
