(* ===== verification/PciProps.thy ===== *)
theory PciProps
  imports PciCfgrwProps
begin

text \<open>
  The properties of the PCI emulation: BAR allocation and moves, capabilities, the interrupt
  line, configuration reads and writes, and the extended configuration window; with concrete
  instances.
\<close>

section \<open>Driving an interrupt line\<close>

text \<open>The device sets its line to a sequence of levels; the words that reach the controller.\<close>

fun drive_line :: "bool list \<Rightarrow> pci_devinst \<Rightarrow> pci_devinst option" where
  "drive_line [] pi = Some pi"
| "drive_line (b # bs) pi = do {
     pi \<leftarrow> (if b then pci_lintr_assert pi else pci_lintr_deassert pi);
     drive_line bs pi
   }"

fun rising :: "bool \<Rightarrow> bool list \<Rightarrow> nat" where
  "rising cur [] = 0"
| "rising cur (b # bs) = (if b \<and> \<not> cur then Suc (rising b bs) else rising b bs)"

lemma drive_line_eq: "drive_line bs = lintr.drive bs"
proof (induction bs)
  case Nil
  show ?case by (rule ext) simp
next
  case (Cons b bs)
  show ?case by (rule ext) (simp add: Cons)
qed

lemma plic_word_frame: "lintr_frame pi pi' \<Longrightarrow> plic_word pi' = plic_word pi"
  by (auto simp: lintr_frame_def plic_word_def)

lemma one_level:
  assumes ok: "lintr_ok pi"
  shows "\<exists>pi'. (if b then pci_lintr_assert pi else pci_lintr_deassert pi) = Some pi' \<and>
    lintr_ok pi' \<and> requested pi' = b \<and> lintr_frame pi pi' \<and>
    pi_plic pi' = pi_plic pi @ (if b \<and> \<not> requested pi \<and> permitted pi then [plic_word pi] else [])"
proof -
  have wf: "lintr_wf pi" using ok by (simp add: lintr_ok_def)
  show ?thesis
  proof (cases b)
    case True
    obtain pi' where a: "pci_lintr_assert pi = Some pi'" "lintr_ok pi'" "requested pi'"
      using lintr.up_ok [OF ok] by blast
    moreover have "lintr_frame pi pi' \<and>
        pi_plic pi' = pi_plic pi @ (if \<not> requested pi \<and> permitted pi then [plic_word pi] else [])"
      using a(1) by (auto simp: lintr_assert_eq [OF wf] lintr_frames split: if_splits)
    ultimately show ?thesis using True by simp
  next
    case False
    obtain pi' where a: "pci_lintr_deassert pi = Some pi'" "lintr_ok pi'" "\<not> requested pi'"
      using lintr.down_ok [OF ok] by blast
    moreover have "lintr_frame pi pi' \<and> pi_plic pi' = pi_plic pi"
      using a(1) by (auto simp: lintr_deassert_eq [OF wf] lintr_frames)
    ultimately show ?thesis using False by simp
  qed
qed

lemma drive_line_trace:
  assumes "lintr_ok pi"
  shows "\<exists>pi'. drive_line bs pi = Some pi' \<and> lintr_ok pi' \<and> requested pi' = last (requested pi # bs) \<and>
    pi_plic pi' = pi_plic pi @
      replicate (if permitted pi then rising (requested pi) bs else 0) (plic_word pi)"
  using assms
proof (induction bs arbitrary: pi)
  case Nil
  then show ?case by simp
next
  case (Cons b bs)
  obtain p1 where p1: "(if b then pci_lintr_assert pi else pci_lintr_deassert pi) = Some p1"
      "lintr_ok p1" "requested p1 = b" "lintr_frame pi p1"
      "pi_plic p1 = pi_plic pi @ (if b \<and> \<not> requested pi \<and> permitted pi then [plic_word pi] else [])"
    using one_level [OF Cons.prems] by blast
  have same: "permitted p1 = permitted pi" "plic_word p1 = plic_word pi"
    using lintr_frame_simps(12) [OF p1(4)] plic_word_frame [OF p1(4)] by simp_all
  show ?case
    using Cons.IH [OF p1(2)] p1(1,3,5) same by (auto simp: replicate_append_same)
qed

section \<open>Configuration accesses of the bus\<close>

lemma businfo_at_set_dev:
  assumes "dev_at s (bus, slot, func) = Some (Some d)"
  shows "dev_at (set_dev s (bus, slot, func) d') (bus, slot, func) = Some (Some d')"
  using assms
  by (auto simp: dev_at_def set_dev_def upd_func_def upd_slot_def businfo_at_def slot_of_def func_of_def
      bind_eq_Some_conv split: if_splits option.splits)

lemma set_dev_same:
  assumes "dev_at s (bus, slot, func) = Some (Some d)"
  shows "set_dev s (bus, slot, func) d = s"
proof -
  obtain bi where b: "bus < length (pci_businfo s)" "pci_businfo s ! bus = Some bi"
      "slot < length (bi_slotinfo bi)" "func < length (si_funcs (bi_slotinfo bi ! slot))"
      "fi_devi (si_funcs (bi_slotinfo bi ! slot) ! func) = Some d"
    using assms by (auto simp: dev_at_def businfo_at_def slot_of_def func_of_def bind_eq_Some_conv
        split: if_splits option.splits)
  have "(si_funcs (bi_slotinfo bi ! slot) ! func)\<lparr>fi_devi := Some d\<rparr> = si_funcs (bi_slotinfo bi ! slot) ! func"
    using b(5) by simp
  then have "(si_funcs (bi_slotinfo bi ! slot))[func :=
      (si_funcs (bi_slotinfo bi ! slot) ! func)\<lparr>fi_devi := Some d\<rparr>] = si_funcs (bi_slotinfo bi ! slot)"
    by (simp add: list_update_same_conv b(4))
  then have "(bi_slotinfo bi)[slot := (bi_slotinfo bi ! slot)\<lparr>si_funcs :=
      (si_funcs (bi_slotinfo bi ! slot))[func :=
        (si_funcs (bi_slotinfo bi ! slot) ! func)\<lparr>fi_devi := Some d\<rparr>]\<rparr>] = bi_slotinfo bi"
    using b(3) by (simp add: list_update_same_conv)
  with b(1,2) show ?thesis
    by (simp add: set_dev_def upd_func_def upd_slot_def list_update_same_conv)
qed

lemma aligned_and: "access_width_ok bytes \<Longrightarrow> coff mod bytes = 0 \<Longrightarrow> int coff AND (int bytes - 1) = 0"
  using int_and_aligned [of bytes coff] by (simp add: access_width_ok_def)

lemma CFGREAD_total:
  assumes "access_width_ok bytes" "coff mod bytes = 0" "coff \<le> PCI_REGMAX"
  shows "\<exists>v. CFGREAD pi coff bytes = Some v"
proof -
  consider "bytes = 1" | "bytes = 2" | "bytes = 4" using assms(1) by (auto simp: access_width_ok_def)
  then show ?thesis
  proof cases
    case 3
    have "coff \<le> 252" using assms(2,3) 3 by presburger
    with 3 assms show ?thesis by (simp add: CFGREAD_def pci_get_cfgdata32_def)
  next
    case 2
    have "coff \<le> 254" using assms(2,3) 2 by presburger
    with 2 assms show ?thesis by (simp add: CFGREAD_def pci_get_cfgdata16_def)
  qed (use assms in \<open>simp add: CFGREAD_def pci_get_cfgdata8_def\<close>)
qed

lemma is_mfdev_total:
  assumes "dev_at s (bus, slot, func) = Some (Some d)"
  shows "\<exists>b. pci_emul_is_mfdev s bus slot = Some b"
proof -
  obtain bi si where "businfo_at s bus = Some (Some bi)" "slot_of bi slot = Some si"
    using assms by (auto simp: dev_at_def bind_eq_Some_conv split: option.splits)
  then show ?thesis by (simp add: pci_emul_is_mfdev_def)
qed

lemma hdrtype_fixup_total:
  assumes "dev_at s (bus, slot, func) = Some (Some d)"
  shows "\<exists>v. pci_emul_hdrtype_fixup s bus slot coff bytes r = Some v \<and>
    (coff + bytes \<le> PCIR_HDRTYPE \<or> PCIR_HDRTYPE < coff \<longrightarrow> v = r)"
proof -
  obtain mf where "pci_emul_is_mfdev s bus slot = Some mf" using is_mfdev_total [OF assms] by blast
  then show ?thesis
    by (cases "coff \<le> PCIR_HDRTYPE \<and> coff + bytes > PCIR_HDRTYPE")
      (auto simp: pci_emul_hdrtype_fixup_def)
qed

lemma cfg_read_eq:
  assumes d: "dev_at s (bus, slot, func) = Some (Some d)" and pe: "pci_emul_finddev devs (dev_emu d) = Some pe"
    and default: "pe_cfgread pe = None"
    and al: "access_width_ok bytes" "coff mod bytes = 0" "coff \<le> PCI_REGMAX"
    and r: "CFGREAD (dev_pi d) coff bytes = Some r"
    and f: "pci_emul_hdrtype_fixup s bus slot coff bytes r = Some v"
  shows "pci_cfgrw devs s True bus slot func coff bytes eax = Some (v, s)"
proof -
  have w: "\<not> (bytes \<noteq> 1 \<and> bytes \<noteq> 2 \<and> bytes \<noteq> 4)" using al(1) by (auto simp: access_width_ok_def)
  show ?thesis
    unfolding pci_cfgrw_def
    using d pe default al(3) r f aligned_and [OF al(1,2)] w set_dev_same [OF d] by auto
qed

lemma cfg_write_eq:
  assumes d: "dev_at s (bus, slot, func) = Some (Some d)" and pe: "pci_emul_finddev devs (dev_emu d) = Some pe"
    and default: "pe_cfgwrite pe = None"
    and al: "access_width_ok bytes" "coff mod bytes = 0" "coff \<le> PCI_REGMAX"
  shows "pci_cfgrw devs s False bus slot func coff bytes eax =
    map_option (\<lambda>(s', pi). (eax, set_dev s' (bus, slot, func) (d\<lparr>dev_pi := pi\<rparr>)))
      (cfg_write_default s (dev_pi d) coff bytes eax)"
proof -
  have w: "\<not> (bytes \<noteq> 1 \<and> bytes \<noteq> 2 \<and> bytes \<noteq> 4)" using al(1) by (auto simp: access_width_ok_def)
  show ?thesis
    unfolding pci_cfgrw_def
    using d pe default al(3) aligned_and [OF al(1,2)] w
    by (cases "cfg_write_default s (dev_pi d) coff bytes eax") auto
qed

text \<open>The registers behind the BARs and in front of the capabilities are plain memory.\<close>

lemma plain_region:
  assumes "devinst_ok pi" "0x28 \<le> coff" "coff < CAP_START_OFFSET" "access_width_ok bytes" "coff mod bytes = 0"
  shows "\<exists>pi'. cfg_write_default s pi coff bytes eax = Some (s, pi') \<and> devinst_ok pi' \<and>
    CFGREAD pi' coff bytes = Some (take_bit (8 * bytes) eax)"
proof -
  have cw: "cfg_write_default s pi coff bytes eax =
      Option.bind (CFGWRITE pi coff eax bytes) (\<lambda>pi. Some (s, pi))"
    using assms(2,3) by (simp add: cfg_write_default_def iscap_eq)
  have top: "coff + bytes \<le> PCI_REGMAX + 1" using assms(3,4) by (auto simp: access_width_ok_def)
  consider "bytes = 1" | "bytes = 2" | "bytes = 4" using assms(4) by (auto simp: access_width_ok_def)
  then have "\<exists>pi'. CFGWRITE pi coff eax bytes = Some pi' \<and> devinst_ok pi' \<and>
      CFGREAD pi' coff bytes = Some (take_bit (8 * bytes) eax)"
  proof cases
    case 1
    with cfg8.write_read [OF assms(1), of coff "ucast eax"] top show ?thesis
      by (auto simp: CFGWRITE_def CFGREAD_def ucast_narrow)
  next
    case 2
    with cfg16.write_read [OF assms(1), of coff "ucast eax"] top assms(5) show ?thesis
      by (auto simp: CFGWRITE_def CFGREAD_def ucast_narrow)
  next
    case 3
    with cfg32.write_read [OF assms(1), of coff eax] top assms(5) show ?thesis
      by (auto simp: CFGWRITE_def CFGREAD_def take_bit_word_eq_self)
  qed
  with cw show ?thesis by auto
qed

section \<open>Properties: address space\<close>

text \<open>C19. However the devices ask for address space, the ranges they get lie between the start
  of the window and its limit, are aligned to their size and never overlap.\<close>

theorem bar_ranges_disjoint:
  assumes "unat baseptr \<le> unat limit" "unat limit \<le> 2 ^ 63" "\<forall>k\<in>set ks. k \<le> 62"
    and "alloc_all baseptr limit ks = Some rs"
  shows "pairwise (\<lambda>r q. range_of r \<inter> range_of q = {}) (set rs) \<and>
    (\<forall>r\<in>set rs. range_of r \<subseteq> {unat baseptr ..< unat limit} \<and> 2 ^ snd r dvd unat (fst r))"
  by (rule alloc_all_ranges [OF assms])

text \<open>The size of a BAR is a power of two, not less than the size asked for and not less
  than the minimum of the standard (4 bytes of I/O space, 16 bytes of memory).\<close>

lemma bar_size_power_of_two:
  assumes "bar_rounded_size type sz = Some r"
  shows "\<exists>k<64. r = 2 ^ k \<and> unat sz \<le> unat r \<and> (if type = PCIBAR_IO then 2 \<le> k else 4 \<le> k)"
  by (rule bar_rounded_size_pow2 [OF assms])

text \<open>C18. A 32 bit memory BAR that fits is allocated at the next aligned address; its register
  holds that address, the registry sends exactly its range to this device and BAR, and what was
  registered before is untouched.\<close>

theorem alloc_bar_registers_range:
  assumes "space_ok s" "devinst_ok pi" "idx \<le> PCI_BARMAX"
    and "bar_rounded_size PCIBAR_MEM32 sz = Some (2 ^ k)" "k \<le> 31"
    and "unat (pci_emul_membase32 s) \<le> 2 ^ 32"
    and "unat (roundup2 (pci_emul_membase32 s) (2 ^ k)) + 2 ^ k \<le> unat PCI_EMUL_MEMLIMIT32"
  shows "\<exists>s' pi'. pci_emul_alloc_bar s pi idx PCIBAR_MEM32 sz = Some (0, s', pi') \<and>
    pi_bar pi' ! idx = mem32_bar (2 ^ k) (roundup2 (pci_emul_membase32 s) (2 ^ k)) \<and>
    get_le32 (pi_cfgdata pi') (PCIR_BAR idx) =
      ucast (roundup2 (pci_emul_membase32 s) (2 ^ k) AND PCIM_BAR_MEM_BASE) \<and>
    space_ok s' \<and> bar_live s' pi' idx \<and>
    (\<forall>x. unat x < unat (roundup2 (pci_emul_membase32 s) (2 ^ k)) \<or>
         unat (roundup2 (pci_emul_membase32 s) (2 ^ k)) + 2 ^ k \<le> unat x \<longrightarrow>
       mem_lookup s' x = mem_lookup s x)"
proof -
  obtain s' cfg where r: "pci_emul_alloc_bar s pi idx PCIBAR_MEM32 sz = Some (0, s',
        (set_bar pi idx (mem32_bar (2 ^ k) (roundup2 (pci_emul_membase32 s) (2 ^ k))))\<lparr>pi_cfgdata := cfg\<rparr>)"
      "cfg = put_le32 (pi_cfgdata pi) (PCIR_BAR idx)
        (ucast (roundup2 (pci_emul_membase32 s) (2 ^ k) AND PCIM_BAR_MEM_BASE))"
      "space_ok s'" "bar_live s' ((set_bar pi idx (mem32_bar (2 ^ k)
        (roundup2 (pci_emul_membase32 s) (2 ^ k))))\<lparr>pi_cfgdata := cfg\<rparr>) idx"
      "\<forall>x. unat x < unat (roundup2 (pci_emul_membase32 s) (2 ^ k)) \<or>
         unat (roundup2 (pci_emul_membase32 s) (2 ^ k)) + 2 ^ k \<le> unat x \<longrightarrow>
       mem_lookup s' x = mem_lookup s x"
    using alloc_mem32_ok [OF assms] by (elim exE conjE)
  moreover have "pi_bar ((set_bar pi idx b)\<lparr>pi_cfgdata := cfg\<rparr>) ! idx = b" for b
    using assms(2,3) by (simp add: set_bar_def devinst_ok_def)
  moreover have "get_le32 cfg (PCIR_BAR idx) =
      ucast (roundup2 (pci_emul_membase32 s) (2 ^ k) AND PCIM_BAR_MEM_BASE)"
    using r(2) assms(2,3) by (simp add: devinst_ok_def)
  ultimately show ?thesis
    by (intro exI [of _ s'] exI [of _ "(set_bar pi idx (mem32_bar (2 ^ k)
        (roundup2 (pci_emul_membase32 s) (2 ^ k))))\<lparr>pi_cfgdata := cfg\<rparr>"] conjI) simp_all
qed

text \<open>C16. When the guest moves a BAR while memory decoding is on, to a place that is free or
  its own, the old range stops and the new range starts to reach the same device and BAR, and
  no other address changes hands.\<close>

theorem bar_move_follows_guest:
  assumes "mem_ready s" "bar_live s pi idx" "memen pi = Some True"
    and "new_bar_addr type (bar_addr (pi_bar pi ! idx)) addr = Some a"
    and "range_ok (bar_at pi idx a)"
    and "\<And>x. in_range (bar_at pi idx a) x \<Longrightarrow>
      mem_lookup s x = None \<or> in_range (bar_range pi idx (pi_bar pi ! idx)) x"
  shows "\<exists>s' pi'. update_bar_address s pi addr idx type = Some (s', pi') \<and> mem_ready s' \<and>
    bar_live s' pi' idx \<and> bar_addr (pi_bar pi' ! idx) = a \<and>
    mem_lookup s' = (\<lambda>x. if in_range (bar_at pi idx a) x then Some (bar_at pi idx a)
       else if in_range (bar_range pi idx (pi_bar pi ! idx)) x then None else mem_lookup s x)"
proof -
  let ?pi = "set_bar pi idx ((pi_bar pi ! idx)\<lparr>bar_addr := a\<rparr>)"
  have "bar_addr (pi_bar ?pi ! idx) = a"
    using assms(2) by (simp add: bar_live_def set_bar_def)
  moreover obtain s' where "update_bar_address s pi addr idx type = Some (s', ?pi)" "mem_ready s'"
      "bar_live s' ?pi idx"
      "mem_lookup s' = (\<lambda>x. if in_range (bar_at pi idx a) x then Some (bar_at pi idx a)
       else if in_range (bar_range pi idx (pi_bar pi ! idx)) x then None else mem_lookup s x)"
    using update_bar_moves [OF assms] by auto
  ultimately show ?thesis by (intro exI [of _ s'] exI [of _ ?pi] conjI)
qed

text \<open>C24. A guest can stop the device model: moving a BAR so that it overlaps another range,
  with its base in free space, makes the registration fail and the code assert.\<close>

theorem bar_overlap_stops_model:
  assumes "mem_ready s" "bar_live s pi idx" "memen pi = Some True"
    and "new_bar_addr type (bar_addr (pi_bar pi ! idx)) addr = Some a" "range_ok (bar_at pi idx a)"
    and "mem_lookup s a = None"
    and "in_range (bar_at pi idx a) x" "mem_lookup s x \<noteq> None"
      "\<not> in_range (bar_range pi idx (pi_bar pi ! idx)) x"
  shows "update_bar_address s pi addr idx type = None"
proof -
  let ?b = "pi_bar pi ! idx" and ?pi = "set_bar pi idx ((pi_bar pi ! idx)\<lparr>bar_addr := a\<rparr>)"
  have idx: "idx < length (pi_bar pi)" and ty: "bar_type ?b \<in> {PCIBAR_MEM32, PCIBAR_MEM64}"
    and look: "mem_lookup s (mem_base (bar_range pi idx ?b)) = Some (bar_range pi idx ?b)"
    using assms(2) by (simp_all add: bar_live_def bar_range_def)
  obtain s1 where s1: "unregister_mem s (bar_range pi idx ?b) = Some (0, s1)" "mem_ready s1"
      "mem_lookup s1 = (\<lambda>x. if in_range (bar_range pi idx ?b) x then None else mem_lookup s x)"
    using mem.unregister_ok [OF assms(1) look matches_bar] by blast
  have base: "mem_base (bar_at pi idx a) = a" by (simp add: bar_at_def bar_range_def)
  have free: "mem_lookup s1 (mem_base (bar_at pi idx a)) = None" "mem_lookup s1 x \<noteq> None"
    using s1(3) assms(6,8,9) base by simp_all
  have "mem_inv s1" "mem_alloc_ok s1 (mem_ptr s1)" using s1(2) by (simp_all add: mem_ready_def)
  from register_mem_overlap [OF this assms(5) free(1) assms(7) free(2)]
  have "register_mem s1 (bar_at pi idx a) = (EEXIST, s1\<lparr>mem_ptr := Suc (mem_ptr s1)\<rparr>)" .
  moreover have bar': "pi_bar ?pi ! idx = ?b\<lparr>bar_addr := a\<rparr>" "idx < length (pi_bar ?pi)"
    using idx by (simp_all add: set_bar_def)
  moreover have "bar_type (pi_bar ?pi ! idx) \<in> {PCIBAR_MEM32, PCIBAR_MEM64}" using bar' ty by simp
  ultimately have "register_bar s1 ?pi idx = None"
    using register_bar_mem(1) [of idx ?pi s1] by (simp add: bar_at_def)
  moreover have "unregister_bar s pi idx = Some s1"
    using register_bar_mem(2) [OF idx ty, of s] s1(1) by simp
  moreover have "bar_type ?b \<noteq> PCIBAR_IO" using ty by auto
  ultimately show ?thesis using idx assms(3,4) by (simp add: update_bar_address_def)
qed

section \<open>Properties: capabilities and configuration writes\<close>

text \<open>C20. A device that adds a capability for which there is room gets a list with that
  capability at its end: the bytes are in place, the next pointer is closed, and no byte outside
  of the capability changes but the status register, the capability pointer and the link to it.\<close>

theorem add_capability_appends:
  assumes "caps_ok pi cs" "capdata_ok capdata"
    and "next_capoff pi + cap_space capdata \<le> PCI_REGMAX + 1"
  shows "\<exists>pi'. pci_emul_add_capability pi capdata = Some (0, pi') \<and>
    caps_ok pi' (cs @ [next_capoff pi]) \<and>
    (\<forall>i<length capdata. i \<noteq> 1 \<longrightarrow> pi_cfgdata pi' ! (next_capoff pi + i) = capdata ! i) \<and>
    (\<forall>i. i \<notin> {PCIR_STATUS, PCIR_STATUS + 1, PCIR_CAP_PTR} \<union> (\<lambda>c. c + 1) ` set cs \<union>
       {next_capoff pi ..< next_capoff pi + length capdata} \<longrightarrow>
       pi_cfgdata pi' ! i = pi_cfgdata pi ! i)"
  using add_capability_ok [OF assms] by fastforce

text \<open>A capability for which there is no room is refused with -1 and changes nothing.\<close>

lemma add_capability_refuses:
  assumes "caps_ok pi cs" "capdata \<noteq> []"
    and "next_capoff pi + cap_space capdata > PCI_REGMAX + 1"
  shows "pci_emul_add_capability pi capdata = Some (- 1, pi)"
  by (rule add_capability_no_room [OF assms])

text \<open>C17. A write of the guest to the capability region always returns: the search ends, no
  assertion fails, at most four bytes from the offset on change, and neither an identifier nor a
  next pointer is ever one of them; the list stays well formed and the line consistent.\<close>

theorem capwrite_confined:
  assumes "caps_ok pi cs" "lintr_ok pi" "cs \<noteq> []" "CAP_START_OFFSET \<le> offset"
    and "offset \<le> pi_capend pi" "access_width_ok bytes"
  shows "\<exists>pi'. pci_emul_capwrite pi offset bytes val = Some pi' \<and> caps_ok pi' cs \<and> lintr_ok pi' \<and>
    (\<forall>i. i < offset \<or> offset + 4 \<le> i \<longrightarrow> pi_cfgdata pi' ! i = pi_cfgdata pi ! i) \<and>
    (\<forall>c\<in>set cs. pi_cfgdata pi' ! c = pi_cfgdata pi ! c \<and>
       pi_cfgdata pi' ! (c + 1) = pi_cfgdata pi ! (c + 1))"
  using capwrite_ok [OF assms, of val] by (auto simp: cfg_frame_def)


text \<open>C23. A write to one of the registers between the BARs and the capabilities returns, and
  reading the register back gives the bytes that were written.\<close>

theorem cfg_write_read_back:
  assumes d: "dev_at s (bus, slot, func) = Some (Some d)" and ok: "devinst_ok (dev_pi d)"
    and pe: "pci_emul_finddev devs (dev_emu d) = Some pe" "pe_cfgwrite pe = None" "pe_cfgread pe = None"
    and r: "0x28 \<le> coff" "coff < CAP_START_OFFSET" "access_width_ok bytes" "coff mod bytes = 0"
  shows "\<exists>s'. pci_cfgrw devs s False bus slot func coff bytes eax = Some (eax, s') \<and>
    pci_cfgrw devs s' True bus slot func coff bytes x = Some (take_bit (8 * bytes) eax, s')"
proof -
  have c: "coff \<le> PCI_REGMAX" using r(2) by simp
  obtain pi' where p: "cfg_write_default s (dev_pi d) coff bytes eax = Some (s, pi')"
      "CFGREAD pi' coff bytes = Some (take_bit (8 * bytes) eax)"
    using plain_region [OF ok r, of s eax] by (elim exE conjE)
  let ?d = "d\<lparr>dev_pi := pi'\<rparr>"
  let ?s = "set_dev s (bus, slot, func) ?d"
  have "pci_cfgrw devs s False bus slot func coff bytes eax = Some (eax, ?s)"
    using cfg_write_eq [OF d pe(1,2) r(3,4) c] p(1) by simp
  moreover have "pci_emul_hdrtype_fixup ?s bus slot coff bytes v = Some v" for v
    using r(1) by (simp add: pci_emul_hdrtype_fixup_def)
  then have "pci_cfgrw devs ?s True bus slot func coff bytes x = Some (take_bit (8 * bytes) eax, ?s)"
    using p(2) pe by (intro cfg_read_eq [OF businfo_at_set_dev [OF d] _ _ r(3,4) c]) simp_all
  ultimately show ?thesis by blast
qed

lemma cfg_read_ok:
  assumes "dev_at s (bus, slot, func) = Some p" "access_width_ok bytes" "coff mod bytes = 0"
    and "coff \<le> PCI_REGMAX"
    and "\<And>d. p = Some d \<Longrightarrow> \<exists>pe. pci_emul_finddev devs (dev_emu d) = Some pe \<and> pe_cfgread pe = None"
  shows "\<exists>v. pci_cfgrw devs s True bus slot func coff bytes eax = Some (v, s) \<and>
    (p = None \<longrightarrow> v = 0xffffffff) \<and>
    (\<forall>d. p = Some d \<longrightarrow> coff + bytes \<le> PCIR_HDRTYPE \<or> PCIR_HDRTYPE < coff \<longrightarrow>
       CFGREAD (dev_pi d) coff bytes = Some v)"
proof (cases p)
  case None
  with assms(1) show ?thesis by (simp add: pci_cfgrw_def)
next
  case (Some d)
  note d = assms(1) [unfolded Some]
  obtain pe where pe: "pci_emul_finddev devs (dev_emu d) = Some pe" "pe_cfgread pe = None"
    using assms(5) Some by blast
  obtain r where r: "CFGREAD (dev_pi d) coff bytes = Some r"
    using CFGREAD_total [OF assms(2-4)] by blast
  obtain v where v: "pci_emul_hdrtype_fixup s bus slot coff bytes r = Some v"
      "coff + bytes \<le> PCIR_HDRTYPE \<or> PCIR_HDRTYPE < coff \<Longrightarrow> v = r"
    using hdrtype_fixup_total [OF d] by blast
  from cfg_read_eq [OF d pe assms(2-4) r v(1)] v(2) r Some show ?thesis by auto
qed

text \<open>A configuration read never fails and changes nothing: at an implemented function an
  aligned read returns the register, and a read at a function that does not exist returns all ones.\<close>

lemma cfg_read_total:
  assumes "dev_at s (bus, slot, func) = Some p" "access_width_ok bytes" "coff mod bytes = 0"
    and "coff \<le> PCI_REGMAX"
    and "\<And>d. p = Some d \<Longrightarrow> \<exists>pe. pci_emul_finddev devs (dev_emu d) = Some pe \<and> pe_cfgread pe = None"
  shows "\<exists>v. pci_cfgrw devs s True bus slot func coff bytes eax = Some (v, s) \<and>
    (p = None \<longrightarrow> v = 0xffffffff) \<and>
    (\<forall>d. p = Some d \<longrightarrow> coff + bytes \<le> PCIR_HDRTYPE \<or> PCIR_HDRTYPE < coff \<longrightarrow>
       CFGREAD (dev_pi d) coff bytes = Some v)"
  using assms by (rule cfg_read_ok)

text \<open>Every address of the extended configuration window decodes to bus 0xDC, so that the
  devices on bus 0 cannot be reached through it: a read gives all ones.\<close>

lemma ecfg_window_misses_bus_0:
  assumes "in_range ecfg_range addr" "businfo_at s 0xDC = Some None"
  shows "pci_emul_ecfg_handler devs s MEM_F_READ addr bytes val = Some (0, - 1, s)"
proof -
  have rng: "0xFDC00000 \<le> addr" "addr \<le> 0xFDC7FFFF"
    using assms(1) by (simp_all add: in_range_def ecfg_range_def)
  have "unat addr div 2 ^ 20 = 0xFDC"
    using rng by (intro Euclidean_Rings.div_nat_eqI) (simp_all add: word_le_nat_alt)
  then have "unat (drop_bit 20 addr AND 0xff) = 0xDC"
    using unat_drop_bit_and_ff [of 20 addr] by simp
  then have "dev_at s (unat (drop_bit 20 addr AND 0xff), sl, f) = Some None" for sl f
    using assms(2) by (simp add: dev_at_def)
  then have "pci_cfgrw devs s True (unat (drop_bit 20 addr AND 0xff)) sl f c bytes v = Some (0xffffffff, s)"
    for sl f c v
    by (simp add: pci_cfgrw_def)
  then show ?thesis by (simp add: pci_emul_ecfg_handler_def)
qed

section \<open>Properties: the interrupt line\<close>

text \<open>C15. However the device drives its line, no operation fails, the line shows the last level,
  and the interrupt controller receives exactly one word for each rising edge while the guest
  permits the interrupt, and none while it does not.\<close>

theorem line_signals_rising_edges:
  assumes "lintr_ok pi"
  shows "\<exists>pi'. drive_line bs pi = Some pi' \<and> lintr_ok pi' \<and> requested pi' = last (requested pi # bs) \<and>
    pi_plic pi' = pi_plic pi @
      replicate (if permitted pi then rising (requested pi) bs else 0) (plic_word pi)"
  by (rule drive_line_trace [OF assms])

text \<open>After the guest changed what it permits, \<^verbatim>\<open>pci_lintr_update\<close> makes the line consistent
  again without losing the request: a pending interrupt is signalled, once, when it becomes
  permitted, and a signalled one is remembered when it is masked.\<close>

lemma line_update_consistent:
  assumes "lintr_wf pi"
  shows "\<exists>pi'. pci_lintr_update pi = Some pi' \<and> lintr_ok pi' \<and> requested pi' = requested pi \<and>
    signalled pi' = (requested pi \<and> permitted pi) \<and>
    pi_plic pi' = pi_plic pi @
      (if requested pi \<and> \<not> signalled pi \<and> permitted pi then [plic_word pi] else [])"
proof -
  have pre: "devinst_ok pi" "mutex_free (lintr_lock (pi_lintr pi))" "known_irq pi"
    using assms by (simp_all add: lintr_wf_def)
  obtain pi' where p: "pci_lintr_update pi = Some pi'" "lintr_ok pi'" "requested pi' = requested pi"
      "lintr_frame pi pi'"
    using lintr_update_establishes [OF assms] by blast
  have "signalled pi' = (requested pi \<and> permitted pi)"
    using p(2,3) lintr_frame_simps(12) [OF p(4)] by (simp add: lintr_ok_def)
  moreover have "pi_plic pi' = pi_plic pi @
      (if requested pi \<and> \<not> signalled pi \<and> permitted pi then [plic_word pi] else [])"
    using p(1) by (auto simp: lintr_update_eq [OF pre] split: if_splits)
  ultimately show ?thesis using p by blast
qed

end
