(* ===== verification/PciWitness.thy ===== *)
theory PciWitness
  imports PciProps
begin

text \<open>
  Concrete instances of the PCI properties: the network device of the configuration with its
  interrupt pin and an MSI capability, an empty address space, and a bus that holds the device.
\<close>

definition wit_pi0 :: pci_devinst where
  "wit_pi0 = pci_devinst_zero\<lparr>pi_name := ''e1000-pci-0'',
     pi_lintr := (pi_lintr pci_devinst_zero)\<lparr>lintr_pin := 1\<rparr>,
     pi_cfgdata := (pi_cfgdata pci_devinst_zero)[4 := 7]\<rparr>"

definition wit_cap :: "u8 list" where
  "wit_cap = PCIY_MSI # 0 # 0x80 # replicate 11 0"

definition wit_pi :: pci_devinst where
  "wit_pi = snd (the (pci_emul_add_capability wit_pi0 wit_cap))"

definition wit_space :: pci_space where
  "wit_space = \<lparr>mmio_rb_root = [], mmio_rb_fallback = [], mmio_hint = [None], mem_ptr = 0,
     mem_alloc_ok = (\<lambda>_. True), pci_emul_iobase = PCI_EMUL_IOBASE,
     pci_emul_membase32 = 0x60010000, pci_emul_membase64 = PCI_EMUL_MEMBASE64\<rparr>"

lemma wit_pi0_line: "lintr_ok wit_pi0" "permitted wit_pi0" "\<not> requested wit_pi0"
  by (simp_all add: wit_pi0_def pci_devinst_zero_def lintr_defs known_irq_def permitted_def get_le16_def)

lemma wit_pi0_caps: "caps_ok wit_pi0 []"
  by (simp add: caps_ok_def wit_pi0_def pci_devinst_zero_def devinst_ok_def cap_present_def get_le16_def)

lemma wit_pi0_next: "next_capoff wit_pi0 = 0x40"
  using wit_pi0_caps by (simp add: caps_ok_def next_capoff_def)

lemma wit_cap_ok: "capdata_ok wit_cap" "cap_space wit_cap = 16" "length wit_cap = 14"
  by (simp_all add: capdata_ok_def cap_space_def wit_cap_def)

lemma wit_pi_props: "caps_ok wit_pi [0x40]" "lintr_ok wit_pi" "pi_capend wit_pi = 0x4f"
proof -
  have room: "next_capoff wit_pi0 + cap_space wit_cap \<le> PCI_REGMAX + 1" by (simp add: wit_pi0_next wit_cap_ok)
  obtain cfg where c: "pci_emul_add_capability wit_pi0 wit_cap = Some (0, wit_pi0\<lparr>pi_cfgdata := cfg,
        pi_prevcap := next_capoff wit_pi0, pi_capend := next_capoff wit_pi0 + cap_space wit_cap - 1\<rparr>)"
      "caps_ok (wit_pi0\<lparr>pi_cfgdata := cfg, pi_prevcap := next_capoff wit_pi0,
        pi_capend := next_capoff wit_pi0 + cap_space wit_cap - 1\<rparr>) [0x40]"
      "\<forall>i. i \<notin> {6, 6 + 1, 0x34} \<union> {0x40 ..< 0x4e} \<longrightarrow> cfg ! i = pi_cfgdata wit_pi0 ! i"
    using add_capability_ok [OF wit_pi0_caps wit_cap_ok(1) room]
    by (auto simp: wit_pi0_next wit_cap_ok)
  then show "caps_ok wit_pi [0x40]" "pi_capend wit_pi = 0x4f"
    by (simp_all add: wit_pi_def wit_pi0_next wit_cap_ok)
  have "cfg ! 4 = pi_cfgdata wit_pi0 ! 4" "cfg ! 5 = pi_cfgdata wit_pi0 ! 5" "length cfg = 256"
    using c(2,3) by (simp_all add: caps_ok_def devinst_ok_def)
  with c(1) wit_pi0_line(1) show "lintr_ok wit_pi"
    by (simp add: wit_pi_def lintr_defs known_irq_def permitted_def get_le16_def)
qed

theorem bar_ranges_disjoint_witness:
  "alloc_all 0x60010000 0xFDC00000 [17, 16, 10] =
     Some [(0x60020000, 17), (0x60040000, 16), (0x60050000, 10)] \<and>
   range_of (0x60020000, 17) \<inter> range_of (0x60040000, 16) = {}"
proof -
  have r: "alloc_all 0x60010000 0xFDC00000 [17, 16, 10] =
     Some [(0x60020000, 17), (0x60040000, 16), (0x60050000, 10)]"
    by (simp add: pci_emul_alloc_resource_def roundup2_def)
  from bar_ranges_disjoint [OF _ _ _ r] have
    "pairwise (\<lambda>r q. range_of r \<inter> range_of q = {})
      (set [(0x60020000 :: u64, 17), (0x60040000, 16), (0x60050000, 10)])"
    by simp
  then have "range_of (0x60020000, 17) \<inter> range_of (0x60040000, 16) = {}"
    unfolding pairwise_def by simp
  with r show ?thesis by simp
qed

lemma bar_size_power_of_two_witness:
  "\<exists>r k. bar_rounded_size PCIBAR_MEM32 1000 = Some r \<and> k < 64 \<and> r = 2 ^ k \<and> 1000 \<le> unat r \<and> 4 \<le> k"
proof -
  have "bar_rounded_size PCIBAR_MEM32 1000 = Some 1024"
    by (simp add: bar_rounded_size_def flsl_def fls_nat.simps)
  with bar_size_power_of_two [OF this] show ?thesis by auto
qed

lemma wit_space_ok: "space_ok wit_space" "mem_ready wit_space"
  by (simp_all add: space_ok_def mem_ready_def mem_inv_def wit_space_def hint_ok_def tree_map_None_iff)

lemma wit_pi0_dev: "devinst_ok wit_pi0"
  using wit_pi0_caps by (simp add: caps_ok_def)

lemma wit_roundup: "roundup2 (0x60010000 :: u64) 0x20000 = 0x60020000"
  by (simp add: roundup2_def)

lemma wit_idx: "(0::nat) \<le> PCI_BARMAX" "(17::nat) \<le> 31" "(17::nat) < 64"
  by simp_all

lemma wit_size: "bar_rounded_size PCIBAR_MEM32 0x20000 = Some (2 ^ 17)"
  by (simp add: bar_rounded_size_def)

theorem alloc_bar_registers_range_witness:
  "\<exists>s pi. pci_emul_alloc_bar wit_space wit_pi0 0 PCIBAR_MEM32 0x20000 = Some (0, s, pi) \<and>
     bar_live s pi 0 \<and> bar_addr (pi_bar pi ! 0) = 0x60020000"
proof -
  have pre: "unat (pci_emul_membase32 wit_space) \<le> 2 ^ 32"
      "unat (roundup2 (pci_emul_membase32 wit_space) (2 ^ 17)) + 2 ^ 17 \<le> unat (0xFDC00000 :: u64)"
    using wit_roundup by (simp_all add: wit_space_def)
  have base: "roundup2 (pci_emul_membase32 wit_space) (2 ^ 17) = 0x60020000"
    using wit_roundup by (simp add: wit_space_def)
  show ?thesis
    using alloc_bar_registers_range [OF wit_space_ok(1) wit_pi0_dev wit_idx(1) wit_size wit_idx(2) pre]
    unfolding base by (auto simp: mem32_bar_def)
qed

text \<open>A space in which the BAR of the device is registered.\<close>

lemma wit_live:
  "\<exists>(s :: pci_space) cfg. space_ok s \<and> bar_live s ((set_bar wit_pi0 0 (mem32_bar (2 ^ 17) 0x60020000))\<lparr>pi_cfgdata := cfg\<rparr>) 0 \<and>
     get_le16 cfg 4 = 7 \<and>
     (\<forall>x. unat x < 0x60020000 \<or> 0x60040000 \<le> unat x \<longrightarrow> mem_lookup s x = None)"
proof -
  have pre: "unat (pci_emul_membase32 wit_space) \<le> 2 ^ 32"
      "unat (roundup2 (pci_emul_membase32 wit_space) (2 ^ 17)) + 2 ^ 17 \<le> unat (0xFDC00000 :: u64)"
    using wit_roundup by (simp_all add: wit_space_def)
  have base: "roundup2 (pci_emul_membase32 wit_space) (2 ^ 17) = 0x60020000"
    using wit_roundup by (simp add: wit_space_def)
  have l0: "mem_lookup wit_space x = None" for x
    by (simp add: wit_space_def tree_map_None_iff)
  have "get_le16 (put_le32 (pi_cfgdata wit_pi0) 0x10 v) 4 = 7" for v
    by (simp add: get_le16_def nth_put_le32_other) (simp add: wit_pi0_def pci_devinst_zero_def)
  moreover obtain s :: pci_space and cfg where "space_ok s"
      "cfg = put_le32 (pi_cfgdata wit_pi0) (PCIR_BAR 0) (ucast (0x60020000 AND PCIM_BAR_MEM_BASE))"
      "bar_live s ((set_bar wit_pi0 0 (mem32_bar (2 ^ 17) 0x60020000))\<lparr>pi_cfgdata := cfg\<rparr>) 0"
      "\<forall>x. unat x < unat (0x60020000 :: u64) \<or> unat (0x60020000 :: u64) + 2 ^ 17 \<le> unat x \<longrightarrow>
         mem_lookup s x = mem_lookup wit_space x"
    using alloc_mem32_ok [OF wit_space_ok(1) wit_pi0_dev wit_idx(1) wit_size wit_idx(2) pre]
    unfolding base by (elim exE conjE) (rule that; assumption)
  ultimately show ?thesis by (intro exI [of _ s] exI [of _ cfg]) (auto simp: l0)
qed

text \<open>The same device, with memory decoding on, and its BAR.\<close>

lemma wit_bar_range:
  "pi_bar ((set_bar wit_pi0 0 (mem32_bar (2 ^ 17) 0x60020000))\<lparr>pi_cfgdata := cfg\<rparr>) ! 0 =
     mem32_bar (2 ^ 17) 0x60020000"
  using wit_pi0_dev by (simp add: set_bar_def devinst_ok_def)

lemma wit_at_range:
  fixes a :: u64
  assumes "unat a + 2 ^ 17 < 2 ^ 64"
  defines "pi \<equiv> \<lambda>cfg. (set_bar wit_pi0 0 (mem32_bar (2 ^ 17) 0x60020000))\<lparr>pi_cfgdata := cfg\<rparr>"
  shows "in_range (bar_at (pi cfg) 0 a) x \<longleftrightarrow> unat a \<le> unat x \<and> unat x < unat a + 2 ^ 17"
    and "range_ok (bar_at (pi cfg) 0 a)"
proof -
  have "bar_at (pi cfg) 0 a = bar_range (pi cfg) 0 (mem32_bar (2 ^ 17) a)"
    unfolding bar_at_def pi_def wit_bar_range by (simp add: mem32_bar_def)
  with mem32_in_range(1) [OF assms(1) wit_idx(3), of "pi cfg" 0 x]
    mem32_in_range(2) [OF assms(1) wit_idx(3), of "pi cfg" 0]
  show "in_range (bar_at (pi cfg) 0 a) x \<longleftrightarrow> unat a \<le> unat x \<and> unat x < unat a + 2 ^ 17"
    and "range_ok (bar_at (pi cfg) 0 a)" by simp_all
qed

theorem bar_move_follows_guest_witness:
  "\<exists>(s :: pci_space) pi s' pi'. bar_live s pi 0 \<and> update_bar_address s pi 0x70000000 0 PCIBAR_MEM32 = Some (s', pi') \<and>
     bar_live s' pi' 0 \<and> bar_addr (pi_bar pi' ! 0) = 0x70000000"
proof -
  obtain s :: pci_space and cfg where w: "space_ok s"
      "bar_live s ((set_bar wit_pi0 0 (mem32_bar (2 ^ 17) 0x60020000))\<lparr>pi_cfgdata := cfg\<rparr>) 0"
      "get_le16 cfg 4 = 7" "\<And>x. unat x < 0x60020000 \<or> 0x60040000 \<le> unat x \<Longrightarrow> mem_lookup s x = None"
    using wit_live by auto
  let ?pi = "(set_bar wit_pi0 0 (mem32_bar (2 ^ 17) 0x60020000))\<lparr>pi_cfgdata := cfg\<rparr>"
  have r: "mem_ready s" using w(1) by (simp add: space_ok_def)
  have m: "memen ?pi = Some True" using w(3) by (simp add: memen_eq)
  have a: "unat (0x70000000 :: u64) + 2 ^ 17 < 2 ^ 64" by simp
  have n: "new_bar_addr PCIBAR_MEM32 (bar_addr (pi_bar ?pi ! 0)) 0x70000000 = Some 0x70000000"
    by (simp add: new_bar_addr_def)
  have f: "mem_lookup s x = None \<or> in_range (bar_range ?pi 0 (pi_bar ?pi ! 0)) x"
    if "in_range (bar_at ?pi 0 0x70000000) x" for x
    using that w(4) wit_at_range(1) [OF a] by auto
  from bar_move_follows_guest [OF r w(2) m n wit_at_range(2) [OF a] f] obtain s' pi' where
    u: "update_bar_address s ?pi 0x70000000 0 PCIBAR_MEM32 = Some (s', pi')" "bar_live s' pi' 0"
      "bar_addr (pi_bar pi' ! 0) = 0x70000000"
    by auto
  show ?thesis by (intro exI conjI) (rule w(2) u)+
qed

theorem bar_overlap_stops_model_witness:
  "\<exists>(s :: pci_space) pi. bar_live s pi 0 \<and> memen pi = Some True \<and>
     update_bar_address s pi 0xFDBF0000 0 PCIBAR_MEM32 = None"
proof -
  obtain s :: pci_space and cfg where w: "space_ok s"
      "bar_live s ((set_bar wit_pi0 0 (mem32_bar (2 ^ 17) 0x60020000))\<lparr>pi_cfgdata := cfg\<rparr>) 0"
      "get_le16 cfg 4 = 7" "\<And>x. unat x < 0x60020000 \<or> 0x60040000 \<le> unat x \<Longrightarrow> mem_lookup s x = None"
    using wit_live by auto
  let ?pi = "(set_bar wit_pi0 0 (mem32_bar (2 ^ 17) 0x60020000))\<lparr>pi_cfgdata := cfg\<rparr>"
  let ?e = "\<lparr>mem_name = ''other'', mem_flags = MEM_F_RW, mem_handler = Pci_emul_mem_handler,
    mem_arg1 = None, mem_arg2 = 0, mem_base = 0xFDC00000, mem_size = 0x1000\<rparr> :: pci_range"
  have r: "mem_ready s" using w(1) by (simp add: space_ok_def)
  have e: "range_ok ?e" "in_range ?e x \<longleftrightarrow> 0xFDC00000 \<le> x \<and> x \<le> 0xFDC00FFF" for x
    by (simp_all add: range_ok_def in_range_def)
  have free: "mem_lookup s x = None" if "in_range ?e x" for x
  proof -
    have "unat (0xFDC00000 :: u64) \<le> unat x" using that e(2) [of x] by (simp only: word_le_nat_alt)
    then show ?thesis using w(4) [of x] by simp
  qed
  obtain s1 :: pci_space where s1: "mem_ready s1"
      "mem_lookup s1 = (\<lambda>x. if in_range ?e x then Some ?e else mem_lookup s x)"
    using mem.register_ok [OF r e(1) free] by auto
  have live: "bar_live s1 ?pi 0"
    using w(2) unfolding bar_live_def wit_bar_range by (simp add: s1(2) in_range_def mem32_bar_def)
  have m: "memen ?pi = Some True" using w(3) by (simp add: memen_eq)
  have a: "unat (0xFDBF0000 :: u64) + 2 ^ 17 < 2 ^ 64" by simp
  have n: "new_bar_addr PCIBAR_MEM32 (bar_addr (pi_bar ?pi ! 0)) 0xFDBF0000 = Some 0xFDBF0000"
    by (simp add: new_bar_addr_def)
  have base: "mem_lookup s1 0xFDBF0000 = None"
    using w(4) [of "0xFDBF0000"] by (simp add: s1(2) in_range_def)
  have x: "in_range (bar_at ?pi 0 0xFDBF0000) 0xFDC00000" "mem_lookup s1 0xFDC00000 \<noteq> None"
      "\<not> in_range (bar_range ?pi 0 (pi_bar ?pi ! 0)) 0xFDC00000"
    using wit_at_range(1) [OF a] unfolding wit_bar_range
    by (simp_all add: s1(2) in_range_def bar_range_def mem32_bar_def)
  from bar_overlap_stops_model [OF s1(1) live m n wit_at_range(2) [OF a] base x] live m
  show ?thesis by blast
qed

section \<open>Capabilities and configuration accesses\<close>

theorem add_capability_appends_witness:
  "\<exists>pi. pci_emul_add_capability wit_pi0 wit_cap = Some (0, pi) \<and> caps_ok pi [0x40] \<and>
     pi_cfgdata pi ! 0x40 = PCIY_MSI"
proof -
  have room: "next_capoff wit_pi0 + cap_space wit_cap \<le> PCI_REGMAX + 1"
    by (simp add: wit_pi0_next wit_cap_ok)
  obtain pi where p: "pci_emul_add_capability wit_pi0 wit_cap = Some (0, pi)"
      "caps_ok pi ([] @ [next_capoff wit_pi0])"
      "\<forall>i<length wit_cap. i \<noteq> 1 \<longrightarrow> pi_cfgdata pi ! (next_capoff wit_pi0 + i) = wit_cap ! i"
    using add_capability_appends [OF wit_pi0_caps wit_cap_ok(1) room] by blast
  have "pi_cfgdata pi ! (0x40 + 0) = wit_cap ! 0"
    using p(3) unfolding wit_pi0_next wit_cap_ok(3) by (rule allE [of _ 0]) simp
  with p(1,2) show ?thesis by (simp add: wit_pi0_next) (simp add: wit_cap_def)
qed

lemma add_capability_refuses_witness:
  "pci_emul_add_capability wit_pi0 (replicate 200 1) = Some (- 1, wit_pi0)"
  using add_capability_refuses [OF wit_pi0_caps, of "replicate 200 1"]
  by (simp add: wit_pi0_next cap_space_def)

theorem capwrite_confined_witness:
  "\<exists>pi. pci_emul_capwrite wit_pi 0x42 2 1 = Some pi \<and> caps_ok pi [0x40] \<and>
     pi_cfgdata pi ! 0x40 = pi_cfgdata wit_pi ! 0x40"
  using capwrite_confined [OF wit_pi_props(1,2), of "0x42" 2 1]
  by (auto simp: access_width_ok_def wit_pi_props(3))

lemma wit_pi_inv: "dev_inv wit_pi [0x40]"
  using wit_pi_props by (simp add: dev_inv_def)


definition wit_dev :: "unit pci_dev" where
  "wit_dev = \<lparr>dev_pi = wit_pi0, dev_emu = ''e1000'', dev_arg = ()\<rparr>"

definition wit_drivers :: "(unit, unit) pci_devemu list" where
  "wit_drivers = [\<lparr>pe_emu = ''e1000'', pe_init = (\<lambda>s pi opts. Some (0, s, pi, ())),
     pe_cfgwrite = None, pe_cfgread = None, pe_barwrite = (\<lambda>w d i off sz v. Some (w, d)),
     pe_barread = (\<lambda>w d i off sz. Some (0, w, d))\<rparr>]"

definition wit_sys :: "(unit, unit) pci_sys" where
  "wit_sys = \<lparr>mmio_rb_root = [], mmio_rb_fallback = [], mmio_hint = [None], mem_ptr = 0,
     mem_alloc_ok = (\<lambda>_. True), pci_emul_iobase = PCI_EMUL_IOBASE,
     pci_emul_membase32 = 0x60010000, pci_emul_membase64 = PCI_EMUL_MEMBASE64,
     pci_businfo = Some (businfo_zero\<lparr>bi_slotinfo := [slotinfo_zero\<lparr>si_funcs :=
         [\<lparr>fi_name = Some ''e1000'', fi_param = None, fi_devi = Some wit_dev\<rparr>]\<rparr>]\<rparr>) #
       replicate 255 None,
     sys_world = ()\<rparr>"

lemma wit_sys_dev: "dev_at wit_sys (0, 0, 0) = Some (Some wit_dev)"
  by (simp add: dev_at_def wit_sys_def businfo_at_def slot_of_def func_of_def)

lemma wit_sys_driver:
  "\<exists>pe. pci_emul_finddev wit_drivers (dev_emu wit_dev) = Some pe \<and> pe_cfgwrite pe = None \<and> pe_cfgread pe = None"
  by (simp add: pci_emul_finddev_def wit_drivers_def wit_dev_def)

theorem cfg_write_read_back_witness:
  "\<exists>s. pci_cfgrw wit_drivers wit_sys False 0 0 0 0x2c 2 0x12348086 = Some (0x12348086, s) \<and>
     pci_cfgrw wit_drivers s True 0 0 0 0x2c 2 0 = Some (0x8086, s)"
proof -
  obtain pe where pe: "pci_emul_finddev wit_drivers (dev_emu wit_dev) = Some pe"
      "pe_cfgwrite pe = None" "pe_cfgread pe = None"
    using wit_sys_driver by blast
  have "devinst_ok (dev_pi wit_dev)" by (simp add: wit_dev_def wit_pi0_dev)
  from cfg_write_read_back [OF wit_sys_dev this pe, of "0x2c" 2 "0x12348086" 0]
  show ?thesis by (simp add: access_width_ok_def)
qed

lemma cfg_read_total_witness:
  "\<exists>v. pci_cfgrw wit_drivers wit_sys True 0 0 0 4 2 0 = Some (v, wit_sys) \<and> v = 7"
proof -
  have "CFGREAD (dev_pi wit_dev) 4 2 = Some 7"
    by (simp add: CFGREAD_def pci_get_cfgdata16_def wit_dev_def wit_pi0_def pci_devinst_zero_def get_le16_def)
  with cfg_read_total [OF wit_sys_dev, of 2 4 wit_drivers 0] wit_sys_driver show ?thesis
    by (auto simp: access_width_ok_def)
qed

lemma ecfg_window_misses_bus_0_witness:
  "pci_emul_ecfg_handler wit_drivers wit_sys MEM_F_READ 0xFDC08000 4 0 = Some (0, - 1, wit_sys)"
  by (rule ecfg_window_misses_bus_0)
    (simp_all add: in_range_def ecfg_range_def businfo_at_def wit_sys_def)

section \<open>The interrupt line\<close>

theorem line_signals_rising_edges_witness:
  "\<exists>pi. drive_line [True, True, False, True] wit_pi0 = Some pi \<and> requested pi \<and>
     pi_plic pi = [(4, 1), (4, 1)]"
  using line_signals_rising_edges [OF wit_pi0_line(1), of "[True, True, False, True]"]
  by (auto simp: wit_pi0_line) (auto simp: wit_pi0_def pci_devinst_zero_def plic_word_def numeral_2_eq_2)

lemma line_update_consistent_witness:
  "\<exists>pi. pci_lintr_update (set_lintr_state PENDING wit_pi0) = Some pi \<and> signalled pi \<and>
     pi_plic pi = [(4, 1)]"
proof -
  have "lintr_wf (set_lintr_state PENDING wit_pi0)"
    by (simp add: wit_pi0_def pci_devinst_zero_def lintr_wf_def devinst_ok_def known_irq_def)
  from line_update_consistent [OF this] show ?thesis
    using wit_pi0_line(2)
    by (auto simp: requested_def signalled_def) (auto simp: wit_pi0_def pci_devinst_zero_def plic_word_def)
qed

end
