(* ===== verification/E1000State.thy ===== *)
theory E1000State
  imports PciInit
begin

text \<open>
  The Intel 82545 network card of \<^verbatim>\<open>bhyve/pci_e82545.c\<close>: its state. The fields keep the names
  of \<^verbatim>\<open>struct e82545_softc\<close> and are grouped the way its comments group them. The pointer
  \<^verbatim>\<open>esc_pi\<close> is the device instance itself (theory \<open>E1000Regs\<close> says how it is shared with the
  bus); an event of \<^verbatim>\<open>mevent\<close> is only ever null or not.

  The register offsets and bits are those of the Intel 8254x Software Developer's Manual, which
  the code takes from \<^verbatim>\<open>e1000_regs.h\<close> and \<^verbatim>\<open>e1000_defines.h\<close>; the comments of the structure
  repeat most offsets.
\<close>

section \<open>Register bits\<close>

abbreviation (input) "E82545_VENDOR_ID_INTEL \<equiv> (0x8086::u16)"
abbreviation (input) "E82545_DEV_ID_82545EM_COPPER \<equiv> (0x100F::u16)"
abbreviation (input) "E82545_SUBDEV_ID \<equiv> (0x1008::u16)"
abbreviation (input) "E82545_REVISION_4 \<equiv> (4::u32)"
abbreviation (input) "E82545_MDIC_DATA_MASK \<equiv> (0x0000FFFF::u32)"
abbreviation (input) "E82545_MDIC_OP_MASK \<equiv> (0x0c000000::u32)"
abbreviation (input) "E82545_EECD_FWE_EN \<equiv> (0x20::u32)"
abbreviation (input) "E82545_BAR_REGISTER \<equiv> (0::nat)"
abbreviation (input) "E82545_BAR_REGISTER_LEN \<equiv> (128*1024::u64)"
abbreviation (input) "E82545_BAR_FLASH \<equiv> (1::nat)"
abbreviation (input) "E82545_BAR_FLASH_LEN \<equiv> (64*1024::u64)"
abbreviation (input) "E82545_BAR_IO \<equiv> (2::nat)"
abbreviation (input) "E82545_BAR_IO_LEN \<equiv> (8::u64)"
abbreviation (input) "E82545_IOADDR \<equiv> (0::u64)"
abbreviation (input) "E82545_IODATA \<equiv> (4::u64)"
abbreviation (input) "E82545_IO_REGISTER_MAX \<equiv> (0x1FFFF::u32)"

abbreviation (input) "E1000_CTRL_RST \<equiv> (0x04000000::u32)"
abbreviation (input) "E1000_CTRL_VME \<equiv> (0x40000000::u32)"
abbreviation (input) "E1000_RCTL_EN \<equiv> (2::u32)"
abbreviation (input) "E1000_RCTL_LPE \<equiv> (0x20::u32)"
abbreviation (input) "E1000_RCTL_LBM_TCVR \<equiv> (0xC0::u32)"
abbreviation (input) "E1000_RCTL_VFE \<equiv> (0x00040000::u32)"
abbreviation (input) "E1000_RCTL_BSEX \<equiv> (0x02000000::u32)"
abbreviation (input) "E1000_RCTL_SECRC \<equiv> (0x04000000::u32)"
abbreviation (input) "E1000_RCTL_SZ_256 \<equiv> (0x00030000::u32)"
abbreviation (input) "E1000_TCTL_EN \<equiv> (2::u32)"
abbreviation (input) "E1000_EECD_SK \<equiv> (1::u32)"
abbreviation (input) "E1000_EECD_CS \<equiv> (2::u32)"
abbreviation (input) "E1000_EECD_DI \<equiv> (4::u32)"
abbreviation (input) "E1000_EECD_DO \<equiv> (8::u32)"
abbreviation (input) "E1000_EECD_REQ \<equiv> (0x40::u32)"
abbreviation (input) "E1000_EECD_GNT \<equiv> (0x80::u32)"
abbreviation (input) "E1000_EECD_PRES \<equiv> (0x100::u32)"
abbreviation (input) "E1000_MDIC_REG_MASK \<equiv> (0x001F0000::u32)"
abbreviation (input) "E1000_MDIC_PHY_MASK \<equiv> (0x03E00000::u32)"
abbreviation (input) "E1000_MDIC_OP_WRITE \<equiv> (0x04000000::u32)"
abbreviation (input) "E1000_MDIC_OP_READ \<equiv> (0x08000000::u32)"
abbreviation (input) "E1000_MDIC_READY \<equiv> (0x10000000::u32)"
abbreviation (input) "E1000_MDIC_ERROR \<equiv> (0x40000000::u32)"
abbreviation (input) "E1000_MDIC_DEST \<equiv> (0x80000000::u32)"
abbreviation (input) "E1000_RAH_AV \<equiv> (0x80000000::u32)"
abbreviation (input) "E1000_ICR_TXDW \<equiv> (1::u32)"
abbreviation (input) "E1000_ICR_TXQE \<equiv> (2::u32)"
abbreviation (input) "E1000_ICR_RXDMT0 \<equiv> (0x10::u32)"
abbreviation (input) "E1000_ICR_RXT0 \<equiv> (0x80::u32)"
abbreviation (input) "E1000_ICR_SRPD \<equiv> (0x00010000::u32)"

abbreviation (input) "NVM_MAC_ADDR \<equiv> (0::nat)"
abbreviation (input) "NVM_SUB_DEV_ID \<equiv> (0x0B::nat)"
abbreviation (input) "NVM_SUB_VEN_ID \<equiv> (0x0C::nat)"
abbreviation (input) "NVM_DEV_ID \<equiv> (0x0D::nat)"
abbreviation (input) "NVM_VEN_ID \<equiv> (0x0E::nat)"
abbreviation (input) "NVM_CHECKSUM_REG \<equiv> (0x3F::nat)"
abbreviation (input) "NVM_SUM \<equiv> (0xBABA::u16)"

abbreviation (input) "E82545_NVM_OPCODE_BITS \<equiv> (3::nat)"
abbreviation (input) "E82545_NVM_ADDR_BITS \<equiv> (6::nat)"
abbreviation (input) "E82545_NVM_DATA_BITS \<equiv> (16::nat)"
abbreviation (input) "E82545_NVM_OPADDR_BITS \<equiv> (9::nat)"
abbreviation (input) "E82545_NVM_ADDR_MASK \<equiv> (0x3f::u16)"
abbreviation (input) "E82545_NVM_OPCODE_MASK \<equiv> (0x1c0::u16)"
abbreviation (input) "E82545_NVM_OPCODE_READ \<equiv> (0x180::u16)"
abbreviation (input) "E82545_NVM_OPCODE_WRITE \<equiv> (0x140::u16)"
abbreviation (input) "E82545_NVM_OPCODE_EWEN \<equiv> (0x100::u16)"
abbreviation (input) "E82545_NVM_EEPROM_SIZE \<equiv> (64::nat)"

section \<open>Descriptors\<close>

text \<open>A context descriptor, as its fields.\<close>

record e1000_context_desc =
  ipcss :: u8
  ipcso :: u8
  ipcse :: u16
  tucss :: u8
  tucso :: u8
  tucse :: u16
  cmd_and_length :: u32
  cd_status :: u8
  cd_hdr_len :: u8
  cd_mss :: u16

definition context_desc_zero :: e1000_context_desc where
  "context_desc_zero = \<lparr>ipcss = 0, ipcso = 0, ipcse = 0, tucss = 0, tucso = 0, tucse = 0,
     cmd_and_length = 0, cd_status = 0, cd_hdr_len = 0, cd_mss = 0\<rparr>"

section \<open>The softc\<close>

record e82545_general =
  esc_CTRL :: u32
  esc_FCAL :: u32
  esc_FCAH :: u32
  esc_FCT :: u32
  esc_VET :: u32
  esc_FCTTV :: u32
  esc_LEDCTL :: u32
  esc_PBA :: u32

record e82545_intr =
  esc_irq_asserted :: bool
  esc_ICR :: u32
  esc_ITR :: u32
  esc_ICS :: u32
  esc_IMS :: u32
  esc_IMC :: u32
  esc_mevpitr :: bool
  mevpitr_callout :: "u32 option"

record e82545_transmit =
  esc_txdesc :: "u64 option"
  esc_txctx :: e1000_context_desc
  esc_tx_enabled :: bool
  esc_tx_active :: bool
  esc_TXCW :: u32
  esc_TCTL :: u32
  esc_TIPG :: u32
  esc_AIT :: u16
  esc_tdba :: u64
  esc_TDBAL :: u32
  esc_TDBAH :: u32
  esc_TDLEN :: u32
  esc_TDH :: u16
  esc_TDHr :: u16
  esc_TDT :: u16
  esc_TIDV :: u32
  esc_TXDCTL :: u32
  esc_TADV :: u32

text \<open>A receive address: the six octets, the address select and the valid bit.\<close>

record eth_uni =
  eu_valid :: bool
  eu_addrsel :: u32
  eu_octet :: "u8 list"

record e82545_filter =
  esc_uni :: "eth_uni list"
  esc_fmcast :: "u32 list"
  esc_fvlan :: "u32 list"

record e82545_receive =
  esc_rxdesc :: "u64 option"
  esc_rx_enabled :: bool
  esc_rx_active :: bool
  esc_rx_loopback :: bool
  esc_RCTL :: u32
  esc_FCRTL :: u32
  esc_FCRTH :: u32
  esc_rdba :: u64
  esc_RDBAL :: u32
  esc_RDBAH :: u32
  esc_RDLEN :: u32
  esc_RDH :: u16
  esc_RDT :: u16
  esc_RDTR :: u32
  esc_RXDCTL :: u32
  esc_RADV :: u32
  esc_RSRPD :: u32
  esc_RXCSUM :: u32

text \<open>The Microwire EEPROM; the bit fields \<^verbatim>\<open>nvm_bits:6\<close> and \<^verbatim>\<open>nvm_mode:2\<close> are numbers.\<close>

datatype nvm_mode = NVM_MODE_OPADDR | NVM_MODE_DATAIN | NVM_MODE_DATAOUT

record e82545_nvm =
  eeprom_control :: u32
  nvm_data :: u16
  nvm_opaddr :: u16
  nvm_bits :: nat
  nvm_mode :: nvm_mode
  eeprom_data :: "u16 list"

record e82545_stats =
  missed_pkt_count :: u32
  pkt_rx_by_size :: "u32 list"
  pkt_tx_by_size :: "u32 list"
  good_pkt_rx_count :: u32
  bcast_pkt_rx_count :: u32
  mcast_pkt_rx_count :: u32
  good_pkt_tx_count :: u32
  bcast_pkt_tx_count :: u32
  mcast_pkt_tx_count :: u32
  oversize_rx_count :: u32
  tso_tx_count :: u32
  good_octets_rx :: u64
  good_octets_tx :: u64
  missed_octets :: u64

record e82545_softc =
  esc_pi :: pci_devinst
  esc_mtx :: pthread_mutex
  esc_mac :: "u8 list"
  esc_gen :: e82545_general
  esc_int :: e82545_intr
  esc_tx :: e82545_transmit
  esc_filt :: e82545_filter
  esc_rx :: e82545_receive
  io_addr :: u32
  mdi_control :: u32
  esc_nvm :: e82545_nvm
  esc_stats :: e82545_stats

section \<open>The softc after allocation\<close>

definition e82545_zero :: "pci_devinst \<Rightarrow> e82545_softc" where
  "e82545_zero pi = \<lparr>
     esc_pi = pi, esc_mtx = \<lparr>mutex_lock = 0\<rparr>, esc_mac = replicate 6 0,
     esc_gen = \<lparr>esc_CTRL = 0, esc_FCAL = 0, esc_FCAH = 0, esc_FCT = 0, esc_VET = 0, esc_FCTTV = 0,
       esc_LEDCTL = 0, esc_PBA = 0\<rparr>,
     esc_int = \<lparr>esc_irq_asserted = False, esc_ICR = 0, esc_ITR = 0, esc_ICS = 0, esc_IMS = 0,
       esc_IMC = 0, esc_mevpitr = False, mevpitr_callout = None\<rparr>,
     esc_tx = \<lparr>esc_txdesc = None, esc_txctx = context_desc_zero, esc_tx_enabled = False,
       esc_tx_active = False, esc_TXCW = 0, esc_TCTL = 0, esc_TIPG = 0, esc_AIT = 0, esc_tdba = 0,
       esc_TDBAL = 0, esc_TDBAH = 0, esc_TDLEN = 0, esc_TDH = 0, esc_TDHr = 0, esc_TDT = 0,
       esc_TIDV = 0, esc_TXDCTL = 0, esc_TADV = 0\<rparr>,
     esc_filt = \<lparr>esc_uni = replicate 16 \<lparr>eu_valid = False, eu_addrsel = 0, eu_octet = replicate 6 0\<rparr>,
       esc_fmcast = replicate 128 0, esc_fvlan = replicate 128 0\<rparr>,
     esc_rx = \<lparr>esc_rxdesc = None, esc_rx_enabled = False, esc_rx_active = False,
       esc_rx_loopback = False, esc_RCTL = 0, esc_FCRTL = 0, esc_FCRTH = 0, esc_rdba = 0,
       esc_RDBAL = 0, esc_RDBAH = 0, esc_RDLEN = 0, esc_RDH = 0, esc_RDT = 0, esc_RDTR = 0,
       esc_RXDCTL = 0, esc_RADV = 0, esc_RSRPD = 0, esc_RXCSUM = 0\<rparr>,
     io_addr = 0, mdi_control = 0,
     esc_nvm = \<lparr>eeprom_control = 0, nvm_data = 0, nvm_opaddr = 0, nvm_bits = 0,
       nvm_mode = NVM_MODE_OPADDR, eeprom_data = replicate E82545_NVM_EEPROM_SIZE 0\<rparr>,
     esc_stats = \<lparr>missed_pkt_count = 0, pkt_rx_by_size = replicate 6 0, pkt_tx_by_size = replicate 6 0,
       good_pkt_rx_count = 0, bcast_pkt_rx_count = 0, mcast_pkt_rx_count = 0, good_pkt_tx_count = 0,
       bcast_pkt_tx_count = 0, mcast_pkt_tx_count = 0, oversize_rx_count = 0, tso_tx_count = 0,
       good_octets_rx = 0, good_octets_tx = 0, missed_octets = 0\<rparr>\<rparr>"

text \<open>Consistency of the sizes of the arrays.\<close>

definition e82545_wf :: "e82545_softc \<Rightarrow> bool" where
  "e82545_wf sc \<longleftrightarrow> length (esc_mac sc) = 6 \<and> length (esc_uni (esc_filt sc)) = 16 \<and>
     (\<forall>eu\<in>set (esc_uni (esc_filt sc)). length (eu_octet eu) = 6) \<and>
     length (esc_fmcast (esc_filt sc)) = 128 \<and> length (esc_fvlan (esc_filt sc)) = 128 \<and>
     length (eeprom_data (esc_nvm sc)) = E82545_NVM_EEPROM_SIZE"

lemma e82545_wf_zero: "e82545_wf (e82545_zero pi)"
  by (simp add: e82545_wf_def e82545_zero_def)

end
