(* ===== verification/E1000Regs.thy ===== *)
theory E1000Regs
  imports E1000State
begin

text \<open>
  The register interface of \<^verbatim>\<open>bhyve/pci_e82545.c\<close>: the Microwire EEPROM behind \<^verbatim>\<open>EECD\<close>, the MDI
  registers behind \<^verbatim>\<open>MDIC\<close>, the interrupt cause and mask registers with their throttling timer,
  the receive and transmit controls, the receive addresses, the register switches, the BAR handlers,
  the reset and the start of the device.

  The parameter \<open>dmap\<close> is the direct map of the operating system. The softc
  contains the device instance (\<open>esc_pi\<close>), so that an operation on the line is an operation on it.
\<close>

section \<open>Register offsets\<close>

abbreviation (input) "E1000_CTRL \<equiv> (0x0::u32)"
abbreviation (input) "E1000_CTRL_DUP \<equiv> (0x4::u32)"
abbreviation (input) "E1000_STATUS \<equiv> (0x8::u32)"
abbreviation (input) "E1000_EECD \<equiv> (0x10::u32)"
abbreviation (input) "E1000_MDIC \<equiv> (0x20::u32)"
abbreviation (input) "E1000_FCAL \<equiv> (0x28::u32)"
abbreviation (input) "E1000_FCAH \<equiv> (0x2C::u32)"
abbreviation (input) "E1000_FCT \<equiv> (0x30::u32)"
abbreviation (input) "E1000_VET \<equiv> (0x38::u32)"
abbreviation (input) "E1000_ICR \<equiv> (0xC0::u32)"
abbreviation (input) "E1000_ITR \<equiv> (0xC4::u32)"
abbreviation (input) "E1000_ICS \<equiv> (0xC8::u32)"
abbreviation (input) "E1000_IMS \<equiv> (0xD0::u32)"
abbreviation (input) "E1000_IMC \<equiv> (0xD8::u32)"
abbreviation (input) "E1000_RCTL \<equiv> (0x100::u32)"
abbreviation (input) "E1000_FCTTV \<equiv> (0x170::u32)"
abbreviation (input) "E1000_TXCW \<equiv> (0x178::u32)"
abbreviation (input) "E1000_TCTL \<equiv> (0x400::u32)"
abbreviation (input) "E1000_TIPG \<equiv> (0x410::u32)"
abbreviation (input) "E1000_AIT \<equiv> (0x458::u32)"
abbreviation (input) "E1000_LEDCTL \<equiv> (0xE00::u32)"
abbreviation (input) "E1000_PBA \<equiv> (0x1000::u32)"
abbreviation (input) "E1000_FCRTL \<equiv> (0x2160::u32)"
abbreviation (input) "E1000_FCRTH \<equiv> (0x2168::u32)"
abbreviation (input) "E1000_RDBAL \<equiv> (0x2800::u32)"
abbreviation (input) "E1000_RDBAH \<equiv> (0x2804::u32)"
abbreviation (input) "E1000_RDLEN \<equiv> (0x2808::u32)"
abbreviation (input) "E1000_RDH \<equiv> (0x2810::u32)"
abbreviation (input) "E1000_RDT \<equiv> (0x2818::u32)"
abbreviation (input) "E1000_RDTR \<equiv> (0x2820::u32)"
abbreviation (input) "E1000_RXDCTL \<equiv> (0x2828::u32)"
abbreviation (input) "E1000_RADV \<equiv> (0x282C::u32)"
abbreviation (input) "E1000_RSRPD \<equiv> (0x2C00::u32)"
abbreviation (input) "E1000_TDBAL \<equiv> (0x3800::u32)"
abbreviation (input) "E1000_TDBAH \<equiv> (0x3804::u32)"
abbreviation (input) "E1000_TDLEN \<equiv> (0x3808::u32)"
abbreviation (input) "E1000_TDH \<equiv> (0x3810::u32)"
abbreviation (input) "E1000_TDT \<equiv> (0x3818::u32)"
abbreviation (input) "E1000_TIDV \<equiv> (0x3820::u32)"
abbreviation (input) "E1000_TXDCTL \<equiv> (0x3828::u32)"
abbreviation (input) "E1000_TADV \<equiv> (0x382C::u32)"
abbreviation (input) "E1000_RXCSUM \<equiv> (0x5000::u32)"
abbreviation (input) "E1000_MTA \<equiv> (0x5200::u32)"
abbreviation (input) "E1000_RAL0 \<equiv> (0x5400::u32)"
abbreviation (input) "E1000_RAH15 \<equiv> (0x547C::u32)"
abbreviation (input) "E1000_VFTA \<equiv> (0x5600::u32)"
abbreviation (input) "E1000_MANC \<equiv> (0x5820::u32)"

section \<open>EEPROM and MDI\<close>

abbreviation upd_nvm :: "(e82545_nvm \<Rightarrow> e82545_nvm) \<Rightarrow> e82545_softc \<Rightarrow> e82545_softc" where
  "upd_nvm f sc \<equiv> esc_nvm_update f sc"

definition eeprom_word :: "u8 list \<Rightarrow> nat \<Rightarrow> u16" where
  "eeprom_word mac i = ucast (mac ! i) OR push_bit 8 (ucast (mac ! (i + 1)))"

definition eeprom_checksum :: "u16 list \<Rightarrow> u16" where
  "eeprom_checksum d = fold (\<lambda>w s. s + w) (take NVM_CHECKSUM_REG d) 0"

definition e82545_init_eeprom :: "e82545_softc \<Rightarrow> e82545_softc" where
  "e82545_init_eeprom sc =
     (let d = eeprom_data (esc_nvm sc);
          d = d[NVM_MAC_ADDR := eeprom_word (esc_mac sc) 0];
          d = d[NVM_MAC_ADDR + 1 := eeprom_word (esc_mac sc) 2];
          d = d[NVM_MAC_ADDR + 2 := eeprom_word (esc_mac sc) 4];
          d = d[NVM_SUB_DEV_ID := E82545_SUBDEV_ID];
          d = d[NVM_SUB_VEN_ID := E82545_VENDOR_ID_INTEL];
          d = d[NVM_DEV_ID := E82545_DEV_ID_82545EM_COPPER];
          d = d[NVM_VEN_ID := E82545_VENDOR_ID_INTEL];
          d = d[NVM_CHECKSUM_REG := NVM_SUM - eeprom_checksum d]
      in upd_nvm (\<lambda>n. n\<lparr>eeprom_data := d\<rparr>) sc)"

definition e82545_write_mdi :: "e82545_softc \<Rightarrow> u8 \<Rightarrow> u8 \<Rightarrow> u32 \<Rightarrow> e82545_softc" where
  "e82545_write_mdi sc reg_addr phy_addr data = sc"

text \<open>
  The PHY registers: status 1, identifiers 2 and 3, advertisement 4, link partner 5, gigabit
  status 10; the identifier of the M88E1011 PHY is \<^verbatim>\<open>0x01410C20\<close>.
\<close>

abbreviation (input) "M88E1011_I_PHY_ID \<equiv> (0x01410C20::u32)"

definition e82545_read_mdi :: "u8 \<Rightarrow> u8 \<Rightarrow> u32" where
  "e82545_read_mdi reg_addr phy_addr =
     (if reg_addr = 1 then 0x0004 OR 0x0008 OR 0x0020
      else if reg_addr = 4 then 0x0001
      else if reg_addr = 5 then 0
      else if reg_addr = 0x0A then 0x0800 OR 0x1000 OR 0x2000
      else if reg_addr = 2 then drop_bit 16 M88E1011_I_PHY_ID AND 0xFFFF
      else if reg_addr = 3 then (M88E1011_I_PHY_ID OR E82545_REVISION_4) AND 0xFFFF
      else 0)"

text \<open>The Microwire state machine, one clock edge.\<close>

definition nvm_opcode_mode :: "e82545_nvm \<Rightarrow> e82545_nvm" where
  "nvm_opcode_mode n = n\<lparr>nvm_opaddr := 0, nvm_mode := NVM_MODE_OPADDR,
     nvm_bits := E82545_NVM_OPADDR_BITS\<rparr>"

definition eecd_strobe :: "e82545_nvm \<Rightarrow> e82545_nvm" where
  "eecd_strobe n =
     (if nvm_bits n = 0 then n
      else let n = n\<lparr>nvm_bits := nvm_bits n - 1\<rparr> in
      case nvm_mode n of
        NVM_MODE_DATAOUT \<Rightarrow>
          let n = n\<lparr>eeprom_control := (if nvm_data n AND 0x8000 \<noteq> 0
                     then eeprom_control n OR E1000_EECD_DO
                     else eeprom_control n AND NOT E1000_EECD_DO)\<rparr>;
              n = n\<lparr>nvm_data := push_bit 1 (nvm_data n)\<rparr>
          in if nvm_bits n = 0 then nvm_opcode_mode n else n
      | NVM_MODE_DATAIN \<Rightarrow>
          let n = n\<lparr>nvm_data := push_bit 1 (nvm_data n)\<rparr>;
              n = (if eeprom_control n AND E1000_EECD_DI \<noteq> 0
                   then n\<lparr>nvm_data := nvm_data n OR 1\<rparr> else n)
          in if nvm_bits n = 0 then
               let op = nvm_opaddr n AND E82545_NVM_OPCODE_MASK;
                   addr = unat (nvm_opaddr n AND E82545_NVM_ADDR_MASK);
                   n = (if op \<noteq> E82545_NVM_OPCODE_WRITE then n
                        else if addr \<ge> E82545_NVM_EEPROM_SIZE then n
                        else n\<lparr>eeprom_data := (eeprom_data n)[addr := nvm_data n]\<rparr>)
               in nvm_opcode_mode n
             else n
      | NVM_MODE_OPADDR \<Rightarrow>
          let n = n\<lparr>nvm_opaddr := push_bit 1 (nvm_opaddr n)\<rparr>;
              n = (if eeprom_control n AND E1000_EECD_DI \<noteq> 0
                   then n\<lparr>nvm_opaddr := nvm_opaddr n OR 1\<rparr> else n)
          in if nvm_bits n = 0 then
               let op = nvm_opaddr n AND E82545_NVM_OPCODE_MASK;
                   addr = unat (nvm_opaddr n AND E82545_NVM_ADDR_MASK)
               in if op = E82545_NVM_OPCODE_EWEN then nvm_opcode_mode n
                  else if op = E82545_NVM_OPCODE_READ then
                    n\<lparr>nvm_mode := NVM_MODE_DATAOUT, nvm_bits := E82545_NVM_DATA_BITS,
                      nvm_data := (if addr < E82545_NVM_EEPROM_SIZE then eeprom_data n ! addr else 0)\<rparr>
                  else if op = E82545_NVM_OPCODE_WRITE then
                    n\<lparr>nvm_mode := NVM_MODE_DATAIN, nvm_bits := E82545_NVM_DATA_BITS, nvm_data := 0\<rparr>
                  else nvm_opcode_mode n
             else n)"

definition e82545_eecd_strobe :: "e82545_softc \<Rightarrow> e82545_softc" where
  "e82545_eecd_strobe sc = upd_nvm eecd_strobe sc"

section \<open>Interrupts\<close>

text \<open>An operation of the PCI bus on the device instance of the card.\<close>

definition on_pi :: "(pci_devinst \<Rightarrow> pci_devinst option) \<Rightarrow> e82545_softc \<Rightarrow> e82545_softc option" where
  "on_pi f sc = do {
     pi \<leftarrow> f (esc_pi sc);
     Some (sc\<lparr>esc_pi := pi\<rparr>)
   }"

abbreviation upd_int :: "(e82545_intr \<Rightarrow> e82545_intr) \<Rightarrow> e82545_softc \<Rightarrow> e82545_softc" where
  "upd_int f sc \<equiv> esc_int_update f sc"

text \<open>\<^verbatim>\<open>mdx_callout_init\<close> and \<^verbatim>\<open>mdx_callout_set\<close>: a timer with its number of ticks (u32).\<close>

definition itr_ticks :: "u32 \<Rightarrow> u32" where
  "itr_ticks itr = ((itr + 3905) div 3906) * 500000"

definition callout_set :: "e82545_intr \<Rightarrow> e82545_intr" where
  "callout_set i = i\<lparr>mevpitr_callout := Some (itr_ticks (esc_ITR i))\<rparr>"

definition lock_esc :: "e82545_softc \<Rightarrow> e82545_softc option" where
  "lock_esc sc = do {
     m \<leftarrow> pthread_mutex_lock (esc_mtx sc);
     Some (sc\<lparr>esc_mtx := m\<rparr>)
   }"

definition unlock_esc :: "e82545_softc \<Rightarrow> e82545_softc option" where
  "unlock_esc sc = do {
     m \<leftarrow> pthread_mutex_unlock (esc_mtx sc);
     Some (sc\<lparr>esc_mtx := m\<rparr>)
   }"

definition e82545_itr_callback :: "e82545_softc \<Rightarrow> e82545_softc option" where
  "e82545_itr_callback sc = do {
     sc \<leftarrow> lock_esc sc;
     let new = esc_ICR (esc_int sc) AND esc_IMS (esc_int sc);
     sc \<leftarrow>
       (if new \<noteq> 0 \<and> \<not> esc_irq_asserted (esc_int sc) then do {
          let sc = upd_int (\<lambda>i. i\<lparr>esc_irq_asserted := True\<rparr>) sc;
          sc \<leftarrow> on_pi pci_lintr_assert sc;
          Some (upd_int callout_set sc)
        } else Some (upd_int (\<lambda>i. i\<lparr>esc_mevpitr := False\<rparr>) sc));
     unlock_esc sc
   }"

definition raise_irq :: "e82545_softc \<Rightarrow> u32 \<Rightarrow> e82545_softc option" where
  "raise_irq sc new =
     (if new = 0 then Some sc
      else if esc_mevpitr (esc_int sc) then Some sc
      else if \<not> esc_irq_asserted (esc_int sc) then do {
        let sc = upd_int (\<lambda>i. i\<lparr>esc_irq_asserted := True\<rparr>) sc;
        sc \<leftarrow> on_pi pci_lintr_assert sc;
        if esc_ITR (esc_int sc) \<noteq> 0
        then Some (upd_int (\<lambda>i. callout_set (i\<lparr>esc_mevpitr := True\<rparr>)) sc)
        else Some sc
      } else Some sc)"

definition e82545_icr_assert :: "e82545_softc \<Rightarrow> u32 \<Rightarrow> e82545_softc option" where
  "e82545_icr_assert sc bits =
     (let new = bits AND NOT (esc_ICR (esc_int sc)) AND esc_IMS (esc_int sc);
          sc = upd_int (\<lambda>i. i\<lparr>esc_ICR := esc_ICR i OR bits\<rparr>) sc
      in raise_irq sc new)"

definition e82545_ims_change :: "e82545_softc \<Rightarrow> u32 \<Rightarrow> e82545_softc option" where
  "e82545_ims_change sc bits =
     (let new = bits AND esc_ICR (esc_int sc) AND NOT (esc_IMS (esc_int sc));
          sc = upd_int (\<lambda>i. i\<lparr>esc_IMS := esc_IMS i OR bits\<rparr>) sc
      in raise_irq sc new)"

definition e82545_icr_deassert :: "e82545_softc \<Rightarrow> u32 \<Rightarrow> e82545_softc option" where
  "e82545_icr_deassert sc bits =
     (let sc = upd_int (\<lambda>i. i\<lparr>esc_ICR := esc_ICR i AND NOT bits\<rparr>) sc in
      if esc_irq_asserted (esc_int sc) \<and> esc_ICR (esc_int sc) AND esc_IMS (esc_int sc) = 0
      then do {
        sc \<leftarrow> on_pi pci_lintr_deassert sc;
        Some (upd_int (\<lambda>i. i\<lparr>esc_irq_asserted := False\<rparr>) sc)
      } else Some sc)"

definition e82545_intr_write :: "e82545_softc \<Rightarrow> u32 \<Rightarrow> u32 \<Rightarrow> e82545_softc option" where
  "e82545_intr_write sc offset val =
     (if offset = E1000_ICR then e82545_icr_deassert sc val
      else if offset = E1000_ITR then Some (upd_int (\<lambda>i. i\<lparr>esc_ITR := val\<rparr>) sc)
      else if offset = E1000_ICS then e82545_icr_assert (upd_int (\<lambda>i. i\<lparr>esc_ICS := val\<rparr>) sc) val
      else if offset = E1000_IMS then e82545_ims_change sc val
      else if offset = E1000_IMC then
        Some (upd_int (\<lambda>i. i\<lparr>esc_IMC := val, esc_IMS := esc_IMS i AND NOT val\<rparr>) sc)
      else Some sc)"

definition e82545_intr_read :: "e82545_softc \<Rightarrow> u32 \<Rightarrow> (u32 \<times> e82545_softc) option" where
  "e82545_intr_read sc offset =
     (if offset = E1000_ICR then do {
        let retval = esc_ICR (esc_int sc);
        sc \<leftarrow> e82545_icr_deassert (upd_int (\<lambda>i. i\<lparr>esc_ICR := 0\<rparr>) sc) (NOT 0);
        Some (retval, sc)
      }
      else if offset = E1000_ITR then Some (esc_ITR (esc_int sc), sc)
      else if offset = E1000_ICS then Some (0, sc)
      else if offset = E1000_IMS then Some (esc_IMS (esc_int sc), sc)
      else if offset = E1000_IMC then Some (0, sc)
      else Some (0, sc))"

end
