(* ===== verification/E1000Dev.thy ===== *)
theory E1000Dev
  imports E1000Regs
begin

text \<open>
  The rest of the register interface of \<^verbatim>\<open>bhyve/pci_e82545.c\<close>: the reset, the receive and
  transmit controls, the receive addresses, the two register switches, the handlers of the BARs and
  \<^verbatim>\<open>e82545_init\<close>.
\<close>

abbreviation upd_gen :: "(e82545_general \<Rightarrow> e82545_general) \<Rightarrow> e82545_softc \<Rightarrow> e82545_softc" where
  "upd_gen f sc \<equiv> esc_gen_update f sc"

abbreviation upd_tx :: "(e82545_transmit \<Rightarrow> e82545_transmit) \<Rightarrow> e82545_softc \<Rightarrow> e82545_softc" where
  "upd_tx f sc \<equiv> esc_tx_update f sc"

abbreviation upd_rx :: "(e82545_receive \<Rightarrow> e82545_receive) \<Rightarrow> e82545_softc \<Rightarrow> e82545_softc" where
  "upd_rx f sc \<equiv> esc_rx_update f sc"

abbreviation upd_filt :: "(e82545_filter \<Rightarrow> e82545_filter) \<Rightarrow> e82545_softc \<Rightarrow> e82545_softc" where
  "upd_filt f sc \<equiv> esc_filt_update f sc"

section \<open>Receiver and transmitter\<close>

text \<open>\<^verbatim>\<open>paddr_guest2host\<close> without an IOMMU: the direct map \<open>dmap\<close> of the operating system.\<close>

definition paddr_guest2host :: "(u64 \<Rightarrow> u64) \<Rightarrow> u64 \<Rightarrow> u64 \<Rightarrow> u64" where
  "paddr_guest2host dmap gaddr len = dmap gaddr"

definition e82545_tx_start :: "e82545_softc \<Rightarrow> e82545_softc" where
  "e82545_tx_start sc =
     (if \<not> esc_tx_active (esc_tx sc) then (let _ = pthread_cond_signal in sc) else sc)"

definition e82545_tx_enable :: "e82545_softc \<Rightarrow> e82545_softc" where
  "e82545_tx_enable sc = upd_tx (\<lambda>t. t\<lparr>esc_tx_enabled := True\<rparr>) sc"

text \<open>
  \<^verbatim>\<open>pthread_cond_wait\<close> changes nothing, so that the wait for an active transmitter never ends.
\<close>

definition e82545_tx_disable :: "e82545_softc \<Rightarrow> e82545_softc option" where
  "e82545_tx_disable sc =
     (let sc = upd_tx (\<lambda>t. t\<lparr>esc_tx_enabled := False\<rparr>) sc
      in if esc_tx_active (esc_tx sc) then None else Some sc)"

definition e82545_rx_enable :: "e82545_softc \<Rightarrow> e82545_softc" where
  "e82545_rx_enable sc = upd_rx (\<lambda>r. r\<lparr>esc_rx_enabled := True\<rparr>) sc"

definition e82545_rx_disable :: "e82545_softc \<Rightarrow> e82545_softc option" where
  "e82545_rx_disable sc =
     (let sc = upd_rx (\<lambda>r. r\<lparr>esc_rx_enabled := False\<rparr>) sc
      in if esc_rx_active (esc_rx sc) then None else Some sc)"

definition e82545_rx_update_rdba :: "(u64 \<Rightarrow> u64) \<Rightarrow> e82545_softc \<Rightarrow> e82545_softc" where
  "e82545_rx_update_rdba dmap sc = upd_rx (\<lambda>r.
     let rdba = push_bit 32 (ucast (esc_RDBAH r)) OR ucast (esc_RDBAL r)
     in r\<lparr>esc_rdba := rdba, esc_rxdesc := Some (paddr_guest2host dmap rdba (ucast (esc_RDLEN r)))\<rparr>) sc"

definition e82545_rx_ctl :: "(u64 \<Rightarrow> u64) \<Rightarrow> e82545_softc \<Rightarrow> u32 \<Rightarrow> e82545_softc option" where
  "e82545_rx_ctl dmap sc val =
     (let on = (val AND E1000_RCTL_EN = E1000_RCTL_EN);
          sc = upd_rx (\<lambda>r. r\<lparr>esc_RCTL := val AND NOT 0xF9204c01\<rparr>) sc
      in if on \<noteq> esc_rx_enabled (esc_rx sc) then
           (if on then
              Some (e82545_rx_enable (e82545_rx_update_rdba dmap (upd_rx (\<lambda>r. r\<lparr>esc_rx_loopback :=
                esc_RCTL r AND E1000_RCTL_LBM_TCVR \<noteq> 0\<rparr>) sc)))
            else do {
              sc \<leftarrow> e82545_rx_disable sc;
              Some (upd_rx (\<lambda>r. r\<lparr>esc_rx_loopback := False, esc_rdba := 0, esc_rxdesc := None\<rparr>) sc)
            })
         else Some sc)"

definition e82545_tx_update_tdba :: "(u64 \<Rightarrow> u64) \<Rightarrow> e82545_softc \<Rightarrow> e82545_softc" where
  "e82545_tx_update_tdba dmap sc = upd_tx (\<lambda>t.
     let tdba = push_bit 32 (ucast (esc_TDBAH t)) OR ucast (esc_TDBAL t)
     in t\<lparr>esc_tdba := tdba, esc_txdesc := Some (paddr_guest2host dmap tdba (ucast (esc_TDLEN t)))\<rparr>) sc"

definition e82545_tx_ctl :: "(u64 \<Rightarrow> u64) \<Rightarrow> e82545_softc \<Rightarrow> u32 \<Rightarrow> e82545_softc option" where
  "e82545_tx_ctl dmap sc val =
     (let on = (val AND E1000_TCTL_EN = E1000_TCTL_EN) in
      if on = esc_tx_enabled (esc_tx sc) then Some sc
      else do {
        sc \<leftarrow>
          (if on then Some (e82545_tx_enable (e82545_tx_update_tdba dmap sc))
           else do {
             sc \<leftarrow> e82545_tx_disable sc;
             Some (upd_tx (\<lambda>t. t\<lparr>esc_tdba := 0, esc_txdesc := None\<rparr>) sc)
           });
        Some (upd_tx (\<lambda>t. t\<lparr>esc_TCTL := val AND NOT 0xFE800005\<rparr>) sc)
      })"

definition e82545_bufsz :: "u32 \<Rightarrow> nat" where
  "e82545_bufsz rctl =
     (let sz = rctl AND (E1000_RCTL_BSEX OR E1000_RCTL_SZ_256) in
      if sz = 0 then 2048
      else if sz = 0x00010000 then 1024
      else if sz = 0x00020000 then 512
      else if sz = 0x00030000 then 256
      else if sz = E1000_RCTL_BSEX OR 0x00010000 then 16384
      else if sz = E1000_RCTL_BSEX OR 0x00020000 then 8192
      else if sz = E1000_RCTL_BSEX OR 0x00030000 then 4096
      else 256)"

section \<open>Reset\<close>

definition reset_intr :: "e82545_intr \<Rightarrow> e82545_intr" where
  "reset_intr i = i\<lparr>esc_ICR := 0, esc_ITR := 250, esc_ICS := 0, esc_IMS := 0, esc_IMC := 0\<rparr>"

definition reset_filt :: "u8 list \<Rightarrow> bool \<Rightarrow> e82545_filter \<Rightarrow> e82545_filter" where
  "reset_filt mac drvr f =
     (if \<not> drvr then
        f\<lparr>esc_fvlan := replicate 128 0, esc_fmcast := replicate 128 0,
          esc_uni := (replicate 16 \<lparr>eu_valid = False, eu_addrsel = 0, eu_octet = replicate 6 0\<rparr>)
            [0 := \<lparr>eu_valid = True, eu_addrsel = 0, eu_octet = mac\<rparr>]\<rparr>
      else f\<lparr>esc_uni := map (\<lambda>eu. eu\<lparr>eu_valid := False\<rparr>) (esc_uni f)\<rparr>)"

definition reset_rx :: "bool \<Rightarrow> e82545_receive \<Rightarrow> e82545_receive" where
  "reset_rx drvr r =
     (let r = (if \<not> drvr then r\<lparr>esc_RDBAL := 0, esc_RDBAH := 0\<rparr> else r)
      in r\<lparr>esc_RCTL := 0, esc_FCRTL := 0, esc_FCRTH := 0, esc_RDLEN := 0, esc_RDH := 0,
           esc_RDT := 0, esc_RDTR := 0, esc_RXDCTL := push_bit 24 1 OR push_bit 16 1,
           esc_RADV := 0, esc_RXCSUM := 0\<rparr>)"

definition reset_tx :: "bool \<Rightarrow> e82545_transmit \<Rightarrow> e82545_transmit" where
  "reset_tx drvr t =
     (let t = (if \<not> drvr then t\<lparr>esc_TDBAL := 0, esc_TDBAH := 0, esc_TIPG := 0, esc_AIT := 0,
                 esc_TIDV := 0, esc_TADV := 0\<rparr> else t)
      in t\<lparr>esc_tdba := 0, esc_txdesc := None, esc_TXCW := 0, esc_TCTL := 0, esc_TDLEN := 0,
           esc_TDT := 0, esc_TDH := 0, esc_TDHr := 0, esc_TXDCTL := 0\<rparr>)"

definition e82545_reset :: "e82545_softc \<Rightarrow> bool \<Rightarrow> e82545_softc option" where
  "e82545_reset sc drvr = do {
     sc \<leftarrow> e82545_rx_disable sc;
     sc \<leftarrow> e82545_tx_disable sc;
     sc \<leftarrow> (if esc_irq_asserted (esc_int sc) then on_pi pci_lintr_deassert sc else Some sc);
     let sc = (if \<not> drvr then upd_gen (\<lambda>g. g\<lparr>esc_FCAL := 0, esc_FCAH := 0, esc_FCT := 0,
       esc_VET := 0, esc_FCTTV := 0\<rparr>) sc else sc);
     let sc = upd_gen (\<lambda>g. g\<lparr>esc_LEDCTL := 0x07061302, esc_PBA := 0x00100030\<rparr>) sc;
     let sc = upd_nvm (\<lambda>n. (nvm_opcode_mode n)\<lparr>eeprom_control :=
       E1000_EECD_PRES OR E82545_EECD_FWE_EN\<rparr>) sc;
     let sc = e82545_init_eeprom sc;
     let sc = upd_int reset_intr sc;
     let sc = upd_filt (reset_filt (esc_mac sc) drvr) sc;
     let sc = upd_rx (reset_rx drvr) sc;
     Some (upd_tx (reset_tx drvr) sc)
   }"

definition e82545_devctl :: "e82545_softc \<Rightarrow> u32 \<Rightarrow> e82545_softc option" where
  "e82545_devctl sc val =
     (let sc = upd_gen (\<lambda>g. g\<lparr>esc_CTRL := val AND NOT E1000_CTRL_RST\<rparr>) sc
      in if val AND E1000_CTRL_RST \<noteq> 0 then e82545_reset sc True else Some sc)"

section \<open>Receive addresses\<close>

definition e82545_write_ra :: "e82545_softc \<Rightarrow> nat \<Rightarrow> u32 \<Rightarrow> e82545_softc option" where
  "e82545_write_ra sc reg wval = do {
     let idx = reg div 2;
     assert_that (idx < 15);
     let eu = esc_uni (esc_filt sc) ! idx;
     let eu = (if odd reg
       then eu\<lparr>eu_valid := wval AND E1000_RAH_AV = E1000_RAH_AV,
              eu_addrsel := drop_bit 16 wval AND 3,
              eu_octet := (eu_octet eu)[5 := ucast (drop_bit 8 wval), 4 := ucast wval]\<rparr>
       else eu\<lparr>eu_octet := (eu_octet eu)[3 := ucast (drop_bit 24 wval), 2 := ucast (drop_bit 16 wval),
              1 := ucast (drop_bit 8 wval), 0 := ucast wval]\<rparr>);
     Some (upd_filt (\<lambda>f. f\<lparr>esc_uni := (esc_uni f)[idx := eu]\<rparr>) sc)
   }"

definition e82545_read_ra :: "e82545_softc \<Rightarrow> nat \<Rightarrow> u32 option" where
  "e82545_read_ra sc reg = do {
     let idx = reg div 2;
     assert_that (idx < 15);
     let eu = esc_uni (esc_filt sc) ! idx;
     Some (if odd reg
       then push_bit 31 (of_bool (eu_valid eu)) OR push_bit 16 (eu_addrsel eu) OR
            push_bit 8 (ucast (eu_octet eu ! 5)) OR ucast (eu_octet eu ! 4)
       else push_bit 24 (ucast (eu_octet eu ! 3)) OR push_bit 16 (ucast (eu_octet eu ! 2)) OR
            push_bit 8 (ucast (eu_octet eu ! 1)) OR ucast (eu_octet eu ! 0))
   }"

section \<open>The register switch: writes\<close>

text \<open>\<^verbatim>\<open>EECD\<close>: the clock is edge triggered, the request is granted at once.\<close>

definition write_eecd :: "e82545_softc \<Rightarrow> u32 \<Rightarrow> e82545_softc" where
  "write_eecd sc val =
     (let strobe = (if eeprom_control (esc_nvm sc) AND E1000_EECD_SK \<noteq> 0 then 0
                    else val AND E1000_EECD_SK);
          mask = E1000_EECD_SK OR E1000_EECD_CS OR E1000_EECD_DI OR E1000_EECD_REQ;
          sc = upd_nvm (\<lambda>n. n\<lparr>eeprom_control := (eeprom_control n AND NOT mask) OR (val AND mask)\<rparr>) sc;
          sc = upd_nvm (\<lambda>n. n\<lparr>eeprom_control :=
                 (if val AND E1000_EECD_REQ \<noteq> 0 then eeprom_control n OR E1000_EECD_GNT
                  else eeprom_control n AND NOT E1000_EECD_GNT)\<rparr>) sc
      in if strobe \<noteq> 0 \<and> eeprom_control (esc_nvm sc) AND E1000_EECD_CS \<noteq> 0
         then e82545_eecd_strobe sc else sc)"

definition write_mdic :: "e82545_softc \<Rightarrow> u32 \<Rightarrow> e82545_softc" where
  "write_mdic sc val =
     (let reg_addr = ucast (drop_bit 16 (val AND E1000_MDIC_REG_MASK));
          phy_addr = ucast (drop_bit 21 (val AND E1000_MDIC_PHY_MASK));
          sc = sc\<lparr>mdi_control := val AND NOT (E1000_MDIC_ERROR OR E1000_MDIC_DEST)\<rparr>
      in if val AND E1000_MDIC_READY \<noteq> 0 then sc
         else if val AND E82545_MDIC_OP_MASK = E1000_MDIC_OP_READ then
           let sc = sc\<lparr>mdi_control := (mdi_control sc AND NOT E82545_MDIC_DATA_MASK)
                 OR e82545_read_mdi reg_addr phy_addr\<rparr>
           in sc\<lparr>mdi_control := mdi_control sc OR E1000_MDIC_READY\<rparr>
         else if val AND E82545_MDIC_OP_MASK = E1000_MDIC_OP_WRITE then
           let sc = e82545_write_mdi sc reg_addr phy_addr (val AND E82545_MDIC_DATA_MASK)
           in sc\<lparr>mdi_control := mdi_control sc OR E1000_MDIC_READY\<rparr>
         else sc)"

definition e82545_write_register ::
  "(u64 \<Rightarrow> u64) \<Rightarrow> e82545_softc \<Rightarrow> u32 \<Rightarrow> u32 \<Rightarrow> e82545_softc option" where
  "e82545_write_register dmap sc offset val =
     (if offset AND 3 \<noteq> 0 then Some sc
      else if offset = E1000_CTRL \<or> offset = E1000_CTRL_DUP then e82545_devctl sc val
      else if offset = E1000_FCAL then Some (upd_gen (\<lambda>g. g\<lparr>esc_FCAL := val\<rparr>) sc)
      else if offset = E1000_FCAH then Some (upd_gen (\<lambda>g. g\<lparr>esc_FCAH := val AND NOT 0xFFFF0000\<rparr>) sc)
      else if offset = E1000_FCT then Some (upd_gen (\<lambda>g. g\<lparr>esc_FCT := val AND NOT 0xFFFF0000\<rparr>) sc)
      else if offset = E1000_VET then Some (upd_gen (\<lambda>g. g\<lparr>esc_VET := val AND NOT 0xFFFF0000\<rparr>) sc)
      else if offset = E1000_FCTTV then Some (upd_gen (\<lambda>g. g\<lparr>esc_FCTTV := val AND NOT 0xFFFF0000\<rparr>) sc)
      else if offset = E1000_LEDCTL then Some (upd_gen (\<lambda>g. g\<lparr>esc_LEDCTL := val AND NOT 0x30303000\<rparr>) sc)
      else if offset = E1000_PBA then Some (upd_gen (\<lambda>g. g\<lparr>esc_PBA := val AND 0x0000FF80\<rparr>) sc)
      else if offset = E1000_ICR \<or> offset = E1000_ITR \<or> offset = E1000_ICS \<or> offset = E1000_IMS \<or>
              offset = E1000_IMC then e82545_intr_write sc offset val
      else if offset = E1000_RCTL then e82545_rx_ctl dmap sc val
      else if offset = E1000_FCRTL then Some (upd_rx (\<lambda>r. r\<lparr>esc_FCRTL := val AND NOT 0xFFFF0007\<rparr>) sc)
      else if offset = E1000_FCRTH then Some (upd_rx (\<lambda>r. r\<lparr>esc_FCRTH := val AND NOT 0xFFFF0007\<rparr>) sc)
      else if offset = E1000_RDBAL then
        (let sc = upd_rx (\<lambda>r. r\<lparr>esc_RDBAL := val AND NOT 0xF\<rparr>) sc
         in Some (if esc_rx_enabled (esc_rx sc) then e82545_rx_update_rdba dmap sc else sc))
      else if offset = E1000_RDBAH then do {
        assert_that (\<not> esc_rx_enabled (esc_rx sc));
        Some (upd_rx (\<lambda>r. r\<lparr>esc_RDBAH := val\<rparr>) sc)
      }
      else if offset = E1000_RDLEN then do {
        assert_that (\<not> esc_rx_enabled (esc_rx sc));
        Some (upd_rx (\<lambda>r. r\<lparr>esc_RDLEN := val AND NOT 0xFFF0007F\<rparr>) sc)
      }
      else if offset = E1000_RDH then Some (upd_rx (\<lambda>r. r\<lparr>esc_RDH := ucast val\<rparr>) sc)
      else if offset = E1000_RDT then Some (upd_rx (\<lambda>r. r\<lparr>esc_RDT := ucast val\<rparr>) sc)
      else if offset = E1000_RDTR then Some (upd_rx (\<lambda>r. r\<lparr>esc_RDTR := val AND NOT 0xFFFF0000\<rparr>) sc)
      else if offset = E1000_RXDCTL then Some (upd_rx (\<lambda>r. r\<lparr>esc_RXDCTL := val AND NOT 0xFEC0C0C0\<rparr>) sc)
      else if offset = E1000_RADV then Some (upd_rx (\<lambda>r. r\<lparr>esc_RADV := val AND NOT 0xFFFF0000\<rparr>) sc)
      else if offset = E1000_RSRPD then Some (upd_rx (\<lambda>r. r\<lparr>esc_RSRPD := val AND NOT 0xFFFFF000\<rparr>) sc)
      else if offset = E1000_RXCSUM then Some (upd_rx (\<lambda>r. r\<lparr>esc_RXCSUM := val AND NOT 0xFFFFF800\<rparr>) sc)
      else if offset = E1000_TXCW then Some (upd_tx (\<lambda>t. t\<lparr>esc_TXCW := val AND NOT 0x3FFF0000\<rparr>) sc)
      else if offset = E1000_TCTL then e82545_tx_ctl dmap sc val
      else if offset = E1000_TIPG then Some (upd_tx (\<lambda>t. t\<lparr>esc_TIPG := val\<rparr>) sc)
      else if offset = E1000_AIT then Some (upd_tx (\<lambda>t. t\<lparr>esc_AIT := ucast val\<rparr>) sc)
      else if offset = E1000_TDBAL then
        (let sc = upd_tx (\<lambda>t. t\<lparr>esc_TDBAL := val AND NOT 0xF\<rparr>) sc
         in Some (if esc_tx_enabled (esc_tx sc) then e82545_tx_update_tdba dmap sc else sc))
      else if offset = E1000_TDBAH then Some (upd_tx (\<lambda>t. t\<lparr>esc_TDBAH := val\<rparr>) sc)
      else if offset = E1000_TDLEN then Some (upd_tx (\<lambda>t. t\<lparr>esc_TDLEN := val AND NOT 0xFFF0007F\<rparr>) sc)
      else if offset = E1000_TDH then Some (upd_tx (\<lambda>t. t\<lparr>esc_TDH := ucast val, esc_TDHr := ucast val\<rparr>) sc)
      else if offset = E1000_TDT then
        (let sc = upd_tx (\<lambda>t. t\<lparr>esc_TDT := ucast val\<rparr>) sc
         in Some (if esc_tx_enabled (esc_tx sc) then e82545_tx_start sc else sc))
      else if offset = E1000_TIDV then Some (upd_tx (\<lambda>t. t\<lparr>esc_TIDV := val AND NOT 0xFFFF0000\<rparr>) sc)
      else if offset = E1000_TXDCTL then Some (upd_tx (\<lambda>t. t\<lparr>esc_TXDCTL := val AND NOT 0xC0C0C0\<rparr>) sc)
      else if offset = E1000_TADV then Some (upd_tx (\<lambda>t. t\<lparr>esc_TADV := val AND NOT 0xFFFF0000\<rparr>) sc)
      else if E1000_RAL0 \<le> offset \<and> offset \<le> E1000_RAH15 then
        e82545_write_ra sc (unat (drop_bit 2 (offset - E1000_RAL0))) val
      else if E1000_MTA \<le> offset \<and> offset \<le> E1000_MTA + 127 * 4 then
        Some (upd_filt (\<lambda>f. f\<lparr>esc_fmcast := (esc_fmcast f)[unat (drop_bit 2 (offset - E1000_MTA)) := val]\<rparr>) sc)
      else if E1000_VFTA \<le> offset \<and> offset \<le> E1000_VFTA + 127 * 4 then
        Some (upd_filt (\<lambda>f. f\<lparr>esc_fvlan := (esc_fvlan f)[unat (drop_bit 2 (offset - E1000_VFTA)) := val]\<rparr>) sc)
      else if offset = E1000_EECD then Some (write_eecd sc val)
      else if offset = E1000_MDIC then Some (write_mdic sc val)
      else Some sc)"

section \<open>The register switch: reads\<close>

text \<open>The statistics registers that the code emulates; all others read as zero.\<close>

definition read_stats :: "e82545_stats \<Rightarrow> u32 \<Rightarrow> u32" where
  "read_stats s offset =
     (if offset = 0x4010 then missed_pkt_count s
      else if offset = 0x405C then pkt_rx_by_size s ! 0
      else if offset = 0x4060 then pkt_rx_by_size s ! 1
      else if offset = 0x4064 then pkt_rx_by_size s ! 2
      else if offset = 0x4068 then pkt_rx_by_size s ! 3
      else if offset = 0x406C then pkt_rx_by_size s ! 4
      else if offset = 0x4070 then pkt_rx_by_size s ! 5
      else if offset = 0x4074 then good_pkt_rx_count s
      else if offset = 0x4078 then bcast_pkt_rx_count s
      else if offset = 0x407C then mcast_pkt_rx_count s
      else if offset = 0x4080 \<or> offset = 0x40D4 then good_pkt_tx_count s
      else if offset = 0x4088 then ucast (good_octets_rx s)
      else if offset = 0x408C then ucast (drop_bit 32 (good_octets_rx s))
      else if offset = 0x40C8 \<or> offset = 0x4090 then ucast (good_octets_tx s)
      else if offset = 0x40CC \<or> offset = 0x4094 then ucast (drop_bit 32 (good_octets_tx s))
      else if offset = 0x40AC then oversize_rx_count s
      else if offset = 0x40C0 then ucast (good_octets_rx s + missed_octets s)
      else if offset = 0x40C4 then ucast (drop_bit 32 (good_octets_rx s + missed_octets s))
      else if offset = 0x40D0 then good_pkt_rx_count s + missed_pkt_count s + oversize_rx_count s
      else if offset = 0x40D8 then pkt_tx_by_size s ! 0
      else if offset = 0x40DC then pkt_tx_by_size s ! 1
      else if offset = 0x40E0 then pkt_tx_by_size s ! 2
      else if offset = 0x40E4 then pkt_tx_by_size s ! 3
      else if offset = 0x40E8 then pkt_tx_by_size s ! 4
      else if offset = 0x40EC then pkt_tx_by_size s ! 5
      else if offset = 0x40F0 then mcast_pkt_tx_count s
      else if offset = 0x40F4 then bcast_pkt_tx_count s
      else if offset = 0x40F8 then tso_tx_count s
      else 0)"

definition e82545_read_register ::
  "e82545_softc \<Rightarrow> u32 \<Rightarrow> (u32 \<times> e82545_softc) option" where
  "e82545_read_register sc offset =
     (if offset AND 3 \<noteq> 0 then Some (0, sc)
      else if offset = E1000_CTRL then Some (esc_CTRL (esc_gen sc), sc)
      else if offset = E1000_STATUS then Some (0x1 OR 0x2 OR 0x80, sc)
      else if offset = E1000_FCAL then Some (esc_FCAL (esc_gen sc), sc)
      else if offset = E1000_FCAH then Some (esc_FCAH (esc_gen sc), sc)
      else if offset = E1000_FCT then Some (esc_FCT (esc_gen sc), sc)
      else if offset = E1000_VET then Some (esc_VET (esc_gen sc), sc)
      else if offset = E1000_FCTTV then Some (esc_FCTTV (esc_gen sc), sc)
      else if offset = E1000_LEDCTL then Some (esc_LEDCTL (esc_gen sc), sc)
      else if offset = E1000_PBA then Some (esc_PBA (esc_gen sc), sc)
      else if offset = E1000_ICR \<or> offset = E1000_ITR \<or> offset = E1000_ICS \<or> offset = E1000_IMS \<or>
              offset = E1000_IMC then e82545_intr_read sc offset
      else if offset = E1000_RCTL then Some (esc_RCTL (esc_rx sc), sc)
      else if offset = E1000_FCRTL then Some (esc_FCRTL (esc_rx sc), sc)
      else if offset = E1000_FCRTH then Some (esc_FCRTH (esc_rx sc), sc)
      else if offset = E1000_RDBAL then Some (esc_RDBAL (esc_rx sc), sc)
      else if offset = E1000_RDBAH then Some (esc_RDBAH (esc_rx sc), sc)
      else if offset = E1000_RDLEN then Some (esc_RDLEN (esc_rx sc), sc)
      else if offset = E1000_RDH then Some (ucast (esc_RDH (esc_rx sc)), sc)
      else if offset = E1000_RDT then Some (ucast (esc_RDT (esc_rx sc)), sc)
      else if offset = E1000_RDTR then Some (esc_RDTR (esc_rx sc), sc)
      else if offset = E1000_RXDCTL then Some (esc_RXDCTL (esc_rx sc), sc)
      else if offset = E1000_RADV then Some (esc_RADV (esc_rx sc), sc)
      else if offset = E1000_RSRPD then Some (esc_RSRPD (esc_rx sc), sc)
      else if offset = E1000_RXCSUM then Some (esc_RXCSUM (esc_rx sc), sc)
      else if offset = E1000_TXCW then Some (esc_TXCW (esc_tx sc), sc)
      else if offset = E1000_TCTL then Some (esc_TCTL (esc_tx sc), sc)
      else if offset = E1000_TIPG then Some (esc_TIPG (esc_tx sc), sc)
      else if offset = E1000_AIT then Some (ucast (esc_AIT (esc_tx sc)), sc)
      else if offset = E1000_TDBAL then Some (esc_TDBAL (esc_tx sc), sc)
      else if offset = E1000_TDBAH then Some (esc_TDBAH (esc_tx sc), sc)
      else if offset = E1000_TDLEN then Some (esc_TDLEN (esc_tx sc), sc)
      else if offset = E1000_TDH then Some (ucast (esc_TDH (esc_tx sc)), sc)
      else if offset = E1000_TDT then Some (ucast (esc_TDT (esc_tx sc)), sc)
      else if offset = E1000_TIDV then Some (esc_TIDV (esc_tx sc), sc)
      else if offset = E1000_TXDCTL then Some (esc_TXDCTL (esc_tx sc), sc)
      else if offset = E1000_TADV then Some (esc_TADV (esc_tx sc), sc)
      else if E1000_RAL0 \<le> offset \<and> offset \<le> E1000_RAH15 then do {
        retval \<leftarrow> e82545_read_ra sc (unat (drop_bit 2 (offset - E1000_RAL0)));
        Some (retval, sc)
      }
      else if E1000_MTA \<le> offset \<and> offset \<le> E1000_MTA + 127 * 4 then
        Some (esc_fmcast (esc_filt sc) ! unat (drop_bit 2 (offset - E1000_MTA)), sc)
      else if E1000_VFTA \<le> offset \<and> offset \<le> E1000_VFTA + 127 * 4 then
        Some (esc_fvlan (esc_filt sc) ! unat (drop_bit 2 (offset - E1000_VFTA)), sc)
      else if offset = E1000_EECD then Some (eeprom_control (esc_nvm sc), sc)
      else if offset = E1000_MDIC then Some (mdi_control sc, sc)
      else if offset = E1000_MANC then Some (0, sc)
      else Some (read_stats (esc_stats sc) offset, sc))"

section \<open>The BAR handlers\<close>

text \<open>The part of the handlers between the lock and the unlock of the softc.\<close>

definition write_switch ::
  "(u64 \<Rightarrow> u64) \<Rightarrow> e82545_softc \<Rightarrow> nat \<Rightarrow> u64 \<Rightarrow> nat \<Rightarrow> u64 \<Rightarrow> e82545_softc option" where
  "write_switch dmap sc baridx offset sz val =
     (if baridx = E82545_BAR_IO then
        (if offset = E82545_IOADDR then
           (if sz \<noteq> 4 then Some sc else Some (sc\<lparr>io_addr := ucast val\<rparr>))
         else if offset = E82545_IODATA then
           (if sz \<noteq> 4 then Some sc
            else if io_addr sc > E82545_IO_REGISTER_MAX then Some sc
            else e82545_write_register dmap sc (io_addr sc) (ucast val))
         else Some sc)
      else if baridx = E82545_BAR_REGISTER then
        (if sz \<noteq> 4 then Some sc else e82545_write_register dmap sc (ucast offset) (ucast val))
      else Some sc)"

definition e82545_write ::
  "(u64 \<Rightarrow> u64) \<Rightarrow> e82545_softc \<Rightarrow> nat \<Rightarrow> u64 \<Rightarrow> nat \<Rightarrow> u64 \<Rightarrow> e82545_softc option" where
  "e82545_write dmap sc baridx offset sz val = do {
     sc \<leftarrow> lock_esc sc;
     sc \<leftarrow> write_switch dmap sc baridx offset sz val;
     unlock_esc sc
   }"

definition read_switch :: "e82545_softc \<Rightarrow> nat \<Rightarrow> u64 \<Rightarrow> nat \<Rightarrow> (u64 \<times> e82545_softc) option" where
  "read_switch sc baridx offset sz =
     (if baridx = E82545_BAR_IO then
        (if offset = E82545_IOADDR then
           (if sz \<noteq> 4 then Some (0, sc) else Some (ucast (io_addr sc), sc))
         else if offset = E82545_IODATA then
           (if io_addr sc > E82545_IO_REGISTER_MAX then Some (0, sc)
            else do {
              (retval, sc) \<leftarrow> e82545_read_register sc (io_addr sc);
              Some (ucast retval, sc)
            })
         else Some (0, sc))
      else if baridx = E82545_BAR_REGISTER then
        (if sz \<noteq> 4 then Some (0, sc)
         else do {
           (retval, sc) \<leftarrow> e82545_read_register sc (ucast offset);
           Some (ucast retval, sc)
         })
      else Some (0, sc))"

definition e82545_read :: "e82545_softc \<Rightarrow> nat \<Rightarrow> u64 \<Rightarrow> nat \<Rightarrow> (u64 \<times> e82545_softc) option" where
  "e82545_read sc baridx offset sz = do {
     sc \<leftarrow> lock_esc sc;
     (retval, sc) \<leftarrow> read_switch sc baridx offset sz;
     sc \<leftarrow> unlock_esc sc;
     Some (retval, sc)
   }"

section \<open>Start of the device\<close>

definition e82545_init ::
  "('a, 'w) pci_sys \<Rightarrow> pci_devinst \<Rightarrow> string option \<Rightarrow>
     (int \<times> ('a, 'w) pci_sys \<times> pci_devinst \<times> e82545_softc) option" where
  "e82545_init s pi opts = do {
     let sc = e82545_zero pi;
     let sc = sc\<lparr>esc_mtx := pthread_mutex_init (esc_mtx sc)\<rparr>;
     pi \<leftarrow> pci_set_cfgdata16 pi PCIR_DEVICE E82545_DEV_ID_82545EM_COPPER;
     pi \<leftarrow> pci_set_cfgdata16 pi PCIR_VENDOR E82545_VENDOR_ID_INTEL;
     pi \<leftarrow> pci_set_cfgdata8 pi PCIR_CLASS 2;
     pi \<leftarrow> pci_set_cfgdata8 pi PCIR_SUBCLASS 0;
     pi \<leftarrow> pci_set_cfgdata16 pi PCIR_SUBDEV_0 E82545_SUBDEV_ID;
     pi \<leftarrow> pci_set_cfgdata16 pi PCIR_SUBVEND_0 E82545_VENDOR_ID_INTEL;
     pi \<leftarrow> pci_set_cfgdata8 pi PCIR_HDRTYPE 0;
     pi \<leftarrow> pci_set_cfgdata8 pi PCIR_INTPIN 1;
     (s, pi) \<leftarrow> pci_lintr_request s pi;
     (_, s, pi) \<leftarrow> pci_emul_alloc_bar s pi E82545_BAR_REGISTER PCIBAR_MEM32 E82545_BAR_REGISTER_LEN;
     (_, s, pi) \<leftarrow> pci_emul_alloc_bar s pi E82545_BAR_FLASH PCIBAR_MEM32 E82545_BAR_FLASH_LEN;
     (_, s, pi) \<leftarrow> pci_emul_alloc_bar s pi E82545_BAR_IO PCIBAR_IO E82545_BAR_IO_LEN;
     let sc = sc\<lparr>esc_pi := pi, esc_mac := [0x00, 0x07, 0xed, 0x63, 0xe4, 0x91]\<rparr>;
     sc \<leftarrow> e82545_reset sc False;
     Some (0, s, esc_pi sc, sc)
   }"

text \<open>
  The driver entry \<^verbatim>\<open>pci_de_e82545\<close>. The device instance is one object that the bus and the card
  share: a BAR handler runs the card on the instance of the bus and hands the instance back.
\<close>

definition pci_de_e82545 :: "(u64 \<Rightarrow> u64) \<Rightarrow> (e82545_softc, 'w) pci_devemu" where
  "pci_de_e82545 dmap = \<lparr>
     pe_emu = ''e1000'',
     pe_init = e82545_init,
     pe_cfgwrite = None,
     pe_cfgread = None,
     pe_barwrite = (\<lambda>w d baridx offset sz val. do {
       sc \<leftarrow> e82545_write dmap ((dev_arg d)\<lparr>esc_pi := dev_pi d\<rparr>) baridx offset sz val;
       Some (w, d\<lparr>dev_pi := esc_pi sc, dev_arg := sc\<rparr>)
     }),
     pe_barread = (\<lambda>w d baridx offset sz. do {
       (retval, sc) \<leftarrow> e82545_read ((dev_arg d)\<lparr>esc_pi := dev_pi d\<rparr>) baridx offset sz;
       Some (retval, w, d\<lparr>dev_pi := esc_pi sc, dev_arg := sc\<rparr>)
     })\<rparr>"

end
