(* ===== verification/HostNet.thy ===== *)
theory HostNet
  imports Prelude
begin

text \<open>
  The memory of the host and the network of \<^verbatim>\<open>src/virtio.c\<close>: scatter/gather vectors,
  \<^verbatim>\<open>dm_process_rx\<close> and \<^verbatim>\<open>dm_process_tx\<close>. The virtio driver of the operating system is a
  parameter: \<open>vread st len\<close> is the result of \<^verbatim>\<open>virtionet_read\<close>, the bytes it stores and the next
  state of the driver; what is passed to \<^verbatim>\<open>virtionet_write\<close> is recorded in order.

  A pointer of a vector is an address of the host or, for the copy of the packet headers that
  \<^verbatim>\<open>e82545_transmit\<close> makes on its stack, an index of that buffer. An access outside of the buffer
  is undefined; host memory is total.
\<close>

section \<open>Host memory\<close>

type_synonym host_memory = "u64 \<Rightarrow> u8"

definition mem_bytes :: "host_memory \<Rightarrow> u64 \<Rightarrow> nat \<Rightarrow> u8 list" where
  "mem_bytes m a n = map (\<lambda>i. m (a + of_nat i)) [0..<n]"

fun mem_store :: "host_memory \<Rightarrow> u64 \<Rightarrow> u8 list \<Rightarrow> host_memory" where
  "mem_store m a [] = m"
| "mem_store m a (b # bs) = mem_store (m(a := b)) (a + 1) bs"

definition mem_get16 :: "host_memory \<Rightarrow> u64 \<Rightarrow> u16" where
  "mem_get16 m a = get_le16 (mem_bytes m a 2) 0"

definition mem_get32 :: "host_memory \<Rightarrow> u64 \<Rightarrow> u32" where
  "mem_get32 m a = get_le32 (mem_bytes m a 4) 0"

definition mem_get64 :: "host_memory \<Rightarrow> u64 \<Rightarrow> u64" where
  "mem_get64 m a = get_le64 (mem_bytes m a 8) 0"

definition mem_put16 :: "host_memory \<Rightarrow> u64 \<Rightarrow> u16 \<Rightarrow> host_memory" where
  "mem_put16 m a v = mem_store m a (put_le16 (replicate 2 0) 0 v)"

definition mem_put32 :: "host_memory \<Rightarrow> u64 \<Rightarrow> u32 \<Rightarrow> host_memory" where
  "mem_put32 m a v = mem_store m a (put_le32 (replicate 4 0) 0 v)"

lemma length_mem_bytes [simp]: "length (mem_bytes m a n) = n"
  by (simp add: mem_bytes_def)

lemma nth_mem_bytes [simp]: "i < n \<Longrightarrow> mem_bytes m a n ! i = m (a + of_nat i)"
  by (simp add: mem_bytes_def)

lemma mem_store_append: "mem_store m a (bs @ cs) = mem_store (mem_store m a bs) (a + of_nat (length bs)) cs"
  by (induction bs arbitrary: m a) (simp_all add: algebra_simps)

lemma mem_store_outside: "\<forall>i<length bs. x \<noteq> a + of_nat i \<Longrightarrow> mem_store m a bs x = m x"
proof (induction bs arbitrary: m a)
  case (Cons b bs)
  from Cons.prems [rule_format, of 0] have "x \<noteq> a" by simp
  moreover have "\<forall>i<length bs. x \<noteq> (a + 1) + of_nat i"
  proof (intro allI impI)
    fix i assume "i < length bs"
    with Cons.prems [rule_format, of "Suc i"] have "x \<noteq> a + of_nat (Suc i)" by simp
    then show "x \<noteq> (a + 1) + of_nat i" by (simp add: algebra_simps)
  qed
  ultimately show ?case using Cons.IH by simp
qed simp

section \<open>Vectors\<close>

datatype iov_addr = Host u64 | Hdr nat

record iovec =
  iov_base :: iov_addr
  iov_len :: nat

text \<open>\<^verbatim>\<open>mdx_incoffset\<close>: pointer arithmetic.\<close>

definition mdx_incoffset :: "iov_addr \<Rightarrow> nat \<Rightarrow> iov_addr" where
  "mdx_incoffset p n = (case p of Host a \<Rightarrow> Host (a + of_nat n) | Hdr i \<Rightarrow> Hdr (i + n))"

definition load_bytes :: "u8 list \<Rightarrow> host_memory \<Rightarrow> iov_addr \<Rightarrow> nat \<Rightarrow> u8 list option" where
  "load_bytes hdr m p n = (case p of
     Host a \<Rightarrow> Some (mem_bytes m a n)
   | Hdr i \<Rightarrow> if i + n \<le> length hdr then Some (take n (drop i hdr)) else None)"

text \<open>The bytes that a vector describes.\<close>

fun iov_bytes :: "u8 list \<Rightarrow> host_memory \<Rightarrow> iovec list \<Rightarrow> u8 list option" where
  "iov_bytes hdr m [] = Some []"
| "iov_bytes hdr m (v # vs) = do {
     bs \<leftarrow> load_bytes hdr m (iov_base v) (iov_len v);
     cs \<leftarrow> iov_bytes hdr m vs;
     Some (bs @ cs)
   }"

lemma load_bytes_length: "load_bytes hdr m p n = Some bs \<Longrightarrow> length bs = n"
  by (auto simp: load_bytes_def split: iov_addr.splits if_splits)

lemma load_bytes_split:
  "load_bytes hdr m p (k + n) = Some bs \<longleftrightarrow>
     (\<exists>b1 b2. load_bytes hdr m p k = Some b1 \<and> load_bytes hdr m (mdx_incoffset p k) n = Some b2 \<and>
       bs = b1 @ b2)"
proof (cases p)
  case (Host a)
  have "[0..<k + n] = [0..<k] @ map (\<lambda>i. i + k) [0..<n]"
    using upt_add_eq_append [of 0 k n] map_add_upt [of k n] by (simp add: add.commute)
  then show ?thesis
    using Host by (simp add: load_bytes_def mdx_incoffset_def mem_bytes_def o_def algebra_simps) blast
next
  case (Hdr i)
  have "take (k + n) (drop i hdr) = take k (drop i hdr) @ take n (drop (i + k) hdr)"
    by (subst take_add) (simp add: add.commute)
  with Hdr show ?thesis
    by (auto simp: load_bytes_def mdx_incoffset_def)
qed

lemma load_bytes_prefix:
  assumes "load_bytes hdr m p n = Some bs" "k \<le> n"
  shows "load_bytes hdr m p k = Some (take k bs)"
    and "load_bytes hdr m (mdx_incoffset p k) (n - k) = Some (drop k bs)"
proof -
  from assms obtain b1 b2 where
    b: "load_bytes hdr m p k = Some b1" "load_bytes hdr m (mdx_incoffset p k) (n - k) = Some b2"
       "bs = b1 @ b2"
    using load_bytes_split [of hdr m p k "n - k" bs] by auto
  moreover from b(1) have "length b1 = k" by (rule load_bytes_length)
  ultimately show "load_bytes hdr m p k = Some (take k bs)"
    and "load_bytes hdr m (mdx_incoffset p k) (n - k) = Some (drop k bs)" by simp_all
qed

text \<open>Vectors of the guest; their bytes do not depend on the header buffer.\<close>

definition host_iov :: "iovec list \<Rightarrow> bool" where
  "host_iov vs \<longleftrightarrow> (\<forall>v\<in>set vs. \<exists>a. iov_base v = Host a)"

lemma host_iov_simps [simp]:
  "host_iov []" "host_iov (v # vs) \<longleftrightarrow> (\<exists>a. iov_base v = Host a) \<and> host_iov vs"
  by (auto simp: host_iov_def)

lemma load_bytes_host: "load_bytes hdr m (Host a) n = Some (mem_bytes m a n)"
  by (simp add: load_bytes_def)

fun host_bytes :: "host_memory \<Rightarrow> iovec list \<Rightarrow> u8 list" where
  "host_bytes m [] = []"
| "host_bytes m (v # vs) =
     (case iov_base v of Host a \<Rightarrow> mem_bytes m a (iov_len v) | Hdr _ \<Rightarrow> []) @ host_bytes m vs"

lemma iov_bytes_host: "host_iov vs \<Longrightarrow> iov_bytes hdr m vs = Some (host_bytes m vs)"
  by (induction vs) (auto simp: load_bytes_host)

lemma take_drop_mem_bytes:
  "off + n \<le> len \<Longrightarrow> take n (drop off (mem_bytes m a len)) = mem_bytes m (a + of_nat off) n"
  by (rule nth_equalityI) (simp_all add: add.assoc)

lemma length_host_bytes: "host_iov vs \<Longrightarrow> length (host_bytes m vs) = sum_list (map iov_len vs)"
  by (induction vs) auto

lemma mem_store_inside:
  "length bs \<le> 2 ^ 64 \<Longrightarrow> i < length bs \<Longrightarrow> mem_store m a bs (a + of_nat i) = bs ! i"
proof (induction bs arbitrary: m a i)
  case (Cons b bs)
  show ?case
  proof (cases i)
    case 0
    have "a \<noteq> (a + 1) + of_nat j" if "j < length bs" for j
    proof
      assume "a = (a + 1) + of_nat j"
      then have "(of_nat (Suc j) :: u64) = 0" by (simp add: algebra_simps)
      then have "2 ^ 64 dvd Suc j" by (simp only: word_of_nat_eq_0_iff) simp
      then have "2 ^ 64 \<le> Suc j" by (rule dvd_imp_le) simp
      with that Cons.prems(1) show False by simp
    qed
    then have "mem_store (m(a := b)) (a + 1) bs a = (m(a := b)) a" by (intro mem_store_outside) blast
    with 0 show ?thesis by simp
  next
    case (Suc j)
    have "mem_store (m(a := b)) (a + 1) bs ((a + 1) + of_nat j) = bs ! j"
      by (rule Cons.IH) (use Cons.prems Suc in simp_all)
    moreover have "a + of_nat (Suc j) = (a + 1) + of_nat j" by simp
    ultimately show ?thesis unfolding Suc by (simp add: add.assoc)
  qed
qed simp

section \<open>The network\<close>

record 'n dm_world =
  host_mem :: host_memory
  net_state :: 'n
  net_sent :: "u8 list list"

type_synonym 'n net_reader = "'n \<Rightarrow> nat \<Rightarrow> int \<times> u8 list \<times> 'n"

abbreviation (input) "VIRTIO_MAX_BUF \<equiv> (131072::nat)"

definition virtionet_read :: "'n net_reader \<Rightarrow> 'n dm_world \<Rightarrow> u64 \<Rightarrow> nat \<Rightarrow> int \<times> 'n dm_world" where
  "virtionet_read vread w buf len = (case vread (net_state w) len of
     (err, bs, st) \<Rightarrow> (err, w\<lparr>host_mem := mem_store (host_mem w) buf bs, net_state := st\<rparr>))"

text \<open>
  The body runs once before the conditions are tested, and the result is that of the last read;
  the vectors of the receive path are always addresses of the host.
\<close>

fun dm_process_rx :: "'n net_reader \<Rightarrow> 'n dm_world \<Rightarrow> iovec list \<Rightarrow> (int \<times> 'n dm_world) option" where
  "dm_process_rx vread w [] = None"
| "dm_process_rx vread w (v # vs) = (case iov_base v of
     Hdr _ \<Rightarrow> None
   | Host a \<Rightarrow>
       let (err, w) = virtionet_read vread w a (iov_len v)
       in if vs = [] then Some (err, w)
          else if err \<noteq> 0 then dm_process_rx vread w vs
          else Some (err, w))"

text \<open>
  The packet is gathered in a static buffer. The length is an int there: a vector whose length
  does not fit is negative and passes the test of the bound, and the copy is then undefined.
\<close>

fun gather :: "u8 list \<Rightarrow> host_memory \<Rightarrow> iovec list \<Rightarrow> u8 list \<Rightarrow> u8 list option" where
  "gather hdr m [] buf = Some buf"
| "gather hdr m (v # vs) buf = do {
     assert_that (iov_len v < 2 ^ 31);
     assert_that (length buf + iov_len v < VIRTIO_MAX_BUF);
     bs \<leftarrow> load_bytes hdr m (iov_base v) (iov_len v);
     gather hdr m vs (buf @ bs)
   }"

definition dm_process_tx :: "u8 list \<Rightarrow> 'n dm_world \<Rightarrow> iovec list \<Rightarrow> 'n dm_world option" where
  "dm_process_tx hdr w iov = do {
     buf \<leftarrow> gather hdr (host_mem w) iov [];
     Some (w\<lparr>net_sent := net_sent w @ [buf]\<rparr>)
   }"

lemma gather_eq:
  assumes "iov_bytes hdr m vs = Some bs" "length buf + length bs < VIRTIO_MAX_BUF"
  shows "gather hdr m vs buf = Some (buf @ bs)"
  using assms
proof (induction vs arbitrary: buf bs)
  case (Cons v vs)
  then obtain b1 b2 where b: "load_bytes hdr m (iov_base v) (iov_len v) = Some b1"
    "iov_bytes hdr m vs = Some b2" "bs = b1 @ b2"
    by (auto simp: bind_eq_Some_conv)
  with load_bytes_length [OF b(1)] Cons show ?case by simp
qed simp

lemma gather_SomeD:
  "gather hdr m vs buf = Some r \<Longrightarrow>
     \<exists>bs. iov_bytes hdr m vs = Some bs \<and> r = buf @ bs \<and>
       (vs \<noteq> [] \<longrightarrow> length r < VIRTIO_MAX_BUF)"
proof (induction vs arbitrary: buf)
  case (Cons v vs)
  then obtain b1 where b1: "load_bytes hdr m (iov_base v) (iov_len v) = Some b1"
    and g: "gather hdr m vs (buf @ b1) = Some r" and l: "length buf + iov_len v < VIRTIO_MAX_BUF"
    by (auto simp: bind_eq_Some_conv)
  from Cons.IH [OF g] obtain b2 where b2: "iov_bytes hdr m vs = Some b2" "r = (buf @ b1) @ b2"
    "vs \<noteq> [] \<longrightarrow> length r < VIRTIO_MAX_BUF" by blast
  then have "length r < VIRTIO_MAX_BUF"
    using l load_bytes_length [OF b1] by (cases "vs = []") auto
  with b1 b2 show ?case by auto
qed simp

end
