(* ===== verification/E1000Tx.thy ===== *)
theory E1000Tx
  imports E1000Dev HostNet
begin

text \<open>
  The transmit path of \<^verbatim>\<open>bhyve/pci_e82545.c\<close>: checksums over vectors, the walk along the
  descriptor ring, header copies, VLAN tags, TCP segmentation, the write-back of the descriptors and
  the poll of the ring.

  A transmit descriptor is \<^verbatim>\<open>union e1000_tx_udesc\<close>. The context descriptor starts with a reserved
  field of eight bytes, so that the union has 24 bytes and the fields of a context begin at its
  ninth byte; the legacy and the data descriptor have 16 bytes.
\<close>

section \<open>Checksums\<close>

definition e82545_carry :: "u32 \<Rightarrow> u16" where
  "e82545_carry s32 =
     (let s32 = (s32 AND 0xFFFF) + drop_bit 16 s32;
          s32 = (if s32 > 0xFFFF then s32 - 0xFFFF else s32)
      in ucast s32)"

text \<open>
  Pairs of bytes are read little-endian; \<^verbatim>\<open>htons(b << 8)\<close> of a last byte is the byte itself.
\<close>

fun sum_pairs :: "u8 list \<Rightarrow> u32 \<Rightarrow> u32" where
  "sum_pairs [] s32 = s32"
| "sum_pairs [b] s32 = s32 + ucast b"
| "sum_pairs (a # b # bs) s32 = sum_pairs bs (s32 + (ucast a OR push_bit 8 (ucast b)))"

definition e82545_buf_checksum :: "u8 list \<Rightarrow> u16" where
  "e82545_buf_checksum bs = e82545_carry (sum_pairs bs 0)"

fun skip_iov :: "iovec list \<Rightarrow> nat \<Rightarrow> iovec list \<times> nat" where
  "skip_iov [] off = ([], off)"
| "skip_iov (v # vs) off =
     (if iov_len v \<le> off \<and> off > 0 then skip_iov vs (off - iov_len v) else (v # vs, off))"

fun sum_iov :: "u8 list \<Rightarrow> host_memory \<Rightarrow> iovec list \<Rightarrow> nat \<Rightarrow> nat \<Rightarrow> bool \<Rightarrow> u32 \<Rightarrow> u32 option" where
  "sum_iov hdr m [] off len odd_now s32 = Some s32"
| "sum_iov hdr m (v # vs) off len odd_now s32 =
     (if len = 0 then Some s32
      else do {
        let now = min len (iov_len v - off);
        bs \<leftarrow> load_bytes hdr m (mdx_incoffset (iov_base v) off) now;
        let s = (ucast (e82545_buf_checksum bs) :: u32);
        sum_iov hdr m vs 0 (len - now) (odd_now \<noteq> odd now)
          (s32 + (if odd_now then push_bit 8 s else s))
      })"

definition e82545_iov_checksum ::
  "u8 list \<Rightarrow> host_memory \<Rightarrow> iovec list \<Rightarrow> nat \<Rightarrow> int \<Rightarrow> u16 option" where
  "e82545_iov_checksum hdr m iov off len = do {
     let (iov, off) = skip_iov iov off;
     s32 \<leftarrow> sum_iov hdr m iov off (nat len) False 0;
     Some (e82545_carry s32)
   }"

record ck_info =
  ck_valid :: bool
  ck_start :: u8
  ck_off :: u8
  ck_len :: u16

definition ck_zero :: ck_info where
  "ck_zero = \<lparr>ck_valid = False, ck_start = 0, ck_off = 0, ck_len = 0\<rparr>"

text \<open>A store of 16 bits through the pointer of a vector.\<close>

definition store16 ::
  "u8 list \<Rightarrow> host_memory \<Rightarrow> iov_addr \<Rightarrow> u16 \<Rightarrow> (u8 list \<times> host_memory) option" where
  "store16 hdr m p v = (case p of
     Host a \<Rightarrow> Some (hdr, mem_put16 m a v)
   | Hdr i \<Rightarrow> if i + 2 \<le> length hdr then Some (put_le16 hdr i v, m) else None)"

definition e82545_transmit_checksum ::
  "u8 list \<Rightarrow> 'n dm_world \<Rightarrow> iovec list \<Rightarrow> ck_info \<Rightarrow> (u8 list \<times> 'n dm_world) option" where
  "e82545_transmit_checksum hdr w iov ck = do {
     let cklen = (if ck_len ck \<noteq> 0 then int (unat (ck_len ck)) - int (unat (ck_start ck)) + 1
                  else 2 ^ 31 - 1);
     cksum \<leftarrow> e82545_iov_checksum hdr (host_mem w) iov (unat (ck_start ck)) cklen;
     assert_that (iov \<noteq> []);
     (hdr, m) \<leftarrow> store16 hdr (host_mem w) (mdx_incoffset (iov_base (iov ! 0)) (unat (ck_off ck)))
       (NOT cksum);
     Some (hdr, w\<lparr>host_mem := m\<rparr>)
   }"

section \<open>Descriptors\<close>

abbreviation (input) "E1000_TXD_CMD_EOP \<equiv> (0x01000000::u32)"
abbreviation (input) "E1000_TXD_CMD_IFCS \<equiv> (0x02000000::u32)"
abbreviation (input) "E1000_TXD_CMD_IC \<equiv> (0x04000000::u32)"
abbreviation (input) "E1000_TXD_CMD_TSE \<equiv> (0x04000000::u32)"
abbreviation (input) "E1000_TXD_CMD_RS \<equiv> (0x08000000::u32)"
abbreviation (input) "E1000_TXD_CMD_DEXT \<equiv> (0x20000000::u32)"
abbreviation (input) "E1000_TXD_CMD_VLE \<equiv> (0x40000000::u32)"
abbreviation (input) "E1000_TXD_CMD_TCP \<equiv> (0x01000000::u32)"
abbreviation (input) "E1000_TXD_CMD_IP \<equiv> (0x02000000::u32)"
abbreviation (input) "E1000_TXD_STAT_DD \<equiv> (0x00000001::u32)"
abbreviation (input) "E1000_TXD_POPTS_IXSM \<equiv> (1::u8)"
abbreviation (input) "E1000_TXD_POPTS_TXSM \<equiv> (2::u8)"
abbreviation (input) "E1000_TXD_MASK \<equiv> (0x20F00000::u32)"
abbreviation (input) "E1000_TXD_TYP_L \<equiv> (0::u32)"
abbreviation (input) "E1000_TXD_TYP_C \<equiv> (0x20000000::u32)"
abbreviation (input) "E1000_TXD_TYP_D \<equiv> (0x20100000::u32)"
abbreviation (input) "I82545_MAX_TXSEGS \<equiv> (64::nat)"
abbreviation (input) "TXD_SIZE \<equiv> (24::u64)"

definition e82545_txdesc_type :: "u32 \<Rightarrow> u32" where
  "e82545_txdesc_type lower =
     (if lower AND E1000_TXD_CMD_DEXT \<noteq> 0 then lower AND E1000_TXD_MASK else 0)"

text \<open>\<^verbatim>\<open>sc->esc_txdesc[head]\<close> and its fields.\<close>

definition txd_addr :: "u64 \<Rightarrow> nat \<Rightarrow> u64" where
  "txd_addr base head = base + TXD_SIZE * of_nat head"

definition td_buffer_addr :: "host_memory \<Rightarrow> u64 \<Rightarrow> u64" where
  "td_buffer_addr m dsc = mem_get64 m dsc"

definition td_lower :: "host_memory \<Rightarrow> u64 \<Rightarrow> u32" where
  "td_lower m dsc = mem_get32 m (dsc + 8)"

definition td_length :: "host_memory \<Rightarrow> u64 \<Rightarrow> u16" where
  "td_length m dsc = mem_get16 m (dsc + 8)"

definition td_cso :: "host_memory \<Rightarrow> u64 \<Rightarrow> u8" where
  "td_cso m dsc = m (dsc + 10)"

definition td_css :: "host_memory \<Rightarrow> u64 \<Rightarrow> u8" where
  "td_css m dsc = m (dsc + 13)"

definition dd_popts :: "host_memory \<Rightarrow> u64 \<Rightarrow> u8" where
  "dd_popts m dsc = m (dsc + 13)"

definition td_special :: "host_memory \<Rightarrow> u64 \<Rightarrow> u16" where
  "td_special m dsc = mem_get16 m (dsc + 14)"

definition txd_context :: "host_memory \<Rightarrow> u64 \<Rightarrow> e1000_context_desc" where
  "txd_context m dsc = \<lparr>
     ipcss = m (dsc + 8), ipcso = m (dsc + 9), ipcse = mem_get16 m (dsc + 10),
     tucss = m (dsc + 12), tucso = m (dsc + 13), tucse = mem_get16 m (dsc + 14),
     cmd_and_length = mem_get32 m (dsc + 16),
     cd_status = m (dsc + 20), cd_hdr_len = m (dsc + 21), cd_mss = mem_get16 m (dsc + 22)\<rparr>"

definition txd_set_dd :: "host_memory \<Rightarrow> u64 \<Rightarrow> host_memory" where
  "txd_set_dd m dsc = mem_put32 m (dsc + 12) (mem_get32 m (dsc + 12) OR E1000_TXD_STAT_DD)"

section \<open>The walk along the ring\<close>

text \<open>What is known of the packet while its descriptors are read.\<close>

record tx_acc =
  ta_iov :: "iovec list"
  ta_cnt :: nat
  ta_type :: u32
  ta_ck0 :: ck_info
  ta_ck1 :: ck_info
  ta_tso :: bool

definition tx_acc_zero :: tx_acc where
  "tx_acc_zero = \<lparr>ta_iov = [], ta_cnt = 0, ta_type = 0, ta_ck0 = ck_zero, ta_ck1 = ck_zero,
     ta_tso = False\<rparr>"

text \<open>The first descriptor fixes the type.\<close>

definition tx_begin :: "host_memory \<Rightarrow> u64 \<Rightarrow> u32 \<Rightarrow> tx_acc \<Rightarrow> tx_acc" where
  "tx_begin m dsc dtype a =
     (if dtype = E1000_TXD_TYP_L then
        a\<lparr>ta_type := dtype, ta_ck0 := (ta_ck0 a)\<lparr>ck_start := td_css m dsc\<rparr>\<rparr>
      else if dtype = E1000_TXD_TYP_D then a\<lparr>ta_type := dtype\<rparr>
      else a)"

text \<open>The data of a descriptor; an int length becomes a \<^verbatim>\<open>size_t\<close>.\<close>

definition tx_segment :: "(u64 \<Rightarrow> u64) \<Rightarrow> host_memory \<Rightarrow> u64 \<Rightarrow> u32 \<Rightarrow> tx_acc \<Rightarrow> tx_acc" where
  "tx_segment dmap m dsc dtype a =
     (let lower = td_lower m dsc;
          len = (if dtype = E1000_TXD_TYP_L then int (unat (td_length m dsc))
                 else int (unat (lower AND 0xFFFFF)))
      in if len > 0 then
           let len = (if lower AND E1000_TXD_CMD_EOP \<noteq> 0 \<and> lower AND E1000_TXD_CMD_IFCS = 0
                      then len - 2 else len);
               a = (if ta_cnt a < I82545_MAX_TXSEGS then
                      a\<lparr>ta_iov := ta_iov a @
                        [\<lparr>iov_base = Host (paddr_guest2host dmap (td_buffer_addr m dsc) (of_int len)),
                          iov_len = nat (len mod 2 ^ 64)\<rparr>]\<rparr>
                    else a)
           in a\<lparr>ta_cnt := ta_cnt a + 1\<rparr>
         else a)"

text \<open>What the last descriptor says about offloading.\<close>

definition tx_final ::
  "host_memory \<Rightarrow> u64 \<Rightarrow> u32 \<Rightarrow> e1000_context_desc \<Rightarrow> tx_acc \<Rightarrow> tx_acc" where
  "tx_final m dsc dtype cd a =
     (let lower = td_lower m dsc; popts = dd_popts m dsc in
      if dtype = E1000_TXD_TYP_L then
        (if lower AND E1000_TXD_CMD_IC \<noteq> 0
         then a\<lparr>ta_ck0 := (ta_ck0 a)\<lparr>ck_valid := True, ck_off := td_cso m dsc, ck_len := 0\<rparr>\<rparr>
         else a)
      else
        let tso = (lower AND E1000_TXD_CMD_TSE \<noteq> 0);
            a = a\<lparr>ta_tso := tso\<rparr>;
            a = (if popts AND E1000_TXD_POPTS_IXSM \<noteq> 0
                 then a\<lparr>ta_ck0 := (ta_ck0 a)\<lparr>ck_valid := True\<rparr>\<rparr> else a);
            a = (if popts AND E1000_TXD_POPTS_IXSM \<noteq> 0 \<or> tso
                 then a\<lparr>ta_ck0 := (ta_ck0 a)\<lparr>ck_start := ipcss cd, ck_off := ipcso cd,
                        ck_len := ipcse cd\<rparr>\<rparr> else a);
            a = (if popts AND E1000_TXD_POPTS_TXSM \<noteq> 0
                 then a\<lparr>ta_ck1 := (ta_ck1 a)\<lparr>ck_valid := True\<rparr>\<rparr> else a)
        in if popts AND E1000_TXD_POPTS_TXSM \<noteq> 0 \<or> tso
           then a\<lparr>ta_ck1 := (ta_ck1 a)\<lparr>ck_start := tucss cd, ck_off := tucso cd,
                  ck_len := tucse cd\<rparr>\<rparr> else a)"

datatype tx_stop = Tx_empty | Tx_context | Tx_packet

text \<open>
  The descriptor loop: how it stops, the number of descriptors before the last, the position of the
  head and the packet. It does not return when no descriptor ends the packet and the head never
  reaches the tail.
\<close>

partial_function (option) tx_collect ::
  "(u64 \<Rightarrow> u64) \<Rightarrow> host_memory \<Rightarrow> u64 \<Rightarrow> e1000_context_desc \<Rightarrow> nat \<Rightarrow> nat \<Rightarrow> nat \<Rightarrow> nat \<Rightarrow> tx_acc \<Rightarrow>
     (tx_stop \<times> nat \<times> nat \<times> tx_acc) option" where
  "tx_collect dmap m base cd tail dsize desc head a =
     (if head = tail then Some (Tx_empty, desc, head, a)
      else
        let dsc = txd_addr base head;
            lower = td_lower m dsc;
            dtype = e82545_txdesc_type lower
        in if desc = 0 \<and> dtype = E1000_TXD_TYP_C then Some (Tx_context, desc, head, a)
           else if desc \<noteq> 0 \<and> dtype \<noteq> ta_type a then None
           else
             let a = (if desc = 0 then tx_begin m dsc dtype a else a);
                 a = tx_segment dmap m dsc dtype a
             in if lower AND E1000_TXD_CMD_EOP \<noteq> 0
                then Some (Tx_packet, desc, head, tx_final m dsc dtype cd a)
                else if dsize = 0 then None
                else tx_collect dmap m base cd tail dsize (desc + 1) ((head + 1) mod dsize) a)"

end
