(* ===== verification/E1000Xmit.thy ===== *)
theory E1000Xmit
  imports E1000Tx
begin

text \<open>
  \<^verbatim>\<open>e82545_transmit\<close> and \<^verbatim>\<open>e82545_tx_run\<close> of \<^verbatim>\<open>bhyve/pci_e82545.c\<close>: the writable copy of the
  headers, the VLAN tag, the segmentation of TCP and UDP, the write-back of the descriptors and the
  loop over the ring. The header copy is a buffer on the stack; an access outside of it is undefined.
\<close>

section \<open>Headers\<close>

abbreviation (input) "ETHER_ADDR_LEN \<equiv> (6::nat)"
abbreviation (input) "ETHER_VLAN_ENCAP_LEN \<equiv> (4::nat)"

text \<open>The copy takes bytes from the front of the vector; it is undefined to run out of vectors.\<close>

fun copy_hdr :: "host_memory \<Rightarrow> iovec list \<Rightarrow> nat \<Rightarrow> u8 list \<Rightarrow> (u8 list \<times> iovec list) option" where
  "copy_hdr m vs 0 hdr = Some (hdr, vs)"
| "copy_hdr m [] (Suc left) hdr = None"
| "copy_hdr m (v # vs) (Suc left) hdr = do {
     let now = min (Suc left) (iov_len v);
     bs \<leftarrow> load_bytes [] m (iov_base v) now;
     if now = iov_len v then copy_hdr m vs (Suc left - now) (hdr @ bs)
     else Some (hdr @ bs, \<lparr>iov_base = mdx_incoffset (iov_base v) now, iov_len = iov_len v - now\<rparr> # vs)
   }"

definition tx_hdrlen :: "e82545_softc \<Rightarrow> bool \<Rightarrow> tx_acc \<Rightarrow> nat" where
  "tx_hdrlen sc vlan a =
     (let hdrlen = (if vlan then ETHER_ADDR_LEN * 2 else 0) in
      if \<not> ta_tso a then
        let hdrlen = (if ck_valid (ta_ck0 a) then max hdrlen (unat (ck_off (ta_ck0 a)) + 2) else hdrlen);
            hdrlen = (if ck_valid (ta_ck1 a) then max hdrlen (unat (ck_off (ta_ck1 a)) + 2) else hdrlen)
        in if hdrlen \<noteq> 0 \<and> ta_iov a \<noteq> [] \<and> iov_len (ta_iov a ! 0) > hdrlen \<and>
              iov_len (ta_iov a ! 0) < hdrlen + 100
           then iov_len (ta_iov a ! 0) else hdrlen
      else unat (cd_hdr_len (esc_txctx (esc_tx sc))))"

text \<open>
  The VLAN tag. The header was copied to offset 4 of the buffer; the addresses move to its front and
  the tag is written behind them.
\<close>

definition vlan_tag :: "u32 \<Rightarrow> u16 \<Rightarrow> u8 list" where
  "vlan_tag vet special = [ucast (drop_bit 8 vet), ucast (vet AND 0xff),
     ucast (drop_bit 8 special), ucast (special AND 0xff)]"

definition insert_vlan :: "u8 list \<Rightarrow> u32 \<Rightarrow> u16 \<Rightarrow> u8 list option" where
  "insert_vlan hdr vet special = do {
     assert_that (ETHER_ADDR_LEN * 2 \<le> length hdr);
     Some (take (ETHER_ADDR_LEN * 2) hdr @ vlan_tag vet special @ drop (ETHER_ADDR_LEN * 2) hdr)
   }"

definition ck_shift :: "ck_info \<Rightarrow> ck_info" where
  "ck_shift ck = ck\<lparr>ck_start := ck_start ck + 4, ck_off := ck_off ck + 4,
     ck_len := (if ck_len ck \<noteq> 0 then ck_len ck + 4 else ck_len ck)\<rparr>"

definition vlan_wanted :: "e82545_softc \<Rightarrow> u32 \<Rightarrow> bool" where
  "vlan_wanted sc lower \<longleftrightarrow> esc_CTRL (esc_gen sc) AND E1000_CTRL_VME \<noteq> 0 \<and>
     lower AND E1000_TXD_CMD_VLE \<noteq> 0"

text \<open>The header buffer, the vectors with the header in front, and the adjusted checksum places.\<close>

definition tx_headers ::
  "e82545_softc \<Rightarrow> host_memory \<Rightarrow> u64 \<Rightarrow> tx_acc \<Rightarrow> (u8 list \<times> iovec list \<times> ck_info \<times> ck_info) option" where
  "tx_headers sc m dsc a = do {
     let vlan = vlan_wanted sc (td_lower m dsc);
     let hdrlen = tx_hdrlen sc vlan a;
     (hdr, iov) \<leftarrow>
       (if hdrlen \<noteq> 0 then do {
          (hdr, iov) \<leftarrow> copy_hdr m (ta_iov a) hdrlen [];
          Some (hdr, \<lparr>iov_base = Hdr 0, iov_len = hdrlen\<rparr> # iov)
        } else Some ([], ta_iov a));
     if vlan then do {
       hdr \<leftarrow> insert_vlan hdr (esc_VET (esc_gen sc)) (td_special m dsc);
       Some (hdr, \<lparr>iov_base = Hdr 0, iov_len = length hdr\<rparr> # tl iov,
         ck_shift (ta_ck0 a), ck_shift (ta_ck1 a))
     }
     else Some (hdr, iov, ta_ck0 a, ta_ck1 a)
   }"

section \<open>Segmentation\<close>

text \<open>Accesses to the header buffer; 16 bit and 32 bit values in network order.\<close>

definition put_be16 :: "u8 list \<Rightarrow> nat \<Rightarrow> u16 \<Rightarrow> u8 list option" where
  "put_be16 hdr i v = (if i + 2 \<le> length hdr
     then Some (hdr[i := ucast (drop_bit 8 v), i + 1 := ucast v]) else None)"

definition put_be32 :: "u8 list \<Rightarrow> nat \<Rightarrow> u32 \<Rightarrow> u8 list option" where
  "put_be32 hdr i v = (if i + 4 \<le> length hdr
     then Some (hdr[i := ucast (drop_bit 24 v), i + 1 := ucast (drop_bit 16 v),
       i + 2 := ucast (drop_bit 8 v), i + 3 := ucast v]) else None)"

definition get_be16 :: "u8 list \<Rightarrow> nat \<Rightarrow> u16 option" where
  "get_be16 hdr i = (if i + 2 \<le> length hdr
     then Some (push_bit 8 (ucast (hdr ! i)) OR ucast (hdr ! (i + 1))) else None)"

definition get_be32 :: "u8 list \<Rightarrow> nat \<Rightarrow> u32 option" where
  "get_be32 hdr i = (if i + 4 \<le> length hdr
     then Some (push_bit 24 (ucast (hdr ! i)) OR push_bit 16 (ucast (hdr ! (i + 1))) OR
       push_bit 8 (ucast (hdr ! (i + 2))) OR ucast (hdr ! (i + 3))) else None)"

definition get_ne16 :: "u8 list \<Rightarrow> nat \<Rightarrow> u16 option" where
  "get_ne16 hdr i = (if i + 2 \<le> length hdr then Some (get_le16 hdr i) else None)"

definition put_ne16 :: "u8 list \<Rightarrow> nat \<Rightarrow> u16 \<Rightarrow> u8 list option" where
  "put_ne16 hdr i v = (if i + 2 \<le> length hdr then Some (put_le16 hdr i v) else None)"

definition put_ne32 :: "u8 list \<Rightarrow> nat \<Rightarrow> u32 \<Rightarrow> u8 list option" where
  "put_ne32 hdr i v = (if i + 4 \<le> length hdr then Some (put_le32 hdr i v) else None)"

definition htons :: "u16 \<Rightarrow> u16" where
  "htons v = push_bit 8 v OR drop_bit 8 v"

text \<open>The vectors of the next \<open>nleft\<close> bytes of the payload, and what is left of it.\<close>

fun take_payload :: "iovec list \<Rightarrow> nat \<Rightarrow> nat \<Rightarrow> iovec list \<times> iovec list \<times> nat" where
  "take_payload [] pvoff nleft = ([], [], pvoff)"
| "take_payload (v # vs) pvoff nleft =
     (if nleft = 0 then ([], v # vs, pvoff)
      else
        let nnow = min nleft (iov_len v - pvoff);
            t = \<lparr>iov_base = mdx_incoffset (iov_base v) pvoff, iov_len = nnow\<rparr>
        in if pvoff + nnow = iov_len v
           then (case take_payload vs 0 (nleft - nnow) of (ts, vs', pvoff') \<Rightarrow> (t # ts, vs', pvoff'))
           else ([t], v # vs, pvoff + nnow))"

text \<open>What the loop over the segments does not change.\<close>

record tso_cfg =
  tso_hdrlen :: nat
  tso_ck0 :: ck_info
  tso_ck1 :: ck_info
  tso_cmd :: u32
  tso_mss :: nat
  tso_paylen :: nat
  tso_ipid :: u16
  tso_tcpseq :: u32
  tso_ipcs :: u16
  tso_tcpcs :: u16

definition tso_config ::
  "e1000_context_desc \<Rightarrow> u8 list \<Rightarrow> ck_info \<Rightarrow> ck_info \<Rightarrow> tso_cfg option" where
  "tso_config cd hdr ck0 ck1 = do {
     ipid \<leftarrow> get_be16 hdr (unat (ck_start ck0) + 4);
     tcpseq \<leftarrow> get_be32 hdr (unat (ck_start ck1) + 4);
     ipcs \<leftarrow> get_ne16 hdr (unat (ck_off ck0));
     tcpcs \<leftarrow> (if ck_valid ck1 then get_ne16 hdr (unat (ck_off ck1)) else Some 0);
     Some \<lparr>tso_hdrlen = length hdr, tso_ck0 = ck0, tso_ck1 = ck1, tso_cmd = cmd_and_length cd,
       tso_mss = unat (cd_mss cd), tso_paylen = unat (cmd_and_length cd AND 0x000fffff),
       tso_ipid = ipid, tso_tcpseq = tcpseq, tso_ipcs = ipcs, tso_tcpcs = tcpcs\<rparr>
   }"

text \<open>The IP header of one segment: \<open>now\<close> is its payload.\<close>

definition tso_ip :: "tso_cfg \<Rightarrow> nat \<Rightarrow> nat \<Rightarrow> u8 list \<Rightarrow> u8 list option" where
  "tso_ip c seg now hdr =
     (let s0 = unat (ck_start (tso_ck0 c)); len = int (tso_hdrlen c) - int s0 in
      if tso_cmd c AND E1000_TXD_CMD_IP \<noteq> 0 then do {
        hdr \<leftarrow> put_be16 hdr (s0 + 2) (of_int (len + int now));
        put_be16 hdr (s0 + 4) (tso_ipid c + of_nat seg)
      }
      else put_be16 hdr (s0 + 4) (of_int (len - 40 + int now)))"

text \<open>The TCP or UDP header; \<open>left\<close> is the payload from this segment on.\<close>

definition tso_tcp :: "tso_cfg \<Rightarrow> nat \<Rightarrow> nat \<Rightarrow> u8 list \<Rightarrow> u8 list option" where
  "tso_tcp c left now hdr =
     (let s1 = unat (ck_start (tso_ck1 c)) in
      if tso_cmd c AND E1000_TXD_CMD_TCP \<noteq> 0 then do {
        hdr \<leftarrow> put_be32 hdr (s1 + 4) (tso_tcpseq c + of_nat (tso_paylen c) - of_nat left);
        if now < left then do {
          assert_that (s1 + 13 < length hdr);
          Some (hdr[s1 + 13 := hdr ! (s1 + 13) AND NOT 0x09])
        } else Some hdr
      }
      else put_ne32 hdr (s1 + 4) (of_int (int (tso_hdrlen c) - int s1 + int now)))"

definition tso_tcpsum :: "tso_cfg \<Rightarrow> nat \<Rightarrow> u32" where
  "tso_tcpsum c now = ucast (tso_tcpcs c) +
     ucast (htons (of_int (int (tso_hdrlen c) - int (unat (ck_start (tso_ck1 c))) + int now)))"

definition tso_checksums ::
  "tso_cfg \<Rightarrow> nat \<Rightarrow> iovec list \<Rightarrow> u8 list \<Rightarrow> 'n dm_world \<Rightarrow> (u8 list \<times> 'n dm_world) option" where
  "tso_checksums c now tiov hdr w = do {
     (hdr, w) \<leftarrow>
       (if ck_valid (tso_ck0 c) then do {
          hdr \<leftarrow> put_ne16 hdr (unat (ck_off (tso_ck0 c))) (tso_ipcs c);
          e82545_transmit_checksum hdr w tiov (tso_ck0 c)
        } else Some (hdr, w));
     if ck_valid (tso_ck1 c) then do {
       hdr \<leftarrow> put_ne16 hdr (unat (ck_off (tso_ck1 c))) (e82545_carry (tso_tcpsum c now));
       e82545_transmit_checksum hdr w tiov (tso_ck1 c)
     } else Some (hdr, w)
   }"

definition tso_segment ::
  "tso_cfg \<Rightarrow> nat \<Rightarrow> nat \<Rightarrow> nat \<Rightarrow> iovec list \<Rightarrow> u8 list \<Rightarrow> 'n dm_world \<Rightarrow>
     (u8 list \<times> 'n dm_world) option" where
  "tso_segment c seg left now tiov hdr w = do {
     hdr \<leftarrow> tso_ip c seg now hdr;
     hdr \<leftarrow> tso_tcp c left now hdr;
     (hdr, w) \<leftarrow> tso_checksums c now tiov hdr w;
     w \<leftarrow> dm_process_tx hdr w tiov;
     Some (hdr, w)
   }"

text \<open>The loop over the segments; with a maximal segment size of 0 it does not end.\<close>

partial_function (option) tso_loop ::
  "tso_cfg \<Rightarrow> nat \<Rightarrow> nat \<Rightarrow> iovec list \<Rightarrow> nat \<Rightarrow> u8 list \<Rightarrow> 'n dm_world \<Rightarrow> 'n dm_world option" where
  "tso_loop c seg left pvs pvoff hdr w =
     (if left = 0 then Some w
      else
        let now = min left (tso_mss c);
            (ts, pvs', pvoff') = take_payload pvs pvoff now;
            tiov = \<lparr>iov_base = Hdr 0, iov_len = tso_hdrlen c\<rparr> # ts
        in Option.bind (tso_segment c seg left now tiov hdr w)
             (\<lambda>(hdr, w). tso_loop c (seg + 1) (left - now) pvs' pvoff' hdr w))"

section \<open>One packet\<close>

definition tx_plain ::
  "u8 list \<Rightarrow> iovec list \<Rightarrow> ck_info \<Rightarrow> ck_info \<Rightarrow> 'n dm_world \<Rightarrow> 'n dm_world option" where
  "tx_plain hdr iov ck0 ck1 w = do {
     (hdr, w) \<leftarrow> (if ck_valid ck0 then e82545_transmit_checksum hdr w iov ck0 else Some (hdr, w));
     (hdr, w) \<leftarrow> (if ck_valid ck1 then e82545_transmit_checksum hdr w iov ck1 else Some (hdr, w));
     dm_process_tx hdr w iov
   }"

definition tx_packet ::
  "e82545_softc \<Rightarrow> u64 \<Rightarrow> tx_acc \<Rightarrow> 'n dm_world \<Rightarrow> 'n dm_world option" where
  "tx_packet sc dsc a w = do {
     (hdr, iov, ck0, ck1) \<leftarrow> tx_headers sc (host_mem w) dsc a;
     if \<not> ta_tso a then tx_plain hdr iov ck0 ck1 w
     else do {
       c \<leftarrow> tso_config (esc_txctx (esc_tx sc)) hdr ck0 ck1;
       tso_loop c 0 (tso_paylen c) (tl iov) 0 hdr w
     }
   }"

partial_function (option) e82545_transmit_done ::
  "u64 \<Rightarrow> nat \<Rightarrow> nat \<Rightarrow> nat \<Rightarrow> host_memory \<Rightarrow> bool \<Rightarrow> (host_memory \<times> bool) option" where
  "e82545_transmit_done base head tail dsize m tdwb =
     (if head = tail then Some (m, tdwb)
      else if dsize = 0 then None
      else let dsc = txd_addr base head in
        if td_lower m dsc AND E1000_TXD_CMD_RS \<noteq> 0
        then e82545_transmit_done base ((head + 1) mod dsize) tail dsize (txd_set_dd m dsc) True
        else e82545_transmit_done base ((head + 1) mod dsize) tail dsize m tdwb)"

text \<open>The result: the number of descriptors, the new head, and whether one was written back.\<close>

definition e82545_transmit ::
  "(u64 \<Rightarrow> u64) \<Rightarrow> e82545_softc \<Rightarrow> 'n dm_world \<Rightarrow> nat \<Rightarrow> nat \<Rightarrow> nat \<Rightarrow> bool \<Rightarrow>
     (nat \<times> nat \<times> bool \<times> e82545_softc \<times> 'n dm_world) option" where
  "e82545_transmit dmap sc w head tail dsize tdwb = do {
     base \<leftarrow> esc_txdesc (esc_tx sc);
     let ohead = head;
     (stop, desc, head, a) \<leftarrow> tx_collect dmap (host_mem w) base (esc_txctx (esc_tx sc)) tail dsize 0
       head tx_acc_zero;
     let dsc = txd_addr base head;
     if stop = Tx_empty then Some (0, head, tdwb, sc, w)
     else do {
       let sc' = (if stop = Tx_context
         then upd_tx (\<lambda>t. t\<lparr>esc_txctx := txd_context (host_mem w) dsc\<rparr>) sc else sc);
       w \<leftarrow> (if stop = Tx_packet \<and> ta_cnt a \<le> I82545_MAX_TXSEGS then tx_packet sc dsc a w else Some w);
       assert_that (dsize \<noteq> 0);
       let head = (head + 1) mod dsize;
       (m, tdwb) \<leftarrow> e82545_transmit_done base ohead head dsize (host_mem w) tdwb;
       Some (desc + 1, head, tdwb, sc', w\<lparr>host_mem := m\<rparr>)
     }
   }"

section \<open>The ring\<close>

partial_function (option) tx_loop ::
  "(u64 \<Rightarrow> u64) \<Rightarrow> nat \<Rightarrow> nat \<Rightarrow> int \<Rightarrow> nat \<Rightarrow> nat \<Rightarrow> bool \<Rightarrow> e82545_softc \<Rightarrow> 'n dm_world \<Rightarrow>
     (int \<times> nat \<times> nat \<times> bool \<times> e82545_softc \<times> 'n dm_world) option" where
  "tx_loop dmap tail dsize lim head rhead tdwb sc w =
     (if esc_tx_enabled (esc_tx sc) \<and> lim > 0 then
        Option.bind (e82545_transmit dmap sc w head tail dsize tdwb) (\<lambda>(sent, rhead, tdwb, sc, w).
          if sent = 0 then Some (lim, head, rhead, tdwb, sc, w)
          else tx_loop dmap tail dsize (lim - int sent) rhead rhead tdwb sc w)
      else Some (lim, head, rhead, tdwb, sc, w))"

definition e82545_tx_run ::
  "(u64 \<Rightarrow> u64) \<Rightarrow> e82545_softc \<Rightarrow> 'n dm_world \<Rightarrow> (e82545_softc \<times> 'n dm_world) option" where
  "e82545_tx_run dmap sc w = do {
     let head = unat (esc_TDH (esc_tx sc));
     let tail = unat (esc_TDT (esc_tx sc));
     let dsize = unat (ucast (esc_TDLEN (esc_tx sc) div 16) :: u16);
     sc \<leftarrow> unlock_esc sc;
     (lim, head, rhead, tdwb, sc, w) \<leftarrow>
       tx_loop dmap tail dsize (int (dsize div 4)) head head False sc w;
     sc \<leftarrow> lock_esc sc;
     let sc = upd_tx (\<lambda>t. t\<lparr>esc_TDH := of_nat head, esc_TDHr := of_nat rhead\<rparr>) sc;
     let cause = (if tdwb then E1000_ICR_TXDW else 0) OR
       (if lim \<noteq> int (dsize div 4) \<and> esc_TDH (esc_tx sc) = esc_TDT (esc_tx sc)
        then E1000_ICR_TXQE else 0);
     sc \<leftarrow> (if cause \<noteq> 0 then e82545_icr_assert sc cause else Some sc);
     Some (sc, w)
   }"

definition e82545_tx_poll ::
  "(u64 \<Rightarrow> u64) \<Rightarrow> e82545_softc \<Rightarrow> 'n dm_world \<Rightarrow> (e82545_softc \<times> 'n dm_world) option" where
  "e82545_tx_poll dmap sc w = do {
     sc \<leftarrow> lock_esc sc;
     (sc, w) \<leftarrow>
       (if esc_tx_enabled (esc_tx sc) \<and> esc_TDHr (esc_tx sc) \<noteq> esc_TDT (esc_tx sc)
        then e82545_tx_run dmap (upd_tx (\<lambda>t. t\<lparr>esc_tx_active := True\<rparr>) sc) w
        else Some (upd_tx (\<lambda>t. t\<lparr>esc_tx_active := False\<rparr>) sc, w));
     sc \<leftarrow> unlock_esc sc;
     Some (sc, w)
   }"

text \<open>\<^verbatim>\<open>e1000_poll\<close>; the softc is the global \<^verbatim>\<open>e82545_sc\<close>, null before the start of the device.\<close>

definition e1000_poll ::
  "(u64 \<Rightarrow> u64) \<Rightarrow> e82545_softc option \<Rightarrow> 'n dm_world \<Rightarrow> (e82545_softc option \<times> 'n dm_world) option" where
  "e1000_poll dmap sco w = (case sco of
     None \<Rightarrow> Some (None, w)
   | Some sc \<Rightarrow> do {
       (sc, w) \<leftarrow> e82545_tx_poll dmap sc w;
       Some (Some sc, w)
     })"

end
