(* ===== verification/E1000CkProps.thy ===== *)
theory E1000CkProps
  imports E1000Xmit
begin

text \<open>
  The checksums of the transmit path against the definition of the Internet checksum: the sum of
  the bytes, those at even positions with weight 1 and those at odd positions with weight 256, in
  one's complement arithmetic of 16 bits. The splitting of the packet into vectors, of any lengths,
  does not matter.
\<close>

section \<open>The reference\<close>

fun psum :: "bool \<Rightarrow> u8 list \<Rightarrow> nat" where
  "psum odd_now [] = 0"
| "psum odd_now (b # bs) = (if odd_now then 256 * unat b else unat b) + psum (\<not> odd_now) bs"

text \<open>One's complement: 0 only for 0, else a number from 1 to 65535.\<close>

definition canon :: "nat \<Rightarrow> nat" where
  "canon n = (if n = 0 then 0 else Suc ((n - 1) mod 65535))"

definition inet_sum :: "u8 list \<Rightarrow> u16" where
  "inet_sum bs = of_nat (canon (psum False bs))"

lemma canon_0 [simp]: "canon 0 = 0"
  by (simp add: canon_def)

lemma canon_eq_0 [simp]: "canon n = 0 \<longleftrightarrow> n = 0"
  by (simp add: canon_def)

lemma canon_mod: "canon n mod 65535 = n mod 65535"
  by (cases n) (simp_all add: canon_def mod_Suc_eq)

lemma canon_le: "canon n \<le> 65535"
proof (cases n)
  case (Suc k)
  have "k mod 65535 < 65535" by simp
  with Suc show ?thesis by (simp add: canon_def)
qed simp

lemma canon_cong:
  assumes "m mod 65535 = n mod 65535" "m = 0 \<longleftrightarrow> n = 0"
  shows "canon m = canon n"
proof (cases m)
  case 0
  with assms(2) show ?thesis by simp
next
  case (Suc k)
  with assms(2) obtain l where n: "n = Suc l" by (cases n) auto
  have "k mod 65535 = l mod 65535"
  proof -
    have "(Suc k + 65534) mod 65535 = (Suc l + 65534) mod 65535"
      using assms(1) unfolding Suc n by (metis mod_add_left_eq)
    then show ?thesis by simp
  qed
  with Suc n show ?thesis by (simp add: canon_def)
qed

lemma canon_small: "n \<le> 65535 \<Longrightarrow> canon n = n"
  by (cases n) (simp_all add: canon_def)

lemma canon_add: "canon (canon a + b) = canon (a + b)"
  by (rule canon_cong) (metis canon_mod mod_add_left_eq, simp)

lemma canon_mult: "k \<noteq> 0 \<Longrightarrow> canon (k * canon a) = canon (k * a)"
  by (rule canon_cong) (metis canon_mod mod_mult_right_eq, simp)

lemma psum_append: "psum p (bs @ cs) = psum p bs + psum (p \<noteq> odd (length bs)) cs"
proof (induction bs arbitrary: p)
  case (Cons b bs)
  have "((\<not> p) \<noteq> odd (length bs)) = (p \<noteq> odd (length (b # bs)))" by auto
  then show ?case
    using Cons.IH [of "\<not> p"] by (simp only: append_Cons psum.simps add.assoc)
qed simp

lemma halves:
  fixes n :: nat
  assumes "s \<le> 255 * (256 * x + y)" "2 * x \<le> n + 1 \<and> 2 * y \<le> n \<or> 2 * x \<le> n \<and> 2 * y \<le> n + 1"
  shows "2 * s \<le> 65535 * (n + 1)"
proof -
  have "2 * s \<le> 65280 * (2 * x) + 255 * (2 * y)" using assms(1) by simp
  with assms(2) show ?thesis by (elim disjE conjE) simp_all
qed

lemma psum_le: "2 * psum p bs \<le> 65535 * (length bs + 1)"
proof -
  have "psum p bs \<le> 255 * (256 * ((length bs + of_bool p) div 2) + ((length bs + of_bool (\<not> p)) div 2))"
  proof (induction bs arbitrary: p)
    case (Cons b bs)
    have "unat b < 2 ^ LENGTH(8)" by (rule unsigned_less)
    then have "unat b \<le> 255" by simp
    with Cons.IH [of "\<not> p"] show ?case by (cases p) simp_all
  qed simp
  moreover have "2 * (length bs div 2) \<le> length bs" "2 * ((length bs + 1) div 2) \<le> length bs + 1"
    by simp_all
  ultimately show ?thesis
    using halves [of "psum p bs" "(length bs + 1) div 2" "length bs div 2" "length bs"]
      halves [of "psum p bs" "length bs div 2" "(length bs + 1) div 2" "length bs"]
    by (cases p) simp_all
qed

text \<open>A shift by one byte swaps the weights.\<close>

lemma psum_True: "canon (psum True bs) = canon (256 * psum False bs)"
proof -
  have "psum True bs mod 65535 = 256 * psum False bs mod 65535 \<and>
    256 * psum True bs mod 65535 = psum False bs mod 65535"
  proof (induction bs)
    case (Cons b bs)
    let ?t = "psum True bs" and ?f = "psum False bs" and ?b = "unat b"
    have "(256 * ?b + ?f) mod 65535 = (256 * ?b + 256 * ?t) mod 65535"
      using Cons.IH by (intro mod_add_cong) simp_all
    moreover have swap: "65536 * ?b mod 65535 = ?b mod 65535"
    proof -
      have "(65535 * ?b + ?b) mod 65535 = ?b mod 65535" by (rule mod_mult_self4)
      moreover have "65535 * ?b + ?b = 65536 * ?b" by simp
      ultimately show ?thesis by metis
    qed
    moreover from swap have "(256 * (256 * ?b) + 256 * ?f) mod 65535 = (?b + ?t) mod 65535"
      using Cons.IH by (intro mod_add_cong) simp_all
    ultimately show ?case by (simp add: algebra_simps)
  qed simp
  moreover have "psum True bs = 0 \<longleftrightarrow> psum False bs = 0"
  proof -
    have "psum p bs = 0 \<longleftrightarrow> (\<forall>b\<in>set bs. b = 0)" for p
      by (induction bs arbitrary: p) (auto simp: unat_eq_0)
    then show ?thesis by blast
  qed
  ultimately show ?thesis by (intro canon_cong) auto
qed

section \<open>Carry\<close>

lemma carry_canon: "e82545_carry s = of_nat (canon (unat s))"
proof -
  let ?lo = "unat s mod 65536" and ?hi = "unat s div 65536"
  have lo: "unat (s AND 0xFFFF) = ?lo"
  proof -
    have "s AND 0xFFFF = take_bit 16 s" by (simp add: take_bit_eq_mask mask_eq_exp_minus_1)
    then have "unat (s AND 0xFFFF) = take_bit 16 (unat s)" by (simp only: unsigned_take_bit_eq)
    then show ?thesis by (simp add: take_bit_eq_mod)
  qed
  have hi: "unat (drop_bit 16 s) = ?hi"
    by (simp only: unat_drop_bit_eq) (simp add: drop_bit_eq_div)
  have "unat s < 2 ^ LENGTH(32)" by (rule unsigned_less)
  then have s: "unat s < 65536 * 65536" by simp
  then have "?hi < 65536" by (simp add: div_less_dividend less_mult_imp_div_less)
  moreover have "?lo < 65536" by simp
  ultimately have sum: "unat ((s AND 0xFFFF) + drop_bit 16 s) = ?lo + ?hi"
    using lo hi by (simp add: unat_word_ariths)
  have div: "unat s = 65536 * ?hi + ?lo" by simp
  have c: "canon (unat s) = canon (?lo + ?hi)"
  proof (rule canon_cong)
    have "unat s = 65535 * ?hi + (?lo + ?hi)" using div by linarith
    then show "unat s mod 65535 = (?lo + ?hi) mod 65535" by (metis mod_mult_self4)
    show "(unat s = 0) = (?lo + ?hi = 0)" using div by linarith
  qed
  have narrow: "ucast x = (of_nat (unat x) :: u16)" for x :: u32
    by simp
  show ?thesis
  proof (cases "?lo + ?hi \<le> 65535")
    case True
    then have "\<not> (s AND 0xFFFF) + drop_bit 16 s > 0xFFFF"
      using sum by (simp add: word_less_nat_alt)
    moreover have "ucast ((s AND 0xFFFF) + drop_bit 16 s) = (of_nat (?lo + ?hi) :: u16)"
      using sum narrow [of "(s AND 0xFFFF) + drop_bit 16 s"] by simp
    ultimately show ?thesis using c canon_small [OF True] by (simp add: e82545_carry_def)
  next
    case False
    then have big: "(s AND 0xFFFF) + drop_bit 16 s > 0xFFFF"
      using sum by (simp add: word_less_nat_alt)
    then have "unat ((s AND 0xFFFF) + drop_bit 16 s - 0xFFFF) = ?lo + ?hi - 65535"
      using sum by (simp add: unat_sub word_less_nat_alt word_le_nat_alt)
    then have "ucast ((s AND 0xFFFF) + drop_bit 16 s - 0xFFFF) = (of_nat (?lo + ?hi - 65535) :: u16)"
      using narrow [of "(s AND 0xFFFF) + drop_bit 16 s - 0xFFFF"] by simp
    moreover have "canon (?lo + ?hi) = ?lo + ?hi - 65535"
    proof -
      have "canon (?lo + ?hi) = canon (?lo + ?hi - 65535)"
      proof (intro canon_cong le_mod_geq)
        show "65535 \<le> ?lo + ?hi" "(?lo + ?hi = 0) = (?lo + ?hi - 65535 = 0)"
          using False by linarith+
      qed
      moreover have "?lo + ?hi - 65535 \<le> 65535"
        using \<open>?hi < 65536\<close> \<open>?lo < 65536\<close> by linarith
      ultimately show ?thesis by (simp add: canon_small)
    qed
    ultimately show ?thesis using big c by (simp add: e82545_carry_def)
  qed
qed

section \<open>Sums over buffers\<close>

lemma unat_le_pair: "unat (ucast a OR push_bit 8 (ucast b) :: u32) = unat (a :: u8) + 256 * unat (b :: u8)"
proof -
  have a: "unat a < 2 ^ LENGTH(8)" and b: "unat b < 2 ^ LENGTH(8)" by (rule unsigned_less)+
  have "(ucast a :: u32) OR push_bit 8 (ucast b) = ucast a + push_bit 8 (ucast b)"
    by (rule disjunctive_add [symmetric]) (auto simp: bit_simps)
  moreover have "unat (push_bit 8 (ucast b) :: u32) = 256 * unat b"
    using b by (simp add: push_bit_eq_mult unat_word_ariths unsigned_ucast_eq take_bit_nat_eq_self)
  moreover have "unat (ucast a :: u32) = unat a"
    using a by (simp add: unsigned_ucast_eq take_bit_nat_eq_self)
  ultimately show ?thesis
    using a b by (simp add: unat_word_ariths)
qed

lemma sum_pairs_eq:
  "unat s + psum False bs < 2 ^ 32 \<Longrightarrow> unat (sum_pairs bs s) = unat s + psum False bs"
proof (induction bs s rule: sum_pairs.induct)
  case (2 b s)
  have "unat (ucast b :: u32) = unat b"
    using unat_le_pair [of b 0] by simp
  with 2 show ?case by (simp add: unat_word_ariths)
next
  case (3 a b bs s)
  have "unat (s + (ucast a OR push_bit 8 (ucast b))) = unat s + (unat a + 256 * unat b)"
    using 3 unat_le_pair [of a b] by (simp add: unat_word_ariths)
  with 3 show ?case by simp
qed simp

lemma unat_canon: "unat (of_nat (canon n) :: u16) = canon n"
  using canon_le [of n] by (simp add: unat_of_nat take_bit_nat_eq_self take_bit_eq_mod)

abbreviation (input) "MAX_CK_LEN \<equiv> (131070::nat)"

lemma buf_checksum_eq:
  assumes "length bs \<le> MAX_CK_LEN"
  shows "unat (e82545_buf_checksum bs) = canon (psum False bs)"
proof -
  have "2 * psum False bs \<le> 65535 * (MAX_CK_LEN + 1)"
    using psum_le [of False bs] assms by simp
  then have "unat (sum_pairs bs 0) = psum False bs"
    using sum_pairs_eq [of 0 bs] by simp
  then show ?thesis
    by (simp only: e82545_buf_checksum_def carry_canon unat_canon)
qed

text \<open>One buffer of a vector, at an even or an odd position of the packet.\<close>

definition ck_part :: "bool \<Rightarrow> u8 list \<Rightarrow> u32" where
  "ck_part odd_now bs = (if odd_now then push_bit 8 (ucast (e82545_buf_checksum bs))
     else ucast (e82545_buf_checksum bs))"

lemma ck_part_eq:
  assumes "length bs \<le> MAX_CK_LEN"
  shows "unat (ck_part p bs) < 2 ^ 24" "canon (a + unat (ck_part p bs)) = canon (a + psum p bs)"
proof -
  let ?c = "e82545_buf_checksum bs"
  have c: "unat ?c = canon (psum False bs)" using buf_checksum_eq [OF assms] .
  have "unat ?c < 2 ^ LENGTH(16)" by (rule unsigned_less)
  then have u: "unat (ucast ?c :: u32) = unat ?c" "unat (push_bit 8 (ucast ?c) :: u32) = 256 * unat ?c"
    by (simp_all add: push_bit_eq_mult unat_word_ariths unsigned_ucast_eq take_bit_nat_eq_self)
  show "unat (ck_part p bs) < 2 ^ 24"
    using u \<open>unat ?c < 2 ^ LENGTH(16)\<close> by (simp add: ck_part_def)
  have "canon (unat (ck_part p bs)) = canon (psum p bs)"
    using u c canon_add [of "psum False bs" 0] canon_mult [of 256 "psum False bs"]
    by (simp add: ck_part_def psum_True)
  then show "canon (a + unat (ck_part p bs)) = canon (a + psum p bs)"
    by (metis add.commute canon_add)
qed

lemma take_split:
  assumes "off \<le> length xs" "now = min len (length xs - off)"
  shows "take len (drop off (xs @ ys)) = take now (drop off xs) @ take (len - now) ys"
  using assms by (auto simp: min_def)

lemma sum_iov_eq:
  assumes "iov_bytes hdr m vs = Some bs" "vs = [] \<or> off \<le> iov_len (hd vs)"
    and "length bs \<le> MAX_CK_LEN" "unat s + 2 ^ 24 * length vs < 2 ^ 32"
  shows "\<exists>s'. sum_iov hdr m vs off len p s = Some s' \<and>
    canon (unat s') = canon (unat s + psum p (take len (drop off bs)))"
  using assms
proof (induction vs arbitrary: bs off len p s)
  case (Cons v vs)
  obtain b1 b2 where b: "load_bytes hdr m (iov_base v) (iov_len v) = Some b1"
    "iov_bytes hdr m vs = Some b2" "bs = b1 @ b2"
    using Cons.prems(1) by (auto simp: bind_eq_Some_conv)
  have l1: "length b1 = iov_len v" using load_bytes_length [OF b(1)] .
  have off: "off \<le> iov_len v" using Cons.prems(2) by simp
  show ?case
  proof (cases "len = 0")
    case False
    let ?now = "min len (iov_len v - off)"
    let ?part = "take ?now (drop off b1)"
    have "load_bytes hdr m (mdx_incoffset (iov_base v) off) ?now = Some ?part"
      by (rule load_bytes_prefix(1) [OF load_bytes_prefix(2) [OF b(1) off]]) simp
    then have run: "sum_iov hdr m (v # vs) off len p s =
        sum_iov hdr m vs 0 (len - ?now) (p \<noteq> odd ?now) (s + ck_part p ?part)"
      using False by (simp add: ck_part_def Let_def)
    have plen: "length ?part \<le> MAX_CK_LEN" "length ?part = ?now"
      using Cons.prems(3) b(3) l1 by auto
    have s: "unat (s + ck_part p ?part) = unat s + unat (ck_part p ?part)"
      using ck_part_eq(1) [OF plen(1), of p] Cons.prems(4) by (simp add: unat_word_ariths)
    have "\<exists>s'. sum_iov hdr m vs 0 (len - ?now) (p \<noteq> odd ?now) (s + ck_part p ?part) = Some s' \<and>
      canon (unat s') = canon (unat (s + ck_part p ?part) +
        psum (p \<noteq> odd ?now) (take (len - ?now) (drop 0 b2)))"
      by (rule Cons.IH [OF b(2)])
        (use Cons.prems(3,4) b(3) s ck_part_eq(1) [OF plen(1), of p] in simp_all)
    moreover have "canon (unat (s + ck_part p ?part) + psum (p \<noteq> odd ?now) (take (len - ?now) b2)) =
        canon (unat s + psum p (take len (drop off bs)))"
    proof -
      have "take len (drop off bs) = ?part @ take (len - ?now) b2"
        unfolding b(3) by (rule take_split) (use off l1 in simp_all)
      then have "psum p (take len (drop off bs)) = psum p ?part + psum (p \<noteq> odd ?now) (take (len - ?now) b2)"
        by (simp only: psum_append plen(2))
      then show ?thesis
        using ck_part_eq(2) [OF plen(1), of "unat s + psum (p \<noteq> odd ?now) (take (len - ?now) b2)" p]
        by (simp add: s ac_simps)
    qed
    ultimately show ?thesis unfolding run by simp
  qed simp
qed simp

lemma skip_iov_eq:
  assumes "iov_bytes hdr m vs = Some bs"
  obtains vs' off' bs' where "skip_iov vs off = (vs', off')" "iov_bytes hdr m vs' = Some bs'"
    "drop off' bs' = drop off bs" "vs' = [] \<or> off' \<le> iov_len (hd vs')"
    "length vs' \<le> length vs" "length bs' \<le> length bs"
  using assms
proof (induction vs arbitrary: off bs thesis)
  case (Cons v vs)
  obtain b1 b2 where b: "load_bytes hdr m (iov_base v) (iov_len v) = Some b1"
    "iov_bytes hdr m vs = Some b2" "bs = b1 @ b2"
    using Cons.prems(2) by (auto simp: bind_eq_Some_conv)
  have l1: "length b1 = iov_len v" using load_bytes_length [OF b(1)] .
  show ?case
  proof (cases "iov_len v \<le> off \<and> off > 0")
    case True
    obtain vs' off' bs' where "skip_iov vs (off - iov_len v) = (vs', off')" "iov_bytes hdr m vs' = Some bs'"
      "drop off' bs' = drop (off - iov_len v) b2" "vs' = [] \<or> off' \<le> iov_len (hd vs')"
      "length vs' \<le> length vs" "length bs' \<le> length b2"
      using Cons.IH [OF _ b(2)] by blast
    with True l1 b(3) show ?thesis by (intro Cons.prems(1)) auto
  next
    case False
    then show ?thesis using Cons.prems by (intro Cons.prems(1) [of "v # vs" off bs]) auto
  qed
qed simp

lemma iov_checksum_eq:
  assumes "iov_bytes hdr m iov = Some bs" "length bs \<le> MAX_CK_LEN" "length iov \<le> I82545_MAX_TXSEGS + 2"
  shows "e82545_iov_checksum hdr m iov off len = Some (inet_sum (take (nat len) (drop off bs)))"
proof -
  obtain vs' off' bs' where sk: "skip_iov iov off = (vs', off')" "iov_bytes hdr m vs' = Some bs'"
    "drop off' bs' = drop off bs" "vs' = [] \<or> off' \<le> iov_len (hd vs')"
    "length vs' \<le> length iov" "length bs' \<le> length bs"
    by (rule skip_iov_eq [OF assms(1)])
  have "\<exists>s'. sum_iov hdr m vs' off' (nat len) False 0 = Some s' \<and>
      canon (unat s') = canon (unat (0 :: u32) + psum False (take (nat len) (drop off' bs')))"
    by (rule sum_iov_eq) (use sk assms in auto)
  then obtain s' where "sum_iov hdr m vs' off' (nat len) False 0 = Some s'"
    "canon (unat s') = canon (psum False (take (nat len) (drop off bs)))"
    using sk(3) by auto
  then show ?thesis
    using sk(1) by (simp add: e82545_iov_checksum_def inet_sum_def carry_canon)
qed

section \<open>The stored checksum\<close>

lemma le16_bytes_sum:
  fixes v :: u16
  shows "unat (ucast v :: u8) + 256 * unat (ucast (drop_bit 8 v) :: u8) = unat v"
proof -
  have v: "unat v < 2 ^ LENGTH(16)" by (rule unsigned_less)
  have "unat (ucast v :: u8) = unat v mod 256"
    by (simp add: unsigned_ucast_eq take_bit_eq_mod)
  moreover have "unat (ucast (drop_bit 8 v) :: u8) = unat v div 256"
  proof -
    have "unat (drop_bit 8 v) = unat v div 256" by (simp only: unat_drop_bit_eq) (simp add: drop_bit_eq_div)
    moreover have "unat v div 256 < 256" using v by (simp add: less_mult_imp_div_less)
    ultimately show ?thesis by (simp add: unsigned_ucast_eq take_bit_nat_eq_self)
  qed
  ultimately show ?thesis by simp
qed

lemma psum_put:
  assumes "i + 2 \<le> length bs" "bs ! i = 0" "bs ! (i + 1) = 0" "even i"
  shows "psum False (put_le16 bs i v) = psum False bs + unat v"
proof -
  have split: "xs = take i xs @ xs ! i # xs ! (i + 1) # drop (i + 2) xs" if "i + 2 \<le> length xs" for xs :: "u8 list"
    using that by (metis Suc_eq_plus1 Suc_le_lessD add_2_eq_Suc' add_lessD1 id_take_nth_drop Cons_nth_drop_Suc
        Suc_lessD Suc_le_eq)
  have sum: "psum False xs = psum False (take i xs) + unat (xs ! i) + 256 * unat (xs ! (i + 1)) +
      psum False (drop (i + 2) xs)" if "i + 2 \<le> length xs" for xs :: "u8 list"
  proof -
    have "length (take i xs) = i" using that by simp
    then have "psum False (take i xs @ xs ! i # xs ! (i + 1) # drop (i + 2) xs) = psum False (take i xs) +
        unat (xs ! i) + 256 * unat (xs ! (i + 1)) + psum False (drop (i + 2) xs)"
      using assms(4) by (simp add: psum_append)
    then show ?thesis using split [OF that] by simp
  qed
  have "psum False (put_le16 bs i v) = psum False (take i bs) + unat (ucast v :: u8) +
      256 * unat (ucast (drop_bit 8 v) :: u8) + psum False (drop (i + 2) bs)"
    using assms(1) sum [of "put_le16 bs i v"] by (simp add: put_le16_def)
  then show ?thesis
    using sum [OF assms(1)] assms(2,3) le16_bytes_sum [of v] by simp
qed

lemma inet_sum_complement: "canon (n + unat (NOT (of_nat (canon n) :: u16))) = 65535"
proof -
  have "unat (NOT (of_nat (canon n) :: u16)) = 65535 - canon n"
  proof -
    have "NOT (of_nat (canon n) :: u16) = of_nat (65535 - canon n)"
      using canon_le [of n] by (simp add: not_eq_complement of_nat_diff)
    then show ?thesis by (simp add: unat_of_nat take_bit_nat_eq_self take_bit_eq_mod)
  qed
  then have "canon (n + unat (NOT (of_nat (canon n) :: u16))) = canon (canon n + (65535 - canon n))"
    using canon_add [of n] by simp
  then show ?thesis using canon_le [of n] by (simp add: canon_small)
qed

end
