(* ===== verification/E1000TsoProps.thy ===== *)
theory E1000TsoProps
  imports E1000CkProps
begin

text \<open>
  Segmentation offload: the loop over the segments ends, sends one packet per segment, every
  packet is a header and a piece of the payload, and the pieces in order are the payload. A maximal
  segment size of 0, which the guest can set, makes the loop endless.
\<close>

section \<open>The payload\<close>

text \<open>The position in the payload: the rest of the vectors and the offset in the first.\<close>

definition rest_bytes :: "host_memory \<Rightarrow> iovec list \<Rightarrow> nat \<Rightarrow> u8 list" where
  "rest_bytes m vs pvoff = drop pvoff (host_bytes m vs)"

definition pv_ok :: "iovec list \<Rightarrow> nat \<Rightarrow> bool" where
  "pv_ok vs pvoff \<longleftrightarrow> host_iov vs \<and> (vs = [] \<or> pvoff \<le> iov_len (hd vs))"

lemma pv_ok_0 [simp]: "pv_ok vs 0 = host_iov vs"
  by (auto simp: pv_ok_def)

lemma take_payload_eq:
  assumes "pv_ok vs pvoff" "take_payload vs pvoff n = (ts, vs', pvoff')"
  shows "host_iov ts \<and> host_bytes m ts = take n (rest_bytes m vs pvoff) \<and> pv_ok vs' pvoff' \<and>
    rest_bytes m vs' pvoff' = drop n (rest_bytes m vs pvoff) \<and> length ts \<le> length vs \<and>
    length vs' \<le> length vs"
  using assms
proof (induction vs arbitrary: pvoff n ts vs' pvoff')
  case Nil
  then show ?case by (simp add: rest_bytes_def)
next
  case (Cons v vs)
  obtain a where a: "iov_base v = Host a" and h: "host_iov vs"
    using Cons.prems(1) by (auto simp: pv_ok_def)
  have off: "pvoff \<le> iov_len v" using Cons.prems(1) by (simp add: pv_ok_def)
  let ?b = "mem_bytes m a (iov_len v)"
  have hb: "host_bytes m (v # vs) = ?b @ host_bytes m vs" using a by simp
  show ?case
  proof (cases "n = 0")
    case True
    with Cons.prems show ?thesis by auto
  next
    case False
    let ?now = "min n (iov_len v - pvoff)"
    let ?t = "\<lparr>iov_base = mdx_incoffset (iov_base v) pvoff, iov_len = ?now\<rparr>"
    have t: "host_iov [?t]" "host_bytes m [?t] = take ?now (drop pvoff ?b)"
      using a off by (simp_all add: mdx_incoffset_def take_drop_mem_bytes)
    show ?thesis
    proof (cases "pvoff + ?now = iov_len v")
      case True
      obtain ts1 where r: "take_payload vs 0 (n - ?now) = (ts1, vs', pvoff')" "ts = ?t # ts1"
        using Cons.prems(2) True False by (auto simp: Let_def split: prod.splits)
      have IH: "host_iov ts1 \<and> host_bytes m ts1 = take (n - ?now) (rest_bytes m vs 0) \<and> pv_ok vs' pvoff' \<and>
        rest_bytes m vs' pvoff' = drop (n - ?now) (rest_bytes m vs 0) \<and> length ts1 \<le> length vs \<and>
        length vs' \<le> length vs"
        by (rule Cons.IH [OF _ r(1)]) (simp add: h)
      have now: "?now = iov_len v - pvoff" "iov_len v - pvoff \<le> n" using True off by (simp_all add: min_def split: if_splits)
      then have "take n (rest_bytes m (v # vs) pvoff) = take ?now (drop pvoff ?b) @ take (n - ?now) (host_bytes m vs)"
        "drop n (rest_bytes m (v # vs) pvoff) = drop (n - ?now) (host_bytes m vs)"
        unfolding rest_bytes_def hb now(1) using off by simp_all
      with IH t r show ?thesis by (simp add: rest_bytes_def)
    next
      case no: False
      have r: "ts = [?t]" "vs' = v # vs" "pvoff' = pvoff + ?now"
        using Cons.prems(2) no False by (auto simp: Let_def)
      have n: "?now = n" "pvoff + n \<le> iov_len v" using no off by (auto simp: min_def split: if_splits)
      have "take n (rest_bytes m (v # vs) pvoff) = take ?now (drop pvoff ?b)"
        unfolding rest_bytes_def hb using n off by simp
      moreover have "rest_bytes m vs' pvoff' = drop n (rest_bytes m (v # vs) pvoff)"
        using n r by (simp add: rest_bytes_def add.commute del: host_bytes.simps)
      moreover have "pv_ok vs' pvoff'"
        using n r a h by (simp add: pv_ok_def)
      ultimately show ?thesis using t r n by simp
    qed
  qed
qed

section \<open>One segment\<close>

text \<open>The places that a segment writes lie in the header.\<close>

definition tso_ok :: "tso_cfg \<Rightarrow> bool" where
  "tso_ok c \<longleftrightarrow> unat (ck_start (tso_ck0 c)) + 6 \<le> tso_hdrlen c \<and>
     unat (ck_start (tso_ck1 c)) + 14 \<le> tso_hdrlen c \<and>
     (ck_valid (tso_ck0 c) \<longrightarrow> unat (ck_off (tso_ck0 c)) + 2 \<le> tso_hdrlen c) \<and>
     (ck_valid (tso_ck1 c) \<longrightarrow> unat (ck_off (tso_ck1 c)) + 2 \<le> tso_hdrlen c) \<and>
     tso_hdrlen c + tso_mss c \<le> MAX_CK_LEN"

lemma put_ok:
  "i + 2 \<le> length hdr \<Longrightarrow> \<exists>hdr'. put_be16 hdr i v = Some hdr' \<and> length hdr' = length hdr"
  "i + 4 \<le> length hdr \<Longrightarrow> \<exists>hdr'. put_be32 hdr i u = Some hdr' \<and> length hdr' = length hdr"
  "i + 2 \<le> length hdr \<Longrightarrow> \<exists>hdr'. put_ne16 hdr i v = Some hdr' \<and> length hdr' = length hdr"
  "i + 4 \<le> length hdr \<Longrightarrow> \<exists>hdr'. put_ne32 hdr i u = Some hdr' \<and> length hdr' = length hdr"
  by (simp_all add: put_be16_def put_be32_def put_ne16_def put_ne32_def)

lemma tso_ip_ok:
  assumes "tso_ok c" "length hdr = tso_hdrlen c"
  shows "\<exists>hdr'. tso_ip c seg now hdr = Some hdr' \<and> length hdr' = tso_hdrlen c"
proof -
  let ?s = "unat (ck_start (tso_ck0 c))"
  have len: "?s + 2 + 2 \<le> length hdr" "?s + 4 + 2 \<le> length hdr" using assms by (simp_all add: tso_ok_def)
  obtain h1 where h1: "put_be16 hdr (?s + 2) (of_int (int (tso_hdrlen c) - int ?s + int now)) = Some h1"
    "length h1 = length hdr" using put_ok(1) [OF len(1)] by blast
  obtain h2 where "put_be16 h1 (?s + 4) (tso_ipid c + of_nat seg) = Some h2" "length h2 = length hdr"
    using put_ok(1) [of "?s + 4" h1] len(2) h1(2) by auto
  moreover obtain h3 where
    "put_be16 hdr (?s + 4) (of_int (int (tso_hdrlen c) - int ?s - 40 + int now)) = Some h3"
    "length h3 = length hdr" using put_ok(1) [OF len(2)] by blast
  ultimately show ?thesis using h1 assms(2) by (simp add: tso_ip_def Let_def)
qed

lemma tso_tcp_ok:
  assumes "tso_ok c" "length hdr = tso_hdrlen c"
  shows "\<exists>hdr'. tso_tcp c left now hdr = Some hdr' \<and> length hdr' = tso_hdrlen c"
proof -
  let ?s = "unat (ck_start (tso_ck1 c))"
  have len: "?s + 4 + 4 \<le> length hdr" "?s + 13 < length hdr" using assms by (simp_all add: tso_ok_def)
  obtain h1 where "put_be32 hdr (?s + 4) (tso_tcpseq c + of_nat (tso_paylen c) - of_nat left) = Some h1"
    "length h1 = length hdr" using put_ok(2) [OF len(1)] by blast
  moreover obtain h2 where "put_ne32 hdr (?s + 4) (of_int (int (tso_hdrlen c) - int ?s + int now)) = Some h2"
    "length h2 = length hdr" using put_ok(4) [OF len(1)] by blast
  ultimately show ?thesis using len assms(2) by (simp add: tso_tcp_def Let_def)
qed

text \<open>A vector of a header and data of the guest.\<close>

lemma hdr_iov_bytes:
  assumes "host_iov ts" "length hdr = k"
  shows "iov_bytes hdr m (\<lparr>iov_base = Hdr 0, iov_len = k\<rparr> # ts) = Some (hdr @ host_bytes m ts)"
  using assms by (simp add: load_bytes_def iov_bytes_host)

lemma transmit_checksum_ok:
  assumes "host_iov ts" "length hdr = k" "unat (ck_off ck) + 2 \<le> k"
    and "k + length (host_bytes (host_mem w) ts) \<le> MAX_CK_LEN" "length ts \<le> I82545_MAX_TXSEGS + 1"
  shows "\<exists>hdr'. e82545_transmit_checksum hdr w (\<lparr>iov_base = Hdr 0, iov_len = k\<rparr> # ts) ck = Some (hdr', w) \<and>
    length hdr' = k"
proof -
  have "iov_bytes hdr (host_mem w) (\<lparr>iov_base = Hdr 0, iov_len = k\<rparr> # ts) =
      Some (hdr @ host_bytes (host_mem w) ts)"
    using assms(1,2) by (rule hdr_iov_bytes)
  from iov_checksum_eq [OF this] assms show ?thesis
    by (simp add: e82545_transmit_checksum_def store16_def mdx_incoffset_def Let_def)
qed

lemma tso_checksums_ok:
  assumes ok: "tso_ok c" and len: "length hdr = tso_hdrlen c" and h: "host_iov ts"
    and b: "length (host_bytes (host_mem w) ts) \<le> tso_mss c" "length ts \<le> I82545_MAX_TXSEGS + 1"
  shows "\<exists>hdr'. tso_checksums c now (\<lparr>iov_base = Hdr 0, iov_len = tso_hdrlen c\<rparr> # ts) hdr w = Some (hdr', w) \<and>
    length hdr' = tso_hdrlen c"
proof -
  let ?tiov = "\<lparr>iov_base = Hdr 0, iov_len = tso_hdrlen c\<rparr> # ts"
  have max: "tso_hdrlen c + length (host_bytes (host_mem w) ts) \<le> MAX_CK_LEN"
    using ok b(1) by (simp add: tso_ok_def)
  have step: "\<exists>h'. Option.bind (put_ne16 h (unat (ck_off ck)) v)
      (\<lambda>h. e82545_transmit_checksum h w ?tiov ck) = Some (h', w) \<and> length h' = tso_hdrlen c"
    if lh: "length h = tso_hdrlen c" and lo: "unat (ck_off ck) + 2 \<le> tso_hdrlen c" for h v ck
  proof -
    have "unat (ck_off ck) + 2 \<le> length h" using lh lo by simp
    from put_ok(3) [OF this, of v] obtain h1 where
      "put_ne16 h (unat (ck_off ck)) v = Some h1" "length h1 = tso_hdrlen c"
      using lh by auto
    then show ?thesis using transmit_checksum_ok [OF h _ lo max b(2)] by simp
  qed
  have one: "\<exists>h'. (if ck_valid ck then Option.bind (put_ne16 h (unat (ck_off ck)) v)
      (\<lambda>h. e82545_transmit_checksum h w ?tiov ck) else Some (h, w)) = Some (h', w) \<and>
      length h' = tso_hdrlen c"
    if "length h = tso_hdrlen c" "ck_valid ck \<longrightarrow> unat (ck_off ck) + 2 \<le> tso_hdrlen c" for h v ck
    using step [OF that(1), of ck v] that by (cases "ck_valid ck") simp_all
  have offs: "ck_valid (tso_ck0 c) \<longrightarrow> unat (ck_off (tso_ck0 c)) + 2 \<le> tso_hdrlen c"
    "ck_valid (tso_ck1 c) \<longrightarrow> unat (ck_off (tso_ck1 c)) + 2 \<le> tso_hdrlen c"
    using ok by (simp_all add: tso_ok_def)
  obtain h1 where h1: "(if ck_valid (tso_ck0 c)
      then Option.bind (put_ne16 hdr (unat (ck_off (tso_ck0 c))) (tso_ipcs c))
        (\<lambda>h. e82545_transmit_checksum h w ?tiov (tso_ck0 c))
      else Some (hdr, w)) = Some (h1, w)" "length h1 = tso_hdrlen c"
    using one [OF len offs(1)] by blast
  show ?thesis
    using h1(1) one [OF h1(2) offs(2), of "e82545_carry (tso_tcpsum c now)"]
    by (simp add: tso_checksums_def)
qed

lemma dm_process_tx_ok:
  assumes "iov_bytes hdr (host_mem w) iov = Some bs" "length bs < VIRTIO_MAX_BUF"
  shows "dm_process_tx hdr w iov = Some (w\<lparr>net_sent := net_sent w @ [bs]\<rparr>)"
  using gather_eq [OF assms(1), of "[]"] assms(2) by (simp add: dm_process_tx_def)

lemma tso_segment_ok:
  assumes ok: "tso_ok c" and len: "length hdr = tso_hdrlen c" and h: "host_iov ts"
    and b: "length (host_bytes (host_mem w) ts) \<le> tso_mss c" "length ts \<le> I82545_MAX_TXSEGS + 1"
  shows "\<exists>hdr'. tso_segment c seg left now (\<lparr>iov_base = Hdr 0, iov_len = tso_hdrlen c\<rparr> # ts) hdr w =
      Some (hdr', w\<lparr>net_sent := net_sent w @ [hdr' @ host_bytes (host_mem w) ts]\<rparr>) \<and>
    length hdr' = tso_hdrlen c"
proof -
  obtain h1 where h1: "tso_ip c seg now hdr = Some h1" "length h1 = tso_hdrlen c"
    using tso_ip_ok [OF ok len] by blast
  obtain h2 where h2: "tso_tcp c left now h1 = Some h2" "length h2 = tso_hdrlen c"
    using tso_tcp_ok [OF ok h1(2)] by blast
  obtain h3 where h3: "tso_checksums c now (\<lparr>iov_base = Hdr 0, iov_len = tso_hdrlen c\<rparr> # ts) h2 w = Some (h3, w)"
    "length h3 = tso_hdrlen c"
    using tso_checksums_ok [OF ok h2(2) h b] by blast
  have "length (h3 @ host_bytes (host_mem w) ts) < VIRTIO_MAX_BUF"
    using ok b(1) h3(2) by (simp add: tso_ok_def)
  from dm_process_tx_ok [OF hdr_iov_bytes [OF h h3(2)] this] show ?thesis
    using h1 h2 h3 by (simp add: tso_segment_def)
qed

section \<open>The loop\<close>

definition segments :: "nat \<Rightarrow> nat \<Rightarrow> u8 list list \<Rightarrow> u8 list \<Rightarrow> bool" where
  "segments hdrlen mss ps payload \<longleftrightarrow> concat (map (drop hdrlen) ps) = payload \<and>
     (\<forall>p\<in>set ps. hdrlen \<le> length p \<and> length p \<le> hdrlen + mss)"

lemma tso_loop_ok:
  assumes "tso_ok c" "0 < tso_mss c" "pv_ok pvs pvoff" "length pvs \<le> I82545_MAX_TXSEGS + 1"
    "length hdr = tso_hdrlen c"
  shows "\<exists>w' ps. tso_loop c seg left pvs pvoff hdr w = Some w' \<and>
    w' = w\<lparr>net_sent := net_sent w @ ps\<rparr> \<and>
    length ps = (left + tso_mss c - 1) div tso_mss c \<and>
    segments (tso_hdrlen c) (tso_mss c) ps (take left (rest_bytes (host_mem w) pvs pvoff))"
  using assms(3-5)
proof (induction left arbitrary: seg pvs pvoff hdr w rule: less_induct)
  case (less left)
  show ?case
  proof (cases "left = 0")
    case True
    then have "tso_loop c seg left pvs pvoff hdr w = Some w" by (simp add: tso_loop.simps)
    then show ?thesis using True assms(2) by (intro exI [of _ w] exI [of _ "[]"]) (simp add: segments_def)
  next
    case False
    let ?now = "min left (tso_mss c)"
    obtain ts vs' off' where tp: "take_payload pvs pvoff ?now = (ts, vs', off')"
      by (metis prod_cases3)
    have p: "host_iov ts" "host_bytes (host_mem w) ts = take ?now (rest_bytes (host_mem w) pvs pvoff)"
      "pv_ok vs' off'" "rest_bytes (host_mem w) vs' off' = drop ?now (rest_bytes (host_mem w) pvs pvoff)"
      "length ts \<le> length pvs" "length vs' \<le> length pvs"
      using take_payload_eq [OF less.prems(1) tp, of "host_mem w"] by blast+
    have b: "length (host_bytes (host_mem w) ts) \<le> tso_mss c" "length ts \<le> I82545_MAX_TXSEGS + 1"
      using p less.prems(2) by simp_all
    obtain h1 where h1: "tso_segment c seg left ?now (\<lparr>iov_base = Hdr 0, iov_len = tso_hdrlen c\<rparr> # ts) hdr w =
        Some (h1, w\<lparr>net_sent := net_sent w @ [h1 @ host_bytes (host_mem w) ts]\<rparr>)"
      "length h1 = tso_hdrlen c"
      using tso_segment_ok [OF assms(1) less.prems(3) p(1) b] by blast
    let ?w1 = "w\<lparr>net_sent := net_sent w @ [h1 @ host_bytes (host_mem w) ts]\<rparr>"
    have "\<exists>w' ps. tso_loop c (seg + 1) (left - ?now) vs' off' h1 ?w1 = Some w' \<and>
        w' = ?w1\<lparr>net_sent := net_sent ?w1 @ ps\<rparr> \<and>
        length ps = (left - ?now + tso_mss c - 1) div tso_mss c \<and>
        segments (tso_hdrlen c) (tso_mss c) ps (take (left - ?now) (rest_bytes (host_mem ?w1) vs' off'))"
      by (rule less.IH) (use False assms(2) p h1(2) less.prems(2) in auto)
    then obtain ps where r: "tso_loop c (seg + 1) (left - ?now) vs' off' h1 ?w1 =
          Some (?w1\<lparr>net_sent := net_sent ?w1 @ ps\<rparr>)"
        "length ps = (left - ?now + tso_mss c - 1) div tso_mss c"
        "segments (tso_hdrlen c) (tso_mss c) ps (take (left - ?now) (rest_bytes (host_mem w) vs' off'))"
      by auto
    let ?ps = "(h1 @ host_bytes (host_mem w) ts) # ps"
    have run: "tso_loop c seg left pvs pvoff hdr w = Some (w\<lparr>net_sent := net_sent w @ ?ps\<rparr>)"
      using r(1) by (subst tso_loop.simps) (simp add: False tp h1 Let_def)
    have num: "length ?ps = (left + tso_mss c - 1) div tso_mss c"
    proof (cases "left \<le> tso_mss c")
      case True
      then have "(left + tso_mss c - 1) div tso_mss c = 1"
        using False assms(2) by (intro div_nat_eqI) auto
      then show ?thesis using r(2) True assms(2) by simp
    next
      case False
      then have "left + tso_mss c - 1 = (left - 1) + tso_mss c" by simp
      then show ?thesis using r(2) False assms(2) by (simp only: div_add_self2) simp
    qed
    have "take left (rest_bytes (host_mem w) pvs pvoff) =
        take ?now (rest_bytes (host_mem w) pvs pvoff) @
        take (left - ?now) (drop ?now (rest_bytes (host_mem w) pvs pvoff))"
      by (metis le_add_diff_inverse min.cobounded1 take_add)
    then have "segments (tso_hdrlen c) (tso_mss c) ?ps (take left (rest_bytes (host_mem w) pvs pvoff))"
      using r(3) h1(2) p(2,4) b(1) by (simp add: segments_def)
    with run num show ?thesis by blast
  qed
qed

end
