(* ===== verification/E1000TxProps.thy ===== *)
theory E1000TxProps
  imports E1000TsoProps
begin

text \<open>
  The walk along the transmit ring: a chain of legacy descriptors is gathered into one packet and
  written back, and the two ways in which the guest can keep the device model in a loop for ever, a
  tail outside of the ring and a maximal segment size of 0.
\<close>

section \<open>Loops that do not end\<close>

lemma tso_loop_diverges:
  assumes "0 < left" "tso_mss c = 0"
  shows "tso_loop c seg left pvs pvoff hdr w = None"
proof (rule ccontr)
  assume "tso_loop c seg left pvs pvoff hdr w \<noteq> None"
  then obtain r where run: "tso_loop c seg left pvs pvoff hdr w = Some r" by blast
  have "\<not> (0 < left \<and> tso_mss c = 0)"
  proof (rule tso_loop.raw_induct [where P = "\<lambda>c seg left pvs pvoff hdr w y. \<not> (0 < left \<and> tso_mss c = 0)",
        OF _ run], goal_cases)
    case (1 f c seg left pvs pvoff hdr w y)
    show ?case
    proof
      assume a: "0 < left \<and> tso_mss c = 0"
      with 1(2) obtain vs' off' hdr' w' where "f c (seg + 1) left vs' off' hdr' w' = Some y"
        by (auto simp: Let_def bind_eq_Some_conv split: if_splits prod.splits)
      from 1(1) [OF this] a show False by simp
    qed
  qed
  with assms show False by simp
qed

text \<open>No descriptor of the ring ends a packet or is a context.\<close>

definition never_ends :: "host_memory \<Rightarrow> u64 \<Rightarrow> nat \<Rightarrow> bool" where
  "never_ends m base dsize \<longleftrightarrow> (\<forall>i<dsize. td_lower m (txd_addr base i) AND E1000_TXD_CMD_EOP = 0 \<and>
     e82545_txdesc_type (td_lower m (txd_addr base i)) \<noteq> E1000_TXD_TYP_C)"

lemma tx_collect_diverges:
  assumes "never_ends m base dsize" "dsize \<le> tail" "head < dsize"
  shows "tx_collect dmap m base cd tail dsize desc head a = None"
proof (rule ccontr)
  assume "tx_collect dmap m base cd tail dsize desc head a \<noteq> None"
  then obtain r where run: "tx_collect dmap m base cd tail dsize desc head a = Some r" by blast
  have "\<not> (never_ends m base dsize \<and> dsize \<le> tail \<and> head < dsize)"
  proof (rule tx_collect.raw_induct [where P = "\<lambda>dmap m base cd tail dsize desc head a y.
        \<not> (never_ends m base dsize \<and> dsize \<le> tail \<and> head < dsize)", OF _ run], goal_cases)
    case (1 f dmap m base cd tail dsize desc head a y)
    show ?case
    proof
      assume a: "never_ends m base dsize \<and> dsize \<le> tail \<and> head < dsize"
      then have "td_lower m (txd_addr base head) AND E1000_TXD_CMD_EOP = 0"
        "e82545_txdesc_type (td_lower m (txd_addr base head)) \<noteq> E1000_TXD_TYP_C" "head \<noteq> tail"
        by (auto simp: never_ends_def)
      with 1(2) a obtain a' where "f dmap m base cd tail dsize (desc + 1) ((head + 1) mod dsize) a' = Some y"
        by (auto simp: Let_def split: if_splits)
      from 1(1) [OF this] a show False by simp
    qed
  qed
  with assms show False by simp
qed

section \<open>A chain of descriptors\<close>

text \<open>The descriptors from \<open>head\<close> on, and the buffer of one.\<close>

definition nth_txd :: "u64 \<Rightarrow> nat \<Rightarrow> nat \<Rightarrow> nat \<Rightarrow> u64" where
  "nth_txd base dsize head i = txd_addr base ((head + i) mod dsize)"

definition txd_iov :: "(u64 \<Rightarrow> u64) \<Rightarrow> host_memory \<Rightarrow> u64 \<Rightarrow> iovec" where
  "txd_iov dmap m dsc = \<lparr>iov_base = Host (dmap (td_buffer_addr m dsc)), iov_len = unat (td_length m dsc)\<rparr>"

definition txd_data :: "(u64 \<Rightarrow> u64) \<Rightarrow> host_memory \<Rightarrow> u64 \<Rightarrow> u8 list" where
  "txd_data dmap m dsc = mem_bytes m (dmap (td_buffer_addr m dsc)) (unat (td_length m dsc))"

text \<open>
  A packet of legacy descriptors: it does not reach the tail, only its last descriptor ends it, no
  buffer is empty, and the guest leaves the frame checksum to the card and asks for no offload.
\<close>

definition legacy_chain :: "host_memory \<Rightarrow> u64 \<Rightarrow> nat \<Rightarrow> nat \<Rightarrow> nat \<Rightarrow> nat \<Rightarrow> bool" where
  "legacy_chain m base dsize head tail k \<longleftrightarrow> k + 1 < dsize \<and> k < I82545_MAX_TXSEGS \<and> head < dsize \<and>
     (\<forall>i\<le>k. (head + i) mod dsize \<noteq> tail \<and>
        td_lower m (nth_txd base dsize head i) AND E1000_TXD_CMD_DEXT = 0 \<and>
        td_length m (nth_txd base dsize head i) \<noteq> 0 \<and>
        (td_lower m (nth_txd base dsize head i) AND E1000_TXD_CMD_EOP \<noteq> 0 \<longleftrightarrow> i = k)) \<and>
     td_lower m (nth_txd base dsize head k) AND E1000_TXD_CMD_IFCS \<noteq> 0 \<and>
     td_lower m (nth_txd base dsize head k) AND E1000_TXD_CMD_IC = 0 \<and>
     td_lower m (nth_txd base dsize head k) AND E1000_TXD_CMD_VLE = 0"

lemma chain_type: "legacy_chain m base dsize head tail k \<Longrightarrow> i \<le> k \<Longrightarrow>
    e82545_txdesc_type (td_lower m (nth_txd base dsize head i)) = 0"
  by (simp add: legacy_chain_def e82545_txdesc_type_def)

lemma chain_segment:
  assumes "legacy_chain m base dsize head tail k" "i \<le> k" "ta_cnt a < I82545_MAX_TXSEGS"
  shows "tx_segment dmap m (nth_txd base dsize head i) 0 a =
    a\<lparr>ta_iov := ta_iov a @ [txd_iov dmap m (nth_txd base dsize head i)], ta_cnt := ta_cnt a + 1\<rparr>"
proof -
  let ?d = "nth_txd base dsize head i"
  have len: "td_length m ?d \<noteq> 0" using assms(1,2) by (simp add: legacy_chain_def)
  define n where "n = unat (td_length m ?d)"
  have "n < 2 ^ LENGTH(16)" unfolding n_def by (rule unsigned_less)
  then have l16: "n < 65536" by simp
  have u: "uint (td_length m ?d) = int n" by (simp add: n_def)
  have pos: "0 < n" using len by (simp add: n_def unat_gt_0)
  have "nat (int n mod 2 ^ 64) = n" using l16 by simp
  moreover have "\<not> (td_lower m ?d AND E1000_TXD_CMD_EOP \<noteq> 0 \<and> td_lower m ?d AND E1000_TXD_CMD_IFCS = 0)"
    using assms(1,2) by (auto simp: legacy_chain_def)
  ultimately show ?thesis
    using pos assms(3) l16 u
    by (auto simp: tx_segment_def Let_def txd_iov_def paddr_guest2host_def simp flip: n_def)
qed

text \<open>What is known of the packet after one more descriptor.\<close>

definition chain_acc :: "(u64 \<Rightarrow> u64) \<Rightarrow> host_memory \<Rightarrow> u64 \<Rightarrow> nat \<Rightarrow> tx_acc \<Rightarrow> tx_acc" where
  "chain_acc dmap m dsc i a = (if i = 0 then tx_begin m dsc 0 a else a)
     \<lparr>ta_iov := ta_iov a @ [txd_iov dmap m dsc], ta_cnt := i + 1\<rparr>"

definition plain_acc :: "nat \<Rightarrow> tx_acc \<Rightarrow> bool" where
  "plain_acc i a \<longleftrightarrow> (i = 0 \<or> ta_type a = 0) \<and> ta_cnt a = i \<and> \<not> ck_valid (ta_ck0 a) \<and>
     \<not> ck_valid (ta_ck1 a) \<and> \<not> ta_tso a"

lemma chain_acc_simps:
  assumes "plain_acc i a"
  shows "plain_acc (i + 1) (chain_acc dmap m dsc i a)"
    "ta_iov (chain_acc dmap m dsc i a) = ta_iov a @ [txd_iov dmap m dsc]"
  using assms by (auto simp: plain_acc_def chain_acc_def tx_begin_def)

lemma chain_step:
  assumes ch: "legacy_chain m base dsize head tail k" and i: "i \<le> k" and a: "plain_acc i a"
  shows "tx_collect dmap m base cd tail dsize i ((head + i) mod dsize) a =
    (if i = k then Some (Tx_packet, k, (head + k) mod dsize, chain_acc dmap m (nth_txd base dsize head i) i a)
     else tx_collect dmap m base cd tail dsize (i + 1) ((head + (i + 1)) mod dsize)
       (chain_acc dmap m (nth_txd base dsize head i) i a))"
proof -
  let ?d = "nth_txd base dsize head i"
  let ?a = "if i = 0 then tx_begin m ?d 0 a else a"
  have "tx_segment dmap m ?d 0 ?a = ?a\<lparr>ta_iov := ta_iov ?a @ [txd_iov dmap m ?d], ta_cnt := ta_cnt ?a + 1\<rparr>"
    by (rule chain_segment [OF ch i]) (use a i ch in \<open>simp add: plain_acc_def tx_begin_def legacy_chain_def\<close>)
  also have "\<dots> = chain_acc dmap m ?d i a"
    using a by (simp add: chain_acc_def plain_acc_def tx_begin_def)
  finally have seg: "tx_segment dmap m ?d 0 ?a = chain_acc dmap m ?d i a" .
  have d: "txd_addr base ((head + i) mod dsize) = ?d" by (simp add: nth_txd_def)
  have pos: "(head + i) mod dsize \<noteq> tail" "dsize \<noteq> 0"
    and eop: "td_lower m ?d AND E1000_TXD_CMD_EOP = 0 \<longleftrightarrow> i \<noteq> k"
    and last: "i = k \<Longrightarrow> td_lower m ?d AND E1000_TXD_CMD_IC = 0"
    using ch i by (auto simp: legacy_chain_def)
  have fin: "i = k \<Longrightarrow> tx_final m ?d 0 cd (chain_acc dmap m ?d i a) = chain_acc dmap m ?d i a"
    using last by (simp add: tx_final_def Let_def)
  have type: "e82545_txdesc_type (td_lower m ?d) = 0" using chain_type [OF ch i] .
  have ty: "\<not> (i \<noteq> 0 \<and> 0 \<noteq> ta_type a)" using a by (auto simp: plain_acc_def)
  have next_pos: "((head + i) mod dsize + 1) mod dsize = (head + (i + 1)) mod dsize"
    by (simp add: mod_Suc_eq)
  show ?thesis
    by (subst tx_collect.simps)
      (use pos eop fin ty in \<open>simp only: d type seg Let_def next_pos if_False if_True simp_thms; simp\<close>)
qed

lemma tx_collect_chain:
  assumes ch: "legacy_chain m base dsize head tail k" and "j \<le> k" "plain_acc j a"
  shows "\<exists>a'. tx_collect dmap m base cd tail dsize j ((head + j) mod dsize) a =
      Some (Tx_packet, k, (head + k) mod dsize, a') \<and> plain_acc (k + 1) a' \<and>
    ta_iov a' = ta_iov a @ map (\<lambda>i. txd_iov dmap m (nth_txd base dsize head i)) [j..<k + 1]"
  using assms(2-)
proof (induction "k - j" arbitrary: j a)
  case 0
  then have "j = k" by simp
  with chain_step [OF ch 0(2,3)] chain_acc_simps [OF 0(3)] show ?case by simp
next
  case (Suc n)
  let ?a = "chain_acc dmap m (nth_txd base dsize head j) j a"
  have j: "j < k" using Suc.hyps(2) by simp
  have "\<exists>a'. tx_collect dmap m base cd tail dsize (j + 1) ((head + (j + 1)) mod dsize) ?a =
      Some (Tx_packet, k, (head + k) mod dsize, a') \<and> plain_acc (k + 1) a' \<and>
    ta_iov a' = ta_iov ?a @ map (\<lambda>i. txd_iov dmap m (nth_txd base dsize head i)) [j + 1..<k + 1]"
    by (rule Suc.hyps(1)) (use Suc.hyps(2) j chain_acc_simps(1) [OF Suc.prems(2)] in simp_all)
  moreover have "[j..<k + 1] = j # [j + 1..<k + 1]" using j by (simp add: upt_conv_Cons del: upt_Suc)
  ultimately show ?case
    using chain_step [OF ch Suc.prems, of dmap cd] j chain_acc_simps(2) [OF Suc.prems(2)]
    by (simp del: upt_Suc)
qed

section \<open>The write-back\<close>

definition write_back :: "u64 \<Rightarrow> nat \<Rightarrow> nat \<Rightarrow> nat \<Rightarrow> host_memory \<times> bool \<Rightarrow> host_memory \<times> bool" where
  "write_back base dsize head i mt = (case mt of (m, tdwb) \<Rightarrow>
     if td_lower m (nth_txd base dsize head i) AND E1000_TXD_CMD_RS \<noteq> 0
     then (txd_set_dd m (nth_txd base dsize head i), True) else (m, tdwb))"

lemma transmit_done_eq:
  assumes "j \<le> n" "n < dsize"
  shows "e82545_transmit_done base ((head + j) mod dsize) ((head + n) mod dsize) dsize m tdwb =
    Some (fold (write_back base dsize head) [j..<n] (m, tdwb))"
  using assms(1)
proof (induction "n - j" arbitrary: j m tdwb)
  case 0
  then show ?case by (simp add: e82545_transmit_done.simps)
next
  case (Suc l)
  then have j: "j < n" by simp
  have ne: "(head + j) mod dsize \<noteq> (head + n) mod dsize"
  proof
    assume "(head + j) mod dsize = (head + n) mod dsize"
    then have "dsize dvd (head + n) - (head + j)"
      using j mod_eq_dvd_iff_nat [of "head + j" "head + n" dsize] by simp
    then have "dsize dvd n - j" by simp
    with j assms(2) show False by (meson dvd_imp_le le_less_trans less_imp_diff_less not_le zero_less_diff)
  qed
  have next_pos: "((head + j) mod dsize + 1) mod dsize = (head + (j + 1)) mod dsize"
    by (simp add: mod_Suc_eq)
  have up: "[j..<n] = j # [j + 1..<n]" using j by (simp add: upt_conv_Cons)
  show ?case
    using Suc.hyps(1) [of "j + 1"] Suc.hyps(2) j ne assms(2)
    by (subst e82545_transmit_done.simps)
      (auto simp: Let_def next_pos up write_back_def nth_txd_def mod_Suc_eq)
qed

lemma host_bytes_concat:
  "host_bytes m (map (\<lambda>i. txd_iov dmap m (f i)) is) = concat (map (\<lambda>i. txd_data dmap m (f i)) is)"
  by (induction "is") (simp_all add: txd_iov_def txd_data_def)

lemma transmit_chain:
  assumes base: "esc_txdesc (esc_tx sc) = Some base"
    and ch: "legacy_chain (host_mem w) base dsize head tail k"
    and len: "length (concat (map (\<lambda>i. txd_data dmap (host_mem w) (nth_txd base dsize head i)) [0..<k + 1]))
      < VIRTIO_MAX_BUF"
  shows "e82545_transmit dmap sc w head tail dsize tdwb =
    (let (m, wb) = fold (write_back base dsize head) [0..<k + 1] (host_mem w, tdwb)
     in Some (k + 1, (head + (k + 1)) mod dsize, wb, sc, w\<lparr>net_sent := net_sent w @
       [concat (map (\<lambda>i. txd_data dmap (host_mem w) (nth_txd base dsize head i)) [0..<k + 1])],
       host_mem := m\<rparr>))"
proof -
  let ?m = "host_mem w"
  let ?iov = "map (\<lambda>i. txd_iov dmap ?m (nth_txd base dsize head i)) [0..<k + 1]"
  let ?data = "concat (map (\<lambda>i. txd_data dmap ?m (nth_txd base dsize head i)) [0..<k + 1])"
  have bounds: "head < dsize" "k + 1 < dsize" "k < I82545_MAX_TXSEGS" using ch by (simp_all add: legacy_chain_def)
  obtain a where c: "tx_collect dmap ?m base (esc_txctx (esc_tx sc)) tail dsize 0 head tx_acc_zero =
      Some (Tx_packet, k, (head + k) mod dsize, a)" and a: "ta_iov a = ?iov" "plain_acc (k + 1) a"
    using tx_collect_chain [OF ch, of 0 tx_acc_zero dmap "esc_txctx (esc_tx sc)"] bounds(1)
    by (auto simp: tx_acc_zero_def ck_zero_def plain_acc_def simp del: upt_Suc)
  let ?d = "txd_addr base ((head + k) mod dsize)"
  have "\<not> vlan_wanted sc (td_lower ?m ?d)"
    using ch by (simp add: legacy_chain_def vlan_wanted_def nth_txd_def)
  then have h: "tx_headers sc ?m ?d a = Some ([], ?iov, ta_ck0 a, ta_ck1 a)"
    using a by (simp add: tx_headers_def tx_hdrlen_def plain_acc_def Let_def del: upt_Suc)
  have "host_iov ?iov" by (simp add: host_iov_def txd_iov_def del: upt_Suc)
  then have "iov_bytes [] ?m ?iov = Some ?data"
    using iov_bytes_host [of ?iov "[]" ?m] by (simp add: host_bytes_concat del: upt_Suc)
  from dm_process_tx_ok [OF this] len
  have p: "tx_packet sc ?d a w = Some (w\<lparr>net_sent := net_sent w @ [?data]\<rparr>)"
    using a h by (simp add: tx_packet_def tx_plain_def plain_acc_def del: upt_Suc)
  have d: "e82545_transmit_done base head ((head + (k + 1)) mod dsize) dsize ?m tdwb =
      Some (fold (write_back base dsize head) [0..<k + 1] (?m, tdwb))"
    using transmit_done_eq [of 0 "k + 1" dsize base head ?m tdwb] bounds by (simp del: upt_Suc)
  have next_pos: "((head + k) mod dsize + 1) mod dsize = (head + (k + 1)) mod dsize"
    by (simp add: mod_Suc_eq)
  show ?thesis
    using bounds d a(2)
    by (simp add: e82545_transmit_def plain_acc_def base c p a next_pos [simplified] Let_def del: upt_Suc fold.simps
        split: prod.split)
qed

end
