(* ===== verification/E1000IntrProps.thy ===== *)
theory E1000IntrProps
  imports E1000Dev
begin

text \<open>
  The interrupt logic of the network card: its invariant, that every access to the registers of the
  interrupts, every cause and every expiry of the throttling timer keeps it and cannot fail, and
  what the other registers leave unchanged.
\<close>

section \<open>The invariant\<close>

definition pending :: "e82545_softc \<Rightarrow> u32" where
  "pending sc = esc_ICR (esc_int sc) AND esc_IMS (esc_int sc)"

text \<open>
  The flag of the card agrees with the line, and a throttled card has a timer.
\<close>

definition irq_sync :: "e82545_softc \<Rightarrow> bool" where
  "irq_sync sc \<longleftrightarrow> lintr_ok (esc_pi sc) \<and> (esc_irq_asserted (esc_int sc) \<longleftrightarrow> requested (esc_pi sc)) \<and>
     (esc_mevpitr (esc_int sc) \<longleftrightarrow> mevpitr_callout (esc_int sc) \<noteq> None)"

text \<open>No unmasked cause waits without a line that is requested or a timer that will look at it.\<close>

definition intr_inv :: "e82545_softc \<Rightarrow> bool" where
  "intr_inv sc \<longleftrightarrow> irq_sync sc \<and>
     (pending sc \<noteq> 0 \<longrightarrow> requested (esc_pi sc) \<or> mevpitr_callout (esc_int sc) \<noteq> None)"

text \<open>What the interrupt logic may change: the line and its own registers.\<close>

definition intr_frame :: "e82545_softc \<Rightarrow> e82545_softc \<Rightarrow> bool" where
  "intr_frame sc sc' \<longleftrightarrow> esc_mtx sc' = esc_mtx sc \<and> esc_mac sc' = esc_mac sc \<and> esc_gen sc' = esc_gen sc \<and>
     esc_tx sc' = esc_tx sc \<and> esc_filt sc' = esc_filt sc \<and> esc_rx sc' = esc_rx sc \<and>
     io_addr sc' = io_addr sc \<and> mdi_control sc' = mdi_control sc \<and> esc_nvm sc' = esc_nvm sc \<and>
     esc_stats sc' = esc_stats sc"

definition same_intr :: "e82545_softc \<Rightarrow> e82545_softc \<Rightarrow> bool" where
  "same_intr sc sc' \<longleftrightarrow> esc_int sc' = esc_int sc \<and> esc_pi sc' = esc_pi sc \<and> esc_mtx sc' = esc_mtx sc"

lemma intr_inv_same: "same_intr sc sc' \<Longrightarrow> intr_inv sc' = intr_inv sc"
  by (simp add: intr_inv_def irq_sync_def pending_def same_intr_def)

lemma intr_frame_refl [simp]: "intr_frame sc sc"
  by (simp add: intr_frame_def)

lemma intr_frame_trans: "intr_frame a b \<Longrightarrow> intr_frame b c \<Longrightarrow> intr_frame a c"
  by (simp add: intr_frame_def)

lemma intr_frame_upds [simp]:
  "intr_frame sc (sc'\<lparr>esc_pi := p\<rparr>) = intr_frame sc sc'"
  "intr_frame sc (upd_int f sc') = intr_frame sc sc'"
  "intr_frame (upd_int f sc) sc' = intr_frame sc sc'"
  by (simp_all add: intr_frame_def)

lemma intr_frame_wf: "intr_frame sc sc' \<Longrightarrow> e82545_wf sc' = e82545_wf sc"
  by (simp add: intr_frame_def e82545_wf_def)

section \<open>Raising and lowering\<close>

lemma line_up:
  assumes "lintr_ok (esc_pi sc)"
  obtains pi where "on_pi pci_lintr_assert sc = Some (sc\<lparr>esc_pi := pi\<rparr>)" "lintr_ok pi" "requested pi"
  using lintr.up_ok [OF assms] by (auto simp: on_pi_def)

lemma line_down:
  assumes "lintr_ok (esc_pi sc)"
  obtains pi where "on_pi pci_lintr_deassert sc = Some (sc\<lparr>esc_pi := pi\<rparr>)" "lintr_ok pi"
    "\<not> requested pi"
  using lintr.down_ok [OF assms] by (auto simp: on_pi_def)

text \<open>
  \<open>raise_irq\<close> establishes the second part of the invariant when the new causes account for what
  breaks it.
\<close>

lemma raise_irq_inv:
  assumes sync: "irq_sync sc"
    and new: "pending sc \<noteq> 0 \<Longrightarrow> new = 0 \<Longrightarrow>
      requested (esc_pi sc) \<or> mevpitr_callout (esc_int sc) \<noteq> None"
  shows "\<exists>sc'. raise_irq sc new = Some sc' \<and> intr_inv sc' \<and> intr_frame sc sc' \<and>
    esc_ICR (esc_int sc') = esc_ICR (esc_int sc) \<and> esc_IMS (esc_int sc') = esc_IMS (esc_int sc)"
proof (cases "new \<noteq> 0 \<and> \<not> esc_mevpitr (esc_int sc) \<and> \<not> esc_irq_asserted (esc_int sc)")
  case False
  then have "raise_irq sc new = Some sc" by (auto simp: raise_irq_def)
  moreover have "intr_inv sc"
    using False sync new by (auto simp: intr_inv_def irq_sync_def)
  ultimately show ?thesis by simp
next
  case True
  let ?sc = "upd_int (\<lambda>i. i\<lparr>esc_irq_asserted := True\<rparr>) sc"
  have "lintr_ok (esc_pi ?sc)" using sync by (simp add: irq_sync_def)
  then obtain pi where pi: "on_pi pci_lintr_assert ?sc = Some (?sc\<lparr>esc_pi := pi\<rparr>)" "lintr_ok pi"
    "requested pi" by (rule line_up)
  let ?sc1 = "?sc\<lparr>esc_pi := pi\<rparr>"
  let ?sc2 = "if esc_ITR (esc_int sc) \<noteq> 0
    then upd_int (\<lambda>i. callout_set (i\<lparr>esc_mevpitr := True\<rparr>)) ?sc1 else ?sc1"
  have "raise_irq sc new = Some ?sc2"
    using True pi(1) by (simp add: raise_irq_def)
  moreover have "intr_inv ?sc2"
    using True pi sync by (simp add: intr_inv_def irq_sync_def callout_set_def)
  moreover have "intr_frame sc ?sc2" by simp
  ultimately show ?thesis by (auto simp: callout_set_def)
qed

lemma icr_assert_inv:
  assumes "intr_inv sc"
  shows "\<exists>sc'. e82545_icr_assert sc bits = Some sc' \<and> intr_inv sc' \<and> intr_frame sc sc' \<and>
    esc_ICR (esc_int sc') = esc_ICR (esc_int sc) OR bits"
proof -
  let ?i = "esc_int sc" and ?sc = "upd_int (\<lambda>i. i\<lparr>esc_ICR := esc_ICR i OR bits\<rparr>) sc"
  let ?new = "bits AND NOT (esc_ICR ?i) AND esc_IMS ?i"
  have pend: "pending ?sc = pending sc OR ?new"
    by (rule bit_word_eqI) (auto simp: pending_def bit_simps)
  have "irq_sync ?sc" using assms by (simp add: intr_inv_def irq_sync_def)
  moreover have "requested (esc_pi ?sc) \<or> mevpitr_callout (esc_int ?sc) \<noteq> None"
    if "pending ?sc \<noteq> 0" "?new = 0"
    using assms that unfolding pend by (simp add: intr_inv_def)
  ultimately obtain sc' where "raise_irq ?sc ?new = Some sc'" "intr_inv sc'" "intr_frame ?sc sc'"
    "esc_ICR (esc_int sc') = esc_ICR (esc_int ?sc)"
    using raise_irq_inv [of ?sc ?new] by blast
  then show ?thesis
    by (auto simp: e82545_icr_assert_def Let_def)
qed

lemma ims_change_inv:
  assumes "intr_inv sc"
  shows "\<exists>sc'. e82545_ims_change sc bits = Some sc' \<and> intr_inv sc' \<and> intr_frame sc sc'"
proof -
  let ?i = "esc_int sc" and ?sc = "upd_int (\<lambda>i. i\<lparr>esc_IMS := esc_IMS i OR bits\<rparr>) sc"
  let ?new = "bits AND esc_ICR ?i AND NOT (esc_IMS ?i)"
  have pend: "pending ?sc = pending sc OR ?new"
    by (rule bit_word_eqI) (auto simp: pending_def bit_simps)
  have "irq_sync ?sc" using assms by (simp add: intr_inv_def irq_sync_def)
  moreover have "requested (esc_pi ?sc) \<or> mevpitr_callout (esc_int ?sc) \<noteq> None"
    if "pending ?sc \<noteq> 0" "?new = 0"
    using assms that unfolding pend by (simp add: intr_inv_def)
  ultimately obtain sc' where "raise_irq ?sc ?new = Some sc'" "intr_inv sc'" "intr_frame ?sc sc'"
    using raise_irq_inv [of ?sc ?new] by blast
  then show ?thesis
    by (auto simp: e82545_ims_change_def Let_def)
qed

lemma icr_deassert_inv:
  assumes sync: "irq_sync sc"
    and less: "(esc_ICR (esc_int sc) AND NOT bits) AND esc_IMS (esc_int sc) \<noteq> 0 \<Longrightarrow>
      requested (esc_pi sc) \<or> mevpitr_callout (esc_int sc) \<noteq> None"
  shows "\<exists>sc'. e82545_icr_deassert sc bits = Some sc' \<and> intr_inv sc' \<and> intr_frame sc sc' \<and>
    esc_ICR (esc_int sc') = esc_ICR (esc_int sc) AND NOT bits"
proof -
  let ?sc = "upd_int (\<lambda>i. i\<lparr>esc_ICR := esc_ICR i AND NOT bits\<rparr>) sc"
  have ok: "lintr_ok (esc_pi ?sc)" using sync by (simp add: irq_sync_def)
  show ?thesis
  proof (cases "esc_irq_asserted (esc_int sc) \<and> pending ?sc = 0")
    case True
    from ok obtain pi where pi: "on_pi pci_lintr_deassert ?sc = Some (?sc\<lparr>esc_pi := pi\<rparr>)"
      "lintr_ok pi" "\<not> requested pi" by (rule line_down)
    let ?sc2 = "upd_int (\<lambda>i. i\<lparr>esc_irq_asserted := False\<rparr>) (?sc\<lparr>esc_pi := pi\<rparr>)"
    have "e82545_icr_deassert sc bits = Some ?sc2"
      using True pi by (simp add: e82545_icr_deassert_def pending_def Let_def)
    moreover have "intr_inv ?sc2"
      using True pi sync by (simp add: intr_inv_def irq_sync_def pending_def)
    ultimately show ?thesis by simp
  next
    case False
    then have "e82545_icr_deassert sc bits = Some ?sc"
      by (auto simp: e82545_icr_deassert_def pending_def Let_def)
    moreover have "intr_inv ?sc"
      using False sync less by (auto simp: intr_inv_def irq_sync_def pending_def)
    ultimately show ?thesis by simp
  qed
qed

lemma and_not_sub: "(a AND b) AND m \<noteq> 0 \<Longrightarrow> (a AND m) \<noteq> (0::'a::len word)"
proof
  assume "(a AND b) AND m \<noteq> 0" "a AND m = 0"
  moreover have "(a AND b) AND m = (a AND m) AND b" by (simp add: ac_simps)
  ultimately show False by simp
qed

lemma intr_inv_less:
  assumes "intr_inv sc" "(esc_ICR (esc_int sc) AND NOT bits) AND esc_IMS (esc_int sc) \<noteq> 0"
  shows "requested (esc_pi sc) \<or> mevpitr_callout (esc_int sc) \<noteq> None"
  using assms(1) and_not_sub [OF assms(2)] by (simp add: intr_inv_def pending_def)

lemma intr_inv_sync: "intr_inv sc \<Longrightarrow> irq_sync sc"
  by (simp add: intr_inv_def)

lemma intr_inv_regs:
  assumes "intr_inv sc"
  shows "intr_inv (upd_int (\<lambda>i. i\<lparr>esc_ICS := val\<rparr>) sc)"
    and "intr_inv (upd_int (\<lambda>i. i\<lparr>esc_ITR := val\<rparr>) sc)"
    and "intr_inv (upd_int (\<lambda>i. i\<lparr>esc_IMC := val, esc_IMS := esc_IMS i AND NOT val\<rparr>) sc)"
proof -
  show "intr_inv (upd_int (\<lambda>i. i\<lparr>esc_ICS := val\<rparr>) sc)" "intr_inv (upd_int (\<lambda>i. i\<lparr>esc_ITR := val\<rparr>) sc)"
    using assms by (simp_all add: intr_inv_def irq_sync_def pending_def)
  have "esc_ICR (esc_int sc) AND (esc_IMS (esc_int sc) AND NOT val) =
    (esc_ICR (esc_int sc) AND NOT val) AND esc_IMS (esc_int sc)" by (simp add: ac_simps)
  then show "intr_inv (upd_int (\<lambda>i. i\<lparr>esc_IMC := val, esc_IMS := esc_IMS i AND NOT val\<rparr>) sc)"
    using assms intr_inv_less [OF assms, of val]
    by (simp add: intr_inv_def irq_sync_def pending_def)
qed

lemma intr_write_inv:
  assumes "intr_inv sc"
  shows "\<exists>sc'. e82545_intr_write sc offset val = Some sc' \<and> intr_inv sc' \<and> intr_frame sc sc'"
proof -
  have 1: "\<exists>sc'. e82545_icr_deassert sc val = Some sc' \<and> intr_inv sc' \<and> intr_frame sc sc'"
    using icr_deassert_inv [OF intr_inv_sync [OF assms] intr_inv_less [OF assms], of val] by blast
  have 2: "\<exists>sc'. e82545_icr_assert (upd_int (\<lambda>i. i\<lparr>esc_ICS := val\<rparr>) sc) val = Some sc' \<and>
    intr_inv sc' \<and> intr_frame sc sc'"
    using icr_assert_inv [OF intr_inv_regs(1) [OF assms], of val val] by auto
  have 3: "\<exists>sc'. e82545_ims_change sc val = Some sc' \<and> intr_inv sc' \<and> intr_frame sc sc'"
    using ims_change_inv [OF assms] .
  show ?thesis
    unfolding e82545_intr_write_def
    using 1 2 3 intr_inv_regs(2,3) [OF assms, of val] assms by (simp split: if_split)
qed

lemma intr_read_inv:
  assumes "intr_inv sc"
  shows "\<exists>v sc'. e82545_intr_read sc offset = Some (v, sc') \<and> intr_inv sc' \<and> intr_frame sc sc'"
proof -
  let ?sc = "upd_int (\<lambda>i. i\<lparr>esc_ICR := 0\<rparr>) sc"
  have "irq_sync ?sc" using assms by (simp add: intr_inv_def irq_sync_def)
  then obtain sc' where "e82545_icr_deassert ?sc (NOT 0) = Some sc'" "intr_inv sc'" "intr_frame ?sc sc'"
    using icr_deassert_inv [of ?sc "NOT 0"] by auto
  then show ?thesis using assms by (simp add: e82545_intr_read_def Let_def)
qed

section \<open>The throttling timer\<close>

text \<open>The operating system runs the callback once for a timer that was set.\<close>

definition itr_expires :: "e82545_softc \<Rightarrow> e82545_softc option" where
  "itr_expires sc = e82545_itr_callback (upd_int (\<lambda>i. i\<lparr>mevpitr_callout := None\<rparr>) sc)"

lemma itr_expires_inv:
  assumes inv: "intr_inv sc" and timer: "mevpitr_callout (esc_int sc) \<noteq> None"
    and free: "mutex_free (esc_mtx sc)"
  shows "\<exists>sc'. itr_expires sc = Some sc' \<and> intr_inv sc' \<and> intr_frame sc sc' \<and>
    (pending sc \<noteq> 0 \<longrightarrow> requested (esc_pi sc'))"
proof -
  let ?l = "upd_int (\<lambda>i. i\<lparr>mevpitr_callout := None\<rparr>) sc\<lparr>esc_mtx := (esc_mtx sc)\<lparr>mutex_lock := 1\<rparr>\<rparr>"
  have lock: "lock_esc (upd_int (\<lambda>i. i\<lparr>mevpitr_callout := None\<rparr>) sc) = Some ?l"
    using free by (simp add: lock_esc_def pthread_mutex_lock_def)
  have m: "(esc_mtx sc)\<lparr>mutex_lock := 0\<rparr> = esc_mtx sc"
    using free by (cases "esc_mtx sc") simp
  show ?thesis
  proof (cases "pending sc \<noteq> 0 \<and> \<not> esc_irq_asserted (esc_int sc)")
    case True
    have "lintr_ok (esc_pi (upd_int (\<lambda>i. i\<lparr>esc_irq_asserted := True\<rparr>) ?l))"
      using inv by (simp add: intr_inv_def irq_sync_def)
    then obtain pi where pi: "on_pi pci_lintr_assert (upd_int (\<lambda>i. i\<lparr>esc_irq_asserted := True\<rparr>) ?l) =
        Some ((upd_int (\<lambda>i. i\<lparr>esc_irq_asserted := True\<rparr>) ?l)\<lparr>esc_pi := pi\<rparr>)"
      "lintr_ok pi" "requested pi" by (rule line_up)
    let ?sc' = "upd_int callout_set ((upd_int (\<lambda>i. i\<lparr>mevpitr_callout := None,
        esc_irq_asserted := True\<rparr>) sc)\<lparr>esc_pi := pi\<rparr>)"
    have "itr_expires sc = Some ?sc'"
      using True pi(1) m
      by (simp add: itr_expires_def e82545_itr_callback_def lock pending_def unlock_esc_def
          pthread_mutex_unlock_def o_def)
    moreover have "intr_inv ?sc'"
      using inv timer pi by (simp add: intr_inv_def irq_sync_def callout_set_def)
    ultimately show ?thesis using pi by simp
  next
    case False
    let ?sc' = "upd_int (\<lambda>i. i\<lparr>esc_mevpitr := False, mevpitr_callout := None\<rparr>) sc"
    have "itr_expires sc = Some ?sc'"
      using False m
      by (auto simp: itr_expires_def e82545_itr_callback_def lock pending_def unlock_esc_def
          pthread_mutex_unlock_def o_def)
    moreover have "intr_inv ?sc'"
      using inv False by (auto simp: intr_inv_def irq_sync_def pending_def)
    ultimately show ?thesis using False inv by (auto simp: intr_inv_def irq_sync_def)
  qed
qed

section \<open>The register switches\<close>

lemma same_intr_simps [simp]:
  "same_intr sc sc"
  "same_intr sc (upd_gen f sc') = same_intr sc sc'" "same_intr sc (upd_tx g sc') = same_intr sc sc'"
  "same_intr sc (upd_rx h sc') = same_intr sc sc'" "same_intr sc (upd_filt k sc') = same_intr sc sc'"
  "same_intr sc (upd_nvm n sc') = same_intr sc sc'"
  "same_intr sc (sc'\<lparr>mdi_control := w\<rparr>) = same_intr sc sc'"
  by (simp_all add: same_intr_def)

lemma same_intr_ops [simp]:
  "same_intr sc (e82545_tx_start sc') = same_intr sc sc'"
  "same_intr sc (e82545_tx_enable sc') = same_intr sc sc'"
  "same_intr sc (e82545_rx_enable sc') = same_intr sc sc'"
  "same_intr sc (e82545_rx_update_rdba dmap sc') = same_intr sc sc'"
  "same_intr sc (e82545_tx_update_tdba dmap sc') = same_intr sc sc'"
  "same_intr sc (write_eecd sc' val) = same_intr sc sc'"
  "same_intr sc (write_mdic sc' val) = same_intr sc sc'"
  by (simp_all add: e82545_tx_start_def e82545_tx_enable_def e82545_rx_enable_def
      e82545_rx_update_rdba_def e82545_tx_update_tdba_def write_eecd_def write_mdic_def Let_def
      e82545_eecd_strobe_def e82545_write_mdi_def)

lemma same_intr_disable:
  "e82545_tx_disable sc = Some sc' \<Longrightarrow> same_intr sc sc'"
  "e82545_rx_disable sc = Some sc' \<Longrightarrow> same_intr sc sc'"
  by (auto simp: e82545_tx_disable_def e82545_rx_disable_def Let_def split: if_splits)

lemma same_intr_rx_ctl: "e82545_rx_ctl dmap sc val = Some sc' \<Longrightarrow> same_intr sc sc'"
  by (auto simp: e82545_rx_ctl_def e82545_rx_disable_def Let_def split: if_splits)

lemma same_intr_tx_ctl: "e82545_tx_ctl dmap sc val = Some sc' \<Longrightarrow> same_intr sc sc'"
  by (auto simp: e82545_tx_ctl_def e82545_tx_disable_def Let_def bind_eq_Some_conv split: if_splits)

lemma same_intr_write_ra: "e82545_write_ra sc reg val = Some sc' \<Longrightarrow> same_intr sc sc'"
  by (auto simp: e82545_write_ra_def Let_def bind_eq_Some_conv)

lemmas same_intr_results = same_intr_rx_ctl same_intr_tx_ctl same_intr_write_ra

text \<open>A write goes to the device control, to the interrupt registers, or leaves interrupts alone.\<close>

definition reg_write_ok :: "e82545_softc \<Rightarrow> u32 \<Rightarrow> u32 \<Rightarrow> e82545_softc option \<Rightarrow> bool" where
  "reg_write_ok sc offset val r \<longleftrightarrow> (\<forall>sc'. r = Some sc' \<longrightarrow>
     (offset = E1000_CTRL \<or> offset = E1000_CTRL_DUP) \<and> e82545_devctl sc val = Some sc' \<or>
     e82545_intr_write sc offset val = Some sc' \<or> same_intr sc sc')"

lemma reg_write_ok_if:
  "(b \<Longrightarrow> reg_write_ok sc offset val x) \<Longrightarrow> reg_write_ok sc offset val y \<Longrightarrow>
     reg_write_ok sc offset val (if b then x else y)"
  by simp

lemma reg_write_ok_Some [simp]: "same_intr sc sc' \<Longrightarrow> reg_write_ok sc offset val (Some sc')"
  by (simp add: reg_write_ok_def)

lemma reg_write_ok_ops [simp]:
  "reg_write_ok sc offset val (e82545_rx_ctl dmap sc val)"
  "reg_write_ok sc offset val (e82545_tx_ctl dmap sc val)"
  "reg_write_ok sc offset val (e82545_write_ra sc reg val)"
  "reg_write_ok sc offset val (e82545_intr_write sc offset val)"
  "offset = E1000_CTRL \<or> offset = E1000_CTRL_DUP \<Longrightarrow> reg_write_ok sc offset val (e82545_devctl sc val)"
  by (auto simp: reg_write_ok_def intro: same_intr_results)

lemma reg_write_ok_assert [simp]:
  "reg_write_ok sc offset val (f ()) \<Longrightarrow> reg_write_ok sc offset val (Option.bind (assert_that b) f)"
  by (cases b) (simp_all add: reg_write_ok_def)

lemma write_register_cases:
  "reg_write_ok sc offset val (e82545_write_register dmap sc offset val)"
  unfolding e82545_write_register_def Let_def
  by (intro reg_write_ok_if) simp_all

lemma devctl_no_reset: "val AND E1000_CTRL_RST = 0 \<Longrightarrow> e82545_devctl sc val = Some sc' \<Longrightarrow> same_intr sc sc'"
  by (auto simp: e82545_devctl_def Let_def)

text \<open>No access to a register but a reset breaks the invariant.\<close>

lemma write_register_inv:
  assumes inv: "intr_inv sc" and w: "e82545_write_register dmap sc offset val = Some sc'"
    and nr: "offset = E1000_CTRL \<or> offset = E1000_CTRL_DUP \<Longrightarrow> val AND E1000_CTRL_RST = 0"
  shows "intr_inv sc' \<and> esc_mtx sc' = esc_mtx sc"
proof -
  have "intr_inv sc' \<and> esc_mtx sc' = esc_mtx sc" if "same_intr sc sc'"
    using that inv intr_inv_same [OF that] by (simp add: same_intr_def)
  moreover have "intr_inv sc' \<and> esc_mtx sc' = esc_mtx sc" if "e82545_intr_write sc offset val = Some sc'"
    using that intr_write_inv [OF inv, of offset val] by (auto simp: intr_frame_def)
  ultimately show ?thesis
    using write_register_cases [of sc offset val dmap] w nr devctl_no_reset [of val sc sc']
    by (auto simp: reg_write_ok_def)
qed

definition reg_read_ok :: "e82545_softc \<Rightarrow> u32 \<Rightarrow> (u32 \<times> e82545_softc) option \<Rightarrow> bool" where
  "reg_read_ok sc offset r \<longleftrightarrow> (\<forall>v sc'. r = Some (v, sc') \<longrightarrow>
     e82545_intr_read sc offset = Some (v, sc') \<or> sc' = sc)"

lemma reg_read_ok_if:
  "reg_read_ok sc offset x \<Longrightarrow> reg_read_ok sc offset y \<Longrightarrow> reg_read_ok sc offset (if b then x else y)"
  by simp

lemma reg_read_ok_simps [simp]:
  "reg_read_ok sc offset (Some (v, sc))"
  "reg_read_ok sc offset (e82545_intr_read sc offset)"
  "reg_read_ok sc offset (Option.bind r (\<lambda>x. Some (x, sc)))"
  by (auto simp: reg_read_ok_def bind_eq_Some_conv)

lemma read_register_cases: "reg_read_ok sc offset (e82545_read_register sc offset)"
  unfolding e82545_read_register_def
  by (intro reg_read_ok_if) simp_all

lemma read_register_inv:
  assumes "intr_inv sc" "e82545_read_register sc offset = Some (v, sc')"
  shows "intr_inv sc' \<and> esc_mtx sc' = esc_mtx sc"
  using read_register_cases [of sc offset] assms intr_read_inv [OF assms(1), of offset]
  by (auto simp: reg_read_ok_def intr_frame_def)

section \<open>The card between its callers\<close>

text \<open>The register that an access of the guest reaches, directly or through the I/O window.\<close>

definition reg_of :: "e82545_softc \<Rightarrow> nat \<Rightarrow> u64 \<Rightarrow> nat \<Rightarrow> u32 option" where
  "reg_of sc baridx offset sz =
     (if baridx = E82545_BAR_IO \<and> offset = E82545_IODATA \<and> sz = 4 \<and> io_addr sc \<le> E82545_IO_REGISTER_MAX
      then Some (io_addr sc)
      else if baridx = E82545_BAR_REGISTER \<and> sz = 4 then Some (ucast offset)
      else None)"

definition resets :: "e82545_softc \<Rightarrow> nat \<Rightarrow> u64 \<Rightarrow> nat \<Rightarrow> u64 \<Rightarrow> bool" where
  "resets sc baridx offset sz val \<longleftrightarrow>
     (reg_of sc baridx offset sz = Some E1000_CTRL \<or> reg_of sc baridx offset sz = Some E1000_CTRL_DUP) \<and>
     (ucast val :: u32) AND E1000_CTRL_RST \<noteq> 0"

lemma reg_of_mtx [simp]: "reg_of (sc\<lparr>esc_mtx := m\<rparr>) = reg_of sc"
  by (intro ext) (simp add: reg_of_def)

lemma write_switch_reg:
  "reg_of sc baridx offset sz = Some r \<Longrightarrow>
     write_switch dmap sc baridx offset sz val = e82545_write_register dmap sc r (ucast val)"
  by (auto simp: reg_of_def write_switch_def split: if_splits)

lemma write_switch_other:
  assumes "reg_of sc baridx offset sz = None" "write_switch dmap sc baridx offset sz val = Some sc'"
  shows "same_intr sc sc'"
  using assms by (auto simp: reg_of_def write_switch_def same_intr_def split: if_splits)

lemma write_switch_inv:
  assumes "intr_inv sc" "\<not> resets sc baridx offset sz val"
    and w: "write_switch dmap sc baridx offset sz val = Some sc'"
  shows "intr_inv sc' \<and> esc_mtx sc' = esc_mtx sc"
proof (cases "reg_of sc baridx offset sz")
  case None
  from write_switch_other [OF None w] have same: "same_intr sc sc'" .
  then show ?thesis
    using assms(1) intr_inv_same [OF same] by (simp add: same_intr_def)
next
  case (Some r)
  then show ?thesis
    using assms write_register_inv [of sc dmap r "ucast val" sc'] write_switch_reg [OF Some, of dmap val]
    by (auto simp: resets_def)
qed

definition read_only :: "e82545_softc \<Rightarrow> ('v \<times> e82545_softc) option \<Rightarrow> bool" where
  "read_only sc r \<longleftrightarrow> (\<forall>v sc'. r = Some (v, sc') \<longrightarrow>
     sc' = sc \<or> (\<exists>reg u. e82545_read_register sc reg = Some (u, sc')))"

lemma read_only_if: "read_only sc x \<Longrightarrow> read_only sc y \<Longrightarrow> read_only sc (if b then x else y)"
  by simp

lemma read_only_simps [simp]:
  "read_only sc (Some (v, sc))"
  "read_only sc (Option.bind (e82545_read_register sc reg) (\<lambda>(u, sc). Some (f u, sc)))"
  by (auto simp: read_only_def bind_eq_Some_conv)

lemma read_switch_cases: "read_only sc (read_switch sc baridx offset sz)"
  unfolding read_switch_def by (intro read_only_if) simp_all

lemma read_switch_inv:
  assumes "intr_inv sc" "read_switch sc baridx offset sz = Some (v, sc')"
  shows "intr_inv sc' \<and> esc_mtx sc' = esc_mtx sc"
  using read_switch_cases [of sc baridx offset sz] assms read_register_inv [OF assms(1)]
  unfolding read_only_def by blast

lemma lock_esc_Some:
  "lock_esc sc = Some sc' \<longleftrightarrow> mutex_free (esc_mtx sc) \<and> sc' = sc\<lparr>esc_mtx := (esc_mtx sc)\<lparr>mutex_lock := 1\<rparr>\<rparr>"
  by (auto simp: lock_esc_def bind_eq_Some_conv)

lemma unlock_esc_Some:
  "unlock_esc sc = Some sc' \<longleftrightarrow> mutex_lock (esc_mtx sc) = 1 \<and>
     sc' = sc\<lparr>esc_mtx := (esc_mtx sc)\<lparr>mutex_lock := 0\<rparr>\<rparr>"
  by (auto simp: unlock_esc_def bind_eq_Some_conv)

lemma intr_inv_mtx [simp]: "intr_inv (sc\<lparr>esc_mtx := m\<rparr>) = intr_inv sc"
  by (simp add: intr_inv_def irq_sync_def pending_def)

lemma e82545_write_inv:
  assumes "intr_inv sc" "\<not> resets sc baridx offset sz val"
    and w: "e82545_write dmap sc baridx offset sz val = Some sc'"
  shows "intr_inv sc' \<and> mutex_free (esc_mtx sc')"
proof -
  from w obtain sc1 where free: "mutex_free (esc_mtx sc)"
    and sw: "write_switch dmap (sc\<lparr>esc_mtx := (esc_mtx sc)\<lparr>mutex_lock := 1\<rparr>\<rparr>) baridx offset sz val = Some sc1"
    and sc': "sc' = sc1\<lparr>esc_mtx := (esc_mtx sc1)\<lparr>mutex_lock := 0\<rparr>\<rparr>"
    by (auto simp: e82545_write_def bind_eq_Some_conv lock_esc_Some unlock_esc_Some)
  from assms(2) have "\<not> resets (sc\<lparr>esc_mtx := (esc_mtx sc)\<lparr>mutex_lock := 1\<rparr>\<rparr>) baridx offset sz val"
    by (simp add: resets_def)
  from write_switch_inv [OF _ this sw] assms(1) sc' show ?thesis by simp
qed

lemma e82545_read_inv:
  assumes "intr_inv sc" "e82545_read sc baridx offset sz = Some (v, sc')"
  shows "intr_inv sc' \<and> mutex_free (esc_mtx sc')"
proof -
  from assms(2) obtain sc1 where
    sw: "read_switch (sc\<lparr>esc_mtx := (esc_mtx sc)\<lparr>mutex_lock := 1\<rparr>\<rparr>) baridx offset sz = Some (v, sc1)"
    and sc': "sc' = sc1\<lparr>esc_mtx := (esc_mtx sc1)\<lparr>mutex_lock := 0\<rparr>\<rparr>"
    by (auto simp: e82545_read_def bind_eq_Some_conv lock_esc_Some unlock_esc_Some)
  from read_switch_inv [OF _ sw] assms(1) sc' show ?thesis by simp
qed

text \<open>
  The history of the card: accesses of the guest through the BARs, causes raised by the receive and
  transmit paths, and expiries of the timer.
\<close>

inductive card_step :: "(u64 \<Rightarrow> u64) \<Rightarrow> e82545_softc \<Rightarrow> e82545_softc \<Rightarrow> bool"
  for dmap :: "u64 \<Rightarrow> u64" where
  card_write: "\<not> resets sc baridx offset sz val \<Longrightarrow>
    e82545_write dmap sc baridx offset sz val = Some sc' \<Longrightarrow> card_step dmap sc sc'"
| card_read: "e82545_read sc baridx offset sz = Some (v, sc') \<Longrightarrow> card_step dmap sc sc'"
| card_cause: "e82545_icr_assert sc bits = Some sc' \<Longrightarrow> card_step dmap sc sc'"
| card_timer: "mevpitr_callout (esc_int sc) \<noteq> None \<Longrightarrow> itr_expires sc = Some sc' \<Longrightarrow> card_step dmap sc sc'"

inductive_cases card_stepE: "card_step dmap sc sc'"

lemma card_step_inv:
  assumes "card_step dmap sc sc'" "intr_inv sc" "mutex_free (esc_mtx sc)"
  shows "intr_inv sc' \<and> mutex_free (esc_mtx sc')"
  using assms(1)
proof (cases rule: card_step.cases)
  case (card_write baridx offset sz val)
  then show ?thesis using e82545_write_inv [OF assms(2)] by blast
next
  case (card_read baridx offset sz v)
  then show ?thesis using e82545_read_inv [OF assms(2)] by blast
next
  case (card_cause bits)
  then show ?thesis
    using icr_assert_inv [OF assms(2), of bits] assms(3) by (auto simp: intr_frame_def)
next
  case card_timer
  then show ?thesis
    using itr_expires_inv [OF assms(2) card_timer(1) assms(3)] assms(3) by (auto simp: intr_frame_def)
qed

lemma card_steps_inv:
  assumes "(card_step dmap)\<^sup>*\<^sup>* sc sc'" "intr_inv sc" "mutex_free (esc_mtx sc)"
  shows "intr_inv sc' \<and> mutex_free (esc_mtx sc')"
  using assms
proof (induction rule: rtranclp_induct)
  case (step y z)
  then show ?case using card_step_inv by blast
qed simp

text \<open>The reset keeps the flag and lowers the line.\<close>

lemma reset_run:
  assumes "\<not> esc_rx_active (esc_rx sc)" "\<not> esc_tx_active (esc_tx sc)" "lintr_ok (esc_pi sc)"
  shows "\<exists>sc'. e82545_reset sc drvr = Some sc' \<and> lintr_ok (esc_pi sc') \<and>
    (esc_irq_asserted (esc_int sc) \<longrightarrow> \<not> requested (esc_pi sc')) \<and>
    esc_int sc' = reset_intr (esc_int sc) \<and> esc_mtx sc' = esc_mtx sc"
proof -
  obtain pi where pi: "pci_lintr_deassert (esc_pi sc) = Some pi" "lintr_ok pi" "\<not> requested pi"
    using lintr.down_ok [OF assms(3)] by blast
  then show ?thesis
    using assms
    by (simp add: e82545_reset_def e82545_rx_disable_def e82545_tx_disable_def
         on_pi_def Let_def e82545_init_eeprom_def)
qed

end
