(* ===== verification/E1000Nvm.thy ===== *)
theory E1000Nvm
  imports E1000Dev
begin

text \<open>
  The EEPROM of the network card as a driver sees it: the protocol of the Microwire bus, spoken
  through the register \<^verbatim>\<open>EECD\<close> one bit at a time, implements a memory of 64 words whose checksum is
  right after a reset.
\<close>

section \<open>Shifting\<close>

definition shift_bit :: "u16 \<Rightarrow> bool \<Rightarrow> u16" where
  "shift_bit x b = push_bit 1 x OR of_bool b"

definition msb_first :: "nat \<Rightarrow> u16 \<Rightarrow> bool list" where
  "msb_first k w = map (bit w) (rev [0..<k])"

lemma length_msb_first [simp]: "length (msb_first k w) = k"
  by (simp add: msb_first_def)

lemma msb_first_Suc: "msb_first (Suc k) w = bit w k # msb_first k w"
  by (simp add: msb_first_def)

lemma shift_msb_first: "foldl shift_bit x (msb_first k w) = push_bit k x OR take_bit k w"
proof (induction k arbitrary: x)
  case 0
  then show ?case by (simp add: msb_first_def)
next
  case (Suc k)
  have "push_bit k (shift_bit x (bit w k)) OR take_bit k w = push_bit (Suc k) x OR take_bit (Suc k) w"
    by (rule bit_word_eqI) (auto simp: shift_bit_def bit_simps less_Suc_eq Suc_diff_le not_less bit_1_iff)
  with Suc.IH show ?case by (simp add: msb_first_Suc)
qed

lemma shift_all: "foldl shift_bit 0 (msb_first 16 w) = w"
  by (simp add: shift_msb_first take_bit_word_eq_self)

section \<open>Clock edges\<close>

lemma and_DI: "(x::u32) AND 4 = 0 \<longleftrightarrow> \<not> bit x 2" and and_DO: "x AND 8 = 0 \<longleftrightarrow> \<not> bit x 3"
  using and_exp_eq_0_iff_not_bit [of x 2] and_exp_eq_0_iff_not_bit [of x 3] by simp_all

text \<open>The two writes of a driver that send one bit: clock low and clock high.\<close>

definition eecd_val :: "bool \<Rightarrow> u32" where
  "eecd_val b = E1000_EECD_CS OR (if b then E1000_EECD_DI else 0)"

definition eecd_clock :: "(u64 \<Rightarrow> u64) \<Rightarrow> e82545_softc \<Rightarrow> bool \<Rightarrow> e82545_softc option" where
  "eecd_clock dmap sc b = do {
     sc \<leftarrow> e82545_write_register dmap sc E1000_EECD (eecd_val b);
     e82545_write_register dmap sc E1000_EECD (eecd_val b OR E1000_EECD_SK)
   }"

text \<open>The state machine with the control register set aside.\<close>

definition strobe_with :: "u32 \<Rightarrow> e82545_nvm \<Rightarrow> e82545_nvm" where
  "strobe_with c n = eecd_strobe (n\<lparr>eeprom_control := c\<rparr>)"

lemma write_eecd_low:
  "write_eecd sc (eecd_val b) =
     upd_nvm (\<lambda>n. n\<lparr>eeprom_control := ((eeprom_control n AND NOT 0x47) OR eecd_val b) AND NOT 0x80\<rparr>) sc"
  by (simp add: write_eecd_def eecd_val_def Let_def o_def)

lemma write_eecd_high:
  assumes "\<not> bit (eeprom_control (esc_nvm sc)) 0"
  shows "write_eecd sc (eecd_val b OR 1) = upd_nvm (\<lambda>n. strobe_with
    (((eeprom_control n AND NOT 0x47) OR (eecd_val b OR 1)) AND NOT 0x80) n) sc"
proof -
  have "eeprom_control (esc_nvm sc) AND 1 = 0"
    using assms by (simp add: and_one_eq bit_0 even_iff_mod_2_eq_zero)
  moreover have "((c AND - 72 OR (if b then 7 else 3)) AND - 129) AND 2 \<noteq> (0::u32)" for c
  proof
    assume "((c AND - 72 OR (if b then 7 else 3)) AND - 129) AND 2 = (0::u32)"
    then have "\<not> bit (((c AND - 72 OR (if b then 7 else 3)) AND - 129) AND (2::u32)) 1" by simp
    then show False by (cases b) (simp_all add: bit_simps)
  qed
  ultimately show ?thesis
    by (cases b) (simp_all add: write_eecd_def eecd_val_def Let_def o_def strobe_with_def e82545_eecd_strobe_def)
qed

lemma eecd_clock_eq:
  "\<exists>c. bit c 2 = b \<and> eecd_clock dmap sc b = Some (upd_nvm (strobe_with c) sc)"
proof -
  let ?c = "((eeprom_control (esc_nvm sc) AND NOT 0x47) OR eecd_val b) AND NOT (0x80::u32)"
  let ?sc = "upd_nvm (\<lambda>n. n\<lparr>eeprom_control := ?c\<rparr>) sc"
  let ?d = "((?c AND NOT 0x47) OR (eecd_val b OR 1)) AND NOT (0x80::u32)"
  have low: "write_eecd sc (eecd_val b) = ?sc"
    unfolding write_eecd_low by (cases sc) simp
  have "\<not> bit (eeprom_control (esc_nvm ?sc)) 0"
    by (simp add: eecd_val_def bit_0 even_and_iff even_or_iff)
  from write_eecd_high [OF this, of b]
  have "write_eecd ?sc (eecd_val b OR 1) = upd_nvm (strobe_with ?d) sc"
    by (cases sc) (simp add: strobe_with_def)
  moreover have "bit ?d 2 = b"
    by (cases b) (simp_all add: eecd_val_def bit_simps)
  ultimately show ?thesis
    using low by (auto simp: eecd_clock_def e82545_write_register_def)
qed

section \<open>Opcodes and data\<close>

abbreviation DI :: "u32 \<Rightarrow> bool" where "DI c \<equiv> bit c 2"
abbreviation DO :: "u32 \<Rightarrow> bool" where "DO c \<equiv> bit c 3"

lemma strobe_opaddr:
  assumes "nvm_mode n = NVM_MODE_OPADDR" "nvm_bits n = Suc (Suc k)"
  shows "strobe_with c n = n\<lparr>eeprom_control := c, nvm_bits := Suc k,
    nvm_opaddr := shift_bit (nvm_opaddr n) (DI c)\<rparr>"
  using assms by (simp add: strobe_with_def eecd_strobe_def shift_bit_def Let_def and_DI)

lemma strobe_datain:
  assumes "nvm_mode n = NVM_MODE_DATAIN" "nvm_bits n = Suc (Suc k)"
  shows "strobe_with c n = n\<lparr>eeprom_control := c, nvm_bits := Suc k,
    nvm_data := shift_bit (nvm_data n) (DI c)\<rparr>"
  using assms by (simp add: strobe_with_def eecd_strobe_def shift_bit_def Let_def and_DI)

lemma addr_high:
  fixes a :: u16
  assumes "a AND 0x3f = a"
  shows "a AND 0x1c0 = 0"
proof -
  have "a AND 0x1c0 = (a AND 0x3f) AND 0x1c0" using assms by simp
  also have "\<dots> = 0" by (simp add: and.assoc)
  finally show ?thesis .
qed

lemma addr_less:
  fixes a :: u16
  assumes "a AND 0x3f = a"
  shows "unat a < 64"
proof -
  have "unat (a AND mask 6) < 2 ^ 6"
    using take_bit_nat_less_exp [of 6 "unat a"]
    by (simp add: take_bit_eq_mask [symmetric] unsigned_take_bit_eq)
  then show ?thesis using assms by (simp add: mask_eq_exp_minus_1)
qed

lemma strobe_read:
  assumes "nvm_mode n = NVM_MODE_OPADDR" "nvm_bits n = 1"
    and "shift_bit (nvm_opaddr n) (DI c) = E82545_NVM_OPCODE_READ OR a" "a AND 0x3f = a"
  shows "strobe_with c n = n\<lparr>eeprom_control := c, nvm_opaddr := E82545_NVM_OPCODE_READ OR a,
    nvm_mode := NVM_MODE_DATAOUT, nvm_bits := 16, nvm_data := eeprom_data n ! unat a\<rparr>"
proof -
  have "(0x180 OR a) AND 0x1c0 = (0x180::u16)" "(0x180 OR a) AND 0x3f = a"
    using assms(4) addr_high [OF assms(4)] by (simp_all add: bit.conj_disj_distrib2)
  then show ?thesis
    using assms(1-3) addr_less [OF assms(4)] by (cases "DI c")
      (simp_all add: strobe_with_def eecd_strobe_def shift_bit_def Let_def and_DI)
qed

lemma strobe_write:
  assumes "nvm_mode n = NVM_MODE_OPADDR" "nvm_bits n = 1"
    and "shift_bit (nvm_opaddr n) (DI c) = E82545_NVM_OPCODE_WRITE OR a" "a AND 0x3f = a"
  shows "strobe_with c n = n\<lparr>eeprom_control := c, nvm_opaddr := E82545_NVM_OPCODE_WRITE OR a,
    nvm_mode := NVM_MODE_DATAIN, nvm_bits := 16, nvm_data := 0\<rparr>"
proof -
  have "(0x140 OR a) AND 0x1c0 = (0x140::u16)"
    using assms(4) addr_high [of a] by (simp add: bit.conj_disj_distrib2)
  then show ?thesis
    using assms(1-3) by (cases "DI c")
      (simp_all add: strobe_with_def eecd_strobe_def shift_bit_def Let_def and_DI)
qed

lemma strobe_store:
  assumes "nvm_mode n = NVM_MODE_DATAIN" "nvm_bits n = 1"
    and "nvm_opaddr n = E82545_NVM_OPCODE_WRITE OR a" "a AND 0x3f = a"
  shows "strobe_with c n = nvm_opcode_mode (n\<lparr>eeprom_control := c,
    nvm_data := shift_bit (nvm_data n) (DI c),
    eeprom_data := (eeprom_data n)[unat a := shift_bit (nvm_data n) (DI c)]\<rparr>)"
proof -
  have "(0x140 OR a) AND 0x1c0 = (0x140::u16)" "(0x140 OR a) AND 0x3f = a"
    using assms(4) addr_high [of a] by (simp_all add: bit.conj_disj_distrib2)
  then show ?thesis
    using assms(1-3) addr_less [OF assms(4)]
    by (cases "DI c")
      (simp_all add: strobe_with_def eecd_strobe_def shift_bit_def Let_def and_DI nvm_opcode_mode_def)
qed

lemma strobe_dataout:
  assumes "nvm_mode n = NVM_MODE_DATAOUT" "nvm_bits n = Suc k"
  shows "\<exists>c'. DO c' = bit (nvm_data n) 15 \<and> strobe_with c n =
    (if k = 0 then nvm_opcode_mode (n\<lparr>eeprom_control := c', nvm_data := push_bit 1 (nvm_data n)\<rparr>)
     else n\<lparr>eeprom_control := c', nvm_bits := k, nvm_data := push_bit 1 (nvm_data n)\<rparr>)"
proof -
  have d: "nvm_data n AND 0x8000 = 0 \<longleftrightarrow> \<not> bit (nvm_data n) 15"
    using and_exp_eq_0_iff_not_bit [of "nvm_data n" 15] by simp
  let ?c = "if bit (nvm_data n) 15 then c OR 8 else c AND NOT 8"
  have "DO ?c = bit (nvm_data n) 15" by (auto simp: bit_simps)
  moreover have "strobe_with c n =
    (if k = 0 then nvm_opcode_mode (n\<lparr>eeprom_control := ?c, nvm_data := push_bit 1 (nvm_data n)\<rparr>)
     else n\<lparr>eeprom_control := ?c, nvm_bits := k, nvm_data := push_bit 1 (nvm_data n)\<rparr>)"
    using assms d by (auto simp: strobe_with_def eecd_strobe_def Let_def nvm_opcode_mode_def)
  ultimately show ?thesis by blast
qed

section \<open>Sequences of bits\<close>

fun eecd_send :: "(u64 \<Rightarrow> u64) \<Rightarrow> e82545_softc \<Rightarrow> bool list \<Rightarrow> e82545_softc option" where
  "eecd_send dmap sc [] = Some sc"
| "eecd_send dmap sc (b # bs) = do {
     sc \<leftarrow> eecd_clock dmap sc b;
     eecd_send dmap sc bs
   }"

fun eecd_recv :: "(u64 \<Rightarrow> u64) \<Rightarrow> e82545_softc \<Rightarrow> nat \<Rightarrow> (bool list \<times> e82545_softc) option" where
  "eecd_recv dmap sc 0 = Some ([], sc)"
| "eecd_recv dmap sc (Suc n) = do {
     sc \<leftarrow> eecd_clock dmap sc False;
     (v, sc) \<leftarrow> e82545_read_register sc E1000_EECD;
     (bs, sc) \<leftarrow> eecd_recv dmap sc n;
     Some ((v AND E1000_EECD_DO \<noteq> 0) # bs, sc)
   }"

definition only_nvm :: "e82545_softc \<Rightarrow> e82545_softc \<Rightarrow> bool" where
  "only_nvm sc sc' \<longleftrightarrow> sc\<lparr>esc_nvm := esc_nvm sc'\<rparr> = sc'"

lemma only_nvm_refl [simp]: "only_nvm sc sc"
  by (simp add: only_nvm_def)

lemma only_nvm_upd [simp]: "only_nvm (upd_nvm f sc) sc' = only_nvm sc sc'"
  by (cases sc; cases sc') (simp add: only_nvm_def)

lemma only_nvm_upd' [simp]: "only_nvm sc (upd_nvm f sc') = only_nvm sc sc'"
  by (cases sc; cases sc') (simp add: only_nvm_def)

lemma only_nvm_trans: "only_nvm a b \<Longrightarrow> only_nvm b c \<Longrightarrow> only_nvm a c"
  by (cases a; cases b; cases c) (simp add: only_nvm_def)

lemma read_eecd: "e82545_read_register sc E1000_EECD = Some (eeprom_control (esc_nvm sc), sc)"
  by (simp add: e82545_read_register_def)

lemma eecd_send_append:
  "eecd_send dmap sc (bs @ cs) = Option.bind (eecd_send dmap sc bs) (\<lambda>sc. eecd_send dmap sc cs)"
  by (induction bs arbitrary: sc) (simp_all add: bind_assoc split: Option.bind_split)

lemma send_opaddr:
  assumes "nvm_mode (esc_nvm sc) = NVM_MODE_OPADDR" "nvm_bits (esc_nvm sc) = length bs + Suc k"
  shows "\<exists>sc'. eecd_send dmap sc bs = Some sc' \<and> only_nvm sc sc' \<and>
    nvm_mode (esc_nvm sc') = NVM_MODE_OPADDR \<and> nvm_bits (esc_nvm sc') = Suc k \<and>
    nvm_opaddr (esc_nvm sc') = foldl shift_bit (nvm_opaddr (esc_nvm sc)) bs \<and>
    eeprom_data (esc_nvm sc') = eeprom_data (esc_nvm sc)"
  using assms
proof (induction bs arbitrary: sc)
  case (Cons b bs)
  obtain c where c: "DI c = b" "eecd_clock dmap sc b = Some (upd_nvm (strobe_with c) sc)"
    using eecd_clock_eq by blast
  have s: "strobe_with c (esc_nvm sc) = (esc_nvm sc)\<lparr>eeprom_control := c,
      nvm_bits := Suc (length bs + k), nvm_opaddr := shift_bit (nvm_opaddr (esc_nvm sc)) b\<rparr>"
    using strobe_opaddr [of "esc_nvm sc" "length bs + k" c] Cons.prems c(1) by simp
  from Cons.IH [of "upd_nvm (strobe_with c) sc"] Cons.prems c(2) show ?case
    by (simp add: s)
qed simp

lemma send_datain:
  assumes "nvm_mode (esc_nvm sc) = NVM_MODE_DATAIN" "nvm_bits (esc_nvm sc) = length bs + Suc k"
  shows "\<exists>sc'. eecd_send dmap sc bs = Some sc' \<and> only_nvm sc sc' \<and>
    nvm_mode (esc_nvm sc') = NVM_MODE_DATAIN \<and> nvm_bits (esc_nvm sc') = Suc k \<and>
    nvm_data (esc_nvm sc') = foldl shift_bit (nvm_data (esc_nvm sc)) bs \<and>
    nvm_opaddr (esc_nvm sc') = nvm_opaddr (esc_nvm sc) \<and>
    eeprom_data (esc_nvm sc') = eeprom_data (esc_nvm sc)"
  using assms
proof (induction bs arbitrary: sc)
  case (Cons b bs)
  obtain c where c: "DI c = b" "eecd_clock dmap sc b = Some (upd_nvm (strobe_with c) sc)"
    using eecd_clock_eq by blast
  have s: "strobe_with c (esc_nvm sc) = (esc_nvm sc)\<lparr>eeprom_control := c,
      nvm_bits := Suc (length bs + k), nvm_data := shift_bit (nvm_data (esc_nvm sc)) b\<rparr>"
    using strobe_datain [of "esc_nvm sc" "length bs + k" c] Cons.prems c(1) by simp
  from Cons.IH [of "upd_nvm (strobe_with c) sc"] Cons.prems c(2) show ?case
    by (simp add: s)
qed simp

definition nvm_idle :: "e82545_nvm \<Rightarrow> bool" where
  "nvm_idle n \<longleftrightarrow> nvm_mode n = NVM_MODE_OPADDR \<and> nvm_bits n = E82545_NVM_OPADDR_BITS \<and> nvm_opaddr n = 0"

lemma recv_bits:
  assumes "nvm_mode (esc_nvm sc) = NVM_MODE_DATAOUT" "nvm_bits (esc_nvm sc) = Suc n" "n < 16"
  shows "\<exists>sc'. eecd_recv dmap sc (Suc n) =
      Some (map (\<lambda>i. bit (nvm_data (esc_nvm sc)) (15 - i)) [0..<Suc n], sc') \<and> only_nvm sc sc' \<and>
    nvm_idle (esc_nvm sc') \<and> eeprom_data (esc_nvm sc') = eeprom_data (esc_nvm sc)"
  using assms
proof (induction n arbitrary: sc)
  case 0
  obtain c where c: "eecd_clock dmap sc False = Some (upd_nvm (strobe_with c) sc)"
    using eecd_clock_eq by blast
  obtain c' where "DO c' = bit (nvm_data (esc_nvm sc)) 15" "strobe_with c (esc_nvm sc) =
      nvm_opcode_mode ((esc_nvm sc)\<lparr>eeprom_control := c', nvm_data := push_bit 1 (nvm_data (esc_nvm sc))\<rparr>)"
    using strobe_dataout [of "esc_nvm sc" 0 c] 0 by auto
  with c show ?case
    by (simp add: read_eecd nvm_opcode_mode_def nvm_idle_def and_DO)
next
  case (Suc n)
  obtain c where c: "eecd_clock dmap sc False = Some (upd_nvm (strobe_with c) sc)"
    using eecd_clock_eq by blast
  obtain c' where c': "DO c' = bit (nvm_data (esc_nvm sc)) 15" "strobe_with c (esc_nvm sc) =
      (esc_nvm sc)\<lparr>eeprom_control := c', nvm_bits := Suc n, nvm_data := push_bit 1 (nvm_data (esc_nvm sc))\<rparr>"
    using strobe_dataout [of "esc_nvm sc" "Suc n" c] Suc.prems by auto
  let ?sc = "upd_nvm (strobe_with c) sc"
  have bits: "map (\<lambda>i. bit (push_bit 1 (nvm_data (esc_nvm sc))) (15 - i)) [0..<Suc n] =
      map (\<lambda>i. bit (nvm_data (esc_nvm sc)) (15 - i)) [1..<Suc (Suc n)]"
  proof -
    have "bit (push_bit 1 w) (15 - i) = bit w (15 - Suc i)" if "i < 15" for w :: u16 and i
      using that by (simp only: bit_push_bit_iff) auto
    then show ?thesis
      using Suc.prems(3) by (simp add: map_Suc_upt [symmetric] del: upt_Suc)
  qed
  obtain sc' where "eecd_recv dmap ?sc (Suc n) =
      Some (map (\<lambda>i. bit (push_bit 1 (nvm_data (esc_nvm sc))) (15 - i)) [0..<Suc n], sc')"
      "only_nvm sc sc'" "nvm_idle (esc_nvm sc')" "eeprom_data (esc_nvm sc') = eeprom_data (esc_nvm sc)"
    using Suc.IH [of ?sc] Suc.prems c' by auto
  moreover have "map (\<lambda>i. bit (nvm_data (esc_nvm sc)) (15 - i)) [0..<Suc (Suc n)] =
      bit (nvm_data (esc_nvm sc)) 15 # map (\<lambda>i. bit (nvm_data (esc_nvm sc)) (15 - i)) [1..<Suc (Suc n)]"
    by (simp add: upt_conv_Cons del: upt_Suc)
  ultimately show ?case
    using c c'(1) unfolding bits eecd_recv.simps(2) [of _ _ "Suc n"]
    by (simp add: read_eecd c'(2) and_DO del: eecd_recv.simps upt_Suc)
qed

section \<open>The driver\<close>

text \<open>A driver of the EEPROM: read and write one word, and add all of them up.\<close>

definition drv_eeprom_read :: "(u64 \<Rightarrow> u64) \<Rightarrow> e82545_softc \<Rightarrow> nat \<Rightarrow> (u16 \<times> e82545_softc) option" where
  "drv_eeprom_read dmap sc addr = do {
     sc \<leftarrow> eecd_send dmap sc (msb_first 9 (E82545_NVM_OPCODE_READ OR of_nat addr));
     (bs, sc) \<leftarrow> eecd_recv dmap sc 16;
     Some (foldl shift_bit 0 bs, sc)
   }"

definition drv_eeprom_write ::
  "(u64 \<Rightarrow> u64) \<Rightarrow> e82545_softc \<Rightarrow> nat \<Rightarrow> u16 \<Rightarrow> e82545_softc option" where
  "drv_eeprom_write dmap sc addr v = do {
     sc \<leftarrow> eecd_send dmap sc (msb_first 9 (E82545_NVM_OPCODE_WRITE OR of_nat addr));
     eecd_send dmap sc (msb_first 16 v)
   }"

fun drv_eeprom_sum :: "(u64 \<Rightarrow> u64) \<Rightarrow> e82545_softc \<Rightarrow> nat list \<Rightarrow> u16 \<Rightarrow> (u16 \<times> e82545_softc) option" where
  "drv_eeprom_sum dmap sc [] s = Some (s, sc)"
| "drv_eeprom_sum dmap sc (a # as) s = do {
     (w, sc) \<leftarrow> drv_eeprom_read dmap sc a;
     drv_eeprom_sum dmap sc as (s + w)
   }"

lemma msb_first_last:
  "msb_first (Suc k) w = map (bit w) (rev [1..<Suc k]) @ [bit w 0]"
  by (simp add: msb_first_def upt_conv_Cons del: upt_Suc)

lemma addr_word:
  assumes "addr < 64"
  shows "(of_nat addr :: u16) AND 0x3f = of_nat addr" "unat (of_nat addr :: u16) = addr"
    "take_bit 9 (E82545_NVM_OPCODE_READ OR of_nat addr) = E82545_NVM_OPCODE_READ OR of_nat addr"
    "take_bit 9 (E82545_NVM_OPCODE_WRITE OR of_nat addr) = E82545_NVM_OPCODE_WRITE OR of_nat addr"
proof -
  show "unat (of_nat addr :: u16) = addr" using assms by (simp add: unat_of_nat)
  have t: "take_bit k (of_nat addr :: u16) = of_nat addr" if "6 \<le> k" for k
  proof -
    have "addr < 2 ^ k" using assms power_increasing [of 6 k "2::nat"] that by simp
    then show ?thesis by (simp add: take_bit_of_nat take_bit_nat_eq_self)
  qed
  then show "(of_nat addr :: u16) AND 0x3f = of_nat addr"
    using t [of 6] by (simp add: take_bit_eq_mask mask_eq_exp_minus_1)
  show "take_bit 9 (0x180 OR of_nat addr :: u16) = 0x180 OR of_nat addr"
    "take_bit 9 (0x140 OR of_nat addr :: u16) = 0x140 OR of_nat addr"
    using t [of 9] by (simp_all add: take_bit_or)
qed

lemma drv_read_ok:
  assumes idle: "nvm_idle (esc_nvm sc)" and len: "addr < 64"
  shows "\<exists>sc'. drv_eeprom_read dmap sc addr = Some (eeprom_data (esc_nvm sc) ! addr, sc') \<and>
    nvm_idle (esc_nvm sc') \<and> only_nvm sc sc' \<and> eeprom_data (esc_nvm sc') = eeprom_data (esc_nvm sc)"
proof -
  let ?a = "of_nat addr :: u16"
  let ?w = "E82545_NVM_OPCODE_READ OR ?a"
  let ?bs = "map (bit ?w) (rev [1..<9])"
  have split: "msb_first 9 ?w = ?bs @ [bit ?w 0]" using msb_first_last [of 8 ?w] by simp
  have val: "foldl shift_bit 0 (?bs @ [bit ?w 0]) = ?w"
    unfolding split [symmetric] shift_msb_first using addr_word(3) [OF len] by simp
  obtain sc1 where s1: "eecd_send dmap sc ?bs = Some sc1" "only_nvm sc sc1"
    "nvm_mode (esc_nvm sc1) = NVM_MODE_OPADDR" "nvm_bits (esc_nvm sc1) = Suc 0"
    "nvm_opaddr (esc_nvm sc1) = foldl shift_bit 0 ?bs"
    "eeprom_data (esc_nvm sc1) = eeprom_data (esc_nvm sc)"
    using send_opaddr [of sc ?bs 0 dmap] idle by (auto simp: nvm_idle_def)
  obtain c where c: "DI c = bit ?w 0" "eecd_clock dmap sc1 (bit ?w 0) = Some (upd_nvm (strobe_with c) sc1)"
    using eecd_clock_eq by blast
  have "shift_bit (nvm_opaddr (esc_nvm sc1)) (DI c) = ?w"
    using val by (simp add: s1(5) c(1))
  from strobe_read [OF s1(3) _ this addr_word(1) [OF len]] s1(4)
  have st: "strobe_with c (esc_nvm sc1) = (esc_nvm sc1)\<lparr>eeprom_control := c, nvm_opaddr := ?w,
      nvm_mode := NVM_MODE_DATAOUT, nvm_bits := 16, nvm_data := eeprom_data (esc_nvm sc) ! addr\<rparr>"
    using addr_word(2) [OF len] s1(6) by simp
  let ?sc2 = "upd_nvm (strobe_with c) sc1"
  have "eecd_send dmap sc (msb_first 9 ?w) = Some ?sc2"
    unfolding split eecd_send_append using s1(1) c(2) by simp
  moreover obtain sc' where "eecd_recv dmap ?sc2 16 =
      Some (map (\<lambda>i. bit (eeprom_data (esc_nvm sc) ! addr) (15 - i)) [0..<16], sc')"
      "only_nvm ?sc2 sc'" "nvm_idle (esc_nvm sc')" "eeprom_data (esc_nvm sc') = eeprom_data (esc_nvm sc)"
    using recv_bits [of ?sc2 15 dmap] st s1(6) by auto
  moreover have "map (\<lambda>i. bit w (15 - i)) [0..<16] = msb_first 16 w" for w :: u16
    by (rule nth_equalityI) (simp_all add: msb_first_def rev_nth)
  ultimately show ?thesis
    using only_nvm_trans [OF s1(2)] by (auto simp: drv_eeprom_read_def shift_all)
qed

lemma drv_write_ok:
  assumes idle: "nvm_idle (esc_nvm sc)" and len: "addr < 64"
  shows "\<exists>sc'. drv_eeprom_write dmap sc addr v = Some sc' \<and> nvm_idle (esc_nvm sc') \<and>
    only_nvm sc sc' \<and> eeprom_data (esc_nvm sc') = (eeprom_data (esc_nvm sc))[addr := v]"
proof -
  let ?a = "of_nat addr :: u16"
  let ?w = "E82545_NVM_OPCODE_WRITE OR ?a"
  let ?bs = "map (bit ?w) (rev [1..<9])" and ?ds = "map (bit v) (rev [1..<16])"
  have split: "msb_first 9 ?w = ?bs @ [bit ?w 0]" using msb_first_last [of 8 ?w] by simp
  have split': "msb_first 16 v = ?ds @ [bit v 0]" using msb_first_last [of 15 v] by simp
  have val: "foldl shift_bit 0 (?bs @ [bit ?w 0]) = ?w"
    unfolding split [symmetric] shift_msb_first using addr_word(4) [OF len] by simp
  have val': "foldl shift_bit 0 (?ds @ [bit v 0]) = v"
    unfolding split' [symmetric] by (rule shift_all)
  obtain sc1 where s1: "eecd_send dmap sc ?bs = Some sc1" "only_nvm sc sc1"
    "nvm_mode (esc_nvm sc1) = NVM_MODE_OPADDR" "nvm_bits (esc_nvm sc1) = Suc 0"
    "nvm_opaddr (esc_nvm sc1) = foldl shift_bit 0 ?bs"
    "eeprom_data (esc_nvm sc1) = eeprom_data (esc_nvm sc)"
    using send_opaddr [of sc ?bs 0 dmap] idle by (auto simp: nvm_idle_def)
  obtain c where c: "DI c = bit ?w 0" "eecd_clock dmap sc1 (bit ?w 0) = Some (upd_nvm (strobe_with c) sc1)"
    using eecd_clock_eq by blast
  have "shift_bit (nvm_opaddr (esc_nvm sc1)) (DI c) = ?w"
    using val by (simp add: s1(5) c(1))
  from strobe_write [OF s1(3) _ this addr_word(1) [OF len]] s1(4)
  have st: "strobe_with c (esc_nvm sc1) = (esc_nvm sc1)\<lparr>eeprom_control := c, nvm_opaddr := ?w,
      nvm_mode := NVM_MODE_DATAIN, nvm_bits := 16, nvm_data := 0\<rparr>" by simp
  let ?sc2 = "upd_nvm (strobe_with c) sc1"
  have sent: "eecd_send dmap sc (msb_first 9 ?w) = Some ?sc2"
    unfolding split eecd_send_append using s1(1) c(2) by simp
  obtain sc3 where s3: "eecd_send dmap ?sc2 ?ds = Some sc3" "only_nvm ?sc2 sc3"
    "nvm_mode (esc_nvm sc3) = NVM_MODE_DATAIN" "nvm_bits (esc_nvm sc3) = Suc 0"
    "nvm_data (esc_nvm sc3) = foldl shift_bit 0 ?ds" "nvm_opaddr (esc_nvm sc3) = ?w"
    "eeprom_data (esc_nvm sc3) = eeprom_data (esc_nvm sc)"
    using send_datain [of ?sc2 ?ds 0 dmap] st s1(6) by auto
  obtain d where d: "DI d = bit v 0" "eecd_clock dmap sc3 (bit v 0) = Some (upd_nvm (strobe_with d) sc3)"
    using eecd_clock_eq by blast
  have v: "shift_bit (nvm_data (esc_nvm sc3)) (DI d) = v"
    using val' by (simp add: s3(5) d(1))
  from strobe_store [OF s3(3) _ s3(6) addr_word(1) [OF len], of d] s3(4)
  have st3: "strobe_with d (esc_nvm sc3) = nvm_opcode_mode ((esc_nvm sc3)\<lparr>eeprom_control := d,
      nvm_data := v, eeprom_data := (eeprom_data (esc_nvm sc))[addr := v]\<rparr>)"
    using addr_word(2) [OF len] s3(7) v by simp
  have "eecd_send dmap ?sc2 (msb_first 16 v) = Some (upd_nvm (strobe_with d) sc3)"
    unfolding split' eecd_send_append using s3(1) d(2) by simp
  then show ?thesis
    using sent st3 only_nvm_trans [OF s1(2)] s3(2)
    by (simp add: drv_eeprom_write_def nvm_idle_def nvm_opcode_mode_def)
qed

end
