(* ===== verification/E1000Rx.thy ===== *)
theory E1000Rx
  imports E1000Xmit "HOL-Library.Signed_Division"
begin

text \<open>
  The receive path of \<^verbatim>\<open>bhyve/pci_e82545.c\<close>: \<^verbatim>\<open>e82545_tap_callback\<close> fills the receive ring from
  the network, one packet at a time. A receive descriptor has 16 bytes: buffer address, length,
  checksum, status, errors, special. The remainder of C truncates towards zero (\<open>smod\<close>) and is
  undefined for a divisor of zero.
\<close>

section \<open>Receive descriptors\<close>

abbreviation (input) "E1000_RXD_STAT_DD \<equiv> (0x01::u8)"
abbreviation (input) "E1000_RXD_STAT_EOP \<equiv> (0x02::u8)"
abbreviation (input) "E1000_RXD_STAT_IXSM \<equiv> (0x04::u8)"
abbreviation (input) "E1000_RXD_STAT_PIF \<equiv> (0x80::u8)"
abbreviation (input) "ETHER_MIN_LEN \<equiv> (64::int)"
abbreviation (input) "ETHER_CRC_LEN \<equiv> (4::int)"

definition rxd_addr :: "u64 \<Rightarrow> nat \<Rightarrow> u64" where
  "rxd_addr base i = base + 16 * of_nat i"

definition rxd_buffer_addr :: "host_memory \<Rightarrow> u64 \<Rightarrow> u64" where
  "rxd_buffer_addr m rxd = mem_get64 m rxd"

text \<open>The fields after the address, in the order of the structure.\<close>

definition rxd_write :: "host_memory \<Rightarrow> u64 \<Rightarrow> u16 \<Rightarrow> u8 \<Rightarrow> host_memory" where
  "rxd_write m rxd len status =
     mem_store m (rxd + 8) [ucast len, ucast (drop_bit 8 len), 0, 0, status, 0, 0, 0]"

fun rxd_fill :: "u64 \<Rightarrow> nat \<Rightarrow> nat \<Rightarrow> nat \<Rightarrow> nat \<Rightarrow> host_memory \<Rightarrow> host_memory" where
  "rxd_fill base dsize head bufsz 0 m = m"
| "rxd_fill base dsize head bufsz (Suc n) m =
     rxd_fill base dsize (head + 1) bufsz n
       (rxd_write m (rxd_addr base (head mod dsize)) (of_nat bufsz) E1000_RXD_STAT_DD)"

section \<open>One packet\<close>

definition crem :: "int \<Rightarrow> int \<Rightarrow> int option" where
  "crem a b = (if b = 0 then None else Some (a smod b))"

definition rx_vec :: "(u64 \<Rightarrow> u64) \<Rightarrow> host_memory \<Rightarrow> u64 \<Rightarrow> nat \<Rightarrow> nat \<Rightarrow> nat \<Rightarrow> nat \<Rightarrow> iovec list" where
  "rx_vec dmap m base dsize head bufsz cnt = map (\<lambda>i. \<lparr>
     iov_base = Host (paddr_guest2host dmap
       (rxd_buffer_addr m (rxd_addr base ((head + i) mod dsize))) (of_nat bufsz)),
     iov_len = bufsz\<rparr>) [0..<cnt]"

text \<open>The length with the minimum of Ethernet and the checksum that is not stripped.\<close>

definition rx_len :: "u32 \<Rightarrow> int \<Rightarrow> int" where
  "rx_len rctl len =
     (let len = (if len < ETHER_MIN_LEN - ETHER_CRC_LEN then ETHER_MIN_LEN - ETHER_CRC_LEN else len)
      in if rctl AND E1000_RCTL_SECRC = 0 then len + ETHER_CRC_LEN else len)"

text \<open>The VLAN filter, at bytes 12 to 15 of the packet: is the packet dropped?\<close>

definition vlan_dropped :: "e82545_softc \<Rightarrow> host_memory \<Rightarrow> iovec list \<Rightarrow> bool option" where
  "vlan_dropped sc m vec = (case vec of
     [] \<Rightarrow> None
   | v # _ \<Rightarrow> do {
       bs \<leftarrow> load_bytes [] m (mdx_incoffset (iov_base v) 12) 4;
       let proto = push_bit 8 (ucast (bs ! 0)) OR (ucast (bs ! 1) :: u32);
       let tag = (push_bit 8 (ucast (bs ! 2)) OR (ucast (bs ! 3) :: u16)) AND 0x0fff;
       if esc_RCTL (esc_rx sc) AND E1000_RCTL_VFE \<noteq> 0 \<and> proto = esc_VET (esc_gen sc)
       then do {
         assert_that (unat (drop_bit 5 tag) < length (esc_fvlan (esc_filt sc)));
         Some (esc_fvlan (esc_filt sc) ! unat (drop_bit 5 tag) AND
           push_bit (unat (tag AND 0x1f)) 1 = 0)
       }
       else Some False
     })"

section \<open>The loop\<close>

definition rx_cause :: "e82545_softc \<Rightarrow> int \<Rightarrow> u32" where
  "rx_cause sc len = (if of_int len \<le> esc_RSRPD (esc_rx sc)
     then E1000_ICR_SRPD OR E1000_ICR_RXT0 else E1000_ICR_RXT0)"

text \<open>
  A packet of an unknown VLAN consumes no descriptor and no part of the limit, so that the loop runs
  as long as such packets arrive.
\<close>

partial_function (option) rx_loop ::
  "(u64 \<Rightarrow> u64) \<Rightarrow> 'n net_reader \<Rightarrow> e82545_softc \<Rightarrow> u64 \<Rightarrow> nat \<Rightarrow> nat \<Rightarrow> nat \<Rightarrow>
     int \<Rightarrow> int \<Rightarrow> nat \<Rightarrow> u32 \<Rightarrow> 'n dm_world \<Rightarrow> (nat \<times> u32 \<times> 'n dm_world) option" where
  "rx_loop dmap vread sc base dsize bufsz maxpktdesc lim left head cause w =
     (if lim > 0 \<and> left \<ge> int maxpktdesc then
        let vec = rx_vec dmap (host_mem w) base dsize head bufsz maxpktdesc
        in Option.bind (dm_process_rx vread w vec) (\<lambda>(len, w).
          if len \<le> 0 then Some (head, cause, w)
          else
            let len = rx_len (esc_RCTL (esc_rx sc)) len;
                n = (len + int bufsz - 1) div int bufsz
            in Option.bind (vlan_dropped sc (host_mem w) vec) (\<lambda>dropped.
              if dropped then
                rx_loop dmap vread sc base dsize bufsz maxpktdesc lim left head cause w
              else
                let m = rxd_fill base dsize head bufsz (nat (n - 1)) (host_mem w);
                    m = rxd_write m (rxd_addr base ((head + nat (n - 1)) mod dsize))
                          (of_int (len mod int bufsz))
                          (E1000_RXD_STAT_PIF OR E1000_RXD_STAT_IXSM OR E1000_RXD_STAT_EOP OR
                           E1000_RXD_STAT_DD)
                in rx_loop dmap vread sc base dsize bufsz maxpktdesc (lim - n) (left - n)
                     ((head + nat n) mod dsize) (cause OR rx_cause sc len) (w\<lparr>host_mem := m\<rparr>)))
      else Some (head, cause, w))"

text \<open>The receive ring after the loop: the new head, and the causes.\<close>

definition rx_finish :: "e82545_softc \<Rightarrow> nat \<Rightarrow> nat \<Rightarrow> u32 \<Rightarrow> e82545_softc option" where
  "rx_finish sc dsize head cause = do {
     sc \<leftarrow> lock_esc sc;
     let sc = upd_rx (\<lambda>r. r\<lparr>esc_rx_active := False, esc_RDH := of_nat head\<rparr>) sc;
     left \<leftarrow> crem (int dsize + int (unat (esc_RDT (esc_rx sc))) - int head) (int dsize);
     let sh = unat (drop_bit 8 (esc_RCTL (esc_rx sc)) AND 3) + 1;
     let cause = (if left < int (dsize div 2 ^ sh) then cause OR E1000_ICR_RXDMT0 else cause);
     if cause \<noteq> 0 then e82545_icr_assert sc cause else Some sc
   }"

definition maxpktdesc_of :: "u32 \<Rightarrow> nat" where
  "maxpktdesc_of rctl =
     ((if rctl AND E1000_RCTL_LPE \<noteq> 0 then 16384 else 1522) + e82545_bufsz rctl - 1)
       div e82545_bufsz rctl"

definition e82545_tap_callback ::
  "(u64 \<Rightarrow> u64) \<Rightarrow> 'n net_reader \<Rightarrow> e82545_softc \<Rightarrow> 'n dm_world \<Rightarrow> (e82545_softc \<times> 'n dm_world) option" where
  "e82545_tap_callback dmap vread sc w = do {
     sc \<leftarrow> lock_esc sc;
     (sc, w) \<leftarrow>
       (if \<not> esc_rx_enabled (esc_rx sc) \<or> esc_rx_loopback (esc_rx sc) then Some (sc, w)
        else do {
          let rctl = esc_RCTL (esc_rx sc);
          let bufsz = e82545_bufsz rctl;
          let maxpktdesc = maxpktdesc_of rctl;
          let dsize = unat (esc_RDLEN (esc_rx sc)) div 16;
          let head = unat (esc_RDH (esc_rx sc));
          left \<leftarrow> crem (int dsize + int (unat (esc_RDT (esc_rx sc))) - int head) (int dsize);
          if left < int maxpktdesc then Some (sc, w)
          else do {
            sc \<leftarrow> unlock_esc (upd_rx (\<lambda>r. r\<lparr>esc_rx_active := True\<rparr>) sc);
            base \<leftarrow> esc_rxdesc (esc_rx sc);
            (head, cause, w) \<leftarrow> rx_loop dmap vread sc base dsize bufsz maxpktdesc
              (int (dsize div 4)) left head 0 w;
            sc \<leftarrow> rx_finish sc dsize head cause;
            Some (sc, w)
          }
        });
     sc \<leftarrow> unlock_esc sc;
     Some (sc, w)
   }"

definition e82545_rx_event ::
  "(u64 \<Rightarrow> u64) \<Rightarrow> 'n net_reader \<Rightarrow> e82545_softc \<Rightarrow> 'n dm_world \<Rightarrow> (e82545_softc \<times> 'n dm_world) option" where
  "e82545_rx_event dmap vread sc w = e82545_tap_callback dmap vread sc w"

end
