(* ===== verification/E1000Props.thy ===== *)
theory E1000Props
  imports E1000TxProps E1000IntrProps E1000Nvm E1000Rx
begin

text \<open>
  The properties of the network card: interrupts, EEPROM, receive addresses, checksums,
  segmentation, the transmit ring, and what the guest can do to stop the device model.
\<close>

section \<open>Lemmas\<close>

lemma drv_sum_ok:
  assumes "nvm_idle (esc_nvm sc)" "set as \<subseteq> {..<64}"
  shows "\<exists>sc'. drv_eeprom_sum dmap sc as s = Some (s + sum_list (map ((!) (eeprom_data (esc_nvm sc))) as), sc') \<and>
    nvm_idle (esc_nvm sc') \<and> eeprom_data (esc_nvm sc') = eeprom_data (esc_nvm sc)"
  using assms
proof (induction as arbitrary: sc s)
  case (Cons a as)
  obtain sc1 where r: "drv_eeprom_read dmap sc a = Some (eeprom_data (esc_nvm sc) ! a, sc1)"
    "nvm_idle (esc_nvm sc1)" "eeprom_data (esc_nvm sc1) = eeprom_data (esc_nvm sc)"
    using drv_read_ok [OF Cons.prems(1), of a dmap] Cons.prems(2) by auto
  from Cons.IH [OF r(2), of "s + eeprom_data (esc_nvm sc) ! a"] Cons.prems(2) r show ?case
    by (simp add: add.assoc)
qed simp

lemma fold_add: "fold (\<lambda>w s. s + w) ws (s :: u16) = s + sum_list ws"
  by (induction ws arbitrary: s) (simp_all add: algebra_simps)

lemma sum_all_words:
  assumes "length d = 64" "d ! 63 = NVM_SUM - eeprom_checksum d"
  shows "sum_list (map ((!) d) [0..<64]) = NVM_SUM"
proof -
  have "[0..<64] = [0..<63] @ [63::nat]" by (simp add: upt_rec)
  moreover have "map ((!) d) [0..<63] = take 63 d"
    by (rule nth_equalityI) (use assms(1) in simp_all)
  ultimately have "sum_list (map ((!) d) [0..<64]) = sum_list (take 63 d) + d ! 63" by simp
  then show ?thesis using assms(2) by (simp add: eeprom_checksum_def fold_add)
qed

lemma init_eeprom_sum:
  assumes "length (eeprom_data (esc_nvm sc)) = 64"
  shows "sum_list (map ((!) (eeprom_data (esc_nvm (e82545_init_eeprom sc)))) [0..<64]) = NVM_SUM"
proof (rule sum_all_words)
  show "length (eeprom_data (esc_nvm (e82545_init_eeprom sc))) = 64"
    using assms by (simp add: e82545_init_eeprom_def Let_def)
  show "eeprom_data (esc_nvm (e82545_init_eeprom sc)) ! 63 =
      NVM_SUM - eeprom_checksum (eeprom_data (esc_nvm (e82545_init_eeprom sc)))"
    using assms by (simp add: e82545_init_eeprom_def Let_def eeprom_checksum_def)
qed

lemma reset_nvm:
  assumes "e82545_reset sc drvr = Some sc'" "length (eeprom_data (esc_nvm sc)) = 64"
  shows "nvm_idle (esc_nvm sc')"
    and "sum_list (map ((!) (eeprom_data (esc_nvm sc'))) [0..<64]) = NVM_SUM"
proof -
  let ?sc2 = "upd_nvm (\<lambda>n. (nvm_opcode_mode n)\<lparr>eeprom_control := 0x120\<rparr>) sc"
  have run: "esc_nvm sc' = esc_nvm (e82545_init_eeprom ?sc2)"
    using assms(1) by (auto simp: e82545_reset_def e82545_rx_disable_def e82545_tx_disable_def Let_def
        bind_eq_Some_conv on_pi_def e82545_init_eeprom_def split: if_splits)
  have "length (eeprom_data (esc_nvm ?sc2)) = 64"
    using assms(2) by (simp add: nvm_opcode_mode_def)
  then show "sum_list (map ((!) (eeprom_data (esc_nvm sc'))) [0..<64]) = NVM_SUM"
    unfolding run by (rule init_eeprom_sum)
  show "nvm_idle (esc_nvm sc')"
    unfolding run by (simp add: e82545_init_eeprom_def Let_def nvm_idle_def nvm_opcode_mode_def)
qed

text \<open>The bits of the high receive address register that exist.\<close>

lemma rah_bits:
  fixes u :: u32
  shows "push_bit 31 (of_bool (u AND 0x80000000 = 0x80000000)) OR push_bit 16 (drop_bit 16 u AND 3) OR
    push_bit 8 (ucast (ucast (drop_bit 8 u) :: u8)) OR ucast (ucast u :: u8) = u AND 0x8003FFFF"
proof (rule bit_word_eqI)
  fix n assume n: "n < LENGTH(32)"
  have m: "(0x8003FFFF :: u32) = push_bit 31 1 OR mask 18" "(3 :: u32) = mask 2"
    by (simp_all add: mask_eq_exp_minus_1)
  have top: "(u AND 0x80000000 = 0x80000000) = bit u 31"
  proof -
    have "u AND push_bit k 1 = push_bit k 1 \<longleftrightarrow> bit u k" if "k < 32" for k
    proof
      assume eq: "u AND push_bit k 1 = push_bit k 1"
      have "bit (u AND push_bit k 1) k = bit (push_bit k 1 :: u32) k" by (simp only: eq)
      then show "bit u k" using that by (simp add: bit_simps)
    next
      assume "bit u k"
      then show "u AND push_bit k 1 = push_bit k 1" by (intro bit_word_eqI) (auto simp: bit_simps)
    qed
    from this [of 31] show ?thesis by simp
  qed
  have hb: "bit (0x80000000 :: u32) n \<longleftrightarrow> n = 31"
  proof -
    have "bit (push_bit k 1 :: u32) n \<longleftrightarrow> n = k" if "k < 32" for k
      using n that by (auto simp: bit_simps)
    from this [of 31] show ?thesis by simp
  qed
  have hi: "bit (0x80000000 :: int) n \<longleftrightarrow> n = 31"
  proof -
    have "bit (push_bit k 1 :: int) n \<longleftrightarrow> n = k" for k
      by (auto simp: bit_simps)
    from this [of 31] show ?thesis by simp
  qed
  consider "n < 8" | "8 \<le> n" "n < 16" | "n = 16" | "n = 17" | "18 \<le> n" "n < 31" | "n = 31"
    using n by fastforce
  then show "bit (push_bit 31 (of_bool (u AND 0x80000000 = 0x80000000)) OR push_bit 16 (drop_bit 16 u AND 3) OR
    push_bit 8 (ucast (ucast (drop_bit 8 u) :: u8)) OR ucast (ucast u :: u8)) n = bit (u AND 0x8003FFFF) n"
    unfolding m top using hb hi by cases (auto simp: bit_simps)
qed

lemma ral_bits:
  fixes v :: u32
  shows "push_bit 24 (ucast (ucast (drop_bit 24 v) :: u8)) OR push_bit 16 (ucast (ucast (drop_bit 16 v) :: u8)) OR
    push_bit 8 (ucast (ucast (drop_bit 8 v) :: u8)) OR ucast (ucast v :: u8) = v"
  using le32_bytes [of v] by (simp add: ac_simps)

lemma drop_put_le16:
  assumes "s \<le> i" "i + 2 \<le> length xs"
  shows "drop s (put_le16 xs i v @ ys) = put_le16 (drop s (xs @ ys)) (i - s) v"
  using assms by (auto simp: put_le16_def drop_update_swap list_update_append Suc_diff_le)

section \<open>Interrupts\<close>


text \<open>C27. The interrupt logic makes progress: on a consistent card whose mutex is free, raising any
cause succeeds and records it, and when the throttling timer expires its callback returns and, if an
unmasked cause is pending, leaves the line requested.\<close>

theorem card_interrupts_delivered:
  assumes "intr_inv sc" "mutex_free (esc_mtx sc)"
  shows "(\<exists>sc'. e82545_icr_assert sc bits = Some sc' \<and> esc_ICR (esc_int sc') = esc_ICR (esc_int sc) OR bits) \<and>
    (mevpitr_callout (esc_int sc) \<noteq> None \<longrightarrow>
       (\<exists>sc'. itr_expires sc = Some sc' \<and> intr_inv sc' \<and>
         (esc_ICR (esc_int sc) AND esc_IMS (esc_int sc) \<noteq> 0 \<longrightarrow> requested (esc_pi sc'))))"
  using icr_assert_inv [OF assms(1), of bits] itr_expires_inv [OF assms(1) _ assms(2)]
  unfolding pending_def by blast

lemma icr_assert_asserted:
  assumes "esc_irq_asserted (esc_int sc)"
  shows "e82545_icr_assert sc bits = Some (upd_int (\<lambda>i. i\<lparr>esc_ICR := esc_ICR i OR bits\<rparr>) sc)"
  using assms by (simp add: e82545_icr_assert_def raise_irq_def Let_def)

lemma ims_change_asserted:
  assumes "esc_irq_asserted (esc_int sc)"
  shows "e82545_ims_change sc bits = Some (upd_int (\<lambda>i. i\<lparr>esc_IMS := esc_IMS i OR bits\<rparr>) sc)"
  using assms by (simp add: e82545_ims_change_def raise_irq_def Let_def)


section \<open>EEPROM and receive addresses\<close>

text \<open>C28. The EEPROM is a memory for a driver that speaks the Microwire protocol bit by bit through
the register EECD: a word that was written reads back, all other words keep their value, and the
state machine is idle again after each command.\<close>

theorem eeprom_write_read:
  assumes "nvm_idle (esc_nvm sc)" "a < 64" "b < 64" "length (eeprom_data (esc_nvm sc)) = 64"
  shows "\<exists>sc1 sc2. drv_eeprom_write dmap sc a v = Some sc1 \<and>
    drv_eeprom_read dmap sc1 b = Some (if b = a then v else eeprom_data (esc_nvm sc) ! b, sc2) \<and>
    nvm_idle (esc_nvm sc2)"
proof -
  obtain sc1 where w: "drv_eeprom_write dmap sc a v = Some sc1" "nvm_idle (esc_nvm sc1)"
    "eeprom_data (esc_nvm sc1) = (eeprom_data (esc_nvm sc))[a := v]"
    using drv_write_ok [OF assms(1,2), of dmap v] by blast
  from drv_read_ok [OF w(2) assms(3), of dmap] w assms(2,4) show ?thesis by auto
qed

text \<open>After any reset of the card a driver that reads all 64 words of the EEPROM through EECD and
adds them finds the sum 0xBABA that Intel prescribes.\<close>

lemma eeprom_checksum_valid:
  assumes "e82545_reset sc drvr = Some sc1" "length (eeprom_data (esc_nvm sc)) = 64"
  shows "\<exists>sc2. drv_eeprom_sum dmap sc1 [0..<64] 0 = Some (NVM_SUM, sc2)"
proof -
  have "set [0..<64] \<subseteq> {..<64::nat}" by auto
  from drv_sum_ok [OF reset_nvm(1) [OF assms] this, of dmap 0] reset_nvm(2) [OF assms] show ?thesis
    by auto
qed

text \<open>Receive addresses: the two registers of an address, written in order, read back, the high
one in the bits that exist (the valid bit, the select and two octets).\<close>

lemma receive_address_roundtrip:
  assumes "e82545_wf sc" "i < 15"
  shows "\<exists>sc1 sc2. e82545_write_ra sc (2 * i) lo = Some sc1 \<and> e82545_write_ra sc1 (2 * i + 1) hi = Some sc2 \<and>
    e82545_read_ra sc2 (2 * i) = Some lo \<and> e82545_read_ra sc2 (2 * i + 1) = Some (hi AND 0x8003FFFF)"
proof -
  let ?us = "esc_uni (esc_filt sc)"
  have "length ?us = 16" "length (eu_octet (?us ! i)) = 6"
    using assms by (simp_all add: e82545_wf_def)
  then show ?thesis
    using assms(2)
    by (simp add: e82545_write_ra_def e82545_read_ra_def Let_def ral_bits rah_bits [simplified])
qed


section \<open>Checksums and packets\<close>

text \<open>C25. The checksum over a vector equals the Internet checksum (one's complement sum of 16 bit
words) of the bytes it describes, however the packet is split into buffers, of even or odd lengths:
the byte swapping of the code at odd boundaries and its carries are right.\<close>

theorem iov_checksum_reference:
  assumes "iov_bytes hdr m iov = Some bs" "length bs \<le> MAX_CK_LEN" "length iov \<le> I82545_MAX_TXSEGS + 2"
  shows "e82545_iov_checksum hdr m iov off len = Some (inet_sum (take (nat len) (drop off bs)))"
  using assms by (rule iov_checksum_eq)


text \<open>C7. Segmentation: when the maximal segment size is positive and the checksum places lie in the
header, the loop ends, sends one packet for each started segment, every packet is a header of the
given length and at most a segment of payload, and the payloads in order are exactly the payload of
the guest.\<close>

theorem tso_partitions_payload:
  assumes "tso_ok c" "0 < tso_mss c" "host_iov pvs" "length pvs \<le> I82545_MAX_TXSEGS + 1"
    "length hdr = tso_hdrlen c"
  shows "\<exists>w' ps. tso_loop c 0 (tso_paylen c) pvs 0 hdr w = Some w' \<and>
    w' = w\<lparr>net_sent := net_sent w @ ps\<rparr> \<and>
    length ps = (tso_paylen c + tso_mss c - 1) div tso_mss c \<and>
    concat (map (drop (tso_hdrlen c)) ps) = take (tso_paylen c) (host_bytes (host_mem w) pvs) \<and>
    (\<forall>p\<in>set ps. tso_hdrlen c \<le> length p \<and> length p \<le> tso_hdrlen c + tso_mss c)"
  using tso_loop_ok [OF assms(1,2) _ assms(4,5), of 0 0 "tso_paylen c" w] assms(3)
  by (simp add: segments_def rest_bytes_def)

text \<open>C11. A packet in a chain of legacy descriptors is sent as the concatenation of its buffers, the
head moves behind it, and exactly the descriptors that ask for it are marked done, in ring order.\<close>

theorem transmit_sends_chain:
  assumes "esc_txdesc (esc_tx sc) = Some base"
    and "legacy_chain (host_mem w) base dsize head tail k"
    and "length (concat (map (\<lambda>i. txd_data dmap (host_mem w) (nth_txd base dsize head i)) [0..<k + 1]))
      < VIRTIO_MAX_BUF"
  shows "e82545_transmit dmap sc w head tail dsize tdwb =
    (let (m, wb) = fold (write_back base dsize head) [0..<k + 1] (host_mem w, tdwb)
     in Some (k + 1, (head + (k + 1)) mod dsize, wb, sc, w\<lparr>net_sent := net_sent w @
       [concat (map (\<lambda>i. txd_data dmap (host_mem w) (nth_txd base dsize head i)) [0..<k + 1])],
       host_mem := m\<rparr>))"
  using assms by (rule transmit_chain)


section \<open>Receive\<close>

lemma rx_vec_many:
  assumes "2 \<le> cnt"
  shows "\<exists>v vs b. rx_vec dmap m base dsize head bufsz cnt = \<lparr>iov_base = Host (paddr_guest2host dmap
      (rxd_buffer_addr m (rxd_addr base (head mod dsize))) (of_nat bufsz)), iov_len = bufsz\<rparr> # v # vs \<and>
    iov_base v = Host b \<and> iov_len v = bufsz"
proof -
  have "[0..<cnt] = 0 # 1 # [2..<cnt]" using assms by (simp add: upt_rec numeral_2_eq_2)
  then show ?thesis by (simp add: rx_vec_def)
qed

text \<open>C31. A packet is lost when its ring takes more than one descriptor per packet (buffers smaller
than the largest packet): the back end keeps reading after the packet, the last read finds nothing,
and the receive loop takes that for an empty network although the packet was consumed. The head does
not move and no cause is raised.\<close>

theorem receive_loses_packet:
  assumes "vread (net_state w) bufsz = (n, bs, st)" "n \<noteq> 0" "vread st bufsz = (0, [], st')"
    and "0 < lim" "int cnt \<le> left" "2 \<le> cnt"
  shows "rx_loop dmap vread sc base dsize bufsz cnt lim left head cause w = Some (head, cause,
    w\<lparr>host_mem := mem_store (host_mem w) (paddr_guest2host dmap
        (rxd_buffer_addr (host_mem w) (rxd_addr base (head mod dsize))) (of_nat bufsz)) bs,
      net_state := st'\<rparr>)"
proof -
  let ?a = "paddr_guest2host dmap (rxd_buffer_addr (host_mem w) (rxd_addr base (head mod dsize))) (of_nat bufsz)"
  obtain v vs b where v: "rx_vec dmap (host_mem w) base dsize head bufsz cnt =
      \<lparr>iov_base = Host ?a, iov_len = bufsz\<rparr> # v # vs" "iov_base v = Host b" "iov_len v = bufsz"
    using rx_vec_many [OF assms(6)] by blast
  then have "dm_process_rx vread w (rx_vec dmap (host_mem w) base dsize head bufsz cnt) =
      Some (0, w\<lparr>host_mem := mem_store (host_mem w) ?a bs, net_state := st'\<rparr>)"
    using assms(1-3) by (simp add: virtionet_read_def Let_def)
  then show ?thesis
    using assms(4,5) by (subst rx_loop.simps) (simp add: Let_def)
qed

end
