(* ===== verification/E1000Wf.thy ===== *)
theory E1000Wf
  imports E1000IntrProps
begin

text \<open>
  The type invariant of the network card: the arrays keep their sizes and the bit fields of the C
  structures, which the model holds in wider types, keep their ranges.
\<close>

section \<open>The invariant\<close>

definition eu_typed :: "eth_uni \<Rightarrow> bool" where
  "eu_typed eu \<longleftrightarrow> length (eu_octet eu) = 6 \<and> eu_addrsel eu < 4"

definition filt_typed :: "e82545_filter \<Rightarrow> bool" where
  "filt_typed f \<longleftrightarrow> length (esc_uni f) = 16 \<and> (\<forall>eu\<in>set (esc_uni f). eu_typed eu) \<and>
     length (esc_fmcast f) = 128 \<and> length (esc_fvlan f) = 128"

definition nvm_typed :: "e82545_nvm \<Rightarrow> bool" where
  "nvm_typed n \<longleftrightarrow> length (eeprom_data n) = E82545_NVM_EEPROM_SIZE \<and> nvm_bits n \<le> 16"

definition card_typed :: "e82545_softc \<Rightarrow> bool" where
  "card_typed sc \<longleftrightarrow> length (esc_mac sc) = 6 \<and> filt_typed (esc_filt sc) \<and> nvm_typed (esc_nvm sc)"

lemma card_typed_wf: "card_typed sc \<Longrightarrow> e82545_wf sc"
  by (simp add: card_typed_def e82545_wf_def filt_typed_def nvm_typed_def eu_typed_def)

text \<open>What the invariant does not look at.\<close>

definition same_arrays :: "e82545_softc \<Rightarrow> e82545_softc \<Rightarrow> bool" where
  "same_arrays sc sc' \<longleftrightarrow> esc_mac sc' = esc_mac sc \<and> esc_filt sc' = esc_filt sc \<and> esc_nvm sc' = esc_nvm sc"

lemma same_arrays_typed: "same_arrays sc sc' \<Longrightarrow> card_typed sc' = card_typed sc"
  by (simp add: same_arrays_def card_typed_def)

lemma card_typed_mtx [simp]: "card_typed (sc\<lparr>esc_mtx := m\<rparr>) = card_typed sc"
  by (simp add: card_typed_def)

section \<open>The operations\<close>

definition keeps_types :: "e82545_softc \<Rightarrow> e82545_softc option \<Rightarrow> bool" where
  "keeps_types sc r \<longleftrightarrow> (\<forall>sc'. card_typed sc \<longrightarrow> r = Some sc' \<longrightarrow> card_typed sc')"

lemma keeps_types_same: "(\<And>sc'. r = Some sc' \<Longrightarrow> same_arrays sc sc') \<Longrightarrow> keeps_types sc r"
  by (auto simp: keeps_types_def same_arrays_typed)

lemma keeps_types_if:
  "(b \<Longrightarrow> keeps_types sc x) \<Longrightarrow> (\<not> b \<Longrightarrow> keeps_types sc y) \<Longrightarrow> keeps_types sc (if b then x else y)"
  by simp

lemma keeps_types_assert [simp]:
  "keeps_types sc (f ()) \<Longrightarrow> keeps_types sc (Option.bind (assert_that b) f)"
  by (cases b) (simp_all add: keeps_types_def)

lemma keeps_types_Some [simp]: "same_arrays sc sc' \<Longrightarrow> keeps_types sc (Some sc')"
  by (rule keeps_types_same) simp

lemma raise_irq_arrays: "raise_irq sc new = Some sc' \<Longrightarrow> same_arrays sc sc'"
  by (auto simp: raise_irq_def on_pi_def same_arrays_def Let_def bind_eq_Some_conv split: if_splits)

lemma intr_arrays:
  "e82545_icr_assert sc bits = Some sc' \<Longrightarrow> same_arrays sc sc'"
  "e82545_ims_change sc bits = Some sc' \<Longrightarrow> same_arrays sc sc'"
  "e82545_icr_deassert sc bits = Some sc' \<Longrightarrow> same_arrays sc sc'"
  by (auto simp: e82545_icr_assert_def e82545_ims_change_def e82545_icr_deassert_def on_pi_def same_arrays_def
      Let_def bind_eq_Some_conv split: if_splits dest: raise_irq_arrays)

lemma intr_write_arrays: "e82545_intr_write sc offset val = Some sc' \<Longrightarrow> same_arrays sc sc'"
  using intr_arrays
  by (fastforce simp: e82545_intr_write_def same_arrays_def Let_def split: if_splits)

lemma intr_read_arrays: "e82545_intr_read sc offset = Some (v, sc') \<Longrightarrow> same_arrays sc sc'"
  using intr_arrays(3)
  by (fastforce simp: e82545_intr_read_def same_arrays_def Let_def bind_eq_Some_conv split: if_splits)

lemma ctl_arrays:
  "e82545_rx_ctl dmap sc val = Some sc' \<Longrightarrow> same_arrays sc sc'"
  "e82545_tx_ctl dmap sc val = Some sc' \<Longrightarrow> same_arrays sc sc'"
  by (auto simp: e82545_rx_ctl_def e82545_tx_ctl_def e82545_rx_disable_def e82545_tx_disable_def
      e82545_rx_enable_def e82545_tx_enable_def e82545_rx_update_rdba_def e82545_tx_update_tdba_def
      same_arrays_def Let_def bind_eq_Some_conv split: if_splits)

text \<open>The receive addresses, the filters, the EEPROM and the reset.\<close>

lemma and_3_less: "(x :: u32) AND 3 < 4"
proof -
  have "x AND 3 \<le> 3" by (rule word_and_le1)
  then show ?thesis by (rule le_less_trans) simp
qed

lemma filt_uni_update:
  "filt_typed f \<Longrightarrow> eu_typed eu \<Longrightarrow> filt_typed (f\<lparr>esc_uni := (esc_uni f)[i := eu]\<rparr>)"
  by (auto simp: filt_typed_def dest!: set_update_subset_insert [THEN subsetD])

lemma write_ra_shape:
  assumes "e82545_write_ra sc reg val = Some sc'" "card_typed sc"
  obtains eu where "sc' = upd_filt (\<lambda>f. f\<lparr>esc_uni := (esc_uni f)[reg div 2 := eu]\<rparr>) sc" "eu_typed eu"
proof -
  have "reg div 2 < 15" using assms(1) by (cases "reg div 2 < 15") (simp_all add: e82545_write_ra_def Let_def)
  moreover from this have "eu_typed (esc_uni (esc_filt sc) ! (reg div 2))"
    using assms(2) by (simp add: card_typed_def filt_typed_def)
  ultimately show ?thesis
    using assms(1) that by (auto simp: e82545_write_ra_def Let_def eu_typed_def and_3_less)
qed

lemma write_ra_types: "keeps_types sc (e82545_write_ra sc reg val)"
  by (auto simp: keeps_types_def card_typed_def filt_uni_update elim!: write_ra_shape [unfolded card_typed_def])

lemma nvm_opcode_mode_typed: "nvm_typed n \<Longrightarrow> nvm_typed (nvm_opcode_mode n)"
  by (simp add: nvm_typed_def nvm_opcode_mode_def)

lemma eecd_strobe_typed: "nvm_typed n \<Longrightarrow> nvm_typed (eecd_strobe n)"
  by (cases "nvm_mode n") (auto simp: eecd_strobe_def nvm_typed_def nvm_opcode_mode_def Let_def)

lemma write_eecd_types: "card_typed sc \<Longrightarrow> card_typed (write_eecd sc val)"
  by (auto simp: card_typed_def write_eecd_def e82545_eecd_strobe_def Let_def nvm_typed_def
      intro!: eecd_strobe_typed [unfolded nvm_typed_def])

lemma write_mdic_arrays: "same_arrays sc (write_mdic sc val)"
  by (simp add: same_arrays_def write_mdic_def e82545_write_mdi_def Let_def)

lemma reset_filt_typed:
  assumes "length mac = 6" "filt_typed f"
  shows "filt_typed (reset_filt mac drvr f)"
  using assms
  by (auto simp: filt_typed_def reset_filt_def eu_typed_def dest!: set_update_subset_insert [THEN subsetD])

lemma reset_types:
  assumes "e82545_reset sc drvr = Some sc'" "card_typed sc"
  shows "card_typed sc'"
proof -
  have nvm: "nvm_typed (esc_nvm (e82545_init_eeprom (upd_nvm (\<lambda>n. (nvm_opcode_mode n)\<lparr>eeprom_control := c\<rparr>) sc)))" for c
    using assms(2) by (simp add: card_typed_def nvm_typed_def e82545_init_eeprom_def Let_def nvm_opcode_mode_def)
  have "esc_nvm sc' = esc_nvm (e82545_init_eeprom (upd_nvm (\<lambda>n. (nvm_opcode_mode n)\<lparr>eeprom_control :=
      E1000_EECD_PRES OR E82545_EECD_FWE_EN\<rparr>) sc))" "esc_mac sc' = esc_mac sc"
    "esc_filt sc' = reset_filt (esc_mac sc) drvr (esc_filt sc)"
    using assms(1) by (auto simp: e82545_reset_def e82545_rx_disable_def e82545_tx_disable_def Let_def
        bind_eq_Some_conv on_pi_def e82545_init_eeprom_def split: if_splits)
  then show ?thesis
    using nvm assms(2) reset_filt_typed by (simp add: card_typed_def)
qed

lemma devctl_types: "keeps_types sc (e82545_devctl sc val)"
  by (auto simp: keeps_types_def e82545_devctl_def Let_def card_typed_def
      dest!: reset_types split: if_splits)

lemma keeps_types_ops [simp]:
  "keeps_types sc (e82545_rx_ctl dmap sc val)"
  "keeps_types sc (e82545_tx_ctl dmap sc val)"
  "keeps_types sc (e82545_intr_write sc offset val)"
  "keeps_types sc (e82545_write_ra sc reg val)"
  "keeps_types sc (e82545_devctl sc val)"
  "keeps_types sc (Some (write_eecd sc val))"
  by (auto intro: keeps_types_same ctl_arrays intr_write_arrays write_ra_types devctl_types)
    (simp add: keeps_types_def write_eecd_types)

lemma same_arrays_fields [simp]:
  "same_arrays sc sc" "same_arrays sc (upd_gen g sc)" "same_arrays sc (upd_rx r sc)" "same_arrays sc (upd_tx t sc)"
  "same_arrays sc (write_mdic sc val)" "same_arrays sc (sc\<lparr>io_addr := a\<rparr>)" "same_arrays sc (sc\<lparr>esc_mtx := m\<rparr>)"
  "same_arrays sc (sc\<lparr>esc_pi := pi\<rparr>)"
  by (simp_all add: same_arrays_def write_mdic_arrays [unfolded same_arrays_def])

lemma keeps_types_filt [simp]:
  "keeps_types sc (Some (upd_filt (\<lambda>f. f\<lparr>esc_fmcast := (esc_fmcast f)[i := v]\<rparr>) sc))"
  "keeps_types sc (Some (upd_filt (\<lambda>f. f\<lparr>esc_fvlan := (esc_fvlan f)[i := v]\<rparr>) sc))"
  by (simp_all add: keeps_types_def card_typed_def filt_typed_def)

lemma same_arrays_update:
  "same_arrays sc (e82545_rx_update_rdba dmap (upd_rx r sc))"
  "same_arrays sc (e82545_tx_update_tdba dmap (upd_tx t sc))"
  "same_arrays sc (e82545_tx_start (upd_tx t sc))"
  by (simp_all add: same_arrays_def e82545_rx_update_rdba_def e82545_tx_update_tdba_def e82545_tx_start_def Let_def)

lemma write_register_types: "keeps_types sc (e82545_write_register dmap sc offset val)"
  unfolding e82545_write_register_def Let_def
  by (intro keeps_types_if) (simp_all add: same_arrays_update)

lemma write_types:
  assumes "e82545_write dmap sc baridx offset sz val = Some sc'" "card_typed sc"
  shows "card_typed sc'"
proof -
  have sw: "keeps_types sc (write_switch dmap sc baridx offset sz val)" for sc
    unfolding write_switch_def by (intro keeps_types_if) (simp_all add: write_register_types)
  from assms(1) obtain sc1 m1 m2 where
    "write_switch dmap (sc\<lparr>esc_mtx := m1\<rparr>) baridx offset sz val = Some sc1" "sc' = sc1\<lparr>esc_mtx := m2\<rparr>"
    by (auto simp: e82545_write_def bind_eq_Some_conv lock_esc_Some unlock_esc_Some)
  with sw [of "sc\<lparr>esc_mtx := m1\<rparr>"] assms(2) show ?thesis
    by (simp add: keeps_types_def)
qed

lemma read_types:
  assumes "e82545_read sc baridx offset sz = Some (v, sc')" "card_typed sc"
  shows "card_typed sc'"
proof -
  from assms(1) obtain sc1 m1 m2 where
    r: "read_switch (sc\<lparr>esc_mtx := m1\<rparr>) baridx offset sz = Some (v, sc1)" "sc' = sc1\<lparr>esc_mtx := m2\<rparr>"
    by (auto simp: e82545_read_def bind_eq_Some_conv lock_esc_Some unlock_esc_Some)
  have "same_arrays (sc\<lparr>esc_mtx := m1\<rparr>) sc1"
    using read_switch_cases [of "sc\<lparr>esc_mtx := m1\<rparr>" baridx offset sz] r(1)
      read_register_cases [of "sc\<lparr>esc_mtx := m1\<rparr>"] intr_read_arrays
    unfolding read_only_def reg_read_ok_def by (metis same_arrays_fields(1))
  from same_arrays_typed [OF this] assms(2) r(2) show ?thesis by simp
qed

lemma init_types:
  assumes "e82545_init s pi opts = Some (err, s', pi', sc)"
  shows "card_typed sc"
proof -
  obtain sc0 where "e82545_reset sc0 False = Some sc" "card_typed sc0"
    using assms
    by (auto simp: e82545_init_def bind_eq_Some_conv card_typed_def filt_typed_def nvm_typed_def eu_typed_def
        e82545_zero_def)
  then show ?thesis by (rule reset_types)
qed


end
