(* ===== verification/E1000Witness.thy ===== *)
theory E1000Witness
  imports E1000Props E1000Wf PciWitness
begin

text \<open>
  Concrete instances of the properties of the network card: a card after allocation whose device
  instance is that of theory \<open>PciWitness\<close>, its variants with an asserted interrupt and an idle
  EEPROM, and small packets in host memory.
\<close>

section \<open>Cards\<close>

definition wit_card :: e82545_softc where
  "wit_card = e82545_zero wit_pi0"

text \<open>A card that requests its line, with an unmasked cause.\<close>

definition wit_card_up :: e82545_softc where
  "wit_card_up = upd_int (\<lambda>i. i\<lparr>esc_irq_asserted := True, esc_ICR := 4, esc_IMS := 4\<rparr>)
     (wit_card\<lparr>esc_pi := wit_pi0\<lparr>pi_lintr := (pi_lintr wit_pi0)\<lparr>lintr_state := ASSERTED\<rparr>\<rparr>\<rparr>)"

definition wit_card_idle :: e82545_softc where
  "wit_card_idle = upd_nvm nvm_opcode_mode wit_card"

lemma wit_card_inv: "intr_inv wit_card" "mutex_free (esc_mtx wit_card)"
  using wit_pi0_line
  by (simp_all add: wit_card_def e82545_zero_def intr_inv_def irq_sync_def pending_def)

lemma wit_card_up_ok: "intr_inv wit_card_up" "esc_irq_asserted (esc_int wit_card_up)"
    "\<not> esc_rx_active (esc_rx wit_card_up)" "\<not> esc_tx_active (esc_tx wit_card_up)"
  using wit_pi0_line
  by (simp_all add: wit_card_up_def wit_card_def e82545_zero_def intr_inv_def irq_sync_def pending_def
      lintr_ok_def lintr_wf_def devinst_ok_def signalled_def requested_def permitted_def known_irq_def)

lemma wit_card_wf: "e82545_wf wit_card"
  by (simp add: wit_card_def e82545_wf_zero)

lemma wit_card_nvm: "length (eeprom_data (esc_nvm wit_card)) = 64" "eeprom_data (esc_nvm wit_card) = replicate 64 0"
  by (simp_all add: wit_card_def e82545_zero_def)

lemma wit_card_idle_ok: "nvm_idle (esc_nvm wit_card_idle)" "eeprom_data (esc_nvm wit_card_idle) = replicate 64 0"
  by (simp_all add: wit_card_idle_def nvm_idle_def nvm_opcode_mode_def wit_card_nvm)

section \<open>Interrupts\<close>


theorem card_interrupts_delivered_witness:
  "(\<exists>sc'. e82545_icr_assert wit_card 4 = Some sc' \<and> esc_ICR (esc_int sc') = 4)"
  using card_interrupts_delivered [OF wit_card_inv, of 4]
  by (simp add: wit_card_def e82545_zero_def)

theorem eeprom_write_read_witness:
  "\<exists>sc1 sc2. drv_eeprom_write id wit_card_idle 5 0xABCD = Some sc1 \<and>
     drv_eeprom_read id sc1 5 = Some (0xABCD, sc2) \<and> nvm_idle (esc_nvm sc2)"
  using eeprom_write_read [OF wit_card_idle_ok(1), of 5 5 id "0xABCD"] by (simp add: wit_card_idle_ok(2))

lemma receive_address_roundtrip_witness:
  "\<exists>sc1 sc2. e82545_write_ra wit_card 6 0x11223344 = Some sc1 \<and>
     e82545_write_ra sc1 7 0x80005566 = Some sc2 \<and>
     e82545_read_ra sc2 6 = Some 0x11223344 \<and> e82545_read_ra sc2 7 = Some 0x80005566"
  using receive_address_roundtrip [OF wit_card_wf, of 3 "0x11223344" "0x80005566"] by simp



lemma eeprom_checksum_valid_witness:
  "\<exists>sc1 sc2. e82545_reset wit_card False = Some sc1 \<and> drv_eeprom_sum id sc1 [0..<64] 0 = Some (0xBABA, sc2)"
proof -
  have "lintr_ok (esc_pi wit_card)" "\<not> esc_rx_active (esc_rx wit_card)" "\<not> esc_tx_active (esc_tx wit_card)"
    using wit_pi0_line by (simp_all add: wit_card_def e82545_zero_def)
  from reset_run [OF this(2,3,1), of False] obtain sc1 where r: "e82545_reset wit_card False = Some sc1" by blast
  from eeprom_checksum_valid [OF r wit_card_nvm(1), of id] r show ?thesis by auto
qed

lemma wit_card_typed: "card_typed wit_card"
  by (simp add: card_typed_def filt_typed_def nvm_typed_def eu_typed_def wit_card_def e82545_zero_def)


section \<open>Packets\<close>

text \<open>Memory in which the byte at an address is its low byte, and five bytes of it in two odd pieces.\<close>

definition wit_ram :: host_memory where
  "wit_ram = ucast"

definition wit_iov :: "iovec list" where
  "wit_iov = [\<lparr>iov_base = Host 1, iov_len = 3\<rparr>, \<lparr>iov_base = Host 4, iov_len = 2\<rparr>]"

theorem iov_checksum_reference_witness:
  "e82545_iov_checksum [] wit_ram wit_iov 0 5 = Some (inet_sum [1, 2, 3, 4, 5])"
proof -
  have b: "iov_bytes [] wit_ram wit_iov = Some [1, 2, 3, 4, 5]"
    by (simp add: wit_iov_def wit_ram_def load_bytes_def mem_bytes_def upt_rec)
  show ?thesis using iov_checksum_reference [OF b, of 0 5] by (simp add: wit_iov_def)
qed

definition wit_world :: "unit dm_world" where
  "wit_world = \<lparr>host_mem = wit_ram, net_state = (), net_sent = []\<rparr>"

definition wit_hdr :: "u8 list" where
  "wit_hdr = [9, 9, 7, 8, 0, 0]"

lemma wit_hdr_nth: "length wit_hdr = 6" "wit_hdr ! 4 = 0" "wit_hdr ! 5 = 0"
  by (simp_all add: wit_hdr_def)


definition wit_tso :: tso_cfg where
  "wit_tso = \<lparr>tso_hdrlen = 54,
     tso_ck0 = \<lparr>ck_valid = True, ck_start = 14, ck_off = 24, ck_len = 33\<rparr>,
     tso_ck1 = \<lparr>ck_valid = True, ck_start = 34, ck_off = 50, ck_len = 0\<rparr>,
     tso_cmd = 0x03000000, tso_mss = 2, tso_paylen = 5, tso_ipid = 1, tso_tcpseq = 100,
     tso_ipcs = 0, tso_tcpcs = 0\<rparr>"

theorem tso_partitions_payload_witness:
  "\<exists>w' ps. tso_loop wit_tso 0 5 wit_iov 0 (replicate 54 0) wit_world = Some w' \<and>
     net_sent w' = ps \<and> length ps = 3 \<and> concat (map (drop 54) ps) = [1, 2, 3, 4, 5]"
proof -
  have b: "host_bytes wit_ram wit_iov = [1, 2, 3, 4, 5]"
    by (simp add: wit_iov_def wit_ram_def mem_bytes_def upt_rec)
  show ?thesis
    using tso_partitions_payload [of wit_tso wit_iov "replicate 54 0" wit_world] b
    by (fastforce simp: wit_tso_def tso_ok_def wit_iov_def wit_world_def)
qed

text \<open>A ring of eight descriptors at 0: the first describes 60 bytes at 0 and ends the packet.\<close>

definition wit_ring :: host_memory where
  "wit_ring = (\<lambda>_. 0)(8 := 60, 11 := 3)"

definition wit_card_ring :: e82545_softc where
  "wit_card_ring = upd_tx (\<lambda>t. t\<lparr>esc_txdesc := Some 0\<rparr>) wit_card"

lemma wit_card_ring_base: "esc_txdesc (esc_tx wit_card_ring) = Some 0"
  by (simp add: wit_card_ring_def)

lemma wit_ring_fields: "td_lower wit_ring 0 = 0x0300003C" "td_length wit_ring 0 = 60"
  by (simp_all add: td_lower_def td_length_def mem_get32_def mem_get16_def get_le32_def get_le16_def wit_ring_def)

theorem transmit_sends_chain_witness:
  "\<exists>m. e82545_transmit id wit_card_ring (wit_world\<lparr>host_mem := wit_ring\<rparr>) 0 1 8 False =
     Some (1, 1, False, wit_card_ring, wit_world\<lparr>host_mem := m, net_sent := [mem_bytes wit_ring 0 60]\<rparr>)"
proof -
  let ?w = "wit_world\<lparr>host_mem := wit_ring\<rparr>"
  have chain: "legacy_chain (host_mem ?w) 0 8 0 1 0"
    by (simp add: legacy_chain_def nth_txd_def txd_addr_def wit_ring_fields)
  have data: "txd_data id wit_ring (nth_txd 0 8 0 0) = mem_bytes wit_ring 0 60"
    by (simp add: txd_data_def nth_txd_def txd_addr_def wit_ring_fields td_buffer_addr_def mem_get64_def
        get_le64_def get_le32_def nth_mem_bytes) (simp add: wit_ring_def)
  then have data0: "txd_data id wit_ring 0 = mem_bytes wit_ring 0 60"
    by (simp add: nth_txd_def txd_addr_def)
  show ?thesis
    using transmit_sends_chain [OF wit_card_ring_base chain, of id False]
    by (simp add: data0 write_back_def nth_txd_def txd_addr_def wit_ring_fields wit_world_def)
qed


text \<open>A network with one packet of 60 bytes.\<close>

definition wit_net :: "nat net_reader" where
  "wit_net n len = (if n = 0 then (0, [], 0) else (60, replicate 60 1, n - 1))"

theorem receive_loses_packet_witness:
  "\<exists>w'. rx_loop id wit_net wit_card 0 8 256 6 2 7 0 0 \<lparr>host_mem = wit_ram, net_state = 1, net_sent = []\<rparr> =
     Some (0, 0, w') \<and> net_state w' = 0"
  using receive_loses_packet [of wit_net "\<lparr>host_mem = wit_ram, net_state = 1, net_sent = []\<rparr>" 256
      60 "replicate 60 1" 0 0 2 6 7 id wit_card 0 8 0 0]
  by (simp add: wit_net_def)

end
