(* ===== verification/DeviceModel.thy ===== *)
theory DeviceModel
  imports PciInit PciCfgrw
begin

text \<open>
  The request dispatcher: \<^verbatim>\<open>src/device-model.c\<close> (\<^verbatim>\<open>dm_request\<close>, \<^verbatim>\<open>dm_init\<close>),
  \<^verbatim>\<open>src/emul_pci.c\<close> and \<^verbatim>\<open>src/emul_iommu.c\<close>. The guest accesses a window at
  \<^verbatim>\<open>EPW_WINDOW\<close>; a device below the program hands each access over as a \<^verbatim>\<open>struct epw_request\<close>
  and answers the guest with it (that driver is not part of the repository: the request is the
  argument and the result of the functions here).
\<close>

section \<open>Requests and the table of emulations\<close>

record epw_request =
  req_addr :: u64
  req_data :: u64
  is_write :: bool
  data_len :: nat

datatype emul_device_type = MSGDMA_CSR | MSGDMA_PF | MSGDMA_IOMMU | PCI_GENERIC | DM_IOMMU

text \<open>The function pointer of an entry.\<close>

datatype emul_fn = Emul_pci | Emul_iommu

record emul_link =
  base_emul :: u64
  link_size :: u32
  link_request :: emul_fn
  link_type :: emul_device_type

abbreviation (input) "EPW_WINDOW \<equiv> (0x60000000::u64)"

definition emul_map :: "emul_link list" where
  "emul_map = [
     \<lparr>base_emul = 0x010000, link_size = 0x50000, link_request = Emul_pci, link_type = PCI_GENERIC\<rparr>,
     \<lparr>base_emul = 0x510000, link_size = 0x10000, link_request = Emul_iommu, link_type = DM_IOMMU\<rparr>]"

section \<open>The PCI window\<close>

text \<open>
  An access to a registered range. The value of a read is a variable that is not initialised;
  the handlers do not use it (\<open>pci_mem_func_read\<close> below), and it starts as 0 here.
\<close>

definition emul_mem ::
  "('a, 'w) pci_devemu list \<Rightarrow> ('a, 'w) pci_sys \<Rightarrow> epw_request \<Rightarrow>
     (int \<times> epw_request \<times> ('a, 'w) pci_sys) option" where
  "emul_mem devs s req =
     (if is_write req then do {
        assert_that (data_len req < 8);
        (error, val, s) \<leftarrow> emulate_mem (pci_mem_func devs) s 0 (req_addr req) 1 (data_len req) (req_data req);
        Some (error, req, s)
      } else do {
        (error, data, s) \<leftarrow> emulate_mem (pci_mem_func devs) s 0 (req_addr req) 0 (data_len req) 0;
        Some (error, if error = 0 then req\<lparr>req_data := data\<rparr> else req, s)
      })"

definition emul_pci ::
  "('a, 'w) pci_devemu list \<Rightarrow> emul_link \<Rightarrow> ('a, 'w) pci_sys \<Rightarrow> epw_request \<Rightarrow>
     (epw_request \<times> ('a, 'w) pci_sys) option" where
  "emul_pci devs elink s req = do {
     assert_that (link_type elink = PCI_GENERIC);
     let offset = req_addr req - base_emul elink - EPW_WINDOW;
     (error, req, s) \<leftarrow> emul_mem devs s req;
     if error = 0 then Some (req, s)
     else do {
       let coff = unat (offset AND 0xfff);
       let func = unat (drop_bit 12 offset AND 0x7);
       let slot = unat (drop_bit 15 offset AND 0x1f);
       let bus = unat (drop_bit 20 offset AND 0xff);
       if is_write req then do {
         (data, s) \<leftarrow> bhyve_pci_cfgrw devs s False bus slot func coff (data_len req) (ucast (req_data req));
         Some (req, s)
       } else do {
         (data, s) \<leftarrow> bhyve_pci_cfgrw devs s True bus slot func coff (data_len req) 0;
         Some (req\<lparr>req_data := ucast data\<rparr>, s)
       }
     }
   }"

text \<open>Start: \<open>malloc_ok\<close> says that the context could be allocated; the two reads are a test.\<close>

definition emul_pci_init ::
  "('a, 'w) pci_devemu list \<Rightarrow> bool \<Rightarrow> ('a, 'w) pci_sys \<Rightarrow> (int \<times> ('a, 'w) pci_sys) option" where
  "emul_pci_init devs malloc_ok s =
     (if \<not> malloc_ok then Some (- 1, s)
      else do {
        (_, s) \<leftarrow> bhyve_pci_init devs s;
        (_, s) \<leftarrow> bhyve_pci_cfgrw devs s True 0 0 0 0 2 0;
        (_, s) \<leftarrow> bhyve_pci_cfgrw devs s True 0 1 0 0 2 0;
        Some (0, s)
      })"

section \<open>The IOMMU window\<close>

text \<open>\<open>satp\<close> is the value of the register of that name.\<close>

definition emul_iommu :: "emul_link \<Rightarrow> u64 \<Rightarrow> epw_request \<Rightarrow> epw_request option" where
  "emul_iommu elink satp req = do {
     assert_that (link_type elink = DM_IOMMU);
     let offset = req_addr req - base_emul elink - EPW_WINDOW;
     if is_write req then Some req
     else if offset = 0 then Some (req\<lparr>req_data := satp\<rparr>)
     else Some req
   }"

section \<open>Dispatch\<close>

fun dm_dispatch ::
  "('a, 'w) pci_devemu list \<Rightarrow> u64 \<Rightarrow> emul_link list \<Rightarrow> u64 \<Rightarrow> ('a, 'w) pci_sys \<Rightarrow> epw_request \<Rightarrow>
     (int \<times> epw_request \<times> ('a, 'w) pci_sys) option" where
  "dm_dispatch devs satp [] offset s req = Some (- 1, req, s)"
| "dm_dispatch devs satp (elink # links) offset s req =
     (if offset \<ge> base_emul elink \<and> offset < base_emul elink + ucast (link_size elink)
      then (case link_request elink of
          Emul_pci \<Rightarrow> do { (req, s) \<leftarrow> emul_pci devs elink s req; Some (0, req, s) }
        | Emul_iommu \<Rightarrow> do { req \<leftarrow> emul_iommu elink satp req; Some (0, req, s) })
      else dm_dispatch devs satp links offset s req)"

definition dm_request ::
  "('a, 'w) pci_devemu list \<Rightarrow> u64 \<Rightarrow> ('a, 'w) pci_sys \<Rightarrow> epw_request \<Rightarrow>
     (int \<times> epw_request \<times> ('a, 'w) pci_sys) option" where
  "dm_request devs satp s req = dm_dispatch devs satp emul_map (req_addr req - EPW_WINDOW) s req"

text \<open>The start of the program; the virtual network is set up outside of the model.\<close>

definition dm_init ::
  "('a, 'w) pci_devemu list \<Rightarrow> bool \<Rightarrow> ('a, 'w) pci_sys \<Rightarrow> ('a, 'w) pci_sys option" where
  "dm_init devs malloc_ok s = do {
     (error, s) \<leftarrow> emul_pci_init devs malloc_ok s;
     assert_that (error = 0);
     Some s
   }"

section \<open>Lemmas\<close>

lemma pci_mem_func_read:
  "pci_mem_func devs h s vcpu MEM_F_READ addr sz v arg1 arg2 =
   pci_mem_func devs h s vcpu MEM_F_READ addr sz v' arg1 arg2"
  by (simp add: pci_mem_func_def pci_emul_mem_handler_def pci_emul_ecfg_handler_def split: mem_handler_fn.split)

text \<open>Which emulation answers a request.\<close>

definition pci_window :: "u64 \<Rightarrow> bool" where
  "pci_window a \<longleftrightarrow> 0x60010000 \<le> a \<and> a < 0x60060000"

definition iommu_window :: "u64 \<Rightarrow> bool" where
  "iommu_window a \<longleftrightarrow> 0x60510000 \<le> a \<and> a < 0x60520000"

lemma window_offset:
  assumes "b \<le> b + n" "unat b + unat EPW_WINDOW < 2 ^ 64" "unat (b + n) + unat EPW_WINDOW < 2 ^ 64"
  shows "b \<le> a - EPW_WINDOW \<and> a - EPW_WINDOW < b + n \<longleftrightarrow> b + EPW_WINDOW \<le> a \<and> a < b + n + EPW_WINDOW"
proof -
  have lo: "unat (b + EPW_WINDOW) = unat b + unat EPW_WINDOW"
    and hi: "unat (b + n + EPW_WINDOW) = unat (b + n) + unat EPW_WINDOW"
    using assms(2,3) unat_add_lem [of b EPW_WINDOW] unat_add_lem [of "b + n" EPW_WINDOW] by simp_all
  show ?thesis
  proof (cases "EPW_WINDOW \<le> a")
    case True
    then have "unat (a - EPW_WINDOW) = unat a - unat EPW_WINDOW" "unat EPW_WINDOW \<le> unat a"
      by (simp_all add: unat_sub word_le_nat_alt)
    then show ?thesis using lo hi unfolding word_le_nat_alt word_less_nat_alt by linarith
  next
    case False
    then have below: "unat a < unat EPW_WINDOW" by (simp add: word_le_nat_alt)
    have "unat (a - EPW_WINDOW) = 2 ^ 64 + unat a - unat EPW_WINDOW"
      using below by (simp add: unat_sub_if_size word_size)
    then show ?thesis using assms(2,3) lo hi below unfolding word_le_nat_alt word_less_nat_alt by linarith
  qed
qed

lemma dm_request_pci:
  "pci_window (req_addr req) \<Longrightarrow> dm_request devs satp s req =
     Option.bind (emul_pci devs (emul_map ! 0) s req) (\<lambda>(req, s). Some (0, req, s))"
  using window_offset [of "0x010000" "0x50000" "req_addr req"]
  by (simp add: dm_request_def emul_map_def pci_window_def)

lemma windows_disjoint: "iommu_window a \<Longrightarrow> \<not> pci_window a"
  by (simp add: iommu_window_def pci_window_def word_le_nat_alt word_less_nat_alt)

lemma dm_request_iommu:
  "iommu_window (req_addr req) \<Longrightarrow> dm_request devs satp s req =
     Option.bind (emul_iommu (emul_map ! 1) satp req) (\<lambda>req. Some (0, req, s))"
  using window_offset [of "0x010000" "0x50000" "req_addr req"]
    window_offset [of "0x510000" "0x10000" "req_addr req"] windows_disjoint [of "req_addr req"]
  by (auto simp: dm_request_def emul_map_def iommu_window_def pci_window_def)

lemma dm_request_none:
  "\<not> pci_window (req_addr req) \<Longrightarrow> \<not> iommu_window (req_addr req) \<Longrightarrow>
     dm_request devs satp s req = Some (- 1, req, s)"
  using window_offset [of "0x010000" "0x50000" "req_addr req"]
    window_offset [of "0x510000" "0x10000" "req_addr req"]
  by (auto simp: dm_request_def emul_map_def pci_window_def iommu_window_def)

end
