(* ===== verification/DeviceProps.thy ===== *)
theory DeviceProps
  imports DeviceModel PciProps
begin

text \<open>
  The properties of the request dispatcher, which compose the registry of ranges, the BARs and the
  configuration accesses: what the guest sees of an access to the window.
\<close>

section \<open>Lemmas\<close>

lemma dev_at_hint [simp]: "dev_at (s\<lparr>mmio_hint := h\<rparr>) ref = dev_at s ref"
  by (simp add: dev_at_def businfo_at_def cong: if_cong)

lemma emulate_mem_miss:
  assumes "mem_inv s" "mem_lookup s a = None" "tree_map (mmio_rb_fallback s) a = None"
  shows "\<exists>h. emulate_mem call s 0 a write width val = Some (ESRCH, val, s\<lparr>mmio_hint := h\<rparr>)"
  using emulate_mem_cases [OF assms(1), of call a "write" width val] assms(2,3) by (auto simp: Let_def)

lemma emulate_mem_hit:
  assumes "mem_inv s" "mem_lookup s a = Some r"
  shows "\<exists>h. emulate_mem call s 0 a write width val =
    call (mem_handler r) (s\<lparr>mmio_hint := h\<rparr>) 0 (if write = 0 then MEM_F_READ else MEM_F_WRITE) a width val
      (mem_arg1 r) (mem_arg2 r)"
  using emulate_mem_cases [OF assms(1), of call a "write" width val] assms(2) by auto

text \<open>The position of an address of the PCI window in the configuration space.\<close>

definition win_slot :: "u64 \<Rightarrow> nat" where "win_slot a = (unat a - 0x60010000) div 2 ^ 15"
definition win_func :: "u64 \<Rightarrow> nat" where "win_func a = (unat a - 0x60010000) div 2 ^ 12 mod 8"
definition win_coff :: "u64 \<Rightarrow> nat" where "win_coff a = (unat a - 0x60010000) mod 2 ^ 12"

lemma window_decode:
  assumes "pci_window a"
  shows "unat (drop_bit 20 (a - 0x60010000) AND 0xff) = 0"
    and "unat (drop_bit 15 (a - 0x60010000) AND 0x1f) = win_slot a" "win_slot a < 10"
    and "unat (drop_bit 12 (a - 0x60010000) AND 0x7) = win_func a" "win_func a < 8"
    and "unat ((a - 0x60010000) AND 0xfff) = win_coff a"
proof -
  have off: "unat (a - 0x60010000) = unat a - 0x60010000"
    using assms by (simp add: pci_window_def unat_sub word_le_nat_alt)
  have lt: "unat a - 0x60010000 < 0x50000"
    using assms by (auto simp: pci_window_def word_less_nat_alt word_le_nat_alt)
  have m: "(0xff :: u64) = mask 8" "(0x1f :: u64) = mask 5" "(0x7 :: u64) = mask 3" "(0xfff :: u64) = mask 12"
    by (simp_all add: mask_eq_exp_minus_1)
  show "win_slot a < 10" "win_func a < 8" using lt by (simp_all add: win_slot_def win_func_def)
  then show "unat (drop_bit 15 (a - 0x60010000) AND 0x1f) = win_slot a"
    unfolding m unat_drop_bit_and_mask off by (simp add: win_slot_def)
  show "unat (drop_bit 20 (a - 0x60010000) AND 0xff) = 0"
    unfolding m unat_drop_bit_and_mask off using lt by simp
  show "unat (drop_bit 12 (a - 0x60010000) AND 0x7) = win_func a"
    unfolding m unat_drop_bit_and_mask off by (simp add: win_func_def)
  show "unat ((a - 0x60010000) AND 0xfff) = win_coff a"
    using unat_drop_bit_and_mask [of 0 "a - 0x60010000" 12] unfolding m off by (simp add: win_coff_def)
qed

text \<open>An access of the window that hits no registered range is a configuration access.\<close>

lemma emul_pci_config:
  assumes "mem_inv s" "pci_window (req_addr req)" "is_write req \<Longrightarrow> data_len req < 8"
    and "mem_lookup s (req_addr req) = None" "tree_map (mmio_rb_fallback s) (req_addr req) = None"
  shows "\<exists>h. emul_pci devs (emul_map ! 0) s req =
    Option.bind (pci_cfgrw devs (s\<lparr>mmio_hint := h\<rparr>) (\<not> is_write req) 0 (win_slot (req_addr req))
        (win_func (req_addr req)) (win_coff (req_addr req)) (data_len req)
        (if is_write req then ucast (req_data req) else 0))
      (\<lambda>(data, s). Some (if is_write req then req else req\<lparr>req_data := ucast data\<rparr>, s))"
proof -
  note dec = window_decode [OF assms(2)]
  show ?thesis
  proof (cases "is_write req")
    case True
    obtain h where "emulate_mem (pci_mem_func devs) s 0 (req_addr req) 1 (data_len req) (req_data req) =
        Some (ESRCH, req_data req, s\<lparr>mmio_hint := h\<rparr>)"
      using emulate_mem_miss [OF assms(1,4,5)] by blast
    then show ?thesis using True assms(3)
      by (intro exI [of _ h]) (simp add: emul_pci_def emul_mem_def emul_map_def bhyve_pci_cfgrw_def Let_def dec)
  next
    case False
    obtain h where "emulate_mem (pci_mem_func devs) s 0 (req_addr req) 0 (data_len req) 0 =
        Some (ESRCH, 0, s\<lparr>mmio_hint := h\<rparr>)"
      using emulate_mem_miss [OF assms(1,4,5)] by blast
    then show ?thesis using False
      by (intro exI [of _ h]) (simp add: emul_pci_def emul_mem_def emul_map_def bhyve_pci_cfgrw_def Let_def dec)
  qed
qed

text \<open>The tables of bus 0, and drivers without a configuration hook of their own.\<close>

definition bus0_ok :: "('a, 'w) pci_devemu list \<Rightarrow> ('a, 'w) pci_sys \<Rightarrow> bool" where
  "bus0_ok devs s \<longleftrightarrow> (\<forall>slot<10. \<forall>func<8. \<exists>p. dev_at s (0, slot, func) = Some p \<and>
     (case p of None \<Rightarrow> True
      | Some d \<Rightarrow> (\<exists>pe. pci_emul_finddev devs (dev_emu d) = Some pe \<and> pe_cfgread pe = None)))"

lemma bus0_dev:
  assumes "bus0_ok devs s" "slot < 10" "func < 8"
  shows "\<exists>p. dev_at s (0, slot, func) = Some p \<and> (\<forall>d. p = Some d \<longrightarrow>
    (\<exists>pe. pci_emul_finddev devs (dev_emu d) = Some pe \<and> pe_cfgread pe = None))"
proof -
  from assms obtain p where "dev_at s (0, slot, func) = Some p" "case p of None \<Rightarrow> True
      | Some d \<Rightarrow> (\<exists>pe. pci_emul_finddev devs (dev_emu d) = Some pe \<and> pe_cfgread pe = None)"
    unfolding bus0_ok_def by blast
  then show ?thesis by (intro exI [of _ p]) auto
qed

section \<open>Properties\<close>

text \<open>C34. The guest can always read the configuration space: an aligned read of the PCI window that
  hits no registered range returns, decodes to bus 0, one of its first ten slots and a function,
  changes nothing but the cache of the registry, and answers with all ones where no device is, and
  with the bytes of the register of the device otherwise.\<close>

theorem window_read_completes:
  assumes "mem_inv s" "bus0_ok devs s" "pci_window (req_addr req)" "\<not> is_write req"
    and "mem_lookup s (req_addr req) = None" "tree_map (mmio_rb_fallback s) (req_addr req) = None"
    and "access_width_ok (data_len req)" "win_coff (req_addr req) mod data_len req = 0"
    and "win_coff (req_addr req) \<le> PCI_REGMAX"
  shows "\<exists>v h p. dm_request devs satp s req = Some (0, req\<lparr>req_data := ucast v\<rparr>, s\<lparr>mmio_hint := h\<rparr>) \<and>
    win_slot (req_addr req) < 10 \<and>
    dev_at s (0, win_slot (req_addr req), win_func (req_addr req)) = Some p \<and>
    (p = None \<longrightarrow> v = 0xffffffff) \<and>
    (\<forall>d. p = Some d \<longrightarrow>
       win_coff (req_addr req) + data_len req \<le> PCIR_HDRTYPE \<or> PCIR_HDRTYPE < win_coff (req_addr req) \<longrightarrow>
       CFGREAD (dev_pi d) (win_coff (req_addr req)) (data_len req) = Some v)"
proof -
  let ?ref = "(0, win_slot (req_addr req), win_func (req_addr req))"
  note dec = window_decode [OF assms(3)]
  obtain p where p: "dev_at s ?ref = Some p"
    "\<And>d. p = Some d \<Longrightarrow> \<exists>pe. pci_emul_finddev devs (dev_emu d) = Some pe \<and> pe_cfgread pe = None"
    using bus0_dev [OF assms(2) dec(3,5)] by blast
  obtain h where h: "emul_pci devs (emul_map ! 0) s req =
    Option.bind (pci_cfgrw devs (s\<lparr>mmio_hint := h\<rparr>) True 0 (win_slot (req_addr req))
        (win_func (req_addr req)) (win_coff (req_addr req)) (data_len req) 0)
      (\<lambda>(data, s). Some (req\<lparr>req_data := ucast data\<rparr>, s))"
    using emul_pci_config [OF assms(1,3) _ assms(5,6), of devs] assms(4) by auto
  have "dev_at (s\<lparr>mmio_hint := h\<rparr>) ?ref = Some p" using p(1) by simp
  from cfg_read_ok [OF this assms(7-9), of devs 0] p(2) obtain v where
    "pci_cfgrw devs (s\<lparr>mmio_hint := h\<rparr>) True 0 (win_slot (req_addr req)) (win_func (req_addr req))
       (win_coff (req_addr req)) (data_len req) 0 = Some (v, s\<lparr>mmio_hint := h\<rparr>)"
    "p = None \<longrightarrow> v = 0xffffffff"
    "\<forall>d. p = Some d \<longrightarrow> win_coff (req_addr req) + data_len req \<le> PCIR_HDRTYPE \<or>
       PCIR_HDRTYPE < win_coff (req_addr req) \<longrightarrow>
       CFGREAD (dev_pi d) (win_coff (req_addr req)) (data_len req) = Some v"
    by blast
  then show ?thesis
    using dm_request_pci [OF assms(3), of devs satp s] h p(1) dec(3)
    by (intro exI [of _ v] exI [of _ h] exI [of _ p]) simp
qed

text \<open>C9. An access of up to four bytes that lies in a live memory BAR reaches exactly the driver of
  the device that owns the BAR, with the offset in the BAR; what the driver returns is the answer to
  the guest, and no other part of the bus changes.\<close>

theorem window_access_reaches_device:
  assumes "mem_inv s" "pci_window (req_addr req)" "data_len req < 8"
    and "dev_at s (pi_ref (dev_pi d)) = Some (Some d)" "pci_emul_finddev devs (dev_emu d) = Some pe"
    and "idx \<le> PCI_BARMAX" "b = pi_bar (dev_pi d) ! idx" "bar_type b \<in> {PCIBAR_MEM32, PCIBAR_MEM64}"
    and "mem_lookup s (req_addr req) = Some (bar_range (dev_pi d) idx b)"
    and "bar_addr b \<le> req_addr req" "req_addr req + of_nat (data_len req) \<le> bar_addr b + bar_size b"
  shows "\<exists>h. dm_request devs satp s req =
    (if is_write req then
       map_option (\<lambda>(s', _). (0, req, s')) (call_barwrite pe (s\<lparr>mmio_hint := h\<rparr>) (pi_ref (dev_pi d)) d idx
         (req_addr req - bar_addr b) (data_len req) (req_data req))
     else
       map_option (\<lambda>(v, s', _). (0, req\<lparr>req_data := v\<rparr>, s')) (call_barread pe (s\<lparr>mmio_hint := h\<rparr>)
         (pi_ref (dev_pi d)) d idx (req_addr req - bar_addr b) (data_len req)))"
proof (cases "is_write req")
  case True
  obtain h where "emulate_mem (pci_mem_func devs) s 0 (req_addr req) 1 (data_len req) (req_data req) =
      pci_mem_func devs Pci_emul_mem_handler (s\<lparr>mmio_hint := h\<rparr>) 0 MEM_F_WRITE (req_addr req) (data_len req)
        (req_data req) (Some (pi_ref (dev_pi d))) (int idx)"
    using emulate_mem_hit [OF assms(1,9), of "pci_mem_func devs" 1 "data_len req" "req_data req"]
    by (auto simp: bar_range_def)
  then show ?thesis
    using True assms
    by (intro exI [of _ h]) (auto simp: dm_request_pci emul_pci_def emul_mem_def emul_map_def
        pci_mem_func_def pci_emul_mem_handler_def Let_def Option.bind_assoc map_conv_bind_option
        case_prod_unfold intro!: Option.bind_cong)
next
  case False
  obtain h where "emulate_mem (pci_mem_func devs) s 0 (req_addr req) 0 (data_len req) 0 =
      pci_mem_func devs Pci_emul_mem_handler (s\<lparr>mmio_hint := h\<rparr>) 0 MEM_F_READ (req_addr req) (data_len req)
        0 (Some (pi_ref (dev_pi d))) (int idx)"
    using emulate_mem_hit [OF assms(1,9), of "pci_mem_func devs" 0 "data_len req" 0]
    by (auto simp: bar_range_def)
  then show ?thesis
    using False assms
    by (intro exI [of _ h]) (auto simp: dm_request_pci emul_pci_def emul_mem_def emul_map_def
        pci_mem_func_def pci_emul_mem_handler_def Let_def Option.bind_assoc map_conv_bind_option
        case_prod_unfold intro!: Option.bind_cong)
qed

text \<open>C35. The other accesses: outside of the two windows a request is answered with -1 and nothing
  changes, whatever it is; the IOMMU window returns the register at its base and ignores everything
  else; and a write of eight bytes or more to the PCI window stops the program, although the memory
  handler of the bus is written to split it.\<close>

theorem other_requests:
  "(\<not> pci_window (req_addr req) \<and> \<not> iommu_window (req_addr req) \<longrightarrow>
      dm_request devs satp s req = Some (- 1, req, s)) \<and>
   (iommu_window (req_addr req) \<longrightarrow> dm_request devs satp s req =
      Some (0, if \<not> is_write req \<and> req_addr req = 0x60510000 then req\<lparr>req_data := satp\<rparr> else req, s)) \<and>
   (pci_window (req_addr req) \<and> is_write req \<and> 8 \<le> data_len req \<longrightarrow> dm_request devs satp s req = None)"
proof (intro conjI impI, goal_cases)
  case 1
  then show ?case by (simp add: dm_request_none)
next
  case 2
  then show ?case by (simp add: dm_request_iommu emul_iommu_def emul_map_def)
next
  case 3
  then show ?case by (simp add: dm_request_pci emul_pci_def emul_mem_def emul_map_def)
qed

end
