(* ===== verification/DeviceWitness.thy ===== *)
theory DeviceWitness
  imports DeviceProps PciWitness
begin

text \<open>
  Concrete instances of the properties of the dispatcher: a bus with one device in slot 0 whose BAR
  lies at the start of the memory window.
\<close>

definition wit_bar_dev :: "unit pci_dev" where
  "wit_bar_dev = wit_dev\<lparr>dev_pi := set_bar wit_pi0 0 (mem32_bar 0x20000 0x60020000)\<rparr>"

definition wit_bar :: pci_range where
  "wit_bar = bar_range (dev_pi wit_bar_dev) 0 (mem32_bar 0x20000 0x60020000)"

definition wit_bus :: "(unit, unit) pci_sys" where
  "wit_bus = set_dev (wit_sys\<lparr>pci_businfo := Some businfo_zero # replicate 255 None,
     mmio_rb_root := [new_entry 0 wit_bar], mem_ptr := 1\<rparr>) (0, 0, 0) wit_bar_dev"

definition wit_read :: "u64 \<Rightarrow> nat \<Rightarrow> epw_request" where
  "wit_read a n = \<lparr>req_addr = a, req_data = 0, is_write = False, data_len = n\<rparr>"

definition wit_write :: "u64 \<Rightarrow> nat \<Rightarrow> u64 \<Rightarrow> epw_request" where
  "wit_write a n v = \<lparr>req_addr = a, req_data = v, is_write = True, data_len = n\<rparr>"

lemma wit_req_simps [simp]:
  "req_addr (wit_read a n) = a" "is_write (wit_read a n) = False" "data_len (wit_read a n) = n"
  "req_addr (wit_write a n v) = a" "is_write (wit_write a n v)" "data_len (wit_write a n v) = n"
  "req_data (wit_write a n v) = v"
  by (simp_all add: wit_read_def wit_write_def)

lemma set_dev_mem [simp]:
  "mmio_rb_root (set_dev s ref d) = mmio_rb_root s" "mmio_rb_fallback (set_dev s ref d) = mmio_rb_fallback s"
  "mmio_hint (set_dev s ref d) = mmio_hint s" "mem_ptr (set_dev s ref d) = mem_ptr s"
  by (cases ref, simp add: set_dev_def upd_func_def upd_slot_def)+

lemma wit_bus_mem:
  "mmio_rb_root wit_bus = [new_entry 0 wit_bar]" "mmio_rb_fallback wit_bus = []" "mmio_hint wit_bus = [None]"
  "mem_ptr wit_bus = 1"
  by (simp_all add: wit_bus_def wit_sys_def)

lemma wit_bar_simps:
  "mem_base wit_bar = 0x60020000" "mem_size wit_bar = 0x20000"
  by (simp_all add: wit_bar_def bar_range_def mem32_bar_def)

lemma wit_bus_inv: "mem_inv wit_bus"
  by (simp add: mem_inv_def wit_bus_mem tree_inv_Cons wit_bar_simps hint_ok_def)

lemma wit_bus_lookup:
  "mem_lookup wit_bus a = (if 0x60020000 \<le> a \<and> a \<le> 0x6003ffff then Some wit_bar else None)"
  by (auto simp: tree_map_def mmio_rb_lookup_def rb_find_def wit_bus_mem in_range_def wit_bar_simps)

lemma wit_bus_fallback: "tree_map (mmio_rb_fallback wit_bus) a = None"
  by (simp add: wit_bus_mem tree_map_None_iff)

lemma wit_bus_dev:
  "slot < 32 \<Longrightarrow> func < 8 \<Longrightarrow>
     dev_at wit_bus (0, slot, func) = Some (if slot = 0 \<and> func = 0 then Some wit_bar_dev else None)"
  by (auto simp: wit_bus_def wit_sys_def set_dev_def upd_func_def upd_slot_def dev_at_def businfo_at_def
      slot_of_def func_of_def businfo_zero_def slotinfo_zero_def funcinfo_zero_def nth_list_update)

lemma wit_bar_driver: "\<exists>pe. pci_emul_finddev wit_drivers (dev_emu wit_bar_dev) = Some pe \<and> pe_cfgread pe = None"
  using wit_sys_driver by (auto simp: wit_bar_dev_def)

lemma wit_bus_ok: "bus0_ok wit_drivers wit_bus"
  using wit_bar_driver by (auto simp: bus0_ok_def wit_bus_dev)

theorem window_read_completes_witness:
  "\<exists>h. dm_request wit_drivers 0 wit_bus (wit_read 0x60018000 4) =
     Some (0, (wit_read 0x60018000 4)\<lparr>req_data := 0xffffffff\<rparr>, wit_bus\<lparr>mmio_hint := h\<rparr>)"
  using window_read_completes [OF wit_bus_inv wit_bus_ok, of "wit_read 0x60018000 4" 0]
  by (auto simp: pci_window_def wit_bus_lookup wit_bus_fallback access_width_ok_def win_coff_def win_slot_def
      win_func_def wit_bus_dev)

theorem window_access_reaches_device_witness:
  "\<exists>s. dm_request wit_drivers 0 wit_bus (wit_read 0x60020008 4) = Some (0, wit_read 0x60020008 4, s)"
proof -
  let ?d = "wit_bar_dev" and ?b = "mem32_bar 0x20000 0x60020000"
  obtain pe where pe: "pci_emul_finddev wit_drivers (dev_emu ?d) = Some pe"
    "pe_barread pe = (\<lambda>w d i off sz. Some (0, w, d))"
    by (simp add: wit_bar_dev_def wit_dev_def wit_drivers_def pci_emul_finddev_def)
  have pi: "pi_ref (dev_pi ?d) = (0, 0, 0)"
    by (simp add: wit_bar_dev_def set_bar_def pi_ref_def wit_pi0_def pci_devinst_zero_def)
  have bar: "?b = pi_bar (dev_pi ?d) ! 0"
    using wit_pi0_dev by (simp add: wit_bar_dev_def set_bar_def devinst_ok_def)
  have b: "bar_type ?b = PCIBAR_MEM32" "bar_addr ?b = 0x60020000" "bar_size ?b = 0x20000"
    by (simp_all add: mem32_bar_def)
  have dev: "dev_at wit_bus (pi_ref (dev_pi ?d)) = Some (Some ?d)"
    by (simp add: pi wit_bus_dev)
  have hit: "mem_lookup wit_bus 0x60020008 = Some (bar_range (dev_pi ?d) 0 ?b)"
    by (simp add: wit_bus_lookup wit_bar_def)
  have r: "(wit_read a n)\<lparr>req_data := 0\<rparr> = wit_read a n" for a n by (simp add: wit_read_def)
  from window_access_reaches_device [OF wit_bus_inv, of "wit_read 0x60020008 4" ?d wit_drivers pe 0 ?b 0] show ?thesis
    using pe dev hit b bar by (auto simp: pci_window_def call_barread_def r)
qed

theorem other_requests_witness:
  "dm_request wit_drivers 5 wit_bus (wit_read 0x60000000 4) = Some (- 1, wit_read 0x60000000 4, wit_bus) \<and>
   dm_request wit_drivers 5 wit_bus (wit_read 0x60510000 4) =
     Some (0, (wit_read 0x60510000 4)\<lparr>req_data := 5\<rparr>, wit_bus) \<and>
   dm_request wit_drivers 5 wit_bus (wit_write 0x60020000 8 1) = None"
  using other_requests [of "wit_read 0x60000000 4" wit_drivers 5 wit_bus]
    other_requests [of "wit_read 0x60510000 4" wit_drivers 5 wit_bus]
    other_requests [of "wit_write 0x60020000 8 1" wit_drivers 5 wit_bus]
  by (simp add: pci_window_def iommu_window_def)

end
