(* ===== verification/BlockIf.thy ===== *)
theory BlockIf
  imports HostNet Pthread
begin

text \<open>
  The block device back end \<^verbatim>\<open>bhyve/block_if.c\<close>: a disk in the memory of the host with a queue of
  72 request elements. An element is on exactly one of the lists of free, pending and busy elements;
  a request that starts where an earlier one ends is blocked until that one is done.

  The lists of \<^verbatim>\<open>sys/queue.h\<close> are lists of indices into \<^verbatim>\<open>bc_reqs\<close>. A pointer to a context is an
  index into \<open>bs_ctxts\<close>. A request is the value of \<^verbatim>\<open>struct blockif_req\<close>, and \<^verbatim>\<open>br_param\<close>
  identifies it: the client embeds the request in the object that \<^verbatim>\<open>br_param\<close> points to, so that
  two pointers to requests are equal when their parameters are. The callback is an argument of the
  functions that call it; the client extends the state with its own.
\<close>

section \<open>State\<close>

abbreviation (input) "BLOCKIF_SIG \<equiv> (0xb109b109::u32)"
abbreviation (input) "BLOCKIF_NUMTHR \<equiv> (8::nat)"
abbreviation (input) "BLOCKIF_MAXREQ \<equiv> 64 + BLOCKIF_NUMTHR"
abbreviation (input) "BLOCKIF_IOV_MAX \<equiv> (33::nat)"
abbreviation (input) "OFF_MAX \<equiv> (0x7FFFFFFFFFFFFFFF::u64)"
abbreviation (input) "E2BIG \<equiv> (7::int)"
abbreviation (input) "EBUSY \<equiv> (16::int)"
abbreviation (input) "EINVAL \<equiv> (22::int)"
abbreviation (input) "EROFS \<equiv> (30::int)"
abbreviation (input) "EOPNOTSUPP \<equiv> (45::int)"

datatype blockop = BOP_READ | BOP_WRITE | BOP_FLUSH | BOP_DELETE

datatype blockstat = BST_FREE | BST_BLOCK | BST_PEND | BST_BUSY | BST_DONE

text \<open>The list \<open>br_iov\<close> has the \<^verbatim>\<open>br_iovcnt\<close> vectors in use.\<close>

record 'r blockif_req =
  br_iov :: "iovec list"
  br_offset :: u64
  br_resid :: int
  br_param :: 'r

record 'r blockif_elem =
  be_req :: "'r blockif_req option"
  be_op :: blockop
  be_status :: blockstat
  be_tid :: nat
  be_block :: u64

record 'r blockif_ctxt =
  bc_magic :: u32
  bc_ischr :: bool
  bc_isgeom :: bool
  bc_candelete :: bool
  bc_rdonly :: bool
  bc_base :: u64
  bc_size :: int
  bc_sectsz :: int
  bc_psectsz :: int
  bc_psectoff :: int
  bc_closing :: bool
  bc_mtx :: pthread_mutex
  bc_freeq :: "nat list"
  bc_pendq :: "nat list"
  bc_busyq :: "nat list"
  bc_reqs :: "'r blockif_elem list"

text \<open>
  The contexts, the global \<^verbatim>\<open>blockif_sc\<close> (a pointer to a structure whose field \<^verbatim>\<open>bc\<close> is a pointer
  to a context) and the memory of the host.
\<close>

record 'r blockif_state =
  bs_ctxts :: "'r blockif_ctxt list"
  blockif_sc :: "nat option option"
  bs_mem :: host_memory

definition upd_elem :: "nat \<Rightarrow> ('r blockif_elem \<Rightarrow> 'r blockif_elem) \<Rightarrow> 'r blockif_ctxt \<Rightarrow> 'r blockif_ctxt" where
  "upd_elem i f bc = bc\<lparr>bc_reqs := (bc_reqs bc)[i := f (bc_reqs bc ! i)]\<rparr>"

section \<open>The queue\<close>

text \<open>The end of the request, where a following one would start.\<close>

definition be_block_of :: "blockop \<Rightarrow> 'r blockif_req \<Rightarrow> u64" where
  "be_block_of op breq = (case op of
     BOP_FLUSH \<Rightarrow> OFF_MAX
   | _ \<Rightarrow> foldl (\<lambda>off v. off + of_nat (iov_len v)) (br_offset breq) (br_iov breq))"

definition blockif_enqueue ::
  "'r blockif_ctxt \<Rightarrow> 'r blockif_req \<Rightarrow> blockop \<Rightarrow> (bool \<times> 'r blockif_ctxt) option" where
  "blockif_enqueue bc breq op = do {
     assert_that (bc_freeq bc \<noteq> []);
     let i = hd (bc_freeq bc);
     assert_that (i < length (bc_reqs bc));
     assert_that (be_status (bc_reqs bc ! i) = BST_FREE);
     let bc = bc\<lparr>bc_freeq := tl (bc_freeq bc)\<rparr>;
     let bc = upd_elem i (\<lambda>be. be\<lparr>be_req := Some breq, be_op := op, be_block := be_block_of op breq\<rparr>) bc;
     let hit = list_ex (\<lambda>t. be_block (bc_reqs bc ! t) = br_offset breq) (bc_pendq bc @ bc_busyq bc);
     let bc = upd_elem i (\<lambda>be. be\<lparr>be_status := (if hit then BST_BLOCK else BST_PEND)\<rparr>) bc;
     let bc = bc\<lparr>bc_pendq := bc_pendq bc @ [i]\<rparr>;
     Some (\<not> hit, bc)
   }"

text \<open>The first element that is not blocked; the rest of the list must be blocked.\<close>

fun first_pend :: "'r blockif_elem list \<Rightarrow> nat list \<Rightarrow> nat option option" where
  "first_pend rs [] = Some None"
| "first_pend rs (i # is) =
     (if be_status (rs ! i) = BST_PEND then Some (Some i)
      else do {
        assert_that (be_status (rs ! i) = BST_BLOCK);
        first_pend rs is
      })"

definition blockif_dequeue :: "'r blockif_ctxt \<Rightarrow> nat \<Rightarrow> (nat option \<times> 'r blockif_ctxt) option" where
  "blockif_dequeue bc t = do {
     be \<leftarrow> first_pend (bc_reqs bc) (bc_pendq bc);
     case be of
       None \<Rightarrow> Some (None, bc)
     | Some i \<Rightarrow> do {
         let bc = bc\<lparr>bc_pendq := remove1 i (bc_pendq bc)\<rparr>;
         let bc = upd_elem i (\<lambda>be. be\<lparr>be_status := BST_BUSY, be_tid := t\<rparr>) bc;
         Some (Some i, bc\<lparr>bc_busyq := bc_busyq bc @ [i]\<rparr>)
       }
   }"

text \<open>Elements that waited for this end may run. A list never has an element without a request.\<close>

fun unblock :: "u64 \<Rightarrow> nat list \<Rightarrow> 'r blockif_elem list \<Rightarrow> 'r blockif_elem list option" where
  "unblock blk [] rs = Some rs"
| "unblock blk (t # ts) rs = do {
     r \<leftarrow> be_req (rs ! t);
     unblock blk ts (if br_offset r = blk then rs[t := (rs ! t)\<lparr>be_status := BST_PEND\<rparr>] else rs)
   }"

definition blockif_complete :: "'r blockif_ctxt \<Rightarrow> nat \<Rightarrow> 'r blockif_ctxt option" where
  "blockif_complete bc i = do {
     let be = bc_reqs bc ! i;
     bc \<leftarrow>
       (if be_status be = BST_DONE \<or> be_status be = BST_BUSY then do {
          assert_that (i \<in> set (bc_busyq bc));
          Some (bc\<lparr>bc_busyq := remove1 i (bc_busyq bc)\<rparr>)
        } else do {
          assert_that (i \<in> set (bc_pendq bc));
          Some (bc\<lparr>bc_pendq := remove1 i (bc_pendq bc)\<rparr>)
        });
     rs \<leftarrow> unblock (be_block be) (bc_pendq bc) (bc_reqs bc);
     let bc = upd_elem i (\<lambda>be. be\<lparr>be_tid := 0, be_status := BST_FREE, be_req := None\<rparr>) (bc\<lparr>bc_reqs := rs\<rparr>);
     Some (bc\<lparr>bc_freeq := bc_freeq bc @ [i]\<rparr>)
   }"

section \<open>The disk\<close>

fun copy_from_disk :: "host_memory \<Rightarrow> u64 \<Rightarrow> iovec list \<Rightarrow> host_memory option" where
  "copy_from_disk m addr [] = Some m"
| "copy_from_disk m addr (v # vs) = (case iov_base v of
     Hdr _ \<Rightarrow> None
   | Host a \<Rightarrow> copy_from_disk (mem_store m a (mem_bytes m addr (iov_len v))) (addr + of_nat (iov_len v)) vs)"

fun copy_to_disk :: "host_memory \<Rightarrow> u64 \<Rightarrow> iovec list \<Rightarrow> host_memory option" where
  "copy_to_disk m addr [] = Some m"
| "copy_to_disk m addr (v # vs) = (case iov_base v of
     Hdr _ \<Rightarrow> None
   | Host a \<Rightarrow> copy_to_disk (mem_store m addr (mem_bytes m a (iov_len v))) (addr + of_nat (iov_len v)) vs)"

text \<open>The switch of \<^verbatim>\<open>blockif_proc\<close>: the error, the memory and the request.\<close>

definition blockif_io ::
  "'r blockif_ctxt \<Rightarrow> blockop \<Rightarrow> 'r blockif_req \<Rightarrow> host_memory \<Rightarrow> (int \<times> host_memory \<times> 'r blockif_req) option" where
  "blockif_io bc op br m = (case op of
     BOP_READ \<Rightarrow> do {
       m \<leftarrow> copy_from_disk m (bc_base bc + br_offset br) (br_iov br);
       Some (0, m, br\<lparr>br_resid := 0\<rparr>)
     }
   | BOP_WRITE \<Rightarrow>
       if bc_rdonly bc then Some (EROFS, m, br)
       else do {
         m \<leftarrow> copy_to_disk m (bc_base bc + br_offset br) (br_iov br);
         Some (0, m, br\<lparr>br_resid := 0\<rparr>)
       }
   | BOP_FLUSH \<Rightarrow> Some (0, m, br)
   | BOP_DELETE \<Rightarrow> Some (EOPNOTSUPP, m, br))"

section \<open>Contexts\<close>

definition get_ctxt :: "nat \<Rightarrow> ('r, 'z) blockif_state_scheme \<Rightarrow> 'r blockif_ctxt option" where
  "get_ctxt b s = (if b < length (bs_ctxts s) then Some (bs_ctxts s ! b) else None)"

definition put_ctxt :: "nat \<Rightarrow> 'r blockif_ctxt \<Rightarrow> ('r, 'z) blockif_state_scheme \<Rightarrow> ('r, 'z) blockif_state_scheme" where
  "put_ctxt b bc s = s\<lparr>bs_ctxts := (bs_ctxts s)[b := bc]\<rparr>"

definition lock_bc :: "nat \<Rightarrow> ('r, 'z) blockif_state_scheme \<Rightarrow> ('r, 'z) blockif_state_scheme option" where
  "lock_bc b s = do {
     bc \<leftarrow> get_ctxt b s;
     m \<leftarrow> pthread_mutex_lock (bc_mtx bc);
     Some (put_ctxt b (bc\<lparr>bc_mtx := m\<rparr>) s)
   }"

definition unlock_bc :: "nat \<Rightarrow> ('r, 'z) blockif_state_scheme \<Rightarrow> ('r, 'z) blockif_state_scheme option" where
  "unlock_bc b s = do {
     bc \<leftarrow> get_ctxt b s;
     m \<leftarrow> pthread_mutex_unlock (bc_mtx bc);
     Some (put_ctxt b (bc\<lparr>bc_mtx := m\<rparr>) s)
   }"

definition blockif_zero_elem :: "'r blockif_elem" where
  "blockif_zero_elem = \<lparr>be_req = None, be_op = BOP_READ, be_status = BST_FREE, be_tid = 0, be_block = 0\<rparr>"

text \<open>
  Opening the disk: \<open>physmem\<close> is the direct map of the start of the memory, and \<open>calloc_ok\<close> says
  that the context could be allocated. Elements are inserted at the head of the free list.
\<close>

definition blockif_open ::
  "u64 \<Rightarrow> bool \<Rightarrow> ('r, 'z) blockif_state_scheme \<Rightarrow> nat option \<times> ('r, 'z) blockif_state_scheme" where
  "blockif_open physmem calloc_ok s =
     (if \<not> calloc_ok then (None, s\<lparr>blockif_sc := Some None\<rparr>)
      else
        let b = length (bs_ctxts s);
            bc = \<lparr>bc_magic = BLOCKIF_SIG, bc_ischr = False, bc_isgeom = False, bc_candelete = False,
              bc_rdonly = False, bc_base = physmem + 0x03000000, bc_size = 0x00d00000,
              bc_sectsz = 512, bc_psectsz = 512, bc_psectoff = 0, bc_closing = False,
              bc_mtx = pthread_mutex_init \<lparr>mutex_lock = 0\<rparr>, bc_freeq = rev [0..<BLOCKIF_MAXREQ],
              bc_pendq = [], bc_busyq = [], bc_reqs = replicate BLOCKIF_MAXREQ blockif_zero_elem\<rparr>
        in (Some b, s\<lparr>bs_ctxts := bs_ctxts s @ [bc], blockif_sc := Some (Some b)\<rparr>))"

text \<open>Closing: the context is freed, which is a context without its magic number here.\<close>

definition check_magic :: "nat \<Rightarrow> ('r, 'z) blockif_state_scheme \<Rightarrow> 'r blockif_ctxt option" where
  "check_magic b s = do {
     bc \<leftarrow> get_ctxt b s;
     assert_that (bc_magic bc = BLOCKIF_SIG);
     Some bc
   }"

definition blockif_close :: "nat \<Rightarrow> ('r, 'z) blockif_state_scheme \<Rightarrow> (int \<times> ('r, 'z) blockif_state_scheme) option" where
  "blockif_close b s = do {
     _ \<leftarrow> check_magic b s;
     s \<leftarrow> lock_bc b s;
     bc \<leftarrow> get_ctxt b s;
     s \<leftarrow> unlock_bc b (put_ctxt b (bc\<lparr>bc_closing := True\<rparr>) s);
     bc \<leftarrow> get_ctxt b s;
     Some (0, put_ctxt b (bc\<lparr>bc_magic := 0\<rparr>) s)
   }"

section \<open>Requests of the client\<close>

definition blockif_request ::
  "nat \<Rightarrow> 'r blockif_req \<Rightarrow> blockop \<Rightarrow> ('r, 'z) blockif_state_scheme \<Rightarrow> (int \<times> ('r, 'z) blockif_state_scheme) option" where
  "blockif_request b breq op s = do {
     s \<leftarrow> lock_bc b s;
     bc \<leftarrow> get_ctxt b s;
     (err, s) \<leftarrow>
       (if bc_freeq bc \<noteq> [] then do {
          (_, bc) \<leftarrow> blockif_enqueue bc breq op;
          Some (0, put_ctxt b bc s)
        } else Some (E2BIG, s));
     s \<leftarrow> unlock_bc b s;
     Some (err, s)
   }"

definition blockif_read ::
  "nat \<Rightarrow> 'r blockif_req \<Rightarrow> ('r, 'z) blockif_state_scheme \<Rightarrow> (int \<times> ('r, 'z) blockif_state_scheme) option" where
  "blockif_read b breq s = do { _ \<leftarrow> check_magic b s; blockif_request b breq BOP_READ s }"

definition blockif_write ::
  "nat \<Rightarrow> 'r blockif_req \<Rightarrow> ('r, 'z) blockif_state_scheme \<Rightarrow> (int \<times> ('r, 'z) blockif_state_scheme) option" where
  "blockif_write b breq s = do { _ \<leftarrow> check_magic b s; blockif_request b breq BOP_WRITE s }"

definition blockif_flush ::
  "nat \<Rightarrow> 'r blockif_req \<Rightarrow> ('r, 'z) blockif_state_scheme \<Rightarrow> (int \<times> ('r, 'z) blockif_state_scheme) option" where
  "blockif_flush b breq s = do { _ \<leftarrow> check_magic b s; blockif_request b breq BOP_FLUSH s }"

definition blockif_delete ::
  "nat \<Rightarrow> 'r blockif_req \<Rightarrow> ('r, 'z) blockif_state_scheme \<Rightarrow> (int \<times> ('r, 'z) blockif_state_scheme) option" where
  "blockif_delete b breq s = do { _ \<leftarrow> check_magic b s; blockif_request b breq BOP_DELETE s }"

definition find_req :: "'r blockif_elem list \<Rightarrow> nat list \<Rightarrow> 'r \<Rightarrow> nat option" where
  "find_req rs q r = List.find (\<lambda>i. map_option br_param (be_req (rs ! i)) = Some r) q"

text \<open>
  Cancelling: a pending request is completed without its callback. For a request that is being
  processed the code waits for a signal that no other thread can send.
\<close>

definition blockif_cancel ::
  "nat \<Rightarrow> 'r \<Rightarrow> ('r, 'z) blockif_state_scheme \<Rightarrow> (int \<times> ('r, 'z) blockif_state_scheme) option" where
  "blockif_cancel b breq s = do {
     _ \<leftarrow> check_magic b s;
     s \<leftarrow> lock_bc b s;
     bc \<leftarrow> get_ctxt b s;
     case find_req (bc_reqs bc) (bc_pendq bc) breq of
       Some i \<Rightarrow> do {
         bc \<leftarrow> blockif_complete bc i;
         s \<leftarrow> unlock_bc b (put_ctxt b bc s);
         Some (0, s)
       }
     | None \<Rightarrow>
         (case find_req (bc_reqs bc) (bc_busyq bc) breq of
            None \<Rightarrow> do { s \<leftarrow> unlock_bc b s; Some (EINVAL, s) }
          | Some i \<Rightarrow> do {
              assert_that (be_status (bc_reqs bc ! i) \<noteq> BST_BUSY);
              s \<leftarrow> unlock_bc b s;
              Some (EBUSY, s)
            })
   }"

section \<open>Processing\<close>

type_synonym ('r, 'z) blockif_cb =
  "'r blockif_req \<Rightarrow> int \<Rightarrow> ('r, 'z) blockif_state_scheme \<Rightarrow> ('r, 'z) blockif_state_scheme option"

definition blockif_proc ::
  "('r, 'z) blockif_cb \<Rightarrow> nat \<Rightarrow> nat \<Rightarrow> ('r, 'z) blockif_state_scheme \<Rightarrow> ('r, 'z) blockif_state_scheme option" where
  "blockif_proc cb b i s = do {
     bc \<leftarrow> get_ctxt b s;
     br \<leftarrow> be_req (bc_reqs bc ! i);
     (err, m, br) \<leftarrow> blockif_io bc (be_op (bc_reqs bc ! i)) br (bs_mem s);
     let bc = upd_elem i (\<lambda>be. be\<lparr>be_req := Some br, be_status := BST_DONE\<rparr>) bc;
     cb br err (put_ctxt b bc (s\<lparr>bs_mem := m\<rparr>))
   }"

text \<open>The loop holds the mutex of the context while it calls back.\<close>

partial_function (option) thr_loop ::
  "('r, 'z) blockif_cb \<Rightarrow> nat \<Rightarrow> ('r, 'z) blockif_state_scheme \<Rightarrow> ('r, 'z) blockif_state_scheme option" where
  "thr_loop cb b s =
     Option.bind (get_ctxt b s) (\<lambda>bc.
     Option.bind (blockif_dequeue bc 0) (\<lambda>(be, bc).
       case be of
         None \<Rightarrow> Some (put_ctxt b bc s)
       | Some i \<Rightarrow>
           Option.bind (blockif_proc cb b i (put_ctxt b bc s)) (\<lambda>s.
           Option.bind (get_ctxt b s) (\<lambda>bc.
           Option.bind (blockif_complete bc i) (\<lambda>bc. thr_loop cb b (put_ctxt b bc s))))))"

definition blockif_thr ::
  "('r, 'z) blockif_cb \<Rightarrow> ('r, 'z) blockif_state_scheme \<Rightarrow> ('r, 'z) blockif_state_scheme option" where
  "blockif_thr cb s = (case blockif_sc s of
     None \<Rightarrow> Some s
   | Some ptr \<Rightarrow> do {
       b \<leftarrow> ptr;
       s \<leftarrow> lock_bc b s;
       s \<leftarrow> thr_loop cb b s;
       unlock_bc b s
     })"

section \<open>Geometry and accessors\<close>

text \<open>The division of C rounds towards zero, as \<open>div\<close> does on the sizes here; heads is a byte.\<close>

definition chs_of :: "int \<Rightarrow> u16 \<times> u8 \<times> u8" where
  "chs_of sectors =
     (let sectors = (if sectors > 65535 * 16 * 255 then 65535 * 16 * 255 else sectors);
          (secpt, heads, hcyl) =
            (if sectors \<ge> 65536 * 16 * 63 then (255, 16, sectors div 255)
             else
               let hcyl = sectors div 17;
                   heads = ((hcyl + 1023) div 1024) mod 256;
                   heads = (if heads < 4 then 4 else heads);
                   (secpt, heads, hcyl) =
                     (if hcyl \<ge> heads * 1024 \<or> heads > 16 then (31, 16, sectors div 31)
                      else (17, heads, hcyl))
               in if hcyl \<ge> heads * 1024 then (63, 16, sectors div 63) else (secpt, heads, hcyl))
      in (word_of_int (hcyl div heads), word_of_int heads, word_of_int secpt))"

definition blockif_chs :: "nat \<Rightarrow> ('r, 'z) blockif_state_scheme \<Rightarrow> (u16 \<times> u8 \<times> u8) option" where
  "blockif_chs b s = do {
     bc \<leftarrow> check_magic b s;
     assert_that (bc_sectsz bc \<noteq> 0);
     Some (chs_of (bc_size bc div bc_sectsz bc))
   }"

definition blockif_size :: "nat \<Rightarrow> ('r, 'z) blockif_state_scheme \<Rightarrow> int option" where
  "blockif_size b s = map_option bc_size (check_magic b s)"

definition blockif_sectsz :: "nat \<Rightarrow> ('r, 'z) blockif_state_scheme \<Rightarrow> int option" where
  "blockif_sectsz b s = map_option bc_sectsz (check_magic b s)"

definition blockif_psectsz :: "nat \<Rightarrow> ('r, 'z) blockif_state_scheme \<Rightarrow> (int \<times> int) option" where
  "blockif_psectsz b s = map_option (\<lambda>bc. (bc_psectsz bc, bc_psectoff bc)) (check_magic b s)"

definition blockif_queuesz :: "nat \<Rightarrow> ('r, 'z) blockif_state_scheme \<Rightarrow> nat option" where
  "blockif_queuesz b s = map_option (\<lambda>bc. BLOCKIF_MAXREQ - 1) (check_magic b s)"

definition blockif_is_ro :: "nat \<Rightarrow> ('r, 'z) blockif_state_scheme \<Rightarrow> bool option" where
  "blockif_is_ro b s = map_option bc_rdonly (check_magic b s)"

definition blockif_candelete :: "nat \<Rightarrow> ('r, 'z) blockif_state_scheme \<Rightarrow> bool option" where
  "blockif_candelete b s = map_option bc_candelete (check_magic b s)"

end
