(* ===== verification/BlockIfProps.thy ===== *)
theory BlockIfProps
  imports BlockIf
begin

text \<open>
  The invariant of the request queue, what each operation does to the lists, and the worker: it
  serves all pending requests in the order of their arrival and returns.
\<close>

section \<open>The invariant\<close>

abbreviation elem_stat :: "'r blockif_elem list \<Rightarrow> nat \<Rightarrow> blockstat" where
  "elem_stat rs i \<equiv> be_status (rs ! i)"

abbreviation elem_off :: "'r blockif_elem list \<Rightarrow> nat \<Rightarrow> u64" where
  "elem_off rs i \<equiv> br_offset (the (be_req (rs ! i)))"

text \<open>A blocked element waits for an element before it: a busy one or an earlier pending one.\<close>

fun waits :: "'r blockif_elem list \<Rightarrow> nat set \<Rightarrow> nat list \<Rightarrow> bool" where
  "waits rs S [] = True"
| "waits rs S (i # is) \<longleftrightarrow>
     (elem_stat rs i = BST_BLOCK \<longrightarrow> (\<exists>t\<in>S. be_block (rs ! t) = elem_off rs i)) \<and> waits rs (insert i S) is"

definition elems_ok :: "'r blockif_ctxt \<Rightarrow> bool" where
  "elems_ok bc \<longleftrightarrow> (\<forall>i\<in>set (bc_freeq bc). elem_stat (bc_reqs bc) i = BST_FREE) \<and>
     (\<forall>i\<in>set (bc_pendq bc). elem_stat (bc_reqs bc) i \<in> {BST_PEND, BST_BLOCK} \<and> be_req (bc_reqs bc ! i) \<noteq> None) \<and>
     (\<forall>i\<in>set (bc_busyq bc). elem_stat (bc_reqs bc) i \<in> {BST_BUSY, BST_DONE} \<and> be_req (bc_reqs bc ! i) \<noteq> None)"

definition queue_inv :: "'r blockif_ctxt \<Rightarrow> bool" where
  "queue_inv bc \<longleftrightarrow> length (bc_reqs bc) = BLOCKIF_MAXREQ \<and>
     distinct (bc_freeq bc @ bc_pendq bc @ bc_busyq bc) \<and>
     set (bc_freeq bc @ bc_pendq bc @ bc_busyq bc) = {..<BLOCKIF_MAXREQ} \<and>
     elems_ok bc \<and> waits (bc_reqs bc) (set (bc_busyq bc)) (bc_pendq bc)"

lemma queue_inv_index:
  assumes "queue_inv bc" "i \<in> set (bc_freeq bc) \<union> set (bc_pendq bc) \<union> set (bc_busyq bc)"
  shows "i < length (bc_reqs bc)"
  using assms by (auto simp: queue_inv_def)

section \<open>Waiting\<close>

lemma waits_cong:
  assumes "\<And>t. t \<in> S \<union> set ps \<Longrightarrow> be_block (rs' ! t) = be_block (rs ! t)"
    and "\<And>t. t \<in> set ps \<Longrightarrow> elem_stat rs' t = elem_stat rs t \<and> elem_off rs' t = elem_off rs t"
  shows "waits rs' S ps = waits rs S ps"
  using assms
proof (induction ps arbitrary: S)
  case (Cons i ps)
  from Cons.IH [of "insert i S"] Cons.prems have "waits rs' (insert i S) ps = waits rs (insert i S) ps" by auto
  with Cons.prems show ?case by auto
qed simp

lemma waits_append:
  "waits rs S (ps @ [i]) \<longleftrightarrow> waits rs S ps \<and>
     (elem_stat rs i = BST_BLOCK \<longrightarrow> (\<exists>t\<in>S \<union> set ps. be_block (rs ! t) = elem_off rs i))"
  by (induction ps arbitrary: S) auto

lemma waits_mono: "waits rs S ps \<Longrightarrow> S \<subseteq> T \<Longrightarrow> waits rs T ps"
proof (induction ps arbitrary: S T)
  case (Cons i ps)
  from Cons.prems have "insert i S \<subseteq> insert i T" by auto
  with Cons show ?case by auto
qed simp

text \<open>An element that becomes busy is still before the others.\<close>

lemma waits_remove: "waits rs S ps \<Longrightarrow> waits rs (insert i S) (remove1 i ps)"
proof (induction ps arbitrary: S)
  case (Cons j ps)
  show ?case
  proof (cases "j = i")
    case True
    with Cons.prems show ?thesis by simp
  next
    case False
    from Cons.IH [of "insert j S"] Cons.prems have "waits rs (insert i (insert j S)) (remove1 i ps)" by simp
    with Cons.prems False show ?thesis by (auto simp: insert_commute)
  qed
qed simp

text \<open>An element that is done releases those that waited for it.\<close>

lemma waits_release:
  assumes "waits rs S ps"
    and "\<And>t. t \<in> S \<union> set ps \<Longrightarrow> t \<noteq> i \<Longrightarrow> be_block (rs' ! t) = be_block (rs ! t)"
    and "\<And>t. t \<in> set ps \<Longrightarrow> t \<noteq> i \<Longrightarrow> elem_stat rs' t = BST_BLOCK \<Longrightarrow>
      elem_stat rs t = BST_BLOCK \<and> elem_off rs' t = elem_off rs t \<and> elem_off rs t \<noteq> be_block (rs ! i)"
    and "distinct ps"
  shows "waits rs' (S - {i}) (remove1 i ps)"
  using assms
proof (induction ps arbitrary: S)
  case (Cons j ps)
  show ?case
  proof (cases "j = i")
    case True
    have "waits rs' (insert i S - {i}) (remove1 i ps)"
      using Cons.IH [of "insert i S"] Cons.prems True by auto
    moreover have "remove1 i ps = ps" using Cons.prems(4) True by (simp add: remove1_idem)
    ultimately show ?thesis using True by simp
  next
    case False
    have "waits rs' (insert j S - {i}) (remove1 i ps)"
      using Cons.IH [of "insert j S"] Cons.prems by auto
    moreover have "insert j S - {i} = insert j (S - {i})" using False by auto
    moreover have "\<exists>t\<in>S - {i}. be_block (rs' ! t) = elem_off rs' j" if "elem_stat rs' j = BST_BLOCK"
    proof -
      have j: "elem_stat rs j = BST_BLOCK" "elem_off rs' j = elem_off rs j" "elem_off rs j \<noteq> be_block (rs ! i)"
        using Cons.prems(3) [of j] that False by auto
      with Cons.prems(1) obtain t where "t \<in> S" "be_block (rs ! t) = elem_off rs j" by auto
      moreover from this j(3) have "t \<noteq> i" by auto
      ultimately show ?thesis using j(2) Cons.prems(2) [of t] by (intro bexI [of _ t]) auto
    qed
    ultimately show ?thesis using False by simp
  qed
qed simp

section \<open>The operations on the queue\<close>

lemma elem_update_other [simp]:
  "j \<noteq> i \<Longrightarrow> bc_reqs (upd_elem i f bc) ! j = bc_reqs bc ! j"
  "i < length (bc_reqs bc) \<Longrightarrow> bc_reqs (upd_elem i f bc) ! i = f (bc_reqs bc ! i)"
  "length (bc_reqs (upd_elem i f bc)) = length (bc_reqs bc)"
  "bc_freeq (upd_elem i f bc) = bc_freeq bc" "bc_pendq (upd_elem i f bc) = bc_pendq bc"
  "bc_busyq (upd_elem i f bc) = bc_busyq bc"
  by (simp_all add: upd_elem_def)

text \<open>What an operation on the queue keeps of a context.\<close>

definition queue_frame :: "'r blockif_ctxt \<Rightarrow> 'r blockif_ctxt \<Rightarrow> bool" where
  "queue_frame bc bc' \<longleftrightarrow> (\<exists>f p q rs. bc' = bc\<lparr>bc_freeq := f, bc_pendq := p, bc_busyq := q, bc_reqs := rs\<rparr>)"

lemma queue_frame_refl [simp]: "queue_frame bc bc"
  unfolding queue_frame_def
  by (intro exI [of _ "bc_freeq bc"] exI [of _ "bc_pendq bc"] exI [of _ "bc_busyq bc"] exI [of _ "bc_reqs bc"]) simp

lemma list_ex_update:
  assumes "i \<notin> set ps"
  shows "list_ex (\<lambda>t. be_block (rs[i := e] ! t) = x) ps = (\<exists>t\<in>set ps. be_block (rs ! t) = x)"
proof -
  have "rs[i := e] ! t = rs ! t" if "t \<in> set ps" for t using that assms by (cases "t = i") auto
  then show ?thesis by (auto simp: list_ex_iff)
qed

lemma enqueue_ok:
  assumes inv: "queue_inv bc" and free: "bc_freeq bc = i # is"
  shows "\<exists>b bc'. blockif_enqueue bc breq op = Some (b, bc') \<and> queue_inv bc' \<and> queue_frame bc bc' \<and>
    bc_freeq bc' = is \<and> bc_pendq bc' = bc_pendq bc @ [i] \<and> bc_busyq bc' = bc_busyq bc \<and>
    be_req (bc_reqs bc' ! i) = Some breq \<and> be_op (bc_reqs bc' ! i) = op \<and>
    (\<forall>j. j \<noteq> i \<longrightarrow> bc_reqs bc' ! j = bc_reqs bc ! j)"
proof -
  have i: "i < length (bc_reqs bc)" "elem_stat (bc_reqs bc) i = BST_FREE" "i \<notin> set is"
    "i \<notin> set (bc_pendq bc)" "i \<notin> set (bc_busyq bc)"
    using inv free queue_inv_index [OF inv, of i] by (auto simp: queue_inv_def elems_ok_def)
  let ?hit = "\<exists>t\<in>set (bc_pendq bc) \<union> set (bc_busyq bc). be_block (bc_reqs bc ! t) = br_offset breq"
  let ?be = "(bc_reqs bc ! i)\<lparr>be_req := Some breq, be_op := op, be_block := be_block_of op breq,
    be_status := (if ?hit then BST_BLOCK else BST_PEND)\<rparr>"
  define rs' where "rs' = (bc_reqs bc)[i := ?be]"
  let ?bc = "bc\<lparr>bc_freeq := is, bc_reqs := rs', bc_pendq := bc_pendq bc @ [i]\<rparr>"
  have run: "blockif_enqueue bc breq op = Some (\<not> ?hit, ?bc)"
    using free i(1,2) unfolding rs'_def
    by (cases ?hit) (auto simp: blockif_enqueue_def Let_def upd_elem_def list_ex_update [OF i(4)] list_ex_update [OF i(5)])
  have rs: "length rs' = length (bc_reqs bc)" "rs' ! i = ?be" "\<And>t. t \<noteq> i \<Longrightarrow> rs' ! t = bc_reqs bc ! t"
    using i(1) by (simp_all add: rs'_def)
  have old: "rs' ! t = bc_reqs bc ! t" if "t \<in> set (bc_busyq bc) \<union> set (bc_pendq bc) \<union> set is" for t
    using that i(3-5) by (intro rs(3)) auto
  have "waits rs' (set (bc_busyq bc)) (bc_pendq bc) = waits (bc_reqs bc) (set (bc_busyq bc)) (bc_pendq bc)"
    by (rule waits_cong) (simp_all add: old)
  moreover have "\<exists>t\<in>set (bc_busyq bc) \<union> set (bc_pendq bc). be_block (rs' ! t) = br_offset breq" if hit: ?hit
  proof -
    from hit obtain t where "t \<in> set (bc_busyq bc) \<union> set (bc_pendq bc)" "be_block (bc_reqs bc ! t) = br_offset breq"
      by blast
    with old [of t] show ?thesis by (intro bexI [of _ t]) auto
  qed
  ultimately have "waits rs' (set (bc_busyq bc)) (bc_pendq bc @ [i])"
    using inv by (auto simp: waits_append queue_inv_def rs(2))
  moreover have "elems_ok ?bc"
    using inv free i by (auto simp: queue_inv_def elems_ok_def old rs(2))
  ultimately have "queue_inv ?bc"
    using inv free i rs(1) by (auto simp: queue_inv_def)
  moreover have "queue_frame bc ?bc"
    unfolding queue_frame_def
    by (intro exI [of _ "is"] exI [of _ "bc_pendq bc @ [i]"] exI [of _ "bc_busyq bc"] exI [of _ rs']) simp
  ultimately show ?thesis using run rs by (intro exI [of _ "\<not> ?hit"] exI [of _ ?bc]) simp
qed

text \<open>While nothing is busy the first pending element is not blocked, and it is the one that is taken.\<close>

lemma dequeue_head:
  assumes inv: "queue_inv bc" and idle: "bc_busyq bc = []" and pend: "bc_pendq bc = i # is"
  shows "\<exists>bc'. blockif_dequeue bc t = Some (Some i, bc') \<and> queue_inv bc' \<and> queue_frame bc bc' \<and>
    bc_pendq bc' = is \<and> bc_busyq bc' = [i] \<and> bc_freeq bc' = bc_freeq bc \<and>
    bc_reqs bc' = (bc_reqs bc)[i := (bc_reqs bc ! i)\<lparr>be_status := BST_BUSY, be_tid := t\<rparr>]"
proof -
  have i: "i < length (bc_reqs bc)" "elem_stat (bc_reqs bc) i = BST_PEND" "i \<notin> set is" "i \<notin> set (bc_freeq bc)"
    "be_req (bc_reqs bc ! i) \<noteq> None"
    using inv idle pend queue_inv_index [OF inv, of i] by (auto simp: queue_inv_def elems_ok_def)
  define rs' where "rs' = (bc_reqs bc)[i := (bc_reqs bc ! i)\<lparr>be_status := BST_BUSY, be_tid := t\<rparr>]"
  let ?bc = "bc\<lparr>bc_pendq := is, bc_reqs := rs', bc_busyq := [i]\<rparr>"
  have run: "blockif_dequeue bc t = Some (Some i, ?bc)"
    using pend idle i(2) by (simp add: blockif_dequeue_def upd_elem_def rs'_def Let_def)
  have rs: "length rs' = length (bc_reqs bc)" "rs' ! i = (bc_reqs bc ! i)\<lparr>be_status := BST_BUSY, be_tid := t\<rparr>"
    "\<And>t. t \<noteq> i \<Longrightarrow> rs' ! t = bc_reqs bc ! t"
    using i(1) by (simp_all add: rs'_def)
  have old: "rs' ! t = bc_reqs bc ! t" if "t \<in> set is \<union> set (bc_freeq bc)" for t
    using that i(3,4) by (intro rs(3)) auto
  have "be_block (rs' ! t) = be_block (bc_reqs bc ! t)" for t
    using rs(2,3) by (cases "t = i") simp_all
  then have "waits rs' {i} is = waits (bc_reqs bc) {i} is"
    by (intro waits_cong) (simp_all add: old)
  then have "waits rs' {i} is" using inv idle pend by (simp add: queue_inv_def)
  moreover have "elems_ok ?bc"
    using inv pend i by (auto simp: queue_inv_def elems_ok_def old rs(2))
  ultimately have "queue_inv ?bc"
    using inv pend idle rs(1) by (auto simp: queue_inv_def)
  moreover have "queue_frame bc ?bc"
    unfolding queue_frame_def
    by (intro exI [of _ "bc_freeq bc"] exI [of _ "is"] exI [of _ "[i]"] exI [of _ rs']) simp
  ultimately show ?thesis using run rs'_def by (intro exI [of _ ?bc]) simp
qed

lemma dequeue_empty: "bc_pendq bc = [] \<Longrightarrow> blockif_dequeue bc t = Some (None, bc)"
  by (simp add: blockif_dequeue_def)

lemma unblock_ok:
  assumes "distinct ts" "\<forall>t\<in>set ts. t < length rs \<and> be_req (rs ! t) \<noteq> None"
  shows "\<exists>rs'. unblock blk ts rs = Some rs' \<and> length rs' = length rs \<and>
    (\<forall>t. rs' ! t = (if t \<in> set ts \<and> elem_off rs t = blk then (rs ! t)\<lparr>be_status := BST_PEND\<rparr> else rs ! t))"
  using assms
proof (induction ts arbitrary: rs)
  case (Cons t ts)
  let ?rs = "if elem_off rs t = blk then rs[t := (rs ! t)\<lparr>be_status := BST_PEND\<rparr>] else rs"
  obtain r where r: "be_req (rs ! t) = Some r" using Cons.prems(2) by auto
  have other: "?rs ! u = rs ! u" if "u \<noteq> t" for u using that by simp
  have at_t: "?rs ! t = (if elem_off rs t = blk then (rs ! t)\<lparr>be_status := BST_PEND\<rparr> else rs ! t)"
    using Cons.prems(2) by simp
  have len: "length ?rs = length rs" by simp
  have "\<forall>u\<in>set ts. u < length ?rs \<and> be_req (?rs ! u) \<noteq> None"
  proof
    fix u assume u: "u \<in> set ts"
    then have "u \<noteq> t" using Cons.prems(1) by auto
    from other [OF this] u Cons.prems(2) len show "u < length ?rs \<and> be_req (?rs ! u) \<noteq> None" by simp
  qed
  then obtain rs' where rs': "unblock blk ts ?rs = Some rs'" "length rs' = length ?rs"
    "\<forall>u. rs' ! u = (if u \<in> set ts \<and> elem_off ?rs u = blk then (?rs ! u)\<lparr>be_status := BST_PEND\<rparr> else ?rs ! u)"
    using Cons.IH [of ?rs] Cons.prems(1) by auto
  have "rs' ! u = (if u \<in> set (t # ts) \<and> elem_off rs u = blk then (rs ! u)\<lparr>be_status := BST_PEND\<rparr> else rs ! u)" for u
  proof (cases "u = t")
    case True
    then have "rs' ! u = ?rs ! t" using rs'(3) Cons.prems(1) by simp
    then show ?thesis unfolding at_t using True by simp
  next
    case False
    from rs'(3) [rule_format, of u] show ?thesis unfolding other [OF False] using False by simp
  qed
  then show ?case using rs'(1,2) r len by (intro exI [of _ rs']) simp
qed simp

lemma complete_ok:
  assumes inv: "queue_inv bc" and i: "i \<in> set (bc_pendq bc) \<union> set (bc_busyq bc)"
  shows "\<exists>bc'. blockif_complete bc i = Some bc' \<and> queue_inv bc' \<and> queue_frame bc bc' \<and>
    bc_pendq bc' = remove1 i (bc_pendq bc) \<and> bc_busyq bc' = remove1 i (bc_busyq bc) \<and>
    bc_freeq bc' = bc_freeq bc @ [i] \<and>
    (\<forall>t\<in>set (bc_pendq bc'). be_req (bc_reqs bc' ! t) = be_req (bc_reqs bc ! t) \<and>
       be_op (bc_reqs bc' ! t) = be_op (bc_reqs bc ! t))"
proof -
  let ?P = "remove1 i (bc_pendq bc)" and ?B = "remove1 i (bc_busyq bc)" and ?be = "bc_reqs bc ! i"
  have len: "i < length (bc_reqs bc)" using queue_inv_index [OF inv] i by auto
  have d: "distinct (bc_pendq bc)" "distinct (bc_busyq bc)" "i \<notin> set (bc_freeq bc)"
    "set (bc_pendq bc) \<inter> set (bc_busyq bc) = {}"
    using inv i by (auto simp: queue_inv_def)
  have sets: "set ?P = set (bc_pendq bc) - {i}" "set ?B = set (bc_busyq bc) - {i}"
    using d by (simp_all add: set_remove1_eq)
  have busy: "elem_stat (bc_reqs bc) i = BST_DONE \<or> elem_stat (bc_reqs bc) i = BST_BUSY \<longleftrightarrow> i \<in> set (bc_busyq bc)"
    using inv i d(4) by (auto simp: queue_inv_def elems_ok_def)
  have reqs: "\<forall>t\<in>set ?P. t < length (bc_reqs bc) \<and> be_req (bc_reqs bc ! t) \<noteq> None"
    using inv queue_inv_index [OF inv] unfolding sets by (auto simp: queue_inv_def elems_ok_def)
  obtain rs where rs: "unblock (be_block ?be) ?P (bc_reqs bc) = Some rs" "length rs = length (bc_reqs bc)"
    "\<forall>t. rs ! t = (if t \<in> set ?P \<and> elem_off (bc_reqs bc) t = be_block ?be
       then (bc_reqs bc ! t)\<lparr>be_status := BST_PEND\<rparr> else bc_reqs bc ! t)"
    using unblock_ok [OF distinct_remove1 [OF d(1)] reqs, of "be_block ?be"] by blast
  define rs' where "rs' = rs[i := (rs ! i)\<lparr>be_tid := 0, be_status := BST_FREE, be_req := None\<rparr>]"
  let ?bc = "bc\<lparr>bc_busyq := ?B, bc_pendq := ?P, bc_reqs := rs', bc_freeq := bc_freeq bc @ [i]\<rparr>"
  have run: "blockif_complete bc i = Some ?bc"
  proof (cases "i \<in> set (bc_busyq bc)")
    case True
    then have "?P = bc_pendq bc" using d(4) by (auto intro: remove1_idem)
    with True busy rs(1) show ?thesis by (simp add: blockif_complete_def upd_elem_def rs'_def Let_def)
  next
    case False
    then have "?B = bc_busyq bc" by (auto intro: remove1_idem)
    with False busy i rs(1) show ?thesis by (simp add: blockif_complete_def upd_elem_def rs'_def Let_def)
  qed
  have at_i: "rs' ! i = (rs ! i)\<lparr>be_tid := 0, be_status := BST_FREE, be_req := None\<rparr>"
    using len rs(2) by (simp add: rs'_def)
  have other: "rs' ! t = rs ! t" if "t \<noteq> i" for t using that by (simp add: rs'_def)
  have pend: "rs' ! t = (if elem_off (bc_reqs bc) t = be_block ?be
      then (bc_reqs bc ! t)\<lparr>be_status := BST_PEND\<rparr> else bc_reqs bc ! t)" if "t \<in> set (bc_pendq bc)" "t \<noteq> i" for t
    using that other rs(3) unfolding sets by simp
  have rest: "rs' ! t = bc_reqs bc ! t" if "t \<in> set (bc_freeq bc) \<union> set (bc_busyq bc)" "t \<noteq> i" for t
  proof -
    have "t \<notin> set (bc_pendq bc)" using that(1) inv by (auto simp: queue_inv_def)
    then show ?thesis using that(2) other rs(3) unfolding sets by simp
  qed
  have "waits rs' (set (bc_busyq bc) - {i}) ?P"
  proof (rule waits_release [OF _ _ _ d(1)])
    show "waits (bc_reqs bc) (set (bc_busyq bc)) (bc_pendq bc)" using inv by (simp add: queue_inv_def)
    show "be_block (rs' ! t) = be_block (bc_reqs bc ! t)" if "t \<in> set (bc_busyq bc) \<union> set (bc_pendq bc)" "t \<noteq> i" for t
      using that pend [of t] rest [of t] by auto
    show "elem_stat (bc_reqs bc) t = BST_BLOCK \<and> elem_off rs' t = elem_off (bc_reqs bc) t \<and>
        elem_off (bc_reqs bc) t \<noteq> be_block ?be"
      if "t \<in> set (bc_pendq bc)" "t \<noteq> i" "elem_stat rs' t = BST_BLOCK" for t
      using that pend [of t] by (auto split: if_splits)
  qed
  moreover have "elems_ok ?bc"
  proof -
    have "elem_stat rs' t = BST_FREE" if "t \<in> set (bc_freeq bc @ [i])" for t
      using that inv at_i rest [of t] by (cases "t = i") (auto simp: queue_inv_def elems_ok_def)
    moreover have "elem_stat rs' t \<in> {BST_PEND, BST_BLOCK} \<and> be_req (rs' ! t) \<noteq> None" if "t \<in> set ?P" for t
      using that inv pend [of t] unfolding sets by (auto simp: queue_inv_def elems_ok_def)
    moreover have "elem_stat rs' t \<in> {BST_BUSY, BST_DONE} \<and> be_req (rs' ! t) \<noteq> None" if "t \<in> set ?B" for t
      using that inv rest [of t] unfolding sets by (auto simp: queue_inv_def elems_ok_def)
    ultimately show ?thesis by (simp add: elems_ok_def)
  qed
  ultimately have "queue_inv ?bc"
    using inv i d sets rs(2) by (auto simp: queue_inv_def rs'_def)
  moreover have "queue_frame bc ?bc"
    unfolding queue_frame_def
    by (intro exI [of _ "bc_freeq bc @ [i]"] exI [of _ ?P] exI [of _ ?B] exI [of _ rs']) simp
  moreover have "be_req (rs' ! t) = be_req (bc_reqs bc ! t) \<and> be_op (rs' ! t) = be_op (bc_reqs bc ! t)"
    if "t \<in> set ?P" for t
    using that pend [of t] unfolding sets by auto
  ultimately show ?thesis using run by (intro exI [of _ ?bc]) simp
qed

section \<open>The requests of a context\<close>

lemma queue_inv_fields [simp]:
  "queue_inv (bc\<lparr>bc_mtx := m\<rparr>) = queue_inv bc"
  by (simp add: queue_inv_def elems_ok_def)

lemma get_put [simp]:
  "b < length (bs_ctxts s) \<Longrightarrow> get_ctxt b (put_ctxt b bc s) = Some bc"
  "put_ctxt b bc (put_ctxt b bc' s) = put_ctxt b bc s"
  "length (bs_ctxts (put_ctxt b bc s)) = length (bs_ctxts s)"
  by (simp_all add: get_ctxt_def put_ctxt_def)

lemma get_ctxt_Some: "get_ctxt b s = Some bc \<longleftrightarrow> b < length (bs_ctxts s) \<and> bs_ctxts s ! b = bc"
  by (auto simp: get_ctxt_def)

lemma put_same: "get_ctxt b s = Some bc \<Longrightarrow> put_ctxt b bc s = s"
  by (cases s) (auto simp: get_ctxt_Some put_ctxt_def)

lemma mem_ctxts: "s\<lparr>bs_mem := m\<rparr>\<lparr>bs_ctxts := x\<rparr> = s\<lparr>bs_ctxts := x, bs_mem := m\<rparr>"
  by (cases s) simp

text \<open>The pending requests in the order of their arrival.\<close>

definition pend_reqs :: "'r blockif_ctxt \<Rightarrow> ('r blockif_req \<times> blockop) list" where
  "pend_reqs bc = map (\<lambda>i. (the (be_req (bc_reqs bc ! i)), be_op (bc_reqs bc ! i))) (bc_pendq bc)"

lemma pend_reqs_mtx [simp]: "pend_reqs (bc\<lparr>bc_mtx := m\<rparr>) = pend_reqs bc"
  by (simp add: pend_reqs_def)

lemma request_ok:
  assumes g: "get_ctxt b s = Some bc" and free: "mutex_free (bc_mtx bc)" and inv: "queue_inv bc"
  shows "bc_freeq bc = [] \<Longrightarrow> blockif_request b breq op s = Some (E2BIG, s)"
    and "bc_freeq bc \<noteq> [] \<Longrightarrow> \<exists>bc'. blockif_request b breq op s = Some (0, put_ctxt b bc' s) \<and>
      queue_inv bc' \<and> queue_frame bc bc' \<and> bc_busyq bc' = bc_busyq bc \<and>
      length (bc_freeq bc') = length (bc_freeq bc) - 1 \<and> pend_reqs bc' = pend_reqs bc @ [(breq, op)]"
proof -
  let ?m = "(bc_mtx bc)\<lparr>mutex_lock := 1\<rparr>"
  have b: "b < length (bs_ctxts s)" "bs_ctxts s ! b = bc" using g by (simp_all add: get_ctxt_Some)
  have m: "(bc_mtx bc)\<lparr>mutex_lock := 0\<rparr> = bc_mtx bc" using free by (cases "bc_mtx bc") simp
  have lock: "lock_bc b s = Some (put_ctxt b (bc\<lparr>bc_mtx := ?m\<rparr>) s)"
    using g free by (simp add: lock_bc_def pthread_mutex_lock_def)
  show "blockif_request b breq op s = Some (E2BIG, s)" if "bc_freeq bc = []"
    using that b m lock put_same [OF g]
    by (simp add: blockif_request_def unlock_bc_def pthread_mutex_unlock_def)
  assume "bc_freeq bc \<noteq> []"
  then obtain i "is" where i: "bc_freeq bc = i # is" by (cases "bc_freeq bc") auto
  have "queue_inv (bc\<lparr>bc_mtx := ?m\<rparr>)" using inv by simp
  from enqueue_ok [OF this, of i "is" breq op] i obtain hit bc1 where
    e: "blockif_enqueue (bc\<lparr>bc_mtx := ?m\<rparr>) breq op = Some (hit, bc1)" "queue_inv bc1"
      "queue_frame (bc\<lparr>bc_mtx := ?m\<rparr>) bc1"
      "bc_freeq bc1 = is" "bc_pendq bc1 = bc_pendq bc @ [i]" "bc_busyq bc1 = bc_busyq bc"
      "be_req (bc_reqs bc1 ! i) = Some breq" "be_op (bc_reqs bc1 ! i) = op"
      "\<forall>j. j \<noteq> i \<longrightarrow> bc_reqs bc1 ! j = bc_reqs bc ! j"
    by auto
  let ?bc = "bc1\<lparr>bc_mtx := bc_mtx bc\<rparr>"
  have mtx: "bc_mtx bc1 = ?m" using e(3) by (auto simp: queue_frame_def)
  have "queue_frame bc ?bc"
  proof -
    from e(3) obtain f p q rs where
      "bc1 = (bc\<lparr>bc_mtx := ?m\<rparr>)\<lparr>bc_freeq := f, bc_pendq := p, bc_busyq := q, bc_reqs := rs\<rparr>"
      unfolding queue_frame_def by blast
    then have "?bc = bc\<lparr>bc_freeq := f, bc_pendq := p, bc_busyq := q, bc_reqs := rs\<rparr>" by (cases bc) simp
    then show ?thesis unfolding queue_frame_def by blast
  qed
  moreover have "i \<notin> set (bc_pendq bc)" using inv i by (auto simp: queue_inv_def)
  then have "map (\<lambda>i. (the (be_req (bc_reqs bc1 ! i)), be_op (bc_reqs bc1 ! i))) (bc_pendq bc) = pend_reqs bc"
    unfolding pend_reqs_def using e(9) by (intro map_cong) auto
  then have "pend_reqs ?bc = pend_reqs bc @ [(breq, op)]"
    using e(5,7,8) by (simp add: pend_reqs_def)
  moreover have "blockif_request b breq op s = Some (0, put_ctxt b ?bc s)"
    using i b lock e(1) mtx m by (simp add: blockif_request_def unlock_bc_def pthread_mutex_unlock_def)
  ultimately show "\<exists>bc'. blockif_request b breq op s = Some (0, put_ctxt b bc' s) \<and>
      queue_inv bc' \<and> queue_frame bc bc' \<and> bc_busyq bc' = bc_busyq bc \<and>
      length (bc_freeq bc') = length (bc_freeq bc) - 1 \<and> pend_reqs bc' = pend_reqs bc @ [(breq, op)]"
    using e(2,4,6) i by (intro exI [of _ ?bc]) simp
qed

section \<open>The worker\<close>

text \<open>The requests one after the other: the disk, then the callback.\<close>

fun run_reqs :: "('r, 'z) blockif_cb \<Rightarrow> 'r blockif_ctxt \<Rightarrow> ('r blockif_req \<times> blockop) list \<Rightarrow>
    ('r, 'z) blockif_state_scheme \<Rightarrow> ('r, 'z) blockif_state_scheme option" where
  "run_reqs cb bc [] s = Some s"
| "run_reqs cb bc ((r, op) # rs) s = do {
     (err, m, r') \<leftarrow> blockif_io bc op r (bs_mem s);
     s \<leftarrow> cb r' err (s\<lparr>bs_mem := m\<rparr>);
     run_reqs cb bc rs s
   }"

text \<open>A callback that neither reads nor changes the contexts.\<close>

definition cb_frame :: "('r, 'z) blockif_cb \<Rightarrow> bool" where
  "cb_frame cb \<longleftrightarrow> (\<forall>r err s x. cb r err (s\<lparr>bs_ctxts := x\<rparr>) = map_option (\<lambda>s. s\<lparr>bs_ctxts := x\<rparr>) (cb r err s))"

lemma cb_frameD: "cb_frame cb \<Longrightarrow> cb r err (s\<lparr>bs_ctxts := x\<rparr>) = map_option (\<lambda>s. s\<lparr>bs_ctxts := x\<rparr>) (cb r err s)"
  by (simp add: cb_frame_def)

lemma run_reqs_frame:
  assumes "cb_frame cb"
  shows "run_reqs cb bc rs (s\<lparr>bs_ctxts := x\<rparr>) = map_option (\<lambda>s. s\<lparr>bs_ctxts := x\<rparr>) (run_reqs cb bc rs s)"
proof (induction rs arbitrary: s)
  case (Cons rop rs)
  obtain r op where rop: "rop = (r, op)" by (cases rop)
  show ?case
  proof (cases "blockif_io bc op r (bs_mem s)")
    case None
    then show ?thesis by (simp add: rop)
  next
    case (Some res)
    obtain err m r' where res: "res = (err, m, r')" by (cases res)
    have "cb r' err (s\<lparr>bs_ctxts := x, bs_mem := m\<rparr>) = cb r' err (s\<lparr>bs_mem := m\<rparr>\<lparr>bs_ctxts := x\<rparr>)" by (simp only: mem_ctxts)
    also have "\<dots> = map_option (\<lambda>s. s\<lparr>bs_ctxts := x\<rparr>) (cb r' err (s\<lparr>bs_mem := m\<rparr>))"
      by (rule cb_frameD [OF assms])
    finally show ?thesis
      using Some res Cons.IH by (cases "cb r' err (s\<lparr>bs_mem := m\<rparr>)") (simp_all add: rop)
  qed
qed simp

lemma io_frame: "queue_frame bc bc' \<Longrightarrow> blockif_io bc' op r m = blockif_io bc op r m"
  by (auto simp: queue_frame_def blockif_io_def split: blockop.split)

lemma run_reqs_queue: "queue_frame bc bc' \<Longrightarrow> run_reqs cb bc' rs s = run_reqs cb bc rs s"
  by (induction rs arbitrary: s) (auto simp: io_frame intro!: Option.bind_cong)

lemma queue_frame_trans: "queue_frame bc bc' \<Longrightarrow> queue_frame bc' bc'' \<Longrightarrow> queue_frame bc bc''"
  by (auto simp: queue_frame_def) (metis (no_types, lifting) surjective)

lemma upd_busy_inv:
  assumes inv: "queue_inv bc" and i: "i \<in> set (bc_busyq bc)"
  shows "queue_inv (upd_elem i (\<lambda>be. be\<lparr>be_req := Some r, be_status := BST_DONE\<rparr>) bc)" (is "queue_inv ?bc")
proof -
  have len: "i < length (bc_reqs bc)" using queue_inv_index [OF inv] i by auto
  have other: "t \<noteq> i" if "t \<in> set (bc_pendq bc) \<union> set (bc_freeq bc)" for t
    using that inv i by (auto simp: queue_inv_def)
  have "be_block (bc_reqs ?bc ! t) = be_block (bc_reqs bc ! t)" for t
    using len by (cases "t = i") simp_all
  then have "waits (bc_reqs ?bc) (set (bc_busyq bc)) (bc_pendq bc)"
    using inv waits_cong [of "set (bc_busyq bc)" "bc_pendq bc" "bc_reqs ?bc" "bc_reqs bc"] other
    by (simp add: queue_inv_def)
  moreover have "elems_ok ?bc"
    unfolding elems_ok_def
  proof (intro conjI ballI)
    fix t assume t: "t \<in> set (bc_busyq ?bc)"
    then show "elem_stat (bc_reqs ?bc) t \<in> {BST_BUSY, BST_DONE}" "be_req (bc_reqs ?bc ! t) \<noteq> None"
      using len inv by (cases "t = i"; simp add: queue_inv_def elems_ok_def)+
  qed (use inv other in \<open>auto simp: queue_inv_def elems_ok_def\<close>)
  ultimately show ?thesis using inv by (simp add: queue_inv_def)
qed

lemma upd_elem_frame: "queue_frame bc (upd_elem i f bc)"
  unfolding queue_frame_def upd_elem_def
  by (intro exI [of _ "bc_freeq bc"] exI [of _ "bc_pendq bc"] exI [of _ "bc_busyq bc"]
      exI [of _ "(bc_reqs bc)[i := f (bc_reqs bc ! i)]"]) simp

text \<open>One round of the loop.\<close>

lemma thr_round:
  assumes cb: "cb_frame cb" and g: "get_ctxt b s = Some bc" and inv: "queue_inv bc" and idle: "bc_busyq bc = []"
    and pend: "bc_pendq bc = i # is"
  obtains r op rs where "pend_reqs bc = (r, op) # rs" "\<And>err m r' s1. blockif_io bc op r (bs_mem s) = Some (err, m, r') \<Longrightarrow>
      cb r' err (s\<lparr>bs_mem := m\<rparr>) = Some s1 \<Longrightarrow>
      \<exists>bc3. queue_inv bc3 \<and> bc_busyq bc3 = [] \<and> bc_pendq bc3 = is \<and> queue_frame bc bc3 \<and> pend_reqs bc3 = rs \<and>
        thr_loop cb b s = thr_loop cb b (s1\<lparr>bs_ctxts := (bs_ctxts s)[b := bc3]\<rparr>)"
    "blockif_io bc op r (bs_mem s) = None \<Longrightarrow> thr_loop cb b s = None"
    "\<And>err m r'. blockif_io bc op r (bs_mem s) = Some (err, m, r') \<Longrightarrow>
      cb r' err (s\<lparr>bs_mem := m\<rparr>) = None \<Longrightarrow> thr_loop cb b s = None"
proof -
  have b: "b < length (bs_ctxts s)" "bs_ctxts s ! b = bc" using g by (simp_all add: get_ctxt_Some)
  obtain bc1 where bc1: "blockif_dequeue bc 0 = Some (Some i, bc1)" "queue_inv bc1" "queue_frame bc bc1"
    "bc_pendq bc1 = is" "bc_busyq bc1 = [i]"
    "bc_reqs bc1 = (bc_reqs bc)[i := (bc_reqs bc ! i)\<lparr>be_status := BST_BUSY, be_tid := 0\<rparr>]"
    using dequeue_head [OF inv idle pend, of 0] by blast
  have i: "i < length (bc_reqs bc)" "i \<notin> set is" using inv pend queue_inv_index [OF inv, of i] by (auto simp: queue_inv_def)
  obtain r where r: "be_req (bc_reqs bc ! i) = Some r" using inv pend by (auto simp: queue_inv_def elems_ok_def)
  let ?op = "be_op (bc_reqs bc ! i)"
  let ?rs = "map (\<lambda>i. (the (be_req (bc_reqs bc ! i)), be_op (bc_reqs bc ! i))) is"
  have at_i: "be_req (bc_reqs bc1 ! i) = Some r" "be_op (bc_reqs bc1 ! i) = ?op"
    using i(1) r by (simp_all add: bc1(6))
  have reqs: "pend_reqs bc = (r, ?op) # ?rs" using pend r by (simp add: pend_reqs_def)
  have io: "blockif_io bc1 ?op r (bs_mem s) = blockif_io bc ?op r (bs_mem s)" by (rule io_frame [OF bc1(3)])
  have head: "thr_loop cb b s = Option.bind (blockif_proc cb b i (put_ctxt b bc1 s)) (\<lambda>s.
      Option.bind (get_ctxt b s) (\<lambda>bc. Option.bind (blockif_complete bc i) (\<lambda>bc. thr_loop cb b (put_ctxt b bc s))))"
    by (subst thr_loop.simps) (simp add: g bc1(1))
  have mem: "bs_mem (put_ctxt b bc1 s) = bs_mem s" by (simp add: put_ctxt_def)
  have proc: "blockif_proc cb b i (put_ctxt b bc1 s) = map_option (\<lambda>s1. s1\<lparr>bs_ctxts := (bs_ctxts s)[b := bc2]\<rparr>)
      (cb r' err (s\<lparr>bs_mem := m\<rparr>))"
    if "blockif_io bc ?op r (bs_mem s) = Some (err, m, r')"
      "bc2 = upd_elem i (\<lambda>be. be\<lparr>be_req := Some r', be_status := BST_DONE\<rparr>) bc1" for err m r' bc2
  proof -
    have "put_ctxt b bc2 ((put_ctxt b bc1 s)\<lparr>bs_mem := m\<rparr>) = s\<lparr>bs_mem := m\<rparr>\<lparr>bs_ctxts := (bs_ctxts s)[b := bc2]\<rparr>"
      by (cases s) (simp add: put_ctxt_def)
    then show ?thesis
      using that io at_i b(1) mem cb_frameD [OF cb, of r' err "(bs_ctxts s)[b := bc2]" "s\<lparr>bs_mem := m\<rparr>"]
      by (simp add: blockif_proc_def)
  qed
  show ?thesis
  proof (rule that [of r ?op ?rs])
    show "pend_reqs bc = (r, ?op) # ?rs" by (rule reqs)
    show "thr_loop cb b s = None" if "blockif_io bc ?op r (bs_mem s) = None"
      using that io at_i b(1) mem by (simp add: head blockif_proc_def)
    show "thr_loop cb b s = None" if "blockif_io bc ?op r (bs_mem s) = Some (err, m, r')"
      "cb r' err (s\<lparr>bs_mem := m\<rparr>) = None" for err m r'
      using proc [OF that(1) refl] that(2) by (simp add: head)
    fix err m r' s1
    assume a: "blockif_io bc ?op r (bs_mem s) = Some (err, m, r')" "cb r' err (s\<lparr>bs_mem := m\<rparr>) = Some s1"
    define bc2 where "bc2 = upd_elem i (\<lambda>be. be\<lparr>be_req := Some r', be_status := BST_DONE\<rparr>) bc1"
    have bc2: "queue_inv bc2" "i \<in> set (bc_busyq bc2)" "bc_pendq bc2 = is" "bc_busyq bc2 = [i]" "queue_frame bc1 bc2"
      using upd_busy_inv [OF bc1(2), of i r'] bc1(4,5) upd_elem_frame by (simp_all add: bc2_def)
    have old: "bc_reqs bc2 ! t = bc_reqs bc ! t" if "t \<in> set is" for t
    proof -
      have "t \<noteq> i" using that i(2) by auto
      then show ?thesis by (simp add: bc2_def bc1(6))
    qed
    obtain bc3 where bc3: "blockif_complete bc2 i = Some bc3" "queue_inv bc3" "queue_frame bc2 bc3"
      "bc_pendq bc3 = remove1 i is" "bc_busyq bc3 = []"
      "\<forall>t\<in>set (bc_pendq bc3). be_req (bc_reqs bc3 ! t) = be_req (bc_reqs bc2 ! t) \<and>
         be_op (bc_reqs bc3 ! t) = be_op (bc_reqs bc2 ! t)"
      using complete_ok [OF bc2(1), of i] bc2(2-4) by auto
    have "bc_pendq bc3 = is" using bc3(4) i(2) by (simp add: remove1_idem)
    moreover from this have "pend_reqs bc3 = ?rs"
      using bc3(6) old by (auto simp: pend_reqs_def)
    moreover have "queue_frame bc bc3" using bc1(3) bc2(5) bc3(3) by (blast intro: queue_frame_trans)
    moreover have "thr_loop cb b s = thr_loop cb b (s1\<lparr>bs_ctxts := (bs_ctxts s)[b := bc3]\<rparr>)"
      using proc [OF a(1) bc2_def] a(2) b(1) bc3(1) by (simp add: head get_ctxt_def put_ctxt_def)
    ultimately show "\<exists>bc3. queue_inv bc3 \<and> bc_busyq bc3 = [] \<and> bc_pendq bc3 = is \<and> queue_frame bc bc3 \<and>
        pend_reqs bc3 = ?rs \<and> thr_loop cb b s = thr_loop cb b (s1\<lparr>bs_ctxts := (bs_ctxts s)[b := bc3]\<rparr>)"
      using bc3(2,5) by blast
  qed
qed

lemma thr_loop_ok:
  assumes cb: "cb_frame cb" and "get_ctxt b s = Some bc" "queue_inv bc" "bc_busyq bc = []"
  shows "case run_reqs cb bc (pend_reqs bc) s of
      None \<Rightarrow> thr_loop cb b s = None
    | Some s' \<Rightarrow> \<exists>bc'. queue_inv bc' \<and> bc_pendq bc' = [] \<and> bc_busyq bc' = [] \<and> queue_frame bc bc' \<and>
        thr_loop cb b s = Some (s'\<lparr>bs_ctxts := (bs_ctxts s)[b := bc']\<rparr>)"
  using assms(2-4)
proof (induction "bc_pendq bc" arbitrary: bc s)
  case Nil
  then have "thr_loop cb b s = Some (s\<lparr>bs_ctxts := (bs_ctxts s)[b := bc]\<rparr>)"
    by (subst thr_loop.simps) (simp add: dequeue_empty put_ctxt_def)
  moreover have "pend_reqs bc = []" using Nil(1) by (simp add: pend_reqs_def)
  ultimately show ?case using Nil by (auto intro!: exI [of _ bc])
next
  case (Cons i "is")
  have pend: "bc_pendq bc = i # is" using Cons(2) by simp
  obtain r op rs where round: "pend_reqs bc = (r, op) # rs"
    "\<And>err m r' s1. blockif_io bc op r (bs_mem s) = Some (err, m, r') \<Longrightarrow> cb r' err (s\<lparr>bs_mem := m\<rparr>) = Some s1 \<Longrightarrow>
      \<exists>bc3. queue_inv bc3 \<and> bc_busyq bc3 = [] \<and> bc_pendq bc3 = is \<and> queue_frame bc bc3 \<and> pend_reqs bc3 = rs \<and>
        thr_loop cb b s = thr_loop cb b (s1\<lparr>bs_ctxts := (bs_ctxts s)[b := bc3]\<rparr>)"
    "blockif_io bc op r (bs_mem s) = None \<Longrightarrow> thr_loop cb b s = None"
    "\<And>err m r'. blockif_io bc op r (bs_mem s) = Some (err, m, r') \<Longrightarrow>
      cb r' err (s\<lparr>bs_mem := m\<rparr>) = None \<Longrightarrow> thr_loop cb b s = None"
    by (rule thr_round [OF cb Cons(3-5) pend]) (rule that)
  consider "blockif_io bc op r (bs_mem s) = None"
    | err m r' where "blockif_io bc op r (bs_mem s) = Some (err, m, r')" "cb r' err (s\<lparr>bs_mem := m\<rparr>) = None"
    | err m r' s1 where "blockif_io bc op r (bs_mem s) = Some (err, m, r')" "cb r' err (s\<lparr>bs_mem := m\<rparr>) = Some s1"
    by (metis not_Some_eq prod_cases3)
  then show ?case
  proof cases
    case 1
    with round show ?thesis by simp
  next
    case 2
    with round show ?thesis by simp
  next
    case 3
    then obtain bc3 where bc3: "queue_inv bc3" "bc_busyq bc3 = []" "bc_pendq bc3 = is" "queue_frame bc bc3"
      "pend_reqs bc3 = rs" "thr_loop cb b s = thr_loop cb b (s1\<lparr>bs_ctxts := (bs_ctxts s)[b := bc3]\<rparr>)"
      using round(2) by blast
    let ?s2 = "s1\<lparr>bs_ctxts := (bs_ctxts s)[b := bc3]\<rparr>"
    have "get_ctxt b ?s2 = Some bc3" using Cons(3) by (simp add: get_ctxt_Some)
    from Cons(1) [OF bc3(3) [symmetric] this bc3(1,2)] have
      "case run_reqs cb bc3 rs ?s2 of
        None \<Rightarrow> thr_loop cb b ?s2 = None
      | Some s' \<Rightarrow> \<exists>bc'. queue_inv bc' \<and> bc_pendq bc' = [] \<and> bc_busyq bc' = [] \<and> queue_frame bc3 bc' \<and>
          thr_loop cb b ?s2 = Some (s'\<lparr>bs_ctxts := (bs_ctxts s)[b := bc']\<rparr>)"
      by (simp add: bc3(5) cong: option.case_cong)
    moreover have "run_reqs cb bc3 rs ?s2 = map_option (\<lambda>s'. s'\<lparr>bs_ctxts := (bs_ctxts s)[b := bc3]\<rparr>) (run_reqs cb bc rs s1)"
      unfolding run_reqs_frame [OF cb] run_reqs_queue [OF bc3(4)] ..
    moreover have "run_reqs cb bc (pend_reqs bc) s = run_reqs cb bc rs s1"
      using 3 by (simp add: round(1))
    ultimately show ?thesis
      using bc3(6) queue_frame_trans [OF bc3(4)] by (cases "run_reqs cb bc rs s1") (simp, fastforce)
  qed
qed

end
