(* ===== verification/BlockIfDisk.thy ===== *)
theory BlockIfDisk
  imports BlockIfProps
begin

text \<open>
  The disk: what is written is what is read, the worker as a whole, the histories of a context, and
  the geometry. The properties of the block device stand at the end.
\<close>

section \<open>Copies\<close>

lemma mem_bytes_store:
  assumes "length bs < 2 ^ 64"
  shows "mem_bytes (mem_store m a bs) a (length bs) = bs"
  by (rule nth_equalityI) (use assms in \<open>simp_all add: mem_store_inside\<close>)

lemma mem_bytes_append: "mem_bytes m a (j + k) = mem_bytes m a j @ mem_bytes m (a + of_nat j) k"
proof (rule nth_equalityI)
  fix i assume i: "i < length (mem_bytes m a (j + k))"
  show "mem_bytes m a (j + k) ! i = (mem_bytes m a j @ mem_bytes m (a + of_nat j) k) ! i"
  proof (cases "i < j")
    case False
    then have "a + of_nat i = a + of_nat j + of_nat (i - j)" by (simp add: of_nat_diff)
    with False i show ?thesis by (simp add: nth_append)
  qed (use i in \<open>simp add: nth_append\<close>)
qed simp

text \<open>Regions of memory.\<close>

definition region :: "u64 \<Rightarrow> nat \<Rightarrow> u64 set" where
  "region a n = (\<lambda>i. a + of_nat i) ` {..<n}"

lemma region_append: "region a (m + n) = region a m \<union> region (a + of_nat m) n"
proof -
  have "{..<m + n} = {..<m} \<union> (\<lambda>i. m + i) ` {..<n}"
    by (rule set_eqI) (simp add: image_iff Bex_def, presburger)
  then show ?thesis by (auto simp: region_def image_Un image_image add.assoc)
qed

lemma mem_store_region: "x \<notin> region a (length bs) \<Longrightarrow> mem_store m a bs x = m x"
  by (rule mem_store_outside) (auto simp: region_def)

lemma mem_bytes_region: "region a n \<inter> region b (length bs) = {} \<Longrightarrow> mem_bytes (mem_store m b bs) a n = mem_bytes m a n"
  by (rule nth_equalityI) (auto simp: region_def intro!: mem_store_region [unfolded region_def])

text \<open>The bytes of the vectors, and vectors that do not overlap each other.\<close>

fun iov_region :: "iovec list \<Rightarrow> u64 set" where
  "iov_region [] = {}"
| "iov_region (v # vs) = (case iov_base v of Host a \<Rightarrow> region a (iov_len v) | Hdr _ \<Rightarrow> {}) \<union> iov_region vs"

fun iov_disjoint :: "iovec list \<Rightarrow> bool" where
  "iov_disjoint [] = True"
| "iov_disjoint (v # vs) \<longleftrightarrow>
     (case iov_base v of Host a \<Rightarrow> region a (iov_len v) | Hdr _ \<Rightarrow> {}) \<inter> iov_region vs = {} \<and> iov_disjoint vs"

abbreviation iov_total :: "iovec list \<Rightarrow> nat" where
  "iov_total vs \<equiv> sum_list (map iov_len vs)"

lemma host_bytes_store:
  "host_iov vs \<Longrightarrow> iov_region vs \<inter> region a (length bs) = {} \<Longrightarrow> host_bytes (mem_store m a bs) vs = host_bytes m vs"
  by (induction vs) (auto simp: mem_bytes_region Int_Un_distrib2)

lemma copy_from_disk_total: "host_iov vs \<Longrightarrow> copy_from_disk m addr vs \<noteq> None"
  by (induction m addr vs rule: copy_from_disk.induct) auto

lemma copy_to_disk_total: "host_iov vs \<Longrightarrow> copy_to_disk m addr vs \<noteq> None"
  by (induction m addr vs rule: copy_to_disk.induct) auto

lemma copy_from_disk_outside:
  "copy_from_disk m addr vs = Some m' \<Longrightarrow> x \<notin> iov_region vs \<Longrightarrow> m' x = m x"
proof (induction m addr vs rule: copy_from_disk.induct)
  case (2 m addr v vs)
  then obtain a where a: "iov_base v = Host a" by (cases "iov_base v") auto
  with 2 have "m' x = mem_store m a (mem_bytes m addr (iov_len v)) x" by simp
  moreover have "x \<notin> region a (length (mem_bytes m addr (iov_len v)))" using 2(3) a by simp
  ultimately show ?case by (simp add: mem_store_region)
qed simp

lemma copy_from_disk_bytes:
  assumes "copy_from_disk m addr vs = Some m'" "iov_disjoint vs" "iov_region vs \<inter> region addr (iov_total vs) = {}"
    and "iov_total vs < 2 ^ 64"
  shows "host_bytes m' vs = mem_bytes m addr (iov_total vs)"
  using assms
proof (induction m addr vs rule: copy_from_disk.induct)
  case (2 m addr v vs)
  from 2(2) obtain a where a: "iov_base v = Host a" by (cases "iov_base v") auto
  let ?n = "iov_len v" and ?m = "mem_store m a (mem_bytes m addr (iov_len v))"
  have run: "copy_from_disk ?m (addr + of_nat ?n) vs = Some m'" using 2(2) a by simp
  have disk: "region addr (iov_total (v # vs)) = region addr ?n \<union> region (addr + of_nat ?n) (iov_total vs)"
    by (simp add: region_append)
  have rest: "host_bytes m' vs = mem_bytes ?m (addr + of_nat ?n) (iov_total vs)"
    using 2(1) [OF a run] 2(3-5) unfolding disk by auto
  also have "\<dots> = mem_bytes m (addr + of_nat ?n) (iov_total vs)"
    using 2(4) a unfolding disk by (intro mem_bytes_region) auto
  finally have "host_bytes m' vs = mem_bytes m (addr + of_nat ?n) (iov_total vs)" .
  moreover have "mem_bytes m' a ?n = mem_bytes m addr ?n"
  proof -
    have "m' (a + of_nat i) = ?m (a + of_nat i)" if "i < ?n" for i
    proof (rule copy_from_disk_outside [OF run])
      have "a + of_nat i \<in> region a ?n" using that by (auto simp: region_def)
      then show "a + of_nat i \<notin> iov_region vs" using 2(3) a by auto
    qed
    then have "mem_bytes m' a ?n = mem_bytes ?m a ?n" by (intro nth_equalityI) simp_all
    then show ?thesis using mem_bytes_store [of "mem_bytes m addr ?n" m a] 2(5) by simp
  qed
  ultimately show ?case using a by (simp add: mem_bytes_append)
qed (simp add: mem_bytes_def)

lemma copy_to_disk_bytes:
  assumes "copy_to_disk m addr vs = Some m'" "iov_region vs \<inter> region addr (iov_total vs) = {}" "iov_total vs < 2 ^ 64"
    and "host_iov vs"
  shows "mem_bytes m' addr (iov_total vs) = host_bytes m vs \<and> (\<forall>x. x \<notin> region addr (iov_total vs) \<longrightarrow> m' x = m x)"
  using assms
proof (induction m addr vs rule: copy_to_disk.induct)
  case (2 m addr v vs)
  from 2(2) obtain a where a: "iov_base v = Host a" by (cases "iov_base v") auto
  let ?n = "iov_len v" and ?m = "mem_store m addr (mem_bytes m a (iov_len v))"
  have run: "copy_to_disk ?m (addr + of_nat ?n) vs = Some m'" using 2(2) a by simp
  have disk: "region addr (iov_total (v # vs)) = region addr ?n \<union> region (addr + of_nat ?n) (iov_total vs)"
    by (simp add: region_append)
  have IH: "mem_bytes m' (addr + of_nat ?n) (iov_total vs) = host_bytes ?m vs"
    "\<And>x. x \<notin> region (addr + of_nat ?n) (iov_total vs) \<Longrightarrow> m' x = ?m x"
    using 2(1) [OF a run] 2(3-5) unfolding disk by auto
  have "host_bytes ?m vs = host_bytes m vs"
    using 2(3,5) unfolding disk by (intro host_bytes_store) auto
  moreover have "mem_bytes m' addr ?n = mem_bytes m a ?n"
  proof -
    have "addr + of_nat i \<notin> region (addr + of_nat ?n) (iov_total vs)" if i: "i < ?n" for i
    proof
      assume "addr + of_nat i \<in> region (addr + of_nat ?n) (iov_total vs)"
      then obtain j where j: "j < iov_total vs" "(of_nat i :: u64) = of_nat (?n + j)"
        by (auto simp: region_def add.assoc)
      from j(2) have "take_bit 64 i = take_bit 64 (?n + j)" by (simp only: word_of_nat_eq_iff) simp
      with i j(1) 2(4) show False by (simp add: take_bit_eq_mod)
    qed
    then have "mem_bytes m' addr ?n = mem_bytes ?m addr ?n" using IH(2) by (intro nth_equalityI) simp_all
    then show ?thesis using mem_bytes_store [of "mem_bytes m a ?n" m addr] 2(4) by simp
  qed
  moreover have "m' x = m x" if "x \<notin> region addr (iov_total (v # vs))" for x
    using that IH(2) mem_store_region [of x addr "mem_bytes m a ?n" m] unfolding disk by simp
  ultimately show ?case using a IH(1) by (simp add: mem_bytes_append)
qed (simp add: mem_bytes_def region_def)

section \<open>The worker as a whole\<close>

lemma io_total: "host_iov (br_iov r) \<Longrightarrow> blockif_io bc op r m \<noteq> None"
  using copy_from_disk_total [of "br_iov r"] copy_to_disk_total [of "br_iov r"]
  by (cases op) (auto simp: blockif_io_def bind_eq_None_conv simp del: not_None_eq)

lemma run_reqs_total:
  assumes "\<And>r err s. cb r err s \<noteq> None" "\<forall>(r, op)\<in>set rs. host_iov (br_iov r)"
  shows "run_reqs cb bc rs s \<noteq> None"
  using assms(2)
proof (induction rs arbitrary: s)
  case (Cons rop rs)
  obtain r op where rop: "rop = (r, op)" by (cases rop)
  then obtain err m r' where io: "blockif_io bc op r (bs_mem s) = Some (err, m, r')"
    using io_total [of r bc op "bs_mem s"] Cons.prems by auto
  obtain s1 where "cb r' err (s\<lparr>bs_mem := m\<rparr>) = Some s1" using assms(1) by blast
  then show ?case using io rop Cons.IH [of s1] Cons.prems by simp
qed simp

lemma run_reqs_mtx [simp]: "run_reqs cb (bc\<lparr>bc_mtx := mtx\<rparr>) rs s = run_reqs cb bc rs s"
proof -
  have "blockif_io (bc\<lparr>bc_mtx := mtx\<rparr>) op r m = blockif_io bc op r m" for op and r :: "'a blockif_req" and m
    by (simp add: blockif_io_def split: blockop.split)
  then show ?thesis by (induction rs arbitrary: s) (auto intro!: Option.bind_cong)
qed

lemma thr_ok:
  assumes cb: "cb_frame cb" and sc: "blockif_sc s = Some (Some b)" and g: "get_ctxt b s = Some bc"
    and free: "mutex_free (bc_mtx bc)" and inv: "queue_inv bc" and idle: "bc_busyq bc = []"
    and run: "run_reqs cb bc (pend_reqs bc) s = Some s'"
  shows "\<exists>bc'. queue_inv bc' \<and> bc_pendq bc' = [] \<and> bc_busyq bc' = [] \<and> queue_frame bc bc' \<and>
    blockif_thr cb s = Some (s'\<lparr>bs_ctxts := (bs_ctxts s)[b := bc']\<rparr>)"
proof -
  let ?bc = "bc\<lparr>bc_mtx := (bc_mtx bc)\<lparr>mutex_lock := 1\<rparr>\<rparr>"
  let ?s = "put_ctxt b ?bc s"
  have b: "b < length (bs_ctxts s)" using g by (simp add: get_ctxt_Some)
  have lock: "lock_bc b s = Some ?s" using g free by (simp add: lock_bc_def pthread_mutex_lock_def)
  have "run_reqs cb ?bc (pend_reqs ?bc) ?s = Some (s'\<lparr>bs_ctxts := (bs_ctxts s)[b := ?bc]\<rparr>)"
    using run run_reqs_frame [OF cb, of bc "pend_reqs bc" "(bs_ctxts s)[b := ?bc]" s] by (simp add: put_ctxt_def)
  moreover have "get_ctxt b ?s = Some ?bc" "queue_inv ?bc" "bc_busyq ?bc = []" using b inv idle by simp_all
  ultimately obtain bc1 where bc1: "queue_inv bc1" "bc_pendq bc1 = []" "bc_busyq bc1 = []" "queue_frame ?bc bc1"
    "thr_loop cb b ?s = Some (s'\<lparr>bs_ctxts := (bs_ctxts ?s)[b := bc1]\<rparr>)"
    using thr_loop_ok [OF cb, of b ?s ?bc] by auto
  let ?bc' = "bc1\<lparr>bc_mtx := bc_mtx bc\<rparr>"
  have mtx: "bc_mtx bc1 = (bc_mtx bc)\<lparr>mutex_lock := 1\<rparr>" using bc1(4) by (auto simp: queue_frame_def)
  have m: "(bc_mtx bc)\<lparr>mutex_lock := 0\<rparr> = bc_mtx bc" using free by (cases "bc_mtx bc") simp
  have "blockif_thr cb s = Some (s'\<lparr>bs_ctxts := (bs_ctxts s)[b := ?bc']\<rparr>)"
    using sc lock bc1(5) b mtx m
    by (simp add: blockif_thr_def unlock_bc_def get_ctxt_def put_ctxt_def pthread_mutex_unlock_def)
  moreover have "queue_frame bc ?bc'"
  proof -
    from bc1(4) obtain f p q rs where "bc1 = ?bc\<lparr>bc_freeq := f, bc_pendq := p, bc_busyq := q, bc_reqs := rs\<rparr>"
      unfolding queue_frame_def by blast
    then have "?bc' = bc\<lparr>bc_freeq := f, bc_pendq := p, bc_busyq := q, bc_reqs := rs\<rparr>" by (cases bc) simp
    then show ?thesis unfolding queue_frame_def by blast
  qed
  ultimately show ?thesis using bc1(1-3) by (intro exI [of _ ?bc']) simp
qed

section \<open>Histories\<close>

text \<open>A context between the calls of its client.\<close>

definition ctxt_ok :: "nat \<Rightarrow> ('r, 'z) blockif_state_scheme \<Rightarrow> bool" where
  "ctxt_ok b s \<longleftrightarrow> (\<exists>bc. get_ctxt b s = Some bc \<and> bc_magic bc = BLOCKIF_SIG \<and> mutex_free (bc_mtx bc) \<and>
     queue_inv bc \<and> bc_busyq bc = [])"

text \<open>Requests, cancellations and runs of the worker, in any order.\<close>

inductive disk_step :: "('r, 'z) blockif_cb \<Rightarrow> nat \<Rightarrow> ('r, 'z) blockif_state_scheme \<Rightarrow> ('r, 'z) blockif_state_scheme \<Rightarrow> bool"
  for cb b where
  disk_request: "blockif_request b breq op s = Some (err, s') \<Longrightarrow> disk_step cb b s s'"
| disk_cancel: "blockif_cancel b r s = Some (err, s') \<Longrightarrow> disk_step cb b s s'"
| disk_work: "blockif_sc s = Some (Some b) \<Longrightarrow> blockif_thr cb s = Some s' \<Longrightarrow> disk_step cb b s s'"

lemma frame_fields: "queue_frame bc bc' \<Longrightarrow> bc_magic bc' = bc_magic bc \<and> bc_mtx bc' = bc_mtx bc"
  by (auto simp: queue_frame_def)

lemma ctxt_okI:
  "b < length (bs_ctxts s) \<Longrightarrow> queue_inv bc \<Longrightarrow> bc_busyq bc = [] \<Longrightarrow> bc_magic bc = BLOCKIF_SIG \<Longrightarrow>
     mutex_free (bc_mtx bc) \<Longrightarrow> ctxt_ok b (s\<lparr>bs_ctxts := (bs_ctxts s)[b := bc]\<rparr>)"
  by (simp add: ctxt_ok_def get_ctxt_def)

lemma request_step:
  assumes "ctxt_ok b s" "blockif_request b breq op s = Some (err, s')"
  shows "ctxt_ok b s'"
proof -
  from assms(1) obtain bc where bc: "get_ctxt b s = Some bc" "bc_magic bc = BLOCKIF_SIG" "mutex_free (bc_mtx bc)"
    "queue_inv bc" "bc_busyq bc = []"
    unfolding ctxt_ok_def by blast
  show ?thesis
  proof (cases "bc_freeq bc = []")
    case True
    with request_ok(1) [OF bc(1,3,4), of breq op] assms show ?thesis by simp
  next
    case False
    from request_ok(2) [OF bc(1,3,4) False, of breq op] obtain bc' where
      "blockif_request b breq op s = Some (0, put_ctxt b bc' s)" "queue_inv bc'" "queue_frame bc bc'" "bc_busyq bc' = bc_busyq bc"
      by blast
    with assms(2) bc frame_fields [of bc bc'] show ?thesis
      by (auto simp: put_ctxt_def get_ctxt_Some intro!: ctxt_okI)
  qed
qed

lemma cancel_step:
  assumes "ctxt_ok b s" "blockif_cancel b r s = Some (err, s')"
  shows "ctxt_ok b s'"
proof -
  from assms(1) obtain bc where bc: "get_ctxt b s = Some bc" "bc_magic bc = BLOCKIF_SIG" "mutex_free (bc_mtx bc)"
    "queue_inv bc" "bc_busyq bc = []"
    unfolding ctxt_ok_def by blast
  let ?bc = "bc\<lparr>bc_mtx := (bc_mtx bc)\<lparr>mutex_lock := 1\<rparr>\<rparr>"
  have b: "b < length (bs_ctxts s)" using bc(1) by (simp add: get_ctxt_Some)
  have lock: "lock_bc b s = Some (put_ctxt b ?bc s)"
    using bc(1,3) by (simp add: lock_bc_def pthread_mutex_lock_def)
  have m: "(bc_mtx bc)\<lparr>mutex_lock := 0\<rparr> = bc_mtx bc" using bc(3) by (cases "bc_mtx bc") simp
  show ?thesis
  proof (cases "find_req (bc_reqs bc) (bc_pendq bc) r")
    case None
    then have "s' = s"
      using assms(2) bc b lock m put_same [OF bc(1)]
      by (simp add: blockif_cancel_def check_magic_def find_req_def unlock_bc_def pthread_mutex_unlock_def)
    with assms(1) show ?thesis by simp
  next
    case (Some i)
    then have i: "i \<in> set (bc_pendq ?bc) \<union> set (bc_busyq ?bc)" by (auto simp: find_req_def dest: find_SomeD)
    have "queue_inv ?bc" using bc(4) by simp
    from complete_ok [OF this i] bc(5) obtain bc' where c: "blockif_complete ?bc i = Some bc'" "queue_inv bc'"
      "queue_frame ?bc bc'" "bc_busyq bc' = []" by auto
    then have "s' = put_ctxt b (bc'\<lparr>bc_mtx := bc_mtx bc\<rparr>) s"
      using assms(2) bc(1,2) b lock Some m frame_fields [OF c(3)]
      by (simp add: blockif_cancel_def check_magic_def unlock_bc_def pthread_mutex_unlock_def)
    with c bc b frame_fields [OF c(3)] show ?thesis
      by (auto simp: put_ctxt_def intro!: ctxt_okI)
  qed
qed

lemma work_step:
  assumes cb: "cb_frame cb" and ok: "ctxt_ok b s" and sc: "blockif_sc s = Some (Some b)" and thr: "blockif_thr cb s = Some s'"
  shows "ctxt_ok b s'"
proof -
  from ok obtain bc where bc: "get_ctxt b s = Some bc" "bc_magic bc = BLOCKIF_SIG" "mutex_free (bc_mtx bc)"
    "queue_inv bc" "bc_busyq bc = []"
    unfolding ctxt_ok_def by blast
  have b: "b < length (bs_ctxts s)" using bc(1) by (simp add: get_ctxt_Some)
  show ?thesis
  proof (cases "run_reqs cb bc (pend_reqs bc) s")
    case None
    let ?bc = "bc\<lparr>bc_mtx := (bc_mtx bc)\<lparr>mutex_lock := 1\<rparr>\<rparr>"
    have "run_reqs cb ?bc (pend_reqs ?bc) (put_ctxt b ?bc s) = None"
      using None run_reqs_frame [OF cb, of bc "pend_reqs bc" "(bs_ctxts s)[b := ?bc]" s] by (simp add: put_ctxt_def)
    then have "thr_loop cb b (put_ctxt b ?bc s) = None"
      using thr_loop_ok [OF cb, of b "put_ctxt b ?bc s" ?bc] b bc(4,5) by simp
    then have "blockif_thr cb s = None"
      using sc bc(1,3) by (simp add: blockif_thr_def lock_bc_def pthread_mutex_lock_def)
    with thr show ?thesis by simp
  next
    case (Some s1)
    from thr_ok [OF cb sc bc(1,3-5) Some] obtain bc' where "queue_inv bc'" "bc_busyq bc' = []" "queue_frame bc bc'"
      "s' = s1\<lparr>bs_ctxts := (bs_ctxts s)[b := bc']\<rparr>"
      using thr by auto
    with bc(2,3) b frame_fields [of bc bc'] show ?thesis by (simp add: ctxt_ok_def get_ctxt_def)
  qed
qed

lemma disk_steps_ok:
  assumes "(disk_step cb b)\<^sup>*\<^sup>* s s'" "cb_frame cb" "ctxt_ok b s"
  shows "ctxt_ok b s'"
  using assms(1,3)
proof (induction rule: rtranclp_induct)
  case (step s1 s2)
  from step(2) show ?case
    by cases (use step(3-) assms(2) in \<open>auto intro: request_step cancel_step work_step\<close>)
qed

lemma open_ok:
  assumes "blockif_open physmem True s = (Some b, s')"
  shows "ctxt_ok b s' \<and> blockif_sc s' = Some (Some b)"
  using assms
  by (auto simp: blockif_open_def Let_def ctxt_ok_def get_ctxt_def queue_inv_def elems_ok_def
      blockif_zero_elem_def pthread_mutex_init_def)

section \<open>Geometry\<close>

lemma div_div_bounds:
  fixes n a b :: int
  assumes "0 < a" "0 < b"
  shows "n div a div b * (a * b) \<le> n" "n < (n div a div b + 1) * (a * b)"
proof -
  have e: "n div a div b = n div (a * b)" using assms by (simp add: zdiv_zmult2_eq)
  have p: "0 < a * b" using assms by simp
  show "n div a div b * (a * b) \<le> n"
    unfolding e using pos_mod_sign [OF p, of n] div_mult_mod_eq [of n "a * b"] by linarith
  show "n < (n div a div b + 1) * (a * b)"
    unfolding e distrib_right using pos_mod_bound [OF p, of n] div_mult_mod_eq [of n "a * b"] by linarith
qed

definition chs_fit :: "int \<Rightarrow> int \<Rightarrow> int \<Rightarrow> int \<Rightarrow> bool" where
  "chs_fit n c h s \<longleftrightarrow> c * (s * h) \<le> n \<and> n < (c + 1) * (s * h) \<and> 0 \<le> c \<and> c < 65536 \<and> 4 \<le> h \<and> h \<le> 16 \<and> 17 \<le> s \<and> s \<le> 255"

lemma chs_fitI:
  assumes "0 \<le> n" "17 \<le> s" "s \<le> 255" "4 \<le> h" "h \<le> 16" "n div s < 65536 * h"
  shows "chs_fit n (n div s div h) h s"
proof -
  have "n div s div h < 65536"
  proof (rule ccontr)
    assume "\<not> n div s div h < 65536"
    then have "65536 * h \<le> n div s div h * h" using assms by (intro mult_right_mono) simp_all
    also have "\<dots> \<le> n div s"
      using pos_mod_sign [of h "n div s"] div_mult_mod_eq [of "n div s" h] assms by linarith
    finally show False using assms by simp
  qed
  then show ?thesis
    using assms div_div_bounds [of s h n] by (simp add: chs_fit_def pos_imp_zdiv_nonneg_iff)
qed

lemma chs_of_fit:
  assumes "0 \<le> n" "n \<le> 65535 * 16 * 255"
  shows "\<exists>c h s. chs_of n = (word_of_int c, word_of_int h, word_of_int s) \<and> chs_fit n c h s"
proof (cases "65536 * 16 * 63 \<le> n")
  case True
  then have "chs_of n = (word_of_int (n div 255 div 16), word_of_int 16, word_of_int 255)"
    using assms by (simp add: chs_of_def Let_def)
  moreover have "chs_fit n (n div 255 div 16) 16 255" using assms by (intro chs_fitI) auto
  ultimately show ?thesis by blast
next
  case False
  define h where "h = (if (n div 17 + 1023) div 1024 mod 256 < 4 then 4 else (n div 17 + 1023) div 1024 mod 256)"
  have h: "4 \<le> h" by (simp add: h_def)
  have clamp: "(if n > 65535 * 16 * 255 then 65535 * 16 * 255 else n) = n" using assms(2) by simp
  have c31: "chs_fit n (n div 31 div 16) 16 31" if "n div 31 < 16 * 1024"
    using that assms by (intro chs_fitI) auto
  have c63: "chs_fit n (n div 63 div 16) 16 63" using False assms by (intro chs_fitI) auto
  have c17: "chs_fit n (n div 17 div h) h 17" if "n div 17 < h * 1024" "h \<le> 16"
    using that assms h by (intro chs_fitI) auto
  have eq: "chs_of n = (if n div 17 \<ge> h * 1024 \<or> h > 16
      then if n div 31 \<ge> 16 * 1024 then (word_of_int (n div 63 div 16), word_of_int 16, word_of_int 63)
        else (word_of_int (n div 31 div 16), word_of_int 16, word_of_int 31)
      else (word_of_int (n div 17 div h), word_of_int h, word_of_int 17))"
    unfolding chs_of_def Let_def clamp if_not_P [OF False] h_def [symmetric] prod.case
    by (cases "n div 17 \<ge> h * 1024 \<or> h > 16"; cases "n div 31 \<ge> 16 * 1024") simp_all
  consider "n div 17 \<ge> h * 1024 \<or> h > 16" "n div 31 \<ge> 16 * 1024"
    | "n div 17 \<ge> h * 1024 \<or> h > 16" "n div 31 < 16 * 1024" | "n div 17 < h * 1024" "h \<le> 16"
    by linarith
  then show ?thesis
  proof cases
    case 1
    then have "chs_of n = (word_of_int (n div 63 div 16), word_of_int 16, word_of_int 63)"
      unfolding eq by simp
    with c63 show ?thesis by blast
  next
    case 2
    then have "chs_of n = (word_of_int (n div 31 div 16), word_of_int 16, word_of_int 31)"
      unfolding eq by simp
    with c31 [OF 2(2)] show ?thesis by blast
  next
    case 3
    then have "chs_of n = (word_of_int (n div 17 div h), word_of_int h, word_of_int 17)"
      unfolding eq by simp
    with c17 [OF 3] show ?thesis by blast
  qed
qed

section \<open>Properties\<close>



text \<open>C36. What is written to the disk is what is read: a write and a later read of the same place, of
the same length, in any split into buffers that overlap neither the disk nor each other, give the
reader the bytes of the writer, and no memory outside of the place and the buffers of the reader
changes.\<close>

theorem disk_write_read:
  assumes "\<not> bc_rdonly bc" "host_iov (br_iov w)" "host_iov (br_iov r)" "br_offset r = br_offset w"
    and "iov_total (br_iov r) = iov_total (br_iov w)" "iov_total (br_iov w) < 2 ^ 64" "iov_disjoint (br_iov r)"
    and "iov_region (br_iov w) \<inter> region (bc_base bc + br_offset w) (iov_total (br_iov w)) = {}"
    and "iov_region (br_iov r) \<inter> region (bc_base bc + br_offset w) (iov_total (br_iov w)) = {}"
  shows "\<exists>m1 m2. blockif_io bc BOP_WRITE w m = Some (0, m1, w\<lparr>br_resid := 0\<rparr>) \<and>
    blockif_io bc BOP_READ r m1 = Some (0, m2, r\<lparr>br_resid := 0\<rparr>) \<and>
    host_bytes m2 (br_iov r) = host_bytes m (br_iov w) \<and>
    (\<forall>x. x \<notin> region (bc_base bc + br_offset w) (iov_total (br_iov w)) \<union> iov_region (br_iov r) \<longrightarrow> m2 x = m x)"
proof -
  let ?a = "bc_base bc + br_offset w"
  obtain m1 where m1: "copy_to_disk m ?a (br_iov w) = Some m1"
    using copy_to_disk_total [OF assms(2), of m ?a] by blast
  obtain m2 where m2: "copy_from_disk m1 ?a (br_iov r) = Some m2"
    using copy_from_disk_total [OF assms(3), of m1 ?a] by blast
  note w = copy_to_disk_bytes [OF m1 assms(8,6,2)]
  have "host_bytes m2 (br_iov r) = host_bytes m (br_iov w)"
    using copy_from_disk_bytes [OF m2 assms(7)] assms(5,6,9) w by simp
  moreover have "m2 x = m x" if "x \<notin> region ?a (iov_total (br_iov w)) \<union> iov_region (br_iov r)" for x
    using that w copy_from_disk_outside [OF m2, of x] by simp
  ultimately show ?thesis using m1 m2 assms(1,4) by (auto simp: blockif_io_def)
qed

text \<open>C37. The geometry that the drive reports covers the disk: for every size that C/H/S can describe
the cylinders, heads and sectors fit their fields without wrapping, the heads are between 4 and 16,
and the product is the size less than one cylinder short.\<close>

theorem geometry_covers_disk:
  assumes "0 \<le> n" "n \<le> 65535 * 16 * 255" "chs_of n = (c, h, s)"
  shows "uint c * (uint s * uint h) \<le> n \<and> n < (uint c + 1) * (uint s * uint h) \<and> 4 \<le> uint h \<and> uint h \<le> 16"
proof -
  from chs_of_fit [OF assms(1,2)] assms(3) obtain ci hi si where
    e: "c = word_of_int ci" "h = word_of_int hi" "s = word_of_int si" and f: "chs_fit n ci hi si"
    by auto
  then have "uint c = ci" "uint h = hi" "uint s = si"
    unfolding e by (simp_all add: chs_fit_def uint_word_of_int)
  with f show ?thesis by (simp add: chs_fit_def)
qed

end
