(* ===== verification/BlockIfWitness.thy ===== *)
theory BlockIfWitness
  imports BlockIfDisk
begin

text \<open>
  Concrete instances of the properties of the block device: a disk that was just opened, with one
  read of two bytes in its queue, and a write that is read back.
\<close>

definition wit_disk :: "unit blockif_state" where
  "wit_disk = snd (blockif_open 0x80000000 True \<lparr>bs_ctxts = [], blockif_sc = None, bs_mem = (\<lambda>_. 0)\<rparr>)"

definition wit_breq :: "u64 \<Rightarrow> unit blockif_req" where
  "wit_breq a = \<lparr>br_iov = [\<lparr>iov_base = Host a, iov_len = 2\<rparr>], br_offset = 0x400, br_resid = 2, br_param = ()\<rparr>"

definition wit_cb :: "(unit, unit) blockif_cb" where
  "wit_cb r err s = Some s"

definition wit_disk1 :: "unit blockif_state" where
  "wit_disk1 = snd (the (blockif_request 0 (wit_breq 0x1000) BOP_READ wit_disk))"

lemma wit_cb_frame: "cb_frame wit_cb"
  by (simp add: cb_frame_def wit_cb_def)

lemma wit_open: "blockif_open 0x80000000 True \<lparr>bs_ctxts = [], blockif_sc = None, bs_mem = (\<lambda>_. 0)\<rparr> = (Some 0, wit_disk)"
  by (simp add: wit_disk_def blockif_open_def Let_def)

lemma wit_disk_ctxt:
  obtains bc where "get_ctxt 0 wit_disk = Some bc" "mutex_free (bc_mtx bc)" "queue_inv bc" "bc_freeq bc \<noteq> []"
    "bc_pendq bc = []" "blockif_sc wit_disk = Some (Some 0)"
proof -
  have free: "bc_freeq (bs_ctxts wit_disk ! 0) \<noteq> []" "bc_pendq (bs_ctxts wit_disk ! 0) = []"
    by (simp_all add: wit_disk_def blockif_open_def Let_def)
  from open_ok [OF wit_open] obtain bc where "get_ctxt 0 wit_disk = Some bc" "mutex_free (bc_mtx bc)" "queue_inv bc"
    "blockif_sc wit_disk = Some (Some 0)"
    unfolding ctxt_ok_def by blast
  with free show ?thesis by (intro that [of bc]) (simp_all add: get_ctxt_Some)
qed

lemma wit_request:
  obtains bc where "blockif_request 0 (wit_breq 0x1000) BOP_READ wit_disk = Some (0, wit_disk1)"
    "get_ctxt 0 wit_disk1 = Some bc" "pend_reqs bc = [(wit_breq 0x1000, BOP_READ)]" "blockif_sc wit_disk1 = Some (Some 0)"
proof -
  obtain bc where bc: "get_ctxt 0 wit_disk = Some bc" "mutex_free (bc_mtx bc)" "queue_inv bc" "bc_freeq bc \<noteq> []"
    "bc_pendq bc = []" "blockif_sc wit_disk = Some (Some 0)"
    by (rule wit_disk_ctxt)
  then obtain bc' where bc': "blockif_request 0 (wit_breq 0x1000) BOP_READ wit_disk = Some (0, put_ctxt 0 bc' wit_disk)"
    "pend_reqs bc' = pend_reqs bc @ [(wit_breq 0x1000, BOP_READ)]"
    using request_ok(2) [OF bc(1-4), of "wit_breq 0x1000" BOP_READ] by blast
  then have d1: "put_ctxt 0 bc' wit_disk = wit_disk1" by (simp add: wit_disk1_def)
  show ?thesis
  proof (rule that [of bc'])
    show "blockif_request 0 (wit_breq 0x1000) BOP_READ wit_disk = Some (0, wit_disk1)" using bc'(1) d1 by simp
    show "get_ctxt 0 wit_disk1 = Some bc'" "blockif_sc wit_disk1 = Some (Some 0)"
      unfolding d1 [symmetric] using bc(1,6) by (simp_all add: put_ctxt_def get_ctxt_Some)
    show "pend_reqs bc' = [(wit_breq 0x1000, BOP_READ)]" using bc'(2) bc(5) by (simp add: pend_reqs_def)
  qed
qed

lemma wit_disk1_ok: "ctxt_ok 0 wit_disk1"
proof -
  obtain bc where "blockif_request 0 (wit_breq 0x1000) BOP_READ wit_disk = Some (0, wit_disk1)"
    by (rule wit_request)
  then show ?thesis using open_ok [OF wit_open] by (blast intro: request_step)
qed



definition wit_ctxt :: "unit blockif_ctxt" where
  "wit_ctxt = bs_ctxts wit_disk ! 0"

lemma wit_ctxt_simps: "\<not> bc_rdonly wit_ctxt" "bc_base wit_ctxt = 0x83000000"
  by (simp_all add: wit_ctxt_def wit_disk_def blockif_open_def Let_def)

lemma region_two: "region a 2 = {a, a + 1}"
  by (simp add: region_def lessThan_Suc numeral_2_eq_2 insert_commute)

theorem disk_write_read_witness:
  "\<exists>m1 m2. blockif_io wit_ctxt BOP_WRITE (wit_breq 0x1000) (\<lambda>a. ucast a) = Some (0, m1, (wit_breq 0x1000)\<lparr>br_resid := 0\<rparr>) \<and>
     blockif_io wit_ctxt BOP_READ (wit_breq 0x1001) m1 = Some (0, m2, (wit_breq 0x1001)\<lparr>br_resid := 0\<rparr>) \<and>
     host_bytes m2 (br_iov (wit_breq 0x1001)) = [0, 1]"
proof -
  have pre: "host_iov (br_iov (wit_breq a))" "iov_disjoint (br_iov (wit_breq a))" "iov_total (br_iov (wit_breq a)) = 2"
    "br_offset (wit_breq a) = 0x400" "iov_region (br_iov (wit_breq a)) = {a, a + 1}" for a
    by (simp_all add: wit_breq_def region_two)
  have "host_bytes (\<lambda>a. ucast a) (br_iov (wit_breq 0x1000)) = [0, 1]"
    by (simp add: wit_breq_def mem_bytes_def upt_rec)
  with disk_write_read [of wit_ctxt "wit_breq 0x1000" "wit_breq 0x1001" "\<lambda>a. ucast a"] show ?thesis
    unfolding pre wit_ctxt_simps region_two using pre(1,2) wit_ctxt_simps(1) by auto
qed

theorem geometry_covers_disk_witness:
  "chs_of 26624 = (391, 4, 17) \<and> (391::int) * (17 * 4) \<le> 26624 \<and> 26624 < (391 + 1) * (17 * 4 :: int)"
proof -
  have "chs_of 26624 = (391, 4, 17)" by (simp add: chs_of_def Let_def)
  with geometry_covers_disk [of 26624 391 4 17] show ?thesis by simp
qed

end
