(* ===== verification/AhciState.thy ===== *)
theory AhciState
  imports BlockIf PciBus
begin

text \<open>
  The disk controller \<^verbatim>\<open>bhyve/pci_ahci.c\<close>: its state, its interrupts, the frame information
  structures (FIS) that it writes to the memory of the guest, and the stop and reset of a port.

  The state of the controller extends the state of the block device (theory \<open>BlockIf\<close>), whose
  requests carry the number of the port and the index of the \<^verbatim>\<open>struct ahci_ioreq\<close> in which the
  request is embedded: \<^verbatim>\<open>br_param\<close> points there, and \<^verbatim>\<open>io_pr\<close> is the port. A pointer to a port
  is its number. There is one softc; \<open>pr_sc\<close> says whether the port points to it. Pointers to the
  memory of the guest are addresses of the host, and \<open>dmap\<close> is the direct map that translates
  addresses of the guest.
\<close>

section \<open>Constants\<close>

abbreviation (input) "DEF_PORTS \<equiv> (6::nat)"
abbreviation (input) "MAX_PORTS \<equiv> (32::nat)"
abbreviation (input) "PxSIG_ATA \<equiv> (0x00000101::u32)"
abbreviation (input) "PxSIG_ATAPI \<equiv> (0xeb140101::u32)"
abbreviation (input) "AHCI_GHC_AE \<equiv> (0x80000000::u32)"
abbreviation (input) "AHCI_GHC_IE \<equiv> (0x2::u32)"
abbreviation (input) "AHCI_GHC_HR \<equiv> (0x1::u32)"
abbreviation (input) "AHCI_P_IX_DHR \<equiv> (0x1::u32)"
abbreviation (input) "AHCI_P_IX_PS \<equiv> (0x2::u32)"
abbreviation (input) "AHCI_P_IX_SDB \<equiv> (0x8::u32)"
abbreviation (input) "AHCI_P_IX_TFE \<equiv> (0x40000000::u32)"
abbreviation (input) "AHCI_P_CMD_ST \<equiv> (0x1::u32)"
abbreviation (input) "AHCI_P_CMD_SUD \<equiv> (0x2::u32)"
abbreviation (input) "AHCI_P_CMD_POD \<equiv> (0x4::u32)"
abbreviation (input) "AHCI_P_CMD_CLO \<equiv> (0x8::u32)"
abbreviation (input) "AHCI_P_CMD_FRE \<equiv> (0x10::u32)"
abbreviation (input) "AHCI_P_CMD_CCS_MASK \<equiv> (0x1f00::u32)"
abbreviation (input) "AHCI_P_CMD_FR \<equiv> (0x4000::u32)"
abbreviation (input) "AHCI_P_CMD_CR \<equiv> (0x8000::u32)"
abbreviation (input) "AHCI_P_CMD_CPS \<equiv> (0x10000::u32)"
abbreviation (input) "AHCI_P_CMD_ICC_MASK \<equiv> (0xf0000000::u32)"
abbreviation (input) "AHCI_CL_SIZE \<equiv> (32::nat)"
abbreviation (input) "ATA_S_ERROR \<equiv> 0x01"
abbreviation (input) "ATA_S_DRQ \<equiv> 0x08"
abbreviation (input) "ATA_S_DSC \<equiv> 0x10"
abbreviation (input) "ATA_S_DMA \<equiv> 0x20"
abbreviation (input) "ATA_S_READY \<equiv> 0x40"
abbreviation (input) "ATA_S_BUSY \<equiv> 0x80"
abbreviation (input) "ATA_E_ABORT \<equiv> 0x04"
abbreviation (input) "ATA_SS_SPD_MASK \<equiv> (0xf0::u32)"
abbreviation (input) "ATA_UDMA0 \<equiv> (0x40::u8)"
abbreviation (input) "ATA_UDMA6 \<equiv> (0x46::u8)"
abbreviation (input) "ATA_WDMA0 \<equiv> (0x20::u8)"
abbreviation (input) "ATA_WRITE_FPDMA_QUEUED \<equiv> (0x61::u8)"
abbreviation (input) "ATA_READ_FPDMA_QUEUED \<equiv> (0x60::u8)"
abbreviation (input) "ATA_SEND_FPDMA_QUEUED \<equiv> (0x64::u8)"

datatype sata_fis_type = FIS_TYPE_REGH2D | FIS_TYPE_REGD2H | FIS_TYPE_DMAACT | FIS_TYPE_DMASETUP
  | FIS_TYPE_DATA | FIS_TYPE_BIST | FIS_TYPE_PIOSETUP | FIS_TYPE_SETDEVBITS

fun fis_code :: "sata_fis_type \<Rightarrow> u8" where
  "fis_code FIS_TYPE_REGH2D = 0x27"
| "fis_code FIS_TYPE_REGD2H = 0x34"
| "fis_code FIS_TYPE_DMAACT = 0x39"
| "fis_code FIS_TYPE_DMASETUP = 0x41"
| "fis_code FIS_TYPE_DATA = 0x46"
| "fis_code FIS_TYPE_BIST = 0x58"
| "fis_code FIS_TYPE_PIOSETUP = 0x5F"
| "fis_code FIS_TYPE_SETDEVBITS = 0xA1"

section \<open>State\<close>

type_synonym ahci_rq = "nat \<times> nat"

record ahci_ioreq =
  io_req :: "ahci_rq blockif_req"
  io_cfis :: u64
  io_len :: u32
  io_done :: u32
  io_slot :: nat
  io_more :: bool

text \<open>The registers of a port, in the order of \<^verbatim>\<open>struct ahci_port\<close> from \<^verbatim>\<open>clb\<close> to \<^verbatim>\<open>fbs\<close>.\<close>

record ahci_regs =
  px_clb :: u32
  px_clbu :: u32
  px_fb :: u32
  px_fbu :: u32
  px_is :: u32
  px_ie :: u32
  px_cmd :: u32
  px_unused0 :: u32
  px_tfd :: u32
  px_sig :: u32
  px_ssts :: u32
  px_sctl :: u32
  px_serr :: u32
  px_sact :: u32
  px_ci :: u32
  px_sntf :: u32
  px_fbs :: u32

text \<open>\<open>pr_ident\<close> is the string up to its final NUL; \<open>pr_ccs\<close> stays below 32.\<close>

record ahci_port =
  pr_bctx :: "nat option"
  pr_sc :: bool
  pr_cmd_lst :: "u64 option"
  pr_rfis :: "u64 option"
  pr_ident :: string
  pr_port :: nat
  pr_atapi :: bool
  pr_reset :: bool
  pr_waitforclear :: bool
  pr_mult_sectors :: int
  pr_xfermode :: u8
  pr_err_cfis :: "u8 list"
  pr_sense_key :: u8
  pr_asc :: u8
  pr_ccs :: nat
  pr_pending :: u32
  pr_regs :: ahci_regs
  pr_ioreq :: "ahci_ioreq list"
  pr_ioqsz :: nat
  pr_iofhd :: "nat list"
  pr_iobhd :: "nat list"

text \<open>The fields from \<^verbatim>\<open>cap\<close> to \<^verbatim>\<open>bohc\<close> are registers of the controller, in this order.\<close>

record pci_ahci_softc =
  asc_pi :: pci_devinst
  asc_mtx :: pthread_mutex
  asc_ports :: nat
  hba_cap :: u32
  hba_ghc :: u32
  hba_is :: u32
  hba_pi :: u32
  hba_vs :: u32
  hba_ccc_ctl :: u32
  hba_ccc_pts :: u32
  hba_em_loc :: u32
  hba_em_ctl :: u32
  hba_cap2 :: u32
  hba_bohc :: u32
  asc_lintr :: bool
  asc_port :: "ahci_port list"

record ahci_state = "ahci_rq blockif_state" +
  ahci_sc :: pci_ahci_softc

abbreviation upd_sc :: "(pci_ahci_softc \<Rightarrow> pci_ahci_softc) \<Rightarrow> ahci_state \<Rightarrow> ahci_state" where
  "upd_sc f s \<equiv> ahci_sc_update f s"

abbreviation upd_mem :: "(host_memory \<Rightarrow> host_memory) \<Rightarrow> ahci_state \<Rightarrow> ahci_state" where
  "upd_mem f s \<equiv> bs_mem_update f s"

definition port_of :: "nat \<Rightarrow> ahci_state \<Rightarrow> ahci_port" where
  "port_of p s = asc_port (ahci_sc s) ! p"

definition upd_port :: "nat \<Rightarrow> (ahci_port \<Rightarrow> ahci_port) \<Rightarrow> ahci_state \<Rightarrow> ahci_state" where
  "upd_port p f s = upd_sc (\<lambda>sc. sc\<lparr>asc_port := (asc_port sc)[p := f (asc_port sc ! p)]\<rparr>) s"

abbreviation rg :: "nat \<Rightarrow> ahci_state \<Rightarrow> ahci_regs" where
  "rg p s \<equiv> pr_regs (port_of p s)"

abbreviation upd_rg :: "nat \<Rightarrow> (ahci_regs \<Rightarrow> ahci_regs) \<Rightarrow> ahci_state \<Rightarrow> ahci_state" where
  "upd_rg p f s \<equiv> upd_port p (\<lambda>pr. pr\<lparr>pr_regs := f (pr_regs pr)\<rparr>) s"

definition on_asc_pi :: "(pci_devinst \<Rightarrow> pci_devinst option) \<Rightarrow> ahci_state \<Rightarrow> ahci_state option" where
  "on_asc_pi f s = do {
     pi \<leftarrow> f (asc_pi (ahci_sc s));
     Some (upd_sc (\<lambda>sc. sc\<lparr>asc_pi := pi\<rparr>) s)
   }"

text \<open>\<^verbatim>\<open>1 << slot\<close>\<close>

definition slot_bit :: "nat \<Rightarrow> u32" where
  "slot_bit i = push_bit i 1"

section \<open>Interrupts\<close>

definition global_is :: "nat \<Rightarrow> ahci_state \<Rightarrow> u32" where
  "global_is n s = foldl (\<lambda>w i. if px_is (rg i s) AND px_ie (rg i s) \<noteq> 0 then w OR slot_bit i else w)
     (hba_is (ahci_sc s)) [0..<n]"

text \<open>The messages of \<^verbatim>\<open>pci_generate_msi\<close> are compiled out (theory \<open>PciBus\<close>), so that the loop over
  them has no effect.\<close>

definition ahci_generate_intr :: "u32 \<Rightarrow> ahci_state \<Rightarrow> ahci_state option" where
  "ahci_generate_intr msk s =
     (let s = upd_sc (\<lambda>sc. sc\<lparr>hba_is := global_is (asc_ports sc) s\<rparr>) s;
          sc = ahci_sc s
      in if hba_is sc = 0 \<or> hba_ghc sc AND AHCI_GHC_IE = 0 then
           (if asc_lintr sc then do {
              s \<leftarrow> on_asc_pi pci_lintr_deassert s;
              Some (upd_sc (\<lambda>sc. sc\<lparr>asc_lintr := False\<rparr>) s)
            } else Some s)
         else if pci_msi_maxmsgnum (asc_pi sc) = 0 then
           (if \<not> asc_lintr sc then on_asc_pi pci_lintr_assert (upd_sc (\<lambda>sc. sc\<lparr>asc_lintr := True\<rparr>) s)
            else Some s)
         else
           (let _ = map (pci_generate_msi (asc_pi sc)) [0..pci_msi_maxmsgnum (asc_pi sc) - 1] in Some s))"

text \<open>A port without a disk has no pointer to the softc, so that its interrupt is undefined.\<close>

definition ahci_port_intr :: "nat \<Rightarrow> ahci_state \<Rightarrow> ahci_state option" where
  "ahci_port_intr p s = do {
     let pr = port_of p s;
     assert_that (pr_sc pr);
     let sc = ahci_sc s;
     if px_is (pr_regs pr) AND px_ie (pr_regs pr) = 0 then Some s
     else do {
       let nmsg = pci_msi_maxmsgnum (asc_pi sc);
       let s' = upd_sc (\<lambda>sc. sc\<lparr>hba_is := hba_is sc OR slot_bit (pr_port pr)\<rparr>) s;
       if int (asc_ports sc) \<le> nmsg \<or> int (pr_port pr) < nmsg - 1 then
         (if hba_ghc sc AND AHCI_GHC_IE = 0 then Some s'
          else (let _ = pci_generate_msi (asc_pi sc) (int (pr_port pr)) in Some s'))
       else if hba_is sc AND slot_bit (pr_port pr) \<noteq> 0 then Some s
       else if hba_ghc sc AND AHCI_GHC_IE = 0 then Some s'
       else if nmsg > 0 then (let _ = pci_generate_msi (asc_pi sc) (nmsg - 1) in Some s')
       else if \<not> asc_lintr sc then on_asc_pi pci_lintr_assert (upd_sc (\<lambda>sc. sc\<lparr>asc_lintr := True\<rparr>) s')
       else Some s'
     }
   }"

section \<open>Frame information structures\<close>

text \<open>Where a FIS goes, its length and its interrupt.\<close>

fun fis_layout :: "sata_fis_type \<Rightarrow> (u64 \<times> nat \<times> u32) option" where
  "fis_layout FIS_TYPE_REGD2H = Some (0x40, 20, AHCI_P_IX_DHR)"
| "fis_layout FIS_TYPE_SETDEVBITS = Some (0x58, 8, AHCI_P_IX_SDB)"
| "fis_layout FIS_TYPE_PIOSETUP = Some (0x20, 20, AHCI_P_IX_PS)"
| "fis_layout _ = None"

definition ahci_write_fis :: "nat \<Rightarrow> sata_fis_type \<Rightarrow> u8 list \<Rightarrow> ahci_state \<Rightarrow> ahci_state option" where
  "ahci_write_fis p ft fis s = (case pr_rfis (port_of p s) of
     None \<Rightarrow> Some s
   | Some rfis \<Rightarrow>
       if px_cmd (rg p s) AND AHCI_P_CMD_FRE = 0 then Some s
       else (case fis_layout ft of
         None \<Rightarrow> Some s
       | Some (offset, len, ix) \<Rightarrow>
           (let irq = (if bit (fis ! 1) 6 then ix else 0);
                err = (fis ! 2 AND ATA_S_ERROR \<noteq> 0);
                s = (if err then upd_port p (\<lambda>pr. pr\<lparr>pr_waitforclear := True\<rparr>) s else s);
                irq = (if err then irq OR AHCI_P_IX_TFE else irq);
                s = upd_mem (\<lambda>m. mem_store m (rfis + offset) (take len fis)) s
            in if irq \<noteq> 0 \<and> NOT (px_is (rg p s)) AND irq \<noteq> 0
               then ahci_port_intr p (upd_rg p (\<lambda>r. r\<lparr>px_is := px_is r OR irq\<rparr>) s)
               else Some s)))"

definition ahci_write_fis_piosetup :: "nat \<Rightarrow> ahci_state \<Rightarrow> ahci_state option" where
  "ahci_write_fis_piosetup p s =
     ahci_write_fis p FIS_TYPE_PIOSETUP (fis_code FIS_TYPE_PIOSETUP # replicate 19 0) s"

text \<open>What the log of queued errors keeps of a command.\<close>

definition err_cfis_of :: "host_memory \<Rightarrow> u64 \<Rightarrow> u8 \<Rightarrow> u8 \<Rightarrow> u8 \<Rightarrow> u8 list \<Rightarrow> u8 list" where
  "err_cfis_of m cfis b0 status error e = take 4 (e[0 := b0, 2 := status, 3 := error]) @ mem_bytes m (cfis + 4) 16"

text \<open>\<^verbatim>\<open>*(uint32_t *)(fis + 4) = 1 << slot\<close> is \<open>put_le32\<close>.\<close>

definition ahci_write_fis_sdb :: "nat \<Rightarrow> nat \<Rightarrow> u64 \<Rightarrow> u32 \<Rightarrow> ahci_state \<Rightarrow> ahci_state option" where
  "ahci_write_fis_sdb p slot cfis tfd s =
     (let error = ucast (drop_bit 8 tfd);
          tfd = tfd AND 0x77;
          fis = (replicate 8 0)[0 := fis_code FIS_TYPE_SETDEVBITS, 1 := 0x40, 2 := ucast tfd, 3 := error];
          (s, fis) =
            (if fis ! 2 AND ATA_S_ERROR \<noteq> 0
             then (upd_port p (\<lambda>pr. pr\<lparr>pr_err_cfis :=
                     err_cfis_of (bs_mem s) cfis (of_nat slot) (ucast tfd) error (pr_err_cfis pr)\<rparr>) s, fis)
             else (upd_rg p (\<lambda>r. r\<lparr>px_sact := px_sact r AND NOT (slot_bit slot)\<rparr>) s,
                   put_le32 fis 4 (slot_bit slot)));
          s = upd_rg p (\<lambda>r. r\<lparr>px_tfd := (px_tfd r AND NOT 0x77) OR tfd\<rparr>) s
      in ahci_write_fis p FIS_TYPE_SETDEVBITS fis s)"

definition ahci_write_fis_d2h :: "nat \<Rightarrow> nat \<Rightarrow> u64 \<Rightarrow> u32 \<Rightarrow> ahci_state \<Rightarrow> ahci_state option" where
  "ahci_write_fis_d2h p slot cfis tfd s =
     (let error = ucast (drop_bit 8 tfd);
          fis = [fis_code FIS_TYPE_REGD2H, 0x40, ucast tfd, error] @ mem_bytes (bs_mem s) (cfis + 4) 10 @ replicate 6 0;
          s = (if fis ! 2 AND ATA_S_ERROR \<noteq> 0
               then upd_port p (\<lambda>pr. pr\<lparr>pr_err_cfis :=
                 err_cfis_of (bs_mem s) cfis 0x80 (ucast tfd) error (pr_err_cfis pr)\<rparr>) s
               else upd_rg p (\<lambda>r. r\<lparr>px_ci := px_ci r AND NOT (slot_bit slot)\<rparr>) s);
          s = upd_rg p (\<lambda>r. r\<lparr>px_tfd := tfd\<rparr>) s
      in ahci_write_fis p FIS_TYPE_REGD2H fis s)"

definition ahci_write_fis_d2h_ncq :: "nat \<Rightarrow> nat \<Rightarrow> ahci_state \<Rightarrow> ahci_state option" where
  "ahci_write_fis_d2h_ncq p slot s =
     (let s = upd_rg p (\<lambda>r. r\<lparr>px_tfd := ATA_S_READY OR ATA_S_DSC\<rparr>) s;
          fis = (replicate 20 0)[0 := fis_code FIS_TYPE_REGD2H, 1 := 0, 2 := ucast (px_tfd (rg p s)), 3 := 0];
          s = upd_rg p (\<lambda>r. r\<lparr>px_ci := px_ci r AND NOT (slot_bit slot)\<rparr>) s
      in ahci_write_fis p FIS_TYPE_REGD2H fis s)"

definition ahci_write_reset_fis_d2h :: "nat \<Rightarrow> ahci_state \<Rightarrow> ahci_state option" where
  "ahci_write_reset_fis_d2h p s =
     (let fis = (replicate 20 0)[0 := fis_code FIS_TYPE_REGD2H, 3 := 1, 4 := 1];
          fis = (if pr_atapi (port_of p s) then fis[5 := 0x14, 6 := 0xeb] else fis);
          fis = fis[12 := 1]
      in ahci_write_fis p FIS_TYPE_REGD2H fis s)"

section \<open>Stopping and resetting a port\<close>

definition ahci_check_stopped :: "nat \<Rightarrow> ahci_state \<Rightarrow> ahci_state" where
  "ahci_check_stopped p s =
     (if px_cmd (rg p s) AND AHCI_P_CMD_ST = 0 \<and> pr_pending (port_of p s) = 0
      then upd_port p (\<lambda>pr. pr\<lparr>pr_ccs := 0, pr_waitforclear := False,
             pr_regs := (pr_regs pr)\<lparr>px_cmd := px_cmd (pr_regs pr) AND NOT (AHCI_P_CMD_CR OR AHCI_P_CMD_CCS_MASK),
               px_ci := 0, px_sact := 0\<rparr>\<rparr>) s
      else s)"

definition ncq_command :: "u8 \<Rightarrow> bool" where
  "ncq_command c \<longleftrightarrow> c = ATA_WRITE_FPDMA_QUEUED \<or> c = ATA_READ_FPDMA_QUEUED \<or> c = ATA_SEND_FPDMA_QUEUED"

text \<open>
  The loop of \<^verbatim>\<open>ahci_port_stop\<close> over the requests that are busy at its start: taking an element
  off the list does not change where the loop goes on.
\<close>

fun cancel_all :: "nat \<Rightarrow> nat \<Rightarrow> nat list \<Rightarrow> ahci_state \<Rightarrow> ahci_state option" where
  "cancel_all p b [] s = Some s"
| "cancel_all p b (a # as) s = do {
     let aior = pr_ioreq (port_of p s) ! a;
     (error, s) \<leftarrow> blockif_cancel b (br_param (io_req aior)) s;
     if error \<noteq> 0 then cancel_all p b as s
     else do {
       let sb = slot_bit (io_slot aior);
       let s = (if ncq_command (bs_mem s (io_cfis aior + 2))
         then upd_rg p (\<lambda>r. r\<lparr>px_sact := px_sact r AND NOT sb\<rparr>) s
         else upd_rg p (\<lambda>r. r\<lparr>px_ci := px_ci r AND NOT sb\<rparr>) s);
       let s = upd_port p (\<lambda>pr. pr\<lparr>pr_pending := pr_pending pr AND NOT sb,
         pr_iobhd := remove1 a (pr_iobhd pr), pr_iofhd := pr_iofhd pr @ [a]\<rparr>) s;
       cancel_all p b as s
     }
   }"

text \<open>A port without a disk has no pointer to the softc whose mutex is looked at.\<close>

definition ahci_port_stop :: "nat \<Rightarrow> ahci_state \<Rightarrow> ahci_state option" where
  "ahci_port_stop p s = do {
     assert_that (pr_sc (port_of p s));
     assert_that (pthread_mutex_isowned_np (asc_mtx (ahci_sc s)) \<noteq> 0);
     s \<leftarrow> (case pr_iobhd (port_of p s) of
        [] \<Rightarrow> Some s
      | as \<Rightarrow> do { b \<leftarrow> pr_bctx (port_of p s); cancel_all p b as s });
     Some (ahci_check_stopped p s)
   }"

definition ahci_port_reset :: "nat \<Rightarrow> ahci_state \<Rightarrow> ahci_state option" where
  "ahci_port_reset p s =
     (let s = upd_port p (\<lambda>pr. pr\<lparr>pr_xfermode := ATA_UDMA6, pr_mult_sectors := 128,
            pr_regs := (pr_regs pr)\<lparr>px_serr := 0, px_sact := 0\<rparr>\<rparr>) s
      in if pr_bctx (port_of p s) = None
         then Some (upd_rg p (\<lambda>r. r\<lparr>px_ssts := 0, px_sig := 0xFFFFFFFF, px_tfd := 0x7F\<rparr>) s)
         else
           (let spd = px_sctl (rg p s) AND ATA_SS_SPD_MASK;
                atapi = pr_atapi (port_of p s);
                s = upd_rg p (\<lambda>r. r\<lparr>px_ssts := 0x103 OR (if spd \<noteq> 0 then spd else 0x30)\<rparr>) s;
                s = upd_rg p (\<lambda>r. r\<lparr>px_tfd := 0x100 OR ATA_S_DSC OR ATA_S_DMA OR (if atapi then 0 else ATA_S_READY),
                  px_sig := (if atapi then PxSIG_ATAPI else PxSIG_ATA)\<rparr>) s
            in ahci_write_reset_fis_d2h p s))"

fun reset_ports :: "nat list \<Rightarrow> ahci_state \<Rightarrow> ahci_state option" where
  "reset_ports [] s = Some s"
| "reset_ports (i # is) s = do {
     let s = upd_port i (\<lambda>pr. pr\<lparr>pr_regs := (pr_regs pr)\<lparr>px_ie := 0, px_is := 0,
       px_cmd := AHCI_P_CMD_SUD OR AHCI_P_CMD_POD OR (if pr_bctx pr \<noteq> None then AHCI_P_CMD_CPS else 0),
       px_sctl := 0\<rparr>\<rparr>) s;
     s \<leftarrow> ahci_port_reset i s;
     reset_ports is s
   }"

definition ahci_reset :: "ahci_state \<Rightarrow> ahci_state option" where
  "ahci_reset s = do {
     let s = upd_sc (\<lambda>sc. sc\<lparr>hba_ghc := AHCI_GHC_AE, hba_is := 0\<rparr>) s;
     s \<leftarrow> (if asc_lintr (ahci_sc s) then do {
         s \<leftarrow> on_asc_pi pci_lintr_deassert s;
         Some (upd_sc (\<lambda>sc. sc\<lparr>asc_lintr := False\<rparr>) s)
       } else Some s);
     reset_ports [0..<asc_ports (ahci_sc s)] s
   }"

end
