(* ===== verification/AhciCmd.thy ===== *)
theory AhciCmd
  imports AhciState E1000Dev
begin

text \<open>
  The commands of a disk (\<^verbatim>\<open>bhyve/pci_ahci.c\<close>): scatter/gather vectors from the region descriptor
  table of the guest, reads and writes, flush, trim, logs and identification. The command table at
  \<open>cfis\<close> and the command list are memory of the guest and are read where the code reads them.
\<close>

section \<open>Structures of the guest\<close>

text \<open>A command header has 32 bytes: flags, length of the table, bytes done, address of the command.\<close>

definition cmd_hdr :: "nat \<Rightarrow> nat \<Rightarrow> ahci_state \<Rightarrow> u64 option" where
  "cmd_hdr p slot s = map_option (\<lambda>c. c + of_nat (slot * AHCI_CL_SIZE)) (pr_cmd_lst (port_of p s))"

definition hdr_prdtl :: "host_memory \<Rightarrow> u64 \<Rightarrow> nat" where
  "hdr_prdtl m hdr = unat (mem_get16 m (hdr + 2))"

lemma hdr_prdtl_less: "hdr_prdtl m hdr < 65536"
  using unsigned_less [of "mem_get16 m (hdr + 2)"] by (simp add: hdr_prdtl_def)

definition hdr_ctba :: "host_memory \<Rightarrow> u64 \<Rightarrow> u64" where
  "hdr_ctba m hdr = mem_get64 m (hdr + 8)"

definition hdr_set_prdbc :: "u64 \<Rightarrow> u32 \<Rightarrow> host_memory \<Rightarrow> host_memory" where
  "hdr_set_prdbc hdr v m = mem_put32 m (hdr + 4) v"

text \<open>An entry of the region descriptor table has 16 bytes; its size is one more than the field.\<close>

definition prdt_entry :: "u64 \<Rightarrow> nat \<Rightarrow> u64" where
  "prdt_entry cfis i = cfis + 0x80 + of_nat (16 * i)"

definition prdt_dba :: "host_memory \<Rightarrow> u64 \<Rightarrow> u64" where
  "prdt_dba m e = mem_get64 m e"

definition prdt_size :: "host_memory \<Rightarrow> u64 \<Rightarrow> nat" where
  "prdt_size m e = unat ((mem_get32 m (e + 12) AND 0x3fffff) + 1)"

section \<open>Copies to and from the regions\<close>

text \<open>
  The loop of \<^verbatim>\<open>write_prdt\<close>; \<open>i\<close> is the index of the entry. The memory may change under the loop,
  which reads the header and the entries in every round.
\<close>

function write_loop :: "(u64 \<Rightarrow> u64) \<Rightarrow> u64 \<Rightarrow> u64 \<Rightarrow> nat \<Rightarrow> u8 list \<Rightarrow> host_memory \<Rightarrow> nat \<times> host_memory" where
  "write_loop dmap hdr cfis i buf m =
     (if i < hdr_prdtl m hdr \<and> buf \<noteq> [] then
        (let e = prdt_entry cfis i;
             dbcsz = prdt_size m e;
             ptr = paddr_guest2host dmap (prdt_dba m e) (of_nat dbcsz);
             sublen = min (length buf) dbcsz
         in write_loop dmap hdr cfis (Suc i) (drop sublen buf) (mem_store m ptr (take sublen buf)))
      else (length buf, m))"
  by pat_completeness auto

termination
proof (relation "measure (\<lambda>(dmap, hdr, cfis, i, buf, m). 65536 - i)")
  fix dmap :: "u64 \<Rightarrow> u64" and hdr cfis i e dbcsz ptr sublen and buf :: "u8 list" and m :: host_memory
  assume "i < hdr_prdtl m hdr \<and> buf \<noteq> []"
  with hdr_prdtl_less [of m hdr]
  show "((dmap, hdr, cfis, Suc i, drop sublen buf, mem_store m ptr (take sublen buf)), dmap, hdr, cfis, i, buf, m)
      \<in> measure (\<lambda>(dmap, hdr, cfis, i, buf, m). 65536 - i)"
    by auto
qed simp

declare write_loop.simps [simp del]

definition write_prdt ::
  "(u64 \<Rightarrow> u64) \<Rightarrow> nat \<Rightarrow> nat \<Rightarrow> u64 \<Rightarrow> u8 list \<Rightarrow> ahci_state \<Rightarrow> ahci_state option" where
  "write_prdt dmap p slot cfis buf s = do {
     hdr \<leftarrow> cmd_hdr p slot s;
     let (len, m) = write_loop dmap hdr cfis 0 buf (bs_mem s);
     Some (s\<lparr>bs_mem := hdr_set_prdbc hdr (of_nat (length buf - len)) m\<rparr>)
   }"

text \<open>The loop of \<^verbatim>\<open>read_prdt\<close>: the bytes read, at most \<open>len\<close>.\<close>

fun read_loop :: "(u64 \<Rightarrow> u64) \<Rightarrow> u64 \<Rightarrow> nat list \<Rightarrow> nat \<Rightarrow> host_memory \<Rightarrow> u8 list" where
  "read_loop dmap cfis [] len m = []"
| "read_loop dmap cfis (i # is) len m =
     (if len = 0 then []
      else
        (let e = prdt_entry cfis i;
             sublen = min len (prdt_size m e)
         in mem_bytes m (paddr_guest2host dmap (prdt_dba m e) (of_nat (prdt_size m e))) sublen @
            read_loop dmap cfis is (len - sublen) m))"

definition read_prdt :: "(u64 \<Rightarrow> u64) \<Rightarrow> nat \<Rightarrow> nat \<Rightarrow> u64 \<Rightarrow> nat \<Rightarrow> ahci_state \<Rightarrow> u8 list option" where
  "read_prdt dmap p slot cfis sz s = do {
     hdr \<leftarrow> cmd_hdr p slot s;
     Some (read_loop dmap cfis [0..<hdr_prdtl (bs_mem s) hdr] sz (bs_mem s))
   }"

section \<open>Vectors for a transfer\<close>

text \<open>
  The loop over the table: the entries that are left, the bytes to skip, the vectors so far, the
  bytes collected and the bytes left. The signed \<open>left\<close> may start negative, which ends the loop.
\<close>

fun prdt_loop ::
  "(u64 \<Rightarrow> u64) \<Rightarrow> host_memory \<Rightarrow> u64 \<Rightarrow> nat \<Rightarrow> nat \<Rightarrow> nat \<Rightarrow> iovec list \<Rightarrow> nat \<Rightarrow> int \<Rightarrow> nat \<times> iovec list \<times> nat" where
  "prdt_loop dmap m cfis i 0 skip iov todo left = (i, iov, todo)"
| "prdt_loop dmap m cfis i (Suc n) skip iov todo left =
     (if length iov < BLOCKIF_IOV_MAX \<and> 0 < left then
        (let e = prdt_entry cfis i;
             dbcsz = prdt_size m e
         in if dbcsz \<le> skip then prdt_loop dmap m cfis (Suc i) n (skip - dbcsz) iov todo left
            else
              (let dbcsz = min (dbcsz - skip) (nat left);
                   v = \<lparr>iov_base = Host (paddr_guest2host dmap (prdt_dba m e + of_nat skip) (of_nat dbcsz)),
                     iov_len = dbcsz\<rparr>
               in prdt_loop dmap m cfis (Suc i) n 0 (iov @ [v]) (todo + dbcsz) (left - int dbcsz)))
      else (i, iov, todo))"

text \<open>Taking bytes off the end; the list is in reverse.\<close>

fun trim_iov :: "iovec list \<Rightarrow> nat \<Rightarrow> iovec list option" where
  "trim_iov vs 0 = Some vs"
| "trim_iov [] (Suc n) = None"
| "trim_iov (v # vs) (Suc n) =
     (if iov_len v > Suc n then Some (v\<lparr>iov_len := iov_len v - Suc n\<rparr> # vs)
      else trim_iov vs (Suc n - iov_len v))"

text \<open>The number of the first entry behind the loop, the vectors and the bytes they hold.\<close>

definition ahci_iov ::
  "(u64 \<Rightarrow> u64) \<Rightarrow> host_memory \<Rightarrow> u64 \<Rightarrow> nat \<Rightarrow> int option \<Rightarrow> u32 \<Rightarrow> u32 \<Rightarrow> (nat \<times> iovec list \<times> nat) option" where
  "ahci_iov dmap m cfis prdtl sectsz len done = do {
     let (i, iov, todo) = prdt_loop dmap m cfis 0 prdtl (unat done) [] 0 (sint (len - done));
     if length iov = BLOCKIF_IOV_MAX then do {
       sectsz \<leftarrow> sectsz;
       assert_that (sectsz > 0);
       let extra = todo mod nat sectsz;
       assert_that (todo - extra > 0);
       iov \<leftarrow> trim_iov (rev iov) extra;
       Some (i, rev iov, todo - extra)
     } else Some (i, iov, todo)
   }"

definition port_sectsz :: "nat \<Rightarrow> ahci_state \<Rightarrow> int option" where
  "port_sectsz p s = do { b \<leftarrow> pr_bctx (port_of p s); blockif_sectsz b s }"

definition ahci_build_iov ::
  "(u64 \<Rightarrow> u64) \<Rightarrow> nat \<Rightarrow> u64 \<Rightarrow> nat \<Rightarrow> ahci_ioreq \<Rightarrow> ahci_state \<Rightarrow> ahci_ioreq option" where
  "ahci_build_iov dmap p cfis prdtl aior s = do {
     (i, iov, todo) \<leftarrow> ahci_iov dmap (bs_mem s) cfis prdtl (port_sectsz p s) (io_len aior) (io_done aior);
     let done' = io_done aior + of_nat todo;
     Some (aior\<lparr>io_req := (io_req aior)\<lparr>br_iov := iov, br_resid := int todo\<rparr>,
       io_done := done', io_more := (done' < io_len aior \<and> i < prdtl)\<rparr>)
   }"

section \<open>Requests to the disk\<close>

text \<open>Taking a request off the free list, and putting it on the busy list.\<close>

definition pull_ioreq :: "nat \<Rightarrow> ahci_state \<Rightarrow> (nat \<times> ahci_state) option" where
  "pull_ioreq p s = do {
     assert_that (pr_iofhd (port_of p s) \<noteq> []);
     let a = hd (pr_iofhd (port_of p s));
     Some (a, upd_port p (\<lambda>pr. pr\<lparr>pr_iofhd := tl (pr_iofhd pr)\<rparr>) s)
   }"

definition issue_ioreq :: "nat \<Rightarrow> nat \<Rightarrow> ahci_ioreq \<Rightarrow> ahci_state \<Rightarrow> ahci_state" where
  "issue_ioreq p a aior s = upd_port p (\<lambda>pr. pr\<lparr>pr_ioreq := (pr_ioreq pr)[a := aior],
     pr_pending := pr_pending pr OR slot_bit (io_slot aior), pr_iobhd := a # pr_iobhd pr\<rparr>) s"

text \<open>The command bytes and where a transfer starts and how long it is, in sectors.\<close>

definition write_command :: "u8 \<Rightarrow> bool" where
  "write_command c \<longleftrightarrow> c \<in> {0x30, 0x34, 0xc5, 0x39, 0xca, 0x35, 0x61}"

definition command48 :: "u8 \<Rightarrow> bool" where
  "command48 c \<longleftrightarrow> c \<in> {0x24, 0x34, 0x29, 0x39, 0x25, 0x35}"

definition lba48 :: "(nat \<Rightarrow> u8) \<Rightarrow> u64" where
  "lba48 c = push_bit 40 (ucast (c 10)) OR push_bit 32 (ucast (c 9)) OR push_bit 24 (ucast (c 8)) OR
     push_bit 16 (ucast (c 6)) OR push_bit 8 (ucast (c 5)) OR ucast (c 4)"

definition rw_lba :: "(nat \<Rightarrow> u8) \<Rightarrow> u64" where
  "rw_lba c =
     (if c 2 = ATA_WRITE_FPDMA_QUEUED \<or> c 2 = ATA_READ_FPDMA_QUEUED \<or> command48 (c 2) then lba48 c
      else push_bit 24 (ucast (c 7) AND 0xf) OR push_bit 16 (ucast (c 6)) OR push_bit 8 (ucast (c 5)) OR ucast (c 4))"

definition rw_len :: "(nat \<Rightarrow> u8) \<Rightarrow> u32" where
  "rw_len c =
     (if c 2 = ATA_WRITE_FPDMA_QUEUED \<or> c 2 = ATA_READ_FPDMA_QUEUED
      then (let len = push_bit 8 (ucast (c 11)) OR ucast (c 3) in if len = 0 then 65536 else len)
      else if command48 (c 2)
      then (let len = push_bit 8 (ucast (c 13)) OR ucast (c 12) in if len = 0 then 65536 else len)
      else (if c 12 = 0 then 256 else ucast (c 12)))"

abbreviation cfis_byte :: "ahci_state \<Rightarrow> u64 \<Rightarrow> nat \<Rightarrow> u8" where
  "cfis_byte s cfis i \<equiv> bs_mem s (cfis + of_nat i)"

definition ahci_handle_rw ::
  "(u64 \<Rightarrow> u64) \<Rightarrow> nat \<Rightarrow> nat \<Rightarrow> u64 \<Rightarrow> u32 \<Rightarrow> ahci_state \<Rightarrow> ahci_state option" where
  "ahci_handle_rw dmap p slot cfis done s = do {
     let c = cfis_byte s cfis;
     hdr \<leftarrow> cmd_hdr p slot s;
     let ncq = (c 2 = ATA_WRITE_FPDMA_QUEUED \<or> c 2 = ATA_READ_FPDMA_QUEUED);
     b \<leftarrow> pr_bctx (port_of p s);
     sectsz \<leftarrow> blockif_sectsz b s;
     let lba = rw_lba c * of_int sectsz;
     let len = rw_len c * of_int sectsz;
     (a, s) \<leftarrow> pull_ioreq p s;
     let aior = (pr_ioreq (port_of p s) ! a)\<lparr>io_cfis := cfis, io_slot := slot, io_len := len, io_done := done\<rparr>;
     let aior = aior\<lparr>io_req := (io_req aior)\<lparr>br_offset := lba + ucast done\<rparr>\<rparr>;
     aior \<leftarrow> ahci_build_iov dmap p cfis (hdr_prdtl (bs_mem s) hdr) aior s;
     let s = issue_ioreq p a aior s;
     s \<leftarrow> (if ncq \<and> done = 0 then ahci_write_fis_d2h_ncq p slot s else Some s);
     (err, s) \<leftarrow> (if write_command (c 2) then blockif_write b (io_req aior) s else blockif_read b (io_req aior) s);
     assert_that (err = 0);
     Some s
   }"

definition ahci_handle_flush :: "nat \<Rightarrow> nat \<Rightarrow> u64 \<Rightarrow> ahci_state \<Rightarrow> ahci_state option" where
  "ahci_handle_flush p slot cfis s = do {
     (a, s) \<leftarrow> pull_ioreq p s;
     let aior = (pr_ioreq (port_of p s) ! a)\<lparr>io_cfis := cfis, io_slot := slot, io_len := 0, io_done := 0,
       io_more := False\<rparr>;
     let s = issue_ioreq p a aior s;
     b \<leftarrow> pr_bctx (port_of p s);
     (err, s) \<leftarrow> blockif_flush b (io_req aior) s;
     assert_that (err = 0);
     Some s
   }"

section \<open>Trim\<close>

text \<open>
  The search for the next range that is not empty: \<open>None\<close> at the end of the list. The buffer is on
  the stack; a byte that the guest did not provide is not initialised, and an entry beyond the
  buffer is out of bounds.
\<close>

function trim_scan :: "u8 option list \<Rightarrow> nat \<Rightarrow> nat \<Rightarrow> (u64 \<times> u32 \<times> nat) option option" where
  "trim_scan buf len done =
     (if length buf < done + 8 then None
      else case those (take 8 (drop done buf)) of
        None \<Rightarrow> None
      | Some e \<Rightarrow>
          (let elba = push_bit 40 (ucast (e ! 5)) OR push_bit 32 (ucast (e ! 4)) OR push_bit 24 (ucast (e ! 3)) OR
                 push_bit 16 (ucast (e ! 2)) OR push_bit 8 (ucast (e ! 1)) OR ucast (e ! 0);
               elen = push_bit 8 (ucast (e ! 7)) OR ucast (e ! 6)
           in if elen \<noteq> 0 then Some (Some (elba, elen, done + 8))
              else if len \<le> done + 8 then Some None
              else trim_scan buf len (done + 8)))"
  by pat_completeness auto

termination
  by (relation "measure (\<lambda>(buf, len, done). length buf - done)") auto

declare trim_scan.simps [simp del]

text \<open>
  The end of the list finishes the command; when a part of it was issued before, the code goes on
  with the commands of the port: that call of \<^verbatim>\<open>ahci_handle_port\<close> is the argument \<open>hp\<close>.
\<close>

definition ahci_handle_dsm_trim ::
  "(ahci_state \<Rightarrow> ahci_state option) \<Rightarrow> (u64 \<Rightarrow> u64) \<Rightarrow> nat \<Rightarrow> nat \<Rightarrow> u64 \<Rightarrow> u32 \<Rightarrow> ahci_state \<Rightarrow> ahci_state option" where
  "ahci_handle_dsm_trim hp dmap p slot cfis done s = do {
     let c = cfis_byte s cfis;
     let first = (done = 0);
     let ncq = (c 2 \<noteq> 0x06);
     let len = (if ncq then push_bit 8 (ucast (c 11)) OR ucast (c 3) else push_bit 8 (ucast (c 13)) OR ucast (c 12)) * 512;
     bytes \<leftarrow> read_prdt dmap p slot cfis 512 s;
     range \<leftarrow> trim_scan (map Some bytes @ replicate (512 - length bytes) None) (unat (len :: u32)) (unat done);
     case range of
       None \<Rightarrow> do {
         s \<leftarrow> (if ncq then do {
             s \<leftarrow> (if first then ahci_write_fis_d2h_ncq p slot s else Some s);
             ahci_write_fis_sdb p slot cfis (ATA_S_READY OR ATA_S_DSC) s
           } else ahci_write_fis_d2h p slot cfis (ATA_S_READY OR ATA_S_DSC) s);
         let s = upd_port p (\<lambda>pr. pr\<lparr>pr_pending := pr_pending pr AND NOT (slot_bit slot)\<rparr>) s;
         let s = ahci_check_stopped p s;
         if first then Some s else hp s
       }
     | Some (elba, elen, done') \<Rightarrow> do {
         (a, s) \<leftarrow> pull_ioreq p s;
         b \<leftarrow> pr_bctx (port_of p s);
         sectsz \<leftarrow> blockif_sectsz b s;
         let aior = (pr_ioreq (port_of p s) ! a)\<lparr>io_cfis := cfis, io_slot := slot, io_len := len,
           io_done := of_nat done', io_more := (len \<noteq> of_nat done')\<rparr>;
         let aior = aior\<lparr>io_req := (io_req aior)\<lparr>br_offset := elba * of_int sectsz,
           br_resid := uint (elen * of_int sectsz)\<rparr>\<rparr>;
         let s = issue_ioreq p a aior s;
         s \<leftarrow> (if ncq \<and> first then ahci_write_fis_d2h_ncq p slot s else Some s);
         (err, s) \<leftarrow> blockif_delete b (io_req aior) s;
         assert_that (err = 0);
         Some s
       }
   }"

end
