(* ===== verification/AhciIdent.thy ===== *)
theory AhciIdent
  imports AhciCmd
begin

text \<open>
  The data that a drive describes itself with (\<^verbatim>\<open>bhyve/pci_ahci.c\<close>): the logs and the
  identification pages of disks and of optical drives. A page is a list of bytes; the 16 bit words
  that the code assigns are little-endian.
\<close>

section \<open>Strings and checksums\<close>

definition char_at :: "string \<Rightarrow> nat \<Rightarrow> u8" where
  "char_at str i = (if i < length str then of_char (str ! i) else 0x20)"

text \<open>\<^verbatim>\<open>dest\<close> is the part of the page from \<open>off\<close> on; \<^verbatim>\<open>i ^ 1\<close> swaps the bytes of each word.\<close>

definition ata_string :: "u8 list \<Rightarrow> nat \<Rightarrow> string \<Rightarrow> nat \<Rightarrow> u8 list" where
  "ata_string buf off str len =
     foldl (\<lambda>b i. b[off + (if even i then i + 1 else i - 1) := char_at str i]) buf [0..<len]"

definition atapi_string :: "u8 list \<Rightarrow> nat \<Rightarrow> string \<Rightarrow> nat \<Rightarrow> u8 list" where
  "atapi_string buf off str len = foldl (\<lambda>b i. b[off + i := char_at str i]) buf [0..<len]"

definition ahci_checksum :: "u8 list \<Rightarrow> u8 list" where
  "ahci_checksum buf = buf[length buf - 1 := 0 - sum_list (take (length buf - 1) buf)]"

definition put_words :: "(nat \<times> u16) list \<Rightarrow> u8 list \<Rightarrow> u8 list" where
  "put_words ws buf = foldl (\<lambda>b (i, v). put_le16 b (2 * i) v) buf ws"

definition or_word :: "nat \<Rightarrow> u16 \<Rightarrow> u8 list \<Rightarrow> u8 list" where
  "or_word i v buf = put_le16 buf (2 * i) (get_le16 buf (2 * i) OR v)"

text \<open>\<^verbatim>\<open>ffsl\<close> of libc: the one-based index of the least significant set bit, 0 for 0.\<close>

fun ffs_nat :: "nat \<Rightarrow> nat" where
  "ffs_nat n = (if n = 0 then 0 else if odd n then 1 else Suc (ffs_nat (n div 2)))"

declare ffs_nat.simps [simp del]

section \<open>Logs\<close>

abbreviation (input) "TFD_ABORT \<equiv> (0x441::u32)"
abbreviation (input) "TFD_OK \<equiv> (0x50::u32)"

definition ncq_log :: "ahci_port \<Rightarrow> u8 list" where
  "ncq_log pr = ahci_checksum (take 20 (pr_err_cfis pr) @ replicate 492 0)"

definition ahci_handle_read_log ::
  "(u64 \<Rightarrow> u64) \<Rightarrow> nat \<Rightarrow> nat \<Rightarrow> u64 \<Rightarrow> ahci_state \<Rightarrow> ahci_state option" where
  "ahci_handle_read_log dmap p slot cfis s = do {
     let c = cfis_byte s cfis;
     hdr \<leftarrow> cmd_hdr p slot s;
     if pr_atapi (port_of p s) \<or> hdr_prdtl (bs_mem s) hdr = 0 \<or> c 5 \<noteq> 0 \<or> c 9 \<noteq> 0 \<or> c 12 \<noteq> 1 \<or> c 13 \<noteq> 0
     then ahci_write_fis_d2h p slot cfis TFD_ABORT s
     else do {
       page \<leftarrow>
         (if c 4 = 0x00 then Some (Some (put_words [(0x00, 1), (0x10, 1), (0x13, 1)] (replicate 512 0)))
          else if c 4 = 0x10 then Some (Some (ncq_log (port_of p s)))
          else if c 4 = 0x13 then do {
            b \<leftarrow> pr_bctx (port_of p s);
            candelete \<leftarrow> blockif_candelete b s;
            ro \<leftarrow> blockif_is_ro b s;
            Some (Some (if candelete \<and> \<not> ro then put_le32 (put_le32 (replicate 512 0) 0 1) 4 1 else replicate 512 0))
          } else Some None);
       case page of
         None \<Rightarrow> ahci_write_fis_d2h p slot cfis TFD_ABORT s
       | Some buf \<Rightarrow> do {
           s \<leftarrow> (if c 2 = 0x2f then ahci_write_fis_piosetup p s else Some s);
           s \<leftarrow> write_prdt dmap p slot cfis buf s;
           ahci_write_fis_d2h p slot cfis TFD_OK s
         }
     }
   }"

section \<open>Identification of a disk\<close>

definition identify_page ::
  "ahci_port \<Rightarrow> u64 \<Rightarrow> int \<Rightarrow> int \<Rightarrow> int \<Rightarrow> bool \<Rightarrow> bool \<Rightarrow> u16 \<times> u8 \<times> u8 \<Rightarrow> u8 list" where
  "identify_page pr sectors sectsz psectsz psectoff candelete ro chs =
     (let (cyl, heads, sech) = chs;
          xfer = push_bit (unat (pr_xfermode pr AND 7) + 8) 1;
          buf = put_words [(0, 0x0040), (1, cyl), (3, ucast heads), (6, ucast sech)] (replicate 512 0);
          buf = ata_string buf 20 (pr_ident pr) 20;
          buf = ata_string buf 46 ''001'' 8;
          buf = ata_string buf 54 ''BHYVE SATA DISK'' 40;
          buf = put_words [(47, 0x8080), (48, 0), (49, 0xb00), (50, 0x4000), (53, 6)] buf;
          buf = (if pr_mult_sectors pr \<noteq> 0 then put_words [(59, 0x100 OR of_int (pr_mult_sectors pr))] buf else buf);
          buf = put_words (if sectors \<le> 0x0fffffff then [(60, ucast sectors), (61, ucast (drop_bit 16 sectors))]
            else [(60, 0xffff), (61, 0x0fff)]) buf;
          buf = put_words [(63, 7)] buf;
          buf = (if pr_xfermode pr AND ATA_WDMA0 \<noteq> 0 then or_word 63 xfer buf else buf);
          buf = put_words [(64, 3), (65, 120), (66, 120), (67, 120), (68, 120), (69, 0), (75, 31), (76, 0x10e),
            (77, 0x40 OR ucast (drop_bit 3 (px_ssts (pr_regs pr) AND ATA_SS_SPD_MASK))), (80, 0x3f0), (81, 0x28),
            (82, 0x4068), (83, 0x7400), (84, 0x4000), (85, 0x4068), (86, 0xb400), (87, 0x4000), (88, 0x7f)] buf;
          buf = (if pr_xfermode pr AND ATA_UDMA0 \<noteq> 0 then or_word 88 xfer buf else buf);
          buf = put_words [(100, ucast sectors), (101, ucast (drop_bit 16 sectors)),
            (102, ucast (drop_bit 32 sectors)), (103, ucast (drop_bit 48 sectors))] buf;
          buf = (if candelete \<and> \<not> ro then put_words [(105, 1), (169, 1)] (or_word 69 0x4020 buf) else buf);
          buf = put_words [(106, 0x4000), (209, 0x4000)] buf;
          buf = (if psectsz > sectsz
            then or_word 209 (of_int (psectoff div sectsz))
              (or_word 106 (of_nat (ffs_nat (nat (psectsz div sectsz)) - 1)) (or_word 106 0x2000 buf))
            else buf);
          buf = (if sectsz > 512
            then put_words [(117, of_int (sectsz div 2)), (118, of_int (sectsz div 2 div 65536))] (or_word 106 0x1000 buf)
            else buf);
          buf = put_words [(119, 0x4008), (120, 0x4008), (222, 0x1020), (255, 0x00a5)] buf
      in ahci_checksum buf)"

definition handle_identify ::
  "(u64 \<Rightarrow> u64) \<Rightarrow> nat \<Rightarrow> nat \<Rightarrow> u64 \<Rightarrow> ahci_state \<Rightarrow> ahci_state option" where
  "handle_identify dmap p slot cfis s = do {
     hdr \<leftarrow> cmd_hdr p slot s;
     if pr_atapi (port_of p s) \<or> hdr_prdtl (bs_mem s) hdr = 0
     then ahci_write_fis_d2h p slot cfis TFD_ABORT s
     else do {
       b \<leftarrow> pr_bctx (port_of p s);
       ro \<leftarrow> blockif_is_ro b s;
       candelete \<leftarrow> blockif_candelete b s;
       sectsz \<leftarrow> blockif_sectsz b s;
       sz \<leftarrow> blockif_size b s;
       assert_that (sectsz \<noteq> 0);
       chs \<leftarrow> blockif_chs b s;
       (psectsz, psectoff) \<leftarrow> blockif_psectsz b s;
       let buf = identify_page (port_of p s) (of_int (sz div sectsz)) sectsz psectsz psectoff candelete ro chs;
       s \<leftarrow> ahci_write_fis_piosetup p s;
       s \<leftarrow> write_prdt dmap p slot cfis buf s;
       ahci_write_fis_d2h p slot cfis TFD_OK s
     }
   }"

section \<open>Identification of an optical drive\<close>

definition atapi_identify_page :: "ahci_port \<Rightarrow> u8 list" where
  "atapi_identify_page pr =
     (let xfer = push_bit (unat (pr_xfermode pr AND 7) + 8) 1;
          buf = put_words [(0, 0x85c0)] (replicate 512 0);
          buf = ata_string buf 20 (pr_ident pr) 20;
          buf = ata_string buf 46 ''001'' 8;
          buf = ata_string buf 54 ''BHYVE SATA DVD ROM'' 40;
          buf = put_words [(49, 0x300), (50, 0x4001), (53, 6), (62, 0x3f), (63, 7)] buf;
          buf = (if pr_xfermode pr AND ATA_WDMA0 \<noteq> 0 then or_word 63 xfer buf else buf);
          buf = put_words [(64, 3), (65, 120), (66, 120), (67, 120), (68, 120), (76, 0xe),
            (77, ucast (drop_bit 3 (px_ssts (pr_regs pr) AND ATA_SS_SPD_MASK))), (78, 0x20), (80, 0x3f0),
            (82, 0x4218), (83, 0x4000), (84, 0x4000), (85, 0x4218), (87, 0x4000), (88, 0x7f)] buf;
          buf = (if pr_xfermode pr AND ATA_UDMA0 \<noteq> 0 then or_word 88 xfer buf else buf);
          buf = put_words [(222, 0x1020), (255, 0x00a5)] buf
      in ahci_checksum buf)"

definition handle_atapi_identify ::
  "(u64 \<Rightarrow> u64) \<Rightarrow> nat \<Rightarrow> nat \<Rightarrow> u64 \<Rightarrow> ahci_state \<Rightarrow> ahci_state option" where
  "handle_atapi_identify dmap p slot cfis s =
     (if \<not> pr_atapi (port_of p s) then ahci_write_fis_d2h p slot cfis TFD_ABORT s
      else do {
        let buf = atapi_identify_page (port_of p s);
        s \<leftarrow> ahci_write_fis_piosetup p s;
        s \<leftarrow> write_prdt dmap p slot cfis buf s;
        ahci_write_fis_d2h p slot cfis TFD_OK s
      })"

end
