(* ===== verification/AhciAtapi.thy ===== *)
theory AhciAtapi
  imports AhciIdent
begin

text \<open>
  The packet commands of an optical drive (\<^verbatim>\<open>bhyve/pci_ahci.c\<close>). The packet is at \<^verbatim>\<open>cfis + 0x40\<close>.
  Answers are built on the stack and copied to the regions of the command; multi-byte fields are
  big-endian.
\<close>

section \<open>Encoding and answers\<close>

definition be16enc :: "u16 \<Rightarrow> u8 list" where
  "be16enc v = [ucast (drop_bit 8 v), ucast v]"

definition be32enc :: "u32 \<Rightarrow> u8 list" where
  "be32enc v = [ucast (drop_bit 24 v), ucast (drop_bit 16 v), ucast (drop_bit 8 v), ucast v]"

definition be16dec :: "(nat \<Rightarrow> u8) \<Rightarrow> nat \<Rightarrow> u16" where
  "be16dec c i = push_bit 8 (ucast (c i)) OR ucast (c (i + 1))"

definition be32dec :: "(nat \<Rightarrow> u8) \<Rightarrow> nat \<Rightarrow> u32" where
  "be32dec c i = push_bit 24 (ucast (c i)) OR push_bit 16 (ucast (c (i + 1))) OR
     push_bit 8 (ucast (c (i + 2))) OR ucast (c (i + 3))"

text \<open>\<^verbatim>\<open>cfis[4] = (cfis[4] & ~7) | ATA_I_CMD | ATA_I_IN\<close>\<close>

definition set_ireason :: "u64 \<Rightarrow> ahci_state \<Rightarrow> ahci_state" where
  "set_ireason cfis s = upd_mem (\<lambda>m. m(cfis + 4 := (m (cfis + 4) AND NOT 7) OR 3)) s"

text \<open>The sense key is always that of an illegal request.\<close>

definition atapi_error :: "nat \<Rightarrow> nat \<Rightarrow> u64 \<Rightarrow> u8 \<Rightarrow> ahci_state \<Rightarrow> ahci_state option" where
  "atapi_error p slot cfis asc s =
     (let s = upd_port p (\<lambda>pr. pr\<lparr>pr_sense_key := 0x05, pr_asc := asc\<rparr>) s;
          tfd = push_bit 12 (ucast (pr_sense_key (port_of p s))) OR ATA_S_READY OR ATA_S_ERROR
      in ahci_write_fis_d2h p slot cfis tfd (set_ireason cfis s))"

text \<open>The answer goes out before or after \<^verbatim>\<open>cfis[4]\<close> is set, which may be the same memory.\<close>

definition atapi_answer ::
  "(u64 \<Rightarrow> u64) \<Rightarrow> nat \<Rightarrow> nat \<Rightarrow> u64 \<Rightarrow> u8 list \<Rightarrow> ahci_state \<Rightarrow> ahci_state option" where
  "atapi_answer dmap p slot cfis buf s = do {
     s \<leftarrow> write_prdt dmap p slot cfis buf s;
     ahci_write_fis_d2h p slot cfis TFD_OK (set_ireason cfis s)
   }"

definition atapi_answer_first ::
  "(u64 \<Rightarrow> u64) \<Rightarrow> nat \<Rightarrow> nat \<Rightarrow> u64 \<Rightarrow> u8 list \<Rightarrow> ahci_state \<Rightarrow> ahci_state option" where
  "atapi_answer_first dmap p slot cfis buf s = do {
     s \<leftarrow> write_prdt dmap p slot cfis buf (set_ireason cfis s);
     ahci_write_fis_d2h p slot cfis TFD_OK s
   }"

section \<open>Commands\<close>

definition inquiry_page :: "u8 list" where
  "inquiry_page = atapi_string (atapi_string (atapi_string
     ([0x05, 0x80, 0x00, 0x21, 31, 0, 0, 0] @ replicate 28 0) 8 ''BHYVE'' 8) 16 ''BHYVE DVD-ROM'' 16) 32 ''001'' 4"

definition atapi_inquiry :: "(u64 \<Rightarrow> u64) \<Rightarrow> nat \<Rightarrow> nat \<Rightarrow> u64 \<Rightarrow> ahci_state \<Rightarrow> ahci_state option" where
  "atapi_inquiry dmap p slot cfis s =
     (let acmd = cfis_byte s (cfis + 0x40) in
      if acmd 1 AND 1 \<noteq> 0 then
        (if acmd 2 = 0 then atapi_answer_first dmap p slot cfis (take (unat (acmd 4)) [0x05, 0, 0, 1, 0]) s
         else atapi_error p slot cfis 0x24 s)
      else atapi_answer_first dmap p slot cfis (take (unat (acmd 4)) inquiry_page) s)"

definition atapi_read_capacity :: "(u64 \<Rightarrow> u64) \<Rightarrow> nat \<Rightarrow> nat \<Rightarrow> u64 \<Rightarrow> ahci_state \<Rightarrow> ahci_state option" where
  "atapi_read_capacity dmap p slot cfis s = do {
     b \<leftarrow> pr_bctx (port_of p s);
     sz \<leftarrow> blockif_size b s;
     let sectors = (of_int (sz div 2048) :: u64);
     atapi_answer_first dmap p slot cfis (be32enc (ucast (sectors - 1)) @ be32enc 2048) s
   }"

definition lba_to_msf :: "int \<Rightarrow> u8 list" where
  "lba_to_msf lba = (let lba = lba + 150 in [of_int (lba div 75 div 60), of_int (lba div 75 mod 60), of_int (lba mod 75)])"

text \<open>The address of a track, in minutes, seconds and frames or as a block.\<close>

definition toc_addr :: "bool \<Rightarrow> u64 \<Rightarrow> u8 list" where
  "toc_addr msf sectors = (if msf then 0 # lba_to_msf (sint (ucast sectors :: u32)) else be32enc (ucast sectors))"

text \<open>A table starts with its length, without the two bytes of the length itself.\<close>

definition toc_page :: "u8 list \<Rightarrow> u8 list" where
  "toc_page rest = be16enc (of_nat (length rest)) @ rest"

definition toc_tracks :: "u8 \<Rightarrow> bool \<Rightarrow> u64 \<Rightarrow> u8 list" where
  "toc_tracks start_track msf sectors = toc_page ([1, 1] @
     (if start_track \<le> 1 then [0, 0x14, 1, 0] @ (if msf then toc_addr True 0 else [0, 0, 0, 0]) else []) @
     [0, 0x14, 0xaa, 0] @ toc_addr msf sectors)"

definition toc_full :: "bool \<Rightarrow> u64 \<Rightarrow> u8 list" where
  "toc_full msf sectors = toc_page ([1, 1] @
     [1, 0x14, 0, 0xa0, 0, 0, 0, 0, 1, 0, 0] @
     [1, 0x14, 0, 0xa1, 0, 0, 0, 0, 1, 0, 0] @
     [1, 0x14, 0, 0xa2, 0, 0, 0] @ toc_addr msf sectors @
     [1, 0x14, 0, 1, 0, 0, 0] @ (if msf then toc_addr True 0 else [0, 0, 0, 0]))"

definition disk_blocks :: "nat \<Rightarrow> ahci_state \<Rightarrow> u64 option" where
  "disk_blocks p s = do {
     b \<leftarrow> pr_bctx (port_of p s);
     sz \<leftarrow> blockif_size b s;
     sectsz \<leftarrow> blockif_sectsz b s;
     assert_that (sectsz \<noteq> 0);
     Some (drop_bit 2 (of_int (sz div sectsz)))
   }"

definition atapi_read_toc :: "(u64 \<Rightarrow> u64) \<Rightarrow> nat \<Rightarrow> nat \<Rightarrow> u64 \<Rightarrow> ahci_state \<Rightarrow> ahci_state option" where
  "atapi_read_toc dmap p slot cfis s =
     (let acmd = cfis_byte s (cfis + 0x40);
          len = unat (be16dec acmd 7);
          format = drop_bit 6 (acmd 9);
          msf = (drop_bit 1 (acmd 1) AND 1 \<noteq> 0)
      in if format = 0 then
           (if 1 < acmd 6 \<and> acmd 6 \<noteq> 0xaa then atapi_error p slot cfis 0x24 s
            else do {
              sectors \<leftarrow> disk_blocks p s;
              atapi_answer dmap p slot cfis (take len (toc_tracks (acmd 6) msf sectors)) s
            })
         else if format = 1 then
           atapi_answer dmap p slot cfis (take len ([0, 0xa, 1, 1] @ replicate 8 0)) s
         else if format = 2 then do {
           sectors \<leftarrow> disk_blocks p s;
           atapi_answer dmap p slot cfis (take len (toc_full msf sectors)) s
         }
         else atapi_error p slot cfis 0x24 s)"

definition atapi_report_luns :: "(u64 \<Rightarrow> u64) \<Rightarrow> nat \<Rightarrow> nat \<Rightarrow> u64 \<Rightarrow> ahci_state \<Rightarrow> ahci_state option" where
  "atapi_report_luns dmap p slot cfis s = atapi_answer_first dmap p slot cfis ((replicate 16 0)[3 := 8]) s"

text \<open>A length of 0 is answered at once, but the request is issued all the same.\<close>

definition atapi_read ::
  "(u64 \<Rightarrow> u64) \<Rightarrow> nat \<Rightarrow> nat \<Rightarrow> u64 \<Rightarrow> u32 \<Rightarrow> ahci_state \<Rightarrow> ahci_state option" where
  "atapi_read dmap p slot cfis done s = do {
     let acmd = cfis_byte s (cfis + 0x40);
     hdr \<leftarrow> cmd_hdr p slot s;
     let lba = (ucast (be32dec acmd 2) * 2048 :: u64);
     let blocks = (if acmd 0 = 0x28 then ucast (be16dec acmd 7) else be32dec acmd 6);
     s \<leftarrow> (if blocks = 0 then ahci_write_fis_d2h p slot cfis TFD_OK (set_ireason cfis s) else Some s);
     (a, s) \<leftarrow> pull_ioreq p s;
     let aior = (pr_ioreq (port_of p s) ! a)\<lparr>io_cfis := cfis, io_slot := slot, io_len := blocks * 2048, io_done := done\<rparr>;
     let aior = aior\<lparr>io_req := (io_req aior)\<lparr>br_offset := lba + ucast done\<rparr>\<rparr>;
     aior \<leftarrow> ahci_build_iov dmap p cfis (hdr_prdtl (bs_mem s) hdr) aior s;
     let s = issue_ioreq p a aior s;
     b \<leftarrow> pr_bctx (port_of p s);
     (err, s) \<leftarrow> blockif_read b (io_req aior) s;
     assert_that (err = 0);
     Some s
   }"

definition atapi_request_sense :: "(u64 \<Rightarrow> u64) \<Rightarrow> nat \<Rightarrow> nat \<Rightarrow> u64 \<Rightarrow> ahci_state \<Rightarrow> ahci_state option" where
  "atapi_request_sense dmap p slot cfis s =
     (let acmd = cfis_byte s (cfis + 0x40);
          pr = port_of p s;
          buf = (replicate 64 0)[0 := 0xf0, 2 := pr_sense_key pr, 7 := 10, 12 := pr_asc pr]
      in atapi_answer dmap p slot cfis (take (unat (acmd 4)) buf) s)"

definition atapi_start_stop_unit :: "nat \<Rightarrow> nat \<Rightarrow> u64 \<Rightarrow> ahci_state \<Rightarrow> ahci_state option" where
  "atapi_start_stop_unit p slot cfis s =
     (if cfis_byte s (cfis + 0x40) 4 AND 3 = 2 then atapi_error p slot cfis 0x53 s
      else ahci_write_fis_d2h p slot cfis TFD_OK (set_ireason cfis s))"

definition atapi_mode_sense :: "(u64 \<Rightarrow> u64) \<Rightarrow> nat \<Rightarrow> nat \<Rightarrow> u64 \<Rightarrow> ahci_state \<Rightarrow> ahci_state option" where
  "atapi_mode_sense dmap p slot cfis s =
     (let acmd = cfis_byte s (cfis + 0x40);
          len = unat (be16dec acmd 7);
          pc = drop_bit 6 (acmd 2);
          code = acmd 2 AND 0x3f
      in if pc = 0 \<and> code = 0x01 then
           atapi_answer dmap p slot cfis
             (take len ((be16enc 14 @ replicate 14 0)[2 := 0x70, 8 := 0x01, 9 := 6, 11 := 0x05])) s
         else if pc = 0 \<and> code = 0x2A then
           atapi_answer dmap p slot cfis
             (take len ((be16enc 28 @ replicate 16 0 @ be16enc 2 @ be16enc 512 @ replicate 8 0)
                [2 := 0x70, 8 := 0x2A, 9 := 20, 10 := 0x08, 12 := 0x71])) s
         else if pc = 3 then atapi_error p slot cfis 0x39 s
         else atapi_error p slot cfis 0x24 s)"

definition atapi_get_event_status_notification ::
  "(u64 \<Rightarrow> u64) \<Rightarrow> nat \<Rightarrow> nat \<Rightarrow> u64 \<Rightarrow> ahci_state \<Rightarrow> ahci_state option" where
  "atapi_get_event_status_notification dmap p slot cfis s =
     (let acmd = cfis_byte s (cfis + 0x40) in
      if acmd 1 AND 1 = 0 then atapi_error p slot cfis 0x24 s
      else atapi_answer dmap p slot cfis
        (take (unat (be16dec acmd 7)) (be16enc 6 @ [0x04, 0x10, 0, 0x02, 0, 0])) s)"

definition handle_packet_cmd :: "(u64 \<Rightarrow> u64) \<Rightarrow> nat \<Rightarrow> nat \<Rightarrow> u64 \<Rightarrow> ahci_state \<Rightarrow> ahci_state option" where
  "handle_packet_cmd dmap p slot cfis s =
     (let op = cfis_byte s (cfis + 0x40) 0 in
      if op = 0x00 \<or> op = 0x1E then ahci_write_fis_d2h p slot cfis TFD_OK (set_ireason cfis s)
      else if op = 0x12 then atapi_inquiry dmap p slot cfis s
      else if op = 0x25 then atapi_read_capacity dmap p slot cfis s
      else if op = 0x43 then atapi_read_toc dmap p slot cfis s
      else if op = 0xA0 then atapi_report_luns dmap p slot cfis s
      else if op = 0x28 \<or> op = 0xA8 then atapi_read dmap p slot cfis 0 s
      else if op = 0x03 then atapi_request_sense dmap p slot cfis s
      else if op = 0x1B then atapi_start_stop_unit p slot cfis s
      else if op = 0x5A then atapi_mode_sense dmap p slot cfis s
      else if op = 0x4A then atapi_get_event_status_notification dmap p slot cfis s
      else atapi_error p slot cfis 0x20 s)"

end
