(* ===== verification/AhciPort.thy ===== *)
theory AhciPort
  imports AhciAtapi
begin

text \<open>
  The command engine of a port (\<^verbatim>\<open>bhyve/pci_ahci.c\<close>): one command, the loop over the issued
  commands, and the callbacks with which the disk completes a request.
\<close>

section \<open>One command\<close>

abbreviation set_tfd :: "nat \<Rightarrow> u32 \<Rightarrow> ahci_state \<Rightarrow> ahci_state" where
  "set_tfd p v s \<equiv> upd_rg p (\<lambda>r. r\<lparr>px_tfd := v\<rparr>) s"

definition setfeatures :: "nat \<Rightarrow> (nat \<Rightarrow> u8) \<Rightarrow> ahci_state \<Rightarrow> ahci_state" where
  "setfeatures p c s =
     (if c 3 = 0x10 then set_tfd p (if c 12 = 0x05 then TFD_OK else TFD_ABORT) s
      else if c 3 \<in> {0x02, 0x82, 0xaa, 0x55} then set_tfd p TFD_OK s
      else if c 3 = 0x03 then
        set_tfd p TFD_OK
          (if c 12 AND 0xf8 \<in> {ATA_WDMA0, ATA_UDMA0} then upd_port p (\<lambda>pr. pr\<lparr>pr_xfermode := c 12 AND 7\<rparr>) s else s)
      else set_tfd p TFD_ABORT s)"

definition set_multi :: "nat \<Rightarrow> u8 \<Rightarrow> ahci_state \<Rightarrow> ahci_state" where
  "set_multi p n s =
     (if n \<noteq> 0 \<and> (128 < n \<or> n AND (n - 1) \<noteq> 0) then set_tfd p TFD_ABORT s
      else set_tfd p TFD_OK (upd_port p (\<lambda>pr. pr\<lparr>pr_mult_sectors := uint n\<rparr>) s))"

text \<open>
  A trim that is started here is at its beginning, so that the continuation of
  \<open>ahci_handle_dsm_trim\<close> is not used.
\<close>

definition ahci_handle_cmd :: "(u64 \<Rightarrow> u64) \<Rightarrow> nat \<Rightarrow> nat \<Rightarrow> u64 \<Rightarrow> ahci_state \<Rightarrow> ahci_state option" where
  "ahci_handle_cmd dmap p slot cfis s =
     (let c = cfis_byte s cfis;
          s = upd_rg p (\<lambda>r. r\<lparr>px_tfd := px_tfd r OR ATA_S_BUSY\<rparr>) s;
          trim = ahci_handle_dsm_trim (\<lambda>_. None) dmap p slot cfis 0 s;
          abort = ahci_write_fis_d2h p slot cfis TFD_ABORT s
      in if c 2 = 0xec then handle_identify dmap p slot cfis s
         else if c 2 = 0xef then
           (let s = setfeatures p c s in ahci_write_fis_d2h p slot cfis (px_tfd (rg p s)) s)
         else if c 2 = 0xc6 then
           (let s = set_multi p (c 12) s in ahci_write_fis_d2h p slot cfis (px_tfd (rg p s)) s)
         else if c 2 \<in> {0x20, 0x30, 0x24, 0x34, 0xc4, 0xc5, 0x29, 0x39, 0xc8, 0xca, 0x25, 0x35, 0x60, 0x61}
         then ahci_handle_rw dmap p slot cfis 0 s
         else if c 2 \<in> {0xe7, 0xea} then ahci_handle_flush p slot cfis s
         else if c 2 = 0x06 then
           (if c 11 = 0 \<and> c 3 = 0x01 \<and> c 13 = 0 \<and> c 12 = 1 then trim else abort)
         else if c 2 = 0x64 then
           (if c 13 AND 0x1f = 0 \<and> c 17 = 0 \<and> c 16 = 0x01 \<and> c 11 = 0 \<and> c 3 = 1 then trim else abort)
         else if c 2 \<in> {0x2f, 0x47} then ahci_handle_read_log dmap p slot cfis s
         else if c 2 \<in> {0xf5, 0xb0, 0x00} then abort
         else if c 2 = 0xe5 then
           ahci_write_fis_d2h p slot cfis TFD_OK (upd_mem (\<lambda>m. m(cfis + 12 := 0xff)) s)
         else if c 2 \<in> {0xe2, 0xe0, 0xe3, 0xe1, 0xe6, 0x40, 0x42} then ahci_write_fis_d2h p slot cfis TFD_OK s
         else if c 2 = 0xa1 then handle_atapi_identify dmap p slot cfis s
         else if c 2 = 0xa0 then
           (if pr_atapi (port_of p s) then handle_packet_cmd dmap p slot cfis s else abort)
         else abort)"

definition ahci_handle_slot :: "(u64 \<Rightarrow> u64) \<Rightarrow> nat \<Rightarrow> nat \<Rightarrow> ahci_state \<Rightarrow> ahci_state option" where
  "ahci_handle_slot dmap p slot s = do {
     hdr \<leftarrow> cmd_hdr p slot s;
     assert_that (pr_sc (port_of p s));
     let cfis = paddr_guest2host dmap (hdr_ctba (bs_mem s) hdr) (of_nat (0x80 + hdr_prdtl (bs_mem s) hdr * 16));
     let c = cfis_byte s cfis;
     if c 0 \<noteq> fis_code FIS_TYPE_REGH2D then Some s
     else if bit (c 1) 7 then ahci_handle_cmd dmap p slot cfis s
     else do {
       s \<leftarrow>
         (if bit (c 15) 2 then Some (upd_port p (\<lambda>pr. pr\<lparr>pr_reset := True\<rparr>) s)
          else if pr_reset (port_of p s) then ahci_port_reset p (upd_port p (\<lambda>pr. pr\<lparr>pr_reset := False\<rparr>) s)
          else Some s);
       Some (upd_rg p (\<lambda>r. r\<lparr>px_ci := px_ci r AND NOT (slot_bit slot)\<rparr>) s)
     }
   }"

section \<open>The commands of a port\<close>

text \<open>One round of the loop: the command at the current slot, if it is to be issued.\<close>

definition port_round :: "(u64 \<Rightarrow> u64) \<Rightarrow> nat \<Rightarrow> ahci_state \<Rightarrow> ahci_state option" where
  "port_round dmap p s =
     (let ccs = pr_ccs (port_of p s) in
      if px_ci (rg p s) AND NOT (pr_pending (port_of p s)) AND slot_bit ccs \<noteq> 0
      then ahci_handle_slot dmap p ccs (upd_rg p (\<lambda>r. r\<lparr>px_cmd :=
        (px_cmd r AND NOT AHCI_P_CMD_CCS_MASK) OR push_bit 8 (of_nat ccs)\<rparr>) s)
      else Some s)"

definition port_idle :: "nat \<Rightarrow> ahci_state \<Rightarrow> bool" where
  "port_idle p s \<longleftrightarrow> px_ci (rg p s) AND NOT (pr_pending (port_of p s)) = 0 \<or>
     px_tfd (rg p s) AND (ATA_S_BUSY OR ATA_S_DRQ) \<noteq> 0 \<or> pr_waitforclear (port_of p s)"

partial_function (option) port_loop :: "(u64 \<Rightarrow> u64) \<Rightarrow> nat \<Rightarrow> ahci_state \<Rightarrow> ahci_state option" where
  "port_loop dmap p s =
     (if port_idle p s then Some s
      else Option.bind (port_round dmap p s)
        (\<lambda>s. port_loop dmap p (upd_port p (\<lambda>pr. pr\<lparr>pr_ccs := (pr_ccs pr + 1) mod 32\<rparr>) s)))"

definition ahci_handle_port :: "(u64 \<Rightarrow> u64) \<Rightarrow> nat \<Rightarrow> ahci_state \<Rightarrow> ahci_state option" where
  "ahci_handle_port dmap p s =
     (if px_cmd (rg p s) AND AHCI_P_CMD_ST = 0 then Some s else port_loop dmap p s)"

section \<open>Completion\<close>

definition lock_sc :: "ahci_state \<Rightarrow> ahci_state option" where
  "lock_sc s = do {
     m \<leftarrow> pthread_mutex_lock (asc_mtx (ahci_sc s));
     Some (upd_sc (\<lambda>sc. sc\<lparr>asc_mtx := m\<rparr>) s)
   }"

definition unlock_sc :: "ahci_state \<Rightarrow> ahci_state option" where
  "unlock_sc s = do {
     m \<leftarrow> pthread_mutex_unlock (asc_mtx (ahci_sc s));
     Some (upd_sc (\<lambda>sc. sc\<lparr>asc_mtx := m\<rparr>) s)
   }"

definition release_ioreq :: "nat \<Rightarrow> nat \<Rightarrow> ahci_state \<Rightarrow> ahci_state option" where
  "release_ioreq p a s = do {
     assert_that (a \<in> set (pr_iobhd (port_of p s)));
     Some (upd_port p (\<lambda>pr. pr\<lparr>pr_iobhd := remove1 a (pr_iobhd pr), pr_iofhd := pr_iofhd pr @ [a]\<rparr>) s)
   }"

definition set_prdbc :: "nat \<Rightarrow> nat \<Rightarrow> u32 \<Rightarrow> ahci_state \<Rightarrow> ahci_state option" where
  "set_prdbc p slot v s = do {
     hdr \<leftarrow> cmd_hdr p slot s;
     Some (upd_mem (hdr_set_prdbc hdr v) s)
   }"

definition finish_command :: "(u64 \<Rightarrow> u64) \<Rightarrow> nat \<Rightarrow> nat \<Rightarrow> ahci_state \<Rightarrow> ahci_state option" where
  "finish_command dmap p slot s =
     ahci_handle_port dmap p (ahci_check_stopped p
       (upd_port p (\<lambda>pr. pr\<lparr>pr_pending := pr_pending pr AND NOT (slot_bit slot)\<rparr>) s))"

text \<open>
  The callbacks. The request that comes back is embedded in the \<^verbatim>\<open>struct ahci_ioreq\<close>; of the fields
  that it may have changed, only \<^verbatim>\<open>br_resid\<close>, none is read.
\<close>

definition ata_ioreq_cb :: "(u64 \<Rightarrow> u64) \<Rightarrow> ahci_rq blockif_req \<Rightarrow> int \<Rightarrow> ahci_state \<Rightarrow> ahci_state option" where
  "ata_ioreq_cb dmap br err s = do {
     let (p, a) = br_param br;
     let aior = pr_ioreq (port_of p s) ! a;
     let (cfis, slot) = (io_cfis aior, io_slot aior);
     let c = cfis_byte s cfis;
     let ncq = ncq_command (c 2);
     let dsm = (c 2 = 0x06 \<or> c 2 = ATA_SEND_FPDMA_QUEUED \<and> c 13 AND 0x1f = 0);
     s \<leftarrow> lock_sc s;
     s \<leftarrow> release_ioreq p a s;
     s \<leftarrow> (if err = 0 then set_prdbc p slot (io_done aior) s else Some s);
     s \<leftarrow>
       (if err = 0 \<and> io_more aior then
          (if dsm then ahci_handle_dsm_trim (ahci_handle_port dmap p) dmap p slot cfis (io_done aior) s
           else ahci_handle_rw dmap p slot cfis (io_done aior) s)
        else do {
          let tfd = (if err = 0 then TFD_OK else TFD_ABORT);
          s \<leftarrow> (if ncq then ahci_write_fis_sdb p slot cfis tfd s else ahci_write_fis_d2h p slot cfis tfd s);
          finish_command dmap p slot s
        });
     unlock_sc s
   }"

definition atapi_ioreq_cb :: "(u64 \<Rightarrow> u64) \<Rightarrow> ahci_rq blockif_req \<Rightarrow> int \<Rightarrow> ahci_state \<Rightarrow> ahci_state option" where
  "atapi_ioreq_cb dmap br err s = do {
     let (p, a) = br_param br;
     let aior = pr_ioreq (port_of p s) ! a;
     let (cfis, slot) = (io_cfis aior, io_slot aior);
     s \<leftarrow> lock_sc s;
     s \<leftarrow> release_ioreq p a s;
     s \<leftarrow> (if err = 0 then set_prdbc p slot (io_done aior) s else Some s);
     s \<leftarrow>
       (if err = 0 \<and> io_more aior then atapi_read dmap p slot cfis (io_done aior) s
        else do {
          s \<leftarrow> (if err = 0 then ahci_write_fis_d2h p slot cfis TFD_OK (set_ireason cfis s)
                else atapi_error p slot cfis 0x21 s);
          finish_command dmap p slot s
        });
     unlock_sc s
   }"

text \<open>The callback that \<open>pci_ahci_ioreq_init\<close> stores in the requests of a port.\<close>

definition ahci_cb :: "(u64 \<Rightarrow> u64) \<Rightarrow> ahci_rq blockif_req \<Rightarrow> int \<Rightarrow> ahci_state \<Rightarrow> ahci_state option" where
  "ahci_cb dmap br err s =
     (if pr_atapi (port_of (fst (br_param br)) s) then atapi_ioreq_cb dmap br err s else ata_ioreq_cb dmap br err s)"

end
