(* ===== verification/AhciDev.thy ===== *)
theory AhciDev
  imports AhciPort
begin

text \<open>
  The registers of the disk controller, its start and its driver entries (\<^verbatim>\<open>bhyve/pci_ahci.c\<close>).
\<close>

section \<open>Writes\<close>

text \<open>The bits of the command register that the guest can write.\<close>

abbreviation (input) "CMD_WRITABLE \<equiv> (0xFF80001F::u32)"

definition port_cmd_write :: "(u64 \<Rightarrow> u64) \<Rightarrow> nat \<Rightarrow> u32 \<Rightarrow> ahci_state \<Rightarrow> ahci_state option" where
  "port_cmd_write dmap p value s = do {
     let s = upd_rg p (\<lambda>r. r\<lparr>px_cmd := (px_cmd r AND NOT CMD_WRITABLE) OR (CMD_WRITABLE AND value)\<rparr>) s;
     s \<leftarrow>
       (if value AND AHCI_P_CMD_ST = 0 then ahci_port_stop p s
        else
          (let s = upd_rg p (\<lambda>r. r\<lparr>px_cmd := px_cmd r OR AHCI_P_CMD_CR\<rparr>) s;
               clb = push_bit 32 (ucast (px_clbu (rg p s))) OR ucast (px_clb (rg p s))
           in Some (upd_port p (\<lambda>pr. pr\<lparr>pr_cmd_lst := Some (paddr_guest2host dmap clb 1024)\<rparr>) s)));
     let s =
       (if value AND AHCI_P_CMD_FRE \<noteq> 0 then
          (let s = upd_rg p (\<lambda>r. r\<lparr>px_cmd := px_cmd r OR AHCI_P_CMD_FR\<rparr>) s;
               fb = push_bit 32 (ucast (px_fbu (rg p s))) OR ucast (px_fb (rg p s))
           in upd_port p (\<lambda>pr. pr\<lparr>pr_rfis := Some (paddr_guest2host dmap fb 256)\<rparr>) s)
        else upd_rg p (\<lambda>r. r\<lparr>px_cmd := px_cmd r AND NOT AHCI_P_CMD_FR\<rparr>) s);
     let s =
       (if value AND AHCI_P_CMD_CLO \<noteq> 0
        then upd_rg p (\<lambda>r. r\<lparr>px_tfd := px_tfd r AND NOT (ATA_S_BUSY OR ATA_S_DRQ),
          px_cmd := px_cmd r AND NOT AHCI_P_CMD_CLO\<rparr>) s
        else s);
     let s =
       (if value AND AHCI_P_CMD_ICC_MASK \<noteq> 0
        then upd_rg p (\<lambda>r. r\<lparr>px_cmd := px_cmd r AND NOT AHCI_P_CMD_ICC_MASK\<rparr>) s else s);
     ahci_handle_port dmap p s
   }"

definition pci_ahci_port_write :: "(u64 \<Rightarrow> u64) \<Rightarrow> u64 \<Rightarrow> u64 \<Rightarrow> ahci_state \<Rightarrow> ahci_state option" where
  "pci_ahci_port_write dmap offset value s =
     (let p = unat ((offset - 0x100) div 0x80);
          offset = (offset - 0x100) mod 0x80;
          v = ucast value
      in if offset = 0x00 then Some (upd_rg p (\<lambda>r. r\<lparr>px_clb := v\<rparr>) s)
         else if offset = 0x04 then Some (upd_rg p (\<lambda>r. r\<lparr>px_clbu := v\<rparr>) s)
         else if offset = 0x08 then Some (upd_rg p (\<lambda>r. r\<lparr>px_fb := v\<rparr>) s)
         else if offset = 0x0c then Some (upd_rg p (\<lambda>r. r\<lparr>px_fbu := v\<rparr>) s)
         else if offset = 0x10 then ahci_port_intr p (upd_rg p (\<lambda>r. r\<lparr>px_is := px_is r AND NOT v\<rparr>) s)
         else if offset = 0x14 then ahci_port_intr p (upd_rg p (\<lambda>r. r\<lparr>px_ie := v AND 0xFDC000FF\<rparr>) s)
         else if offset = 0x18 then port_cmd_write dmap p v s
         else if offset = 0x2c then
           (let s = upd_rg p (\<lambda>r. r\<lparr>px_sctl := v\<rparr>) s in
            if px_cmd (rg p s) AND AHCI_P_CMD_ST = 0 \<and> v AND 1 \<noteq> 0 then ahci_port_reset p s else Some s)
         else if offset = 0x30 then Some (upd_rg p (\<lambda>r. r\<lparr>px_serr := px_serr r AND NOT v\<rparr>) s)
         else if offset = 0x34 then Some (upd_rg p (\<lambda>r. r\<lparr>px_sact := px_sact r OR v\<rparr>) s)
         else if offset = 0x38 then ahci_handle_port dmap p (upd_rg p (\<lambda>r. r\<lparr>px_ci := px_ci r OR v\<rparr>) s)
         else Some s)"

definition pci_ahci_host_write :: "u64 \<Rightarrow> u64 \<Rightarrow> ahci_state \<Rightarrow> ahci_state option" where
  "pci_ahci_host_write offset value s =
     (if offset = 0x04 then
        (if value AND 1 \<noteq> 0 then ahci_reset s
         else ahci_generate_intr 0xffffffff (upd_sc (\<lambda>sc. sc\<lparr>hba_ghc :=
           (if value AND 2 \<noteq> 0 then hba_ghc sc OR AHCI_GHC_IE else hba_ghc sc AND NOT AHCI_GHC_IE)\<rparr>) s))
      else if offset = 0x08 then
        ahci_generate_intr (ucast value) (upd_sc (\<lambda>sc. sc\<lparr>hba_is := hba_is sc AND NOT (ucast value)\<rparr>) s)
      else Some s)"

definition port_space :: "ahci_state \<Rightarrow> u64" where
  "port_space s = 0x100 + of_nat (asc_ports (ahci_sc s)) * 0x80"

definition pci_ahci_write :: "(u64 \<Rightarrow> u64) \<Rightarrow> nat \<Rightarrow> u64 \<Rightarrow> nat \<Rightarrow> u64 \<Rightarrow> ahci_state \<Rightarrow> ahci_state option" where
  "pci_ahci_write dmap baridx offset sz value s = do {
     assert_that (baridx = 5);
     assert_that (offset mod 4 = 0);
     s \<leftarrow> lock_sc s;
     s \<leftarrow>
       (if offset < 0x100 then pci_ahci_host_write offset value s
        else if offset < port_space s then pci_ahci_port_write dmap offset value s
        else Some s);
     unlock_sc s
   }"

section \<open>Reads\<close>

definition pci_ahci_host_read :: "u64 \<Rightarrow> ahci_state \<Rightarrow> u32" where
  "pci_ahci_host_read offset s =
     (let sc = ahci_sc s;
          regs = [hba_cap sc, hba_ghc sc, hba_is sc, hba_pi sc, hba_vs sc, hba_ccc_ctl sc, hba_ccc_pts sc,
            hba_em_loc sc, hba_em_ctl sc, hba_cap2 sc]
      in if offset mod 4 = 0 \<and> offset \<le> 0x24 then regs ! unat (offset div 4) else 0)"

definition pci_ahci_port_read :: "u64 \<Rightarrow> ahci_state \<Rightarrow> u32" where
  "pci_ahci_port_read offset s =
     (let r = rg (unat ((offset - 0x100) div 0x80)) s;
          offset = (offset - 0x100) mod 0x80;
          regs = [px_clb r, px_clbu r, px_fb r, px_fbu r, px_is r, px_ie r, px_cmd r, px_unused0 r, px_tfd r,
            px_sig r, px_ssts r, px_sctl r, px_serr r, px_sact r, px_ci r, px_sntf r, px_fbs r]
      in if offset mod 4 = 0 \<and> offset \<le> 0x40 \<and> offset \<noteq> 0x1c then regs ! unat (offset div 4) else 0)"

definition pci_ahci_read :: "nat \<Rightarrow> u64 \<Rightarrow> nat \<Rightarrow> ahci_state \<Rightarrow> (u64 \<times> ahci_state) option" where
  "pci_ahci_read baridx regoff sz s = do {
     assert_that (baridx = 5);
     assert_that (sz = 1 \<or> sz = 2 \<or> sz = 4);
     assert_that (regoff AND of_nat (sz - 1) = 0);
     s \<leftarrow> lock_sc s;
     let offset = regoff AND NOT 3;
     let value = (if offset < 0x100 then pci_ahci_host_read offset s
       else if offset < port_space s then pci_ahci_port_read offset s
       else 0);
     let value = drop_bit (8 * unat (regoff AND 3)) value;
     s \<leftarrow> unlock_sc s;
     Some (ucast value, s)
   }"

section \<open>Start\<close>

definition ioreq_zero :: "nat \<Rightarrow> nat \<Rightarrow> ahci_ioreq" where
  "ioreq_zero p i = \<lparr>io_req = \<lparr>br_iov = [], br_offset = 0, br_resid = 0, br_param = (p, i)\<rparr>,
     io_cfis = 0, io_len = 0, io_done = 0, io_slot = 0, io_more = False\<rparr>"

definition ahci_regs_zero :: ahci_regs where
  "ahci_regs_zero = \<lparr>px_clb = 0, px_clbu = 0, px_fb = 0, px_fbu = 0, px_is = 0, px_ie = 0, px_cmd = 0,
     px_unused0 = 0, px_tfd = 0, px_sig = 0, px_ssts = 0, px_sctl = 0, px_serr = 0, px_sact = 0, px_ci = 0,
     px_sntf = 0, px_fbs = 0\<rparr>"

definition ahci_port_zero :: ahci_port where
  "ahci_port_zero = \<lparr>pr_bctx = None, pr_sc = False, pr_cmd_lst = None, pr_rfis = None, pr_ident = [],
     pr_port = 0, pr_atapi = False, pr_reset = False, pr_waitforclear = False, pr_mult_sectors = 0,
     pr_xfermode = 0, pr_err_cfis = replicate 20 0, pr_sense_key = 0, pr_asc = 0, pr_ccs = 0, pr_pending = 0,
     pr_regs = ahci_regs_zero, pr_ioreq = [], pr_ioqsz = 0, pr_iofhd = [], pr_iobhd = []\<rparr>"

definition ahci_softc_zero :: "pci_devinst \<Rightarrow> pci_ahci_softc" where
  "ahci_softc_zero pi = \<lparr>asc_pi = pi, asc_mtx = pthread_mutex_init \<lparr>mutex_lock = 0\<rparr>, asc_ports = 0, hba_cap = 0,
     hba_ghc = 0, hba_is = 0, hba_pi = 0, hba_vs = 0, hba_ccc_ctl = 0, hba_ccc_pts = 0, hba_em_loc = 0,
     hba_em_ctl = 0, hba_cap2 = 0, hba_bohc = 0, asc_lintr = False, asc_port = replicate MAX_PORTS ahci_port_zero\<rparr>"

definition pci_ahci_ioreq_init :: "nat \<Rightarrow> nat \<Rightarrow> ahci_port \<Rightarrow> ahci_port" where
  "pci_ahci_ioreq_init p n pr = pr\<lparr>pr_ioqsz := n, pr_ioreq := map (ioreq_zero p) [0..<n],
     pr_iofhd := [0..<n], pr_iobhd := []\<rparr>"

text \<open>\<^verbatim>\<open>strstr\<close>, and the two digits of \<^verbatim>\<open>%02X\<close>.\<close>

fun strstr :: "string \<Rightarrow> string \<Rightarrow> string option" where
  "strstr [] needle = (if needle = [] then Some [] else None)"
| "strstr (x # xs) needle =
     (if take (length needle) (x # xs) = needle then Some (x # xs) else strstr xs needle)"

definition hex2 :: "u8 \<Rightarrow> string" where
  "hex2 b = [''0123456789ABCDEF'' ! unat (drop_bit 4 b), ''0123456789ABCDEF'' ! unat (b AND 0xf)]"

text \<open>The identifier from the digest of the options; \<open>md5\<close> is the digest of the library.\<close>

definition disk_ident :: "(string \<Rightarrow> u8 list) \<Rightarrow> string \<Rightarrow> string" where
  "disk_ident md5 opts =
     (let d = md5 opts in ''BHYVE-'' @ hex2 (d ! 0) @ hex2 (d ! 1) @ ''-'' @ hex2 (d ! 2) @ hex2 (d ! 3) @ ''-'' @
        hex2 (d ! 4) @ hex2 (d ! 5))"

text \<open>Splitting the options: the kind of drive, its options, and the options of the next port.\<close>

definition port_opts :: "bool \<Rightarrow> string \<Rightarrow> bool \<times> string \<times> string option" where
  "port_opts atapi opts =
     (let (atapi, opts) = (if take 3 opts = ''hd:'' then (False, drop 3 opts)
            else if take 3 opts = ''cd:'' then (True, drop 3 opts) else (atapi, opts));
          next1 = strstr opts '',hd:'';
          next2 = strstr opts '',cd:'';
          nxt = (case (next1, next2) of
              (None, n) \<Rightarrow> n
            | (Some n1, Some n2) \<Rightarrow> if length n1 < length n2 then Some n2 else Some n1
            | (Some n1, None) \<Rightarrow> Some n1)
      in case nxt of
           None \<Rightarrow> (atapi, opts, None)
         | Some n \<Rightarrow> (atapi, take (length opts - length n) opts, Some (tl n)))"

text \<open>The state of the block device, on its own and with the controller.\<close>

definition with_sc :: "ahci_rq blockif_state \<Rightarrow> pci_ahci_softc \<Rightarrow> ahci_state" where
  "with_sc w sc = \<lparr>bs_ctxts = bs_ctxts w, blockif_sc = blockif_sc w, bs_mem = bs_mem w, ahci_sc = sc\<rparr>"

text \<open>
  The loop over the ports, \<open>n\<close> of which are left: it fails when a disk cannot be opened, at port
  \<^verbatim>\<open>sc->ports\<close>; else it gives the number of ports and the least queue size.
\<close>

fun init_ports ::
  "(string \<Rightarrow> u8 list) \<Rightarrow> u64 \<Rightarrow> bool \<Rightarrow> nat \<Rightarrow> nat \<Rightarrow> string option \<Rightarrow> bool \<Rightarrow> nat \<Rightarrow> ahci_rq blockif_state \<Rightarrow>
     pci_ahci_softc \<Rightarrow> (bool \<times> nat \<times> nat \<times> ahci_rq blockif_state \<times> pci_ahci_softc) option" where
  "init_ports md5 physmem calloc_ok 0 p opts atapi slots w sc = Some (True, p, slots, w, sc)"
| "init_ports md5 physmem calloc_ok (Suc n) p None atapi slots w sc = Some (True, p, slots, w, sc)"
| "init_ports md5 physmem calloc_ok (Suc n) p (Some opts) atapi slots w sc =
     (let (atapi, opts, nxt) = port_opts atapi opts in
      if opts = [] then init_ports md5 physmem calloc_ok n (Suc p) nxt atapi slots w sc
      else
        (case blockif_open physmem calloc_ok w of
           (None, w) \<Rightarrow> Some (False, p, slots, w, sc\<lparr>asc_ports := p\<rparr>)
         | (Some b, w) \<Rightarrow> do {
             qsz \<leftarrow> blockif_queuesz b w;
             let pr = (asc_port sc ! p)\<lparr>pr_bctx := Some b, pr_sc := True, pr_port := p, pr_atapi := atapi,
               pr_ident := disk_ident md5 opts\<rparr>;
             let sc = sc\<lparr>asc_port := (asc_port sc)[p := pci_ahci_ioreq_init p qsz pr],
               hba_pi := hba_pi sc OR slot_bit p\<rparr>;
             init_ports md5 physmem calloc_ok n (Suc p) nxt atapi (min qsz slots) w sc
           }))"

fun close_ports :: "ahci_port list \<Rightarrow> ahci_rq blockif_state \<Rightarrow> ahci_rq blockif_state option" where
  "close_ports [] w = Some w"
| "close_ports (pr # prs) w = (case pr_bctx pr of
     None \<Rightarrow> close_ports prs w
   | Some b \<Rightarrow> do { (_, w) \<leftarrow> blockif_close b w; close_ports prs w })"

definition pci_ahci_init ::
  "(string \<Rightarrow> u8 list) \<Rightarrow> u64 \<Rightarrow> bool \<Rightarrow> bool \<Rightarrow> ('a, ahci_rq blockif_state) pci_sys \<Rightarrow> pci_devinst \<Rightarrow> string option \<Rightarrow>
     (int \<times> ('a, ahci_rq blockif_state) pci_sys \<times> pci_devinst \<times> pci_ahci_softc) option" where
  "pci_ahci_init md5 physmem calloc_ok atapi s pi opts = do {
     (ok, p, slots, w, sc) \<leftarrow> init_ports md5 physmem calloc_ok MAX_PORTS 0 opts atapi 32 (sys_world s) (ahci_softc_zero pi);
     if \<not> ok then do {
       w \<leftarrow> close_ports (take p (asc_port sc)) w;
       Some (1, s\<lparr>sys_world := w\<rparr>, pi, sc)
     } else do {
       let ports = (if p < DEF_PORTS then DEF_PORTS else p);
       let sc = sc\<lparr>asc_ports := ports,
         hba_cap := 0xff30e020 OR push_bit 8 (of_nat (slots - 1)) OR of_nat (ports - 1),
         hba_vs := 0x10300, hba_cap2 := 0x4\<rparr>;
       st \<leftarrow> ahci_reset (with_sc w sc);
       let sc = ahci_sc st;
       let s = s\<lparr>sys_world := blockif_state.truncate st\<rparr>;
       pi \<leftarrow> pci_set_cfgdata16 pi PCIR_DEVICE 0x2821;
       pi \<leftarrow> pci_set_cfgdata16 pi PCIR_VENDOR 0x8086;
       pi \<leftarrow> pci_set_cfgdata8 pi PCIR_CLASS 0x01;
       pi \<leftarrow> pci_set_cfgdata8 pi PCIR_SUBCLASS 0x06;
       pi \<leftarrow> pci_set_cfgdata8 pi PCIR_PROGIF 0x01;
       let q = min ports 16;
       let l = flsl (of_nat q :: u64) - (if (of_nat q :: u64) AND (of_nat q - 1) \<noteq> 0 then 0 else 1);
       (_, pi) \<leftarrow> pci_emul_add_msicap pi (2 ^ l);
       (_, s, pi) \<leftarrow> pci_emul_alloc_bar s pi 5 PCIBAR_MEM32 (0x100 + of_nat ports * 0x80);
       (s, pi) \<leftarrow> pci_lintr_request s pi;
       Some (0, s, pi, sc\<lparr>asc_pi := pi\<rparr>)
     }
   }"

text \<open>
  The driver entries \<^verbatim>\<open>pci_de_ahci\<close>, \<^verbatim>\<open>pci_de_ahci_hd\<close> and \<^verbatim>\<open>pci_de_ahci_cd\<close>; the device
  instance is one object that the bus and the controller share.
\<close>

definition ahci_devemu ::
  "(string \<Rightarrow> u8 list) \<Rightarrow> u64 \<Rightarrow> bool \<Rightarrow> (u64 \<Rightarrow> u64) \<Rightarrow> string \<Rightarrow> bool \<Rightarrow>
     (pci_ahci_softc, ahci_rq blockif_state) pci_devemu" where
  "ahci_devemu md5 physmem calloc_ok dmap name atapi = \<lparr>
     pe_emu = name,
     pe_init = pci_ahci_init md5 physmem calloc_ok atapi,
     pe_cfgwrite = None,
     pe_cfgread = None,
     pe_barwrite = (\<lambda>w d baridx offset sz val. do {
       st \<leftarrow> pci_ahci_write dmap baridx offset sz val (with_sc w ((dev_arg d)\<lparr>asc_pi := dev_pi d\<rparr>));
       Some (blockif_state.truncate st, d\<lparr>dev_pi := asc_pi (ahci_sc st), dev_arg := ahci_sc st\<rparr>)
     }),
     pe_barread = (\<lambda>w d baridx offset sz. do {
       (retval, st) \<leftarrow> pci_ahci_read baridx offset sz (with_sc w ((dev_arg d)\<lparr>asc_pi := dev_pi d\<rparr>));
       Some (retval, blockif_state.truncate st, d\<lparr>dev_pi := asc_pi (ahci_sc st), dev_arg := ahci_sc st\<rparr>)
     })\<rparr>"

definition pci_de_ahci where
  "pci_de_ahci md5 physmem calloc_ok dmap = ahci_devemu md5 physmem calloc_ok dmap ''ahci'' False"

definition pci_de_ahci_hd where
  "pci_de_ahci_hd md5 physmem calloc_ok dmap = ahci_devemu md5 physmem calloc_ok dmap ''ahci-hd'' False"

definition pci_de_ahci_cd where
  "pci_de_ahci_cd md5 physmem calloc_ok dmap = ahci_devemu md5 physmem calloc_ok dmap ''ahci-cd'' True"

end
