(* ===== verification/System.thy ===== *)
theory System
  imports AhciDev DeviceModel E1000Xmit E1000Rx
begin

text \<open>
  The whole program: the bus with its two drivers, and the body of the endless loop \<^verbatim>\<open>dm_loop\<close> of
  \<^verbatim>\<open>src/device-model.c\<close>, which answers a request of the guest, polls the network card and runs the
  worker of the disk; and the interrupt of the network (\<^verbatim>\<open>net_intr\<close> of \<^verbatim>\<open>src/virtio.c\<close>).

  The drivers share the memory of the host. The private data of a device is a softc of one of the
  two drivers. The globals \<^verbatim>\<open>e82545_sc\<close> and \<^verbatim>\<open>io_pr\<close> of the requests point to the softcs of the two
  devices that \<^verbatim>\<open>bhyve_pci_init\<close> configures: the card in slot 0, the disk controller in slot 1.
\<close>

section \<open>State\<close>

datatype softc = Card e82545_softc | Disk pci_ahci_softc

record 'n machine = "ahci_rq blockif_state" +
  mc_net :: 'n
  mc_sent :: "u8 list list"

type_synonym 'n dm_sys = "(softc, 'n machine) pci_sys"

abbreviation (input) "card_ref \<equiv> (0, 0, 0) :: pci_ref"
abbreviation (input) "disk_ref \<equiv> (0, 1, 0) :: pci_ref"

text \<open>What each driver sees of the machine.\<close>

definition card_world :: "'n machine \<Rightarrow> 'n dm_world" where
  "card_world m = \<lparr>host_mem = bs_mem m, net_state = mc_net m, net_sent = mc_sent m\<rparr>"

definition put_card_world :: "'n dm_world \<Rightarrow> 'n machine \<Rightarrow> 'n machine" where
  "put_card_world w m = m\<lparr>bs_mem := host_mem w, mc_net := net_state w, mc_sent := net_sent w\<rparr>"

definition disk_world :: "'n machine \<Rightarrow> ahci_rq blockif_state" where
  "disk_world m = \<lparr>bs_ctxts = bs_ctxts m, blockif_sc = blockif_sc m, bs_mem = bs_mem m\<rparr>"

definition put_disk_world :: "ahci_rq blockif_state \<Rightarrow> 'n machine \<Rightarrow> 'n machine" where
  "put_disk_world w m = m\<lparr>bs_ctxts := bs_ctxts w, blockif_sc := blockif_sc w, bs_mem := bs_mem w\<rparr>"

section \<open>The drivers on the bus\<close>

text \<open>A device with other private data, and a bus with another world.\<close>

definition with_arg :: "'a pci_dev \<Rightarrow> 'b \<Rightarrow> 'b pci_dev" where
  "with_arg d x = \<lparr>dev_pi = dev_pi d, dev_emu = dev_emu d, dev_arg = x\<rparr>"

definition with_world :: "('a, 'w) pci_sys \<Rightarrow> 'v \<Rightarrow> ('a, 'v) pci_sys" where
  "with_world s w = \<lparr>mmio_rb_root = mmio_rb_root s, mmio_rb_fallback = mmio_rb_fallback s,
     mmio_hint = mmio_hint s, mem_ptr = mem_ptr s, mem_alloc_ok = mem_alloc_ok s,
     pci_emul_iobase = pci_emul_iobase s, pci_emul_membase32 = pci_emul_membase32 s,
     pci_emul_membase64 = pci_emul_membase64 s, pci_businfo = pci_businfo s, sys_world = w\<rparr>"

definition card_devemu :: "(u64 \<Rightarrow> u64) \<Rightarrow> (softc, 'n machine) pci_devemu" where
  "card_devemu dmap = (let pe = pci_de_e82545 dmap in \<lparr>
     pe_emu = pe_emu pe,
     pe_init = (\<lambda>s pi opts. do {
       (e, s, pi, sc) \<leftarrow> e82545_init s pi opts;
       Some (e, s, pi, Card sc)
     }),
     pe_cfgwrite = None,
     pe_cfgread = None,
     pe_barwrite = (\<lambda>w d baridx offset sz val. case dev_arg d of
         Disk _ \<Rightarrow> None
       | Card sc \<Rightarrow> do {
           (w, d) \<leftarrow> pe_barwrite pe w (with_arg d sc) baridx offset sz val;
           Some (w, with_arg d (Card (dev_arg d)))
         }),
     pe_barread = (\<lambda>w d baridx offset sz. case dev_arg d of
         Disk _ \<Rightarrow> None
       | Card sc \<Rightarrow> do {
           (v, w, d) \<leftarrow> pe_barread pe w (with_arg d sc) baridx offset sz;
           Some (v, w, with_arg d (Card (dev_arg d)))
         })\<rparr>)"

definition disk_devemu ::
  "(string \<Rightarrow> u8 list) \<Rightarrow> u64 \<Rightarrow> bool \<Rightarrow> (u64 \<Rightarrow> u64) \<Rightarrow> string \<Rightarrow> bool \<Rightarrow> (softc, 'n machine) pci_devemu" where
  "disk_devemu md5 physmem calloc_ok dmap name atapi = (let pe = ahci_devemu md5 physmem calloc_ok dmap name atapi in \<lparr>
     pe_emu = pe_emu pe,
     pe_init = (\<lambda>s pi opts. do {
       (e, s', pi, sc) \<leftarrow> pci_ahci_init md5 physmem calloc_ok atapi (with_world s (disk_world (sys_world s))) pi opts;
       Some (e, with_world s' (put_disk_world (sys_world s') (sys_world s)), pi, Disk sc)
     }),
     pe_cfgwrite = None,
     pe_cfgread = None,
     pe_barwrite = (\<lambda>m d baridx offset sz val. case dev_arg d of
         Card _ \<Rightarrow> None
       | Disk sc \<Rightarrow> do {
           (w, d) \<leftarrow> pe_barwrite pe (disk_world m) (with_arg d sc) baridx offset sz val;
           Some (put_disk_world w m, with_arg d (Disk (dev_arg d)))
         }),
     pe_barread = (\<lambda>m d baridx offset sz. case dev_arg d of
         Card _ \<Rightarrow> None
       | Disk sc \<Rightarrow> do {
           (v, w, d) \<leftarrow> pe_barread pe (disk_world m) (with_arg d sc) baridx offset sz;
           Some (v, put_disk_world w m, with_arg d (Disk (dev_arg d)))
         })\<rparr>)"

text \<open>The linker set \<^verbatim>\<open>pci_devemu_set\<close>.\<close>

definition pci_devemu_set ::
  "(string \<Rightarrow> u8 list) \<Rightarrow> u64 \<Rightarrow> bool \<Rightarrow> (u64 \<Rightarrow> u64) \<Rightarrow> (softc, 'n machine) pci_devemu list" where
  "pci_devemu_set md5 physmem calloc_ok dmap = [card_devemu dmap,
     disk_devemu md5 physmem calloc_ok dmap ''ahci'' False, disk_devemu md5 physmem calloc_ok dmap ''ahci-hd'' False,
     disk_devemu md5 physmem calloc_ok dmap ''ahci-cd'' True]"

section \<open>The loop\<close>

text \<open>The device that the globals of a driver point to.\<close>

definition card_dev :: "'n dm_sys \<Rightarrow> (softc pci_dev \<times> e82545_softc) option" where
  "card_dev s = (case dev_at s card_ref of
     Some (Some d) \<Rightarrow> (case dev_arg d of Card sc \<Rightarrow> Some (d, sc\<lparr>esc_pi := dev_pi d\<rparr>) | Disk _ \<Rightarrow> None)
   | _ \<Rightarrow> None)"

definition disk_dev :: "'n dm_sys \<Rightarrow> (softc pci_dev \<times> pci_ahci_softc) option" where
  "disk_dev s = (case dev_at s disk_ref of
     Some (Some d) \<Rightarrow> (case dev_arg d of Disk sc \<Rightarrow> Some (d, sc\<lparr>asc_pi := dev_pi d\<rparr>) | Card _ \<Rightarrow> None)
   | _ \<Rightarrow> None)"

definition put_card :: "softc pci_dev \<Rightarrow> e82545_softc \<Rightarrow> 'n dm_world \<Rightarrow> 'n dm_sys \<Rightarrow> 'n dm_sys" where
  "put_card d sc w s = set_dev (s\<lparr>sys_world := put_card_world w (sys_world s)\<rparr>) card_ref
     (d\<lparr>dev_pi := esc_pi sc, dev_arg := Card sc\<rparr>)"

definition put_disk :: "softc pci_dev \<Rightarrow> ahci_state \<Rightarrow> 'n dm_sys \<Rightarrow> 'n dm_sys" where
  "put_disk d t s = set_dev (s\<lparr>sys_world := put_disk_world (blockif_state.truncate t) (sys_world s)\<rparr>) disk_ref
     (d\<lparr>dev_pi := asc_pi (ahci_sc t), dev_arg := Disk (ahci_sc t)\<rparr>)"

text \<open>\<^verbatim>\<open>e1000_poll()\<close> and \<^verbatim>\<open>blockif_thr(NULL)\<close> in the loop. Without a controller no disk is open.\<close>

definition loop_poll :: "(u64 \<Rightarrow> u64) \<Rightarrow> 'n dm_sys \<Rightarrow> 'n dm_sys option" where
  "loop_poll dmap s = do {
     (sco, w) \<leftarrow> e1000_poll dmap (map_option snd (card_dev s)) (card_world (sys_world s));
     Some (case (card_dev s, sco) of (Some (d, _), Some sc) \<Rightarrow> put_card d sc w s | _ \<Rightarrow> s)
   }"

definition loop_thr :: "(u64 \<Rightarrow> u64) \<Rightarrow> 'n dm_sys \<Rightarrow> 'n dm_sys option" where
  "loop_thr dmap s = (case disk_dev s of
     None \<Rightarrow> do {
       w \<leftarrow> blockif_thr (\<lambda>_ _ _. None) (disk_world (sys_world s));
       Some (s\<lparr>sys_world := put_disk_world w (sys_world s)\<rparr>)
     }
   | Some (d, sc) \<Rightarrow> do {
       t \<leftarrow> blockif_thr (ahci_cb dmap) (with_sc (disk_world (sys_world s)) sc);
       Some (put_disk d t s)
     })"

text \<open>
  One round of \<^verbatim>\<open>dm_loop\<close>: the request that \<^verbatim>\<open>epw_request\<close> gives, if any, and the reply that
  \<^verbatim>\<open>epw_reply\<close> sends. The count of requests only decides what is printed.
\<close>

definition dm_round ::
  "(softc, 'n machine) pci_devemu list \<Rightarrow> (u64 \<Rightarrow> u64) \<Rightarrow> u64 \<Rightarrow> epw_request option \<Rightarrow> 'n dm_sys \<Rightarrow>
     (epw_request option \<times> 'n dm_sys) option" where
  "dm_round devs dmap satp ro s = do {
     (reply, s) \<leftarrow> (case ro of
         None \<Rightarrow> Some (None, s)
       | Some req \<Rightarrow> do {
           (_, req, s) \<leftarrow> dm_request devs satp s req;
           Some (Some req, s)
         });
     s \<leftarrow> loop_poll dmap s;
     s \<leftarrow> loop_thr dmap s;
     Some (reply, s)
   }"

text \<open>
  The loop never ends: \<open>dm_loop\<close> is a part of it, given by what \<^verbatim>\<open>epw_request\<close> finds in each round; and
  \<open>dm_main\<close> is \<^verbatim>\<open>main\<close> up to there, without the start of the request driver.
\<close>

fun dm_loop ::
  "(softc, 'n machine) pci_devemu list \<Rightarrow> (u64 \<Rightarrow> u64) \<Rightarrow> u64 \<Rightarrow> epw_request option list \<Rightarrow> 'n dm_sys \<Rightarrow>
     (epw_request option list \<times> 'n dm_sys) option" where
  "dm_loop devs dmap satp [] s = Some ([], s)"
| "dm_loop devs dmap satp (ro # ros) s = do {
     (reply, s) \<leftarrow> dm_round devs dmap satp ro s;
     (replies, s) \<leftarrow> dm_loop devs dmap satp ros s;
     Some (reply # replies, s)
   }"

definition dm_main ::
  "(softc, 'n machine) pci_devemu list \<Rightarrow> bool \<Rightarrow> (u64 \<Rightarrow> u64) \<Rightarrow> u64 \<Rightarrow> epw_request option list \<Rightarrow> 'n dm_sys \<Rightarrow>
     (epw_request option list \<times> 'n dm_sys) option" where
  "dm_main devs malloc_ok dmap satp ros s = do {
     s \<leftarrow> dm_init devs malloc_ok s;
     dm_loop devs dmap satp ros s
   }"

text \<open>
  The interrupt of the network; \<open>vintr\<close> is what \<^verbatim>\<open>virtionet_handle_interrupt\<close> does to the driver of
  the network, which is not part of the repository. Before the card is there its pointer is null.
\<close>

definition net_intr ::
  "(u64 \<Rightarrow> u64) \<Rightarrow> 'n net_reader \<Rightarrow> ('n \<Rightarrow> 'n) \<Rightarrow> 'n dm_sys \<Rightarrow> 'n dm_sys option" where
  "net_intr dmap vread vintr s = do {
     (d, sc) \<leftarrow> card_dev s;
     (sc, w) \<leftarrow> e82545_rx_event dmap vread sc (card_world (sys_world s));
     Some (put_card d sc (w\<lparr>net_state := vintr (net_state w)\<rparr>) s)
   }"

end
