(* ===== verification/AhciFrame.thy ===== *)
theory AhciFrame
  imports AhciDev BlockIfProps PciCfgrwProps
begin

text \<open>
  What the operations of the disk controller leave alone. The core of a port is its requests: the
  two lists, the elements, the commands in flight. The operations that only talk to the guest keep
  the core of every port, the queue of the disk, and the invariant of the interrupts.
\<close>

section \<open>Access to ports\<close>

lemma port_of_upd_port:
  "port_of q (upd_port p f s) = (if q = p \<and> p < length (asc_port (ahci_sc s)) then f (port_of q s) else port_of q s)"
  by (cases "p < length (asc_port (ahci_sc s))") (auto simp: port_of_def upd_port_def list_update_beyond)

lemma port_of_simps [simp]:
  "port_of q (upd_mem g s) = port_of q s"
  "port_of q (s\<lparr>bs_ctxts := c\<rparr>) = port_of q s"
  "port_of q (put_ctxt b bc s) = port_of q s"
  "port_of q (s\<lparr>bs_mem := m\<rparr>) = port_of q s"
  by (simp_all add: port_of_def put_ctxt_def)

lemma port_of_upd_sc: "(\<And>sc. asc_port (g sc) = asc_port sc) \<Longrightarrow> port_of q (upd_sc g s) = port_of q s"
  by (simp add: port_of_def)

lemma upd_port_simps [simp]:
  "bs_ctxts (upd_port p f s) = bs_ctxts s" "blockif_sc (upd_port p f s) = blockif_sc s"
  "bs_mem (upd_port p f s) = bs_mem s" "asc_pi (ahci_sc (upd_port p f s)) = asc_pi (ahci_sc s)"
  "asc_mtx (ahci_sc (upd_port p f s)) = asc_mtx (ahci_sc s)"
  "asc_ports (ahci_sc (upd_port p f s)) = asc_ports (ahci_sc s)"
  "hba_is (ahci_sc (upd_port p f s)) = hba_is (ahci_sc s)"
  "hba_ghc (ahci_sc (upd_port p f s)) = hba_ghc (ahci_sc s)"
  "asc_lintr (ahci_sc (upd_port p f s)) = asc_lintr (ahci_sc s)"
  "length (asc_port (ahci_sc (upd_port p f s))) = length (asc_port (ahci_sc s))"
  by (simp_all add: upd_port_def)

section \<open>The core\<close>

definition port_core where
  "port_core pr = (pr_bctx pr, pr_sc pr, pr_port pr, pr_atapi pr, pr_pending pr, pr_ioreq pr, pr_iofhd pr, pr_iobhd pr)"

definition same_core :: "ahci_state \<Rightarrow> ahci_state \<Rightarrow> bool" where
  "same_core s s' \<longleftrightarrow> bs_ctxts s' = bs_ctxts s \<and> blockif_sc s' = blockif_sc s \<and>
     asc_mtx (ahci_sc s') = asc_mtx (ahci_sc s) \<and> asc_ports (ahci_sc s') = asc_ports (ahci_sc s) \<and>
     length (asc_port (ahci_sc s')) = length (asc_port (ahci_sc s)) \<and>
     (\<forall>q. port_core (port_of q s') = port_core (port_of q s))"

lemma same_core_refl [simp]: "same_core s s"
  by (simp add: same_core_def)

lemma same_core_trans: "same_core s s' \<Longrightarrow> same_core s' s'' \<Longrightarrow> same_core s s''"
  by (simp add: same_core_def)

section \<open>The invariant of the interrupts\<close>

text \<open>The capability list of the function is well-formed.\<close>

definition caps_fine :: "pci_devinst \<Rightarrow> bool" where
  "caps_fine pi \<longleftrightarrow> (\<exists>cs. caps_ok pi cs)"

lemma caps_fine_frame: "lintr_frame pi pi' \<Longrightarrow> caps_fine pi' = caps_fine pi"
  using lintr_frame_simps [of pi pi']
  by (simp add: caps_fine_def caps_ok_def cap_present_def cap_at_def devinst_ok_def)

text \<open>
  With legacy interrupts the line is requested exactly when the global status is not zero and
  interrupts are enabled, and the global status has every port with an enabled cause. The ports in
  \<open>E\<close> are exempt: an operation is about to report them.
\<close>

definition irq_gen :: "nat set \<Rightarrow> ahci_state \<Rightarrow> bool" where
  "irq_gen E s \<longleftrightarrow> (let sc = ahci_sc s in lintr_ok (asc_pi sc) \<and> caps_fine (asc_pi sc) \<and> msi_enabled (pi_msi (asc_pi sc)) = 0 \<and>
     (asc_lintr sc \<longleftrightarrow> requested (asc_pi sc)) \<and>
     (asc_lintr sc \<longleftrightarrow> hba_is sc \<noteq> 0 \<and> hba_ghc sc AND AHCI_GHC_IE \<noteq> 0) \<and>
     0 < asc_ports sc \<and> asc_ports sc \<le> 32 \<and> (\<forall>q<32. pr_sc (port_of q s) \<longrightarrow> pr_port (port_of q s) = q) \<and>
     (\<forall>q<asc_ports sc. q \<notin> E \<longrightarrow> px_is (rg q s) AND px_ie (rg q s) \<noteq> 0 \<longrightarrow> bit (hba_is sc) q))"

abbreviation irq_inv :: "ahci_state \<Rightarrow> bool" where
  "irq_inv \<equiv> irq_gen {}"

lemma slot_bit_zero_iff: "i < 32 \<Longrightarrow> w AND slot_bit i = 0 \<longleftrightarrow> \<not> bit (w :: u32) i"
  by (simp add: slot_bit_def bit_iff_and_push_bit_not_eq_0)

lemma bit_or_slot: "bit (w OR slot_bit i) j \<longleftrightarrow> bit (w :: u32) j \<or> (i = j \<and> j < 32)"
  by (auto simp: slot_bit_def bit_simps)

lemma or_slot_nonzero: "i < 32 \<Longrightarrow> (w :: u32) OR slot_bit i \<noteq> 0"
  using bit_or_slot [of w i i] by (metis bit_0_eq bot_apply bot_bool_def)

text \<open>The three fields that the interrupt of a port may change.\<close>

definition irq_upd :: "pci_devinst \<Rightarrow> u32 \<Rightarrow> bool \<Rightarrow> ahci_state \<Rightarrow> ahci_state" where
  "irq_upd pi w l = upd_sc (\<lambda>sc. sc\<lparr>asc_pi := pi, hba_is := w, asc_lintr := l\<rparr>)"

lemma irq_upd_simps [simp]:
  "port_of q (irq_upd pi w l s) = port_of q s" "bs_ctxts (irq_upd pi w l s) = bs_ctxts s"
  "blockif_sc (irq_upd pi w l s) = blockif_sc s" "bs_mem (irq_upd pi w l s) = bs_mem s"
  "asc_pi (ahci_sc (irq_upd pi w l s)) = pi" "hba_is (ahci_sc (irq_upd pi w l s)) = w"
  "asc_lintr (ahci_sc (irq_upd pi w l s)) = l" "hba_ghc (ahci_sc (irq_upd pi w l s)) = hba_ghc (ahci_sc s)"
  "asc_mtx (ahci_sc (irq_upd pi w l s)) = asc_mtx (ahci_sc s)"
  "asc_ports (ahci_sc (irq_upd pi w l s)) = asc_ports (ahci_sc s)"
  "asc_port (ahci_sc (irq_upd pi w l s)) = asc_port (ahci_sc s)"
  by (simp_all add: irq_upd_def port_of_def)

lemma irq_upd_core [simp]: "same_core s (irq_upd pi w l s)"
  by (simp add: same_core_def)

lemma irq_upd_pi [simp]: "upd_sc (\<lambda>sc. sc\<lparr>asc_pi := pi\<rparr>) (irq_upd pi' w l s) = irq_upd pi w l s"
  by (cases s) (simp add: irq_upd_def)

lemma irq_upd_same: "irq_upd (asc_pi (ahci_sc s)) (hba_is (ahci_sc s)) (asc_lintr (ahci_sc s)) s = s"
  by (cases s) (simp add: irq_upd_def)

lemma asc_line_up:
  assumes "lintr_ok (asc_pi (ahci_sc s))"
  obtains pi where "on_asc_pi pci_lintr_assert s = Some (upd_sc (\<lambda>sc. sc\<lparr>asc_pi := pi\<rparr>) s)" "lintr_ok pi" "requested pi"
    "lintr_frame (asc_pi (ahci_sc s)) pi"
proof -
  have wf: "lintr_wf (asc_pi (ahci_sc s))" using assms by (simp add: lintr_ok_def)
  obtain pi where "pci_lintr_assert (asc_pi (ahci_sc s)) = Some pi" "lintr_ok pi" "requested pi"
    using lintr.up_ok [OF assms] by blast
  moreover from this(1) have "lintr_frame (asc_pi (ahci_sc s)) pi"
    unfolding lintr_assert_eq [OF wf] by (auto split: if_splits intro: lintr_frames)
  ultimately show ?thesis by (intro that [of pi]) (simp_all add: on_asc_pi_def)
qed

lemma asc_line_down:
  assumes "lintr_ok (asc_pi (ahci_sc s))"
  obtains pi where "on_asc_pi pci_lintr_deassert s = Some (upd_sc (\<lambda>sc. sc\<lparr>asc_pi := pi\<rparr>) s)" "lintr_ok pi" "\<not> requested pi"
    "lintr_frame (asc_pi (ahci_sc s)) pi"
proof -
  have wf: "lintr_wf (asc_pi (ahci_sc s))" using assms by (simp add: lintr_ok_def)
  obtain pi where "pci_lintr_deassert (asc_pi (ahci_sc s)) = Some pi" "lintr_ok pi" "\<not> requested pi"
    using lintr.down_ok [OF assms] by blast
  moreover from this(1) have "lintr_frame (asc_pi (ahci_sc s)) pi"
    unfolding lintr_deassert_eq [OF wf] by (auto intro: lintr_frames)
  ultimately show ?thesis by (intro that [of pi]) (simp_all add: on_asc_pi_def)
qed

text \<open>The interrupt of a port succeeds and restores the invariant for that port.\<close>

lemma port_intr_ok:
  assumes inv: "irq_gen {p} s" and p: "p < 32" "pr_sc (port_of p s)"
  shows "\<exists>pi w l. ahci_port_intr p s = Some (irq_upd pi w l s) \<and> irq_inv (irq_upd pi w l s)"
proof (cases "px_is (rg p s) AND px_ie (rg p s) = 0")
  case True
  with p have "ahci_port_intr p s = Some s" by (simp add: ahci_port_intr_def)
  moreover have "irq_inv s" using inv True by (auto simp: irq_gen_def Let_def)
  ultimately show ?thesis using irq_upd_same [of s] by metis
next
  case False
  let ?sc = "ahci_sc s"
  let ?w = "hba_is ?sc OR slot_bit p"
  have port: "pr_port (port_of p s) = p" and nmsg: "pci_msi_maxmsgnum (asc_pi ?sc) = 0"
    and ok: "lintr_ok (asc_pi ?sc)" and ports: "0 < asc_ports ?sc"
    and line: "asc_lintr ?sc \<longleftrightarrow> hba_is ?sc \<noteq> 0 \<and> hba_ghc ?sc AND AHCI_GHC_IE \<noteq> 0"
    using inv p by (auto simp: irq_gen_def Let_def pci_msi_maxmsgnum_def)
  have run: "ahci_port_intr p s =
      (if bit (hba_is ?sc) p then Some s
       else if hba_ghc ?sc AND AHCI_GHC_IE = 0 then Some (irq_upd (asc_pi ?sc) ?w (asc_lintr ?sc) s)
       else if \<not> asc_lintr ?sc then on_asc_pi pci_lintr_assert (irq_upd (asc_pi ?sc) ?w True s)
       else Some (irq_upd (asc_pi ?sc) ?w (asc_lintr ?sc) s))"
    using False p port nmsg ports slot_bit_zero_iff [OF p(1), of "hba_is ?sc"]
    by (cases s) (simp add: ahci_port_intr_def Let_def irq_upd_def)
  have new: "bit ?w q" if "bit (hba_is ?sc) q \<or> q = p" for q
    using that p by (auto simp: bit_or_slot)
  consider "bit (hba_is ?sc) p" | "\<not> bit (hba_is ?sc) p" "hba_ghc ?sc AND AHCI_GHC_IE = 0"
    | "\<not> bit (hba_is ?sc) p" "hba_ghc ?sc AND AHCI_GHC_IE \<noteq> 0" "asc_lintr ?sc"
    | "\<not> bit (hba_is ?sc) p" "hba_ghc ?sc AND AHCI_GHC_IE \<noteq> 0" "\<not> asc_lintr ?sc" by blast
  then show ?thesis
  proof cases
    case 1
    then have "ahci_port_intr p s = Some s" by (simp add: run)
    moreover have "irq_inv s" using inv 1 by (auto simp: irq_gen_def Let_def)
    ultimately show ?thesis using irq_upd_same [of s] by metis
  next
    case 2
    then have "irq_inv (irq_upd (asc_pi ?sc) ?w (asc_lintr ?sc) s)"
      using inv new by (auto simp: irq_gen_def Let_def)
    with run 2 show ?thesis by auto
  next
    case 3
    then have "irq_inv (irq_upd (asc_pi ?sc) ?w (asc_lintr ?sc) s)"
      using inv new or_slot_nonzero [OF p(1)] by (auto simp: irq_gen_def Let_def)
    with run 3 show ?thesis by auto
  next
    case 4
    have "lintr_ok (asc_pi (ahci_sc (irq_upd (asc_pi ?sc) ?w True s)))" using ok by simp
    then obtain pi where pi: "on_asc_pi pci_lintr_assert (irq_upd (asc_pi ?sc) ?w True s) = Some (irq_upd pi ?w True s)"
      "lintr_ok pi" "requested pi" "lintr_frame (asc_pi ?sc) pi"
      by (rule asc_line_up) simp
    then have "irq_inv (irq_upd pi ?w True s)"
      using inv new 4 or_slot_nonzero [OF p(1)] lintr_frame_simps(6) [OF pi(4)] caps_fine_frame [OF pi(4)] by (auto simp: irq_gen_def Let_def)
    with run 4 pi(1) show ?thesis by auto
  qed
qed

section \<open>Quiet operations\<close>

text \<open>
  \<open>calm\<close> relates two states with the same core, the second of which keeps the invariant of the
  interrupts if the first has it; an operation is quiet when its result is calm.
\<close>

definition calm :: "ahci_state \<Rightarrow> ahci_state \<Rightarrow> bool" where
  "calm s s' \<longleftrightarrow> same_core s s' \<and> (irq_inv s \<longrightarrow> irq_inv s')"

definition quiet :: "ahci_state \<Rightarrow> ahci_state option \<Rightarrow> bool" where
  "quiet s r \<longleftrightarrow> (\<forall>s'. r = Some s' \<longrightarrow> calm s s')"

definition plain :: "(ahci_port \<Rightarrow> ahci_port) \<Rightarrow> bool" where
  "plain f \<longleftrightarrow> (\<forall>pr. port_core (f pr) = port_core pr \<and> px_is (pr_regs (f pr)) = px_is (pr_regs pr) \<and>
     px_ie (pr_regs (f pr)) = px_ie (pr_regs pr))"

named_theorems quiets \<open>operations that keep the core\<close>

lemma calm_refl [quiets]: "calm s s"
  by (simp add: calm_def)

lemma calm_trans: "calm s s' \<Longrightarrow> calm s' s'' \<Longrightarrow> calm s s''"
  by (auto simp: calm_def intro: same_core_trans)

lemma plainI:
  "(\<And>pr. port_core (f pr) = port_core pr) \<Longrightarrow> (\<And>pr. px_is (pr_regs (f pr)) = px_is (pr_regs pr)) \<Longrightarrow>
     (\<And>pr. px_ie (pr_regs (f pr)) = px_ie (pr_regs pr)) \<Longrightarrow> plain f"
  by (simp add: plain_def)

lemma core_port: "port_core pr = port_core pr' \<Longrightarrow> pr_sc pr = pr_sc pr' \<and> pr_port pr = pr_port pr' \<and>
    pr_bctx pr = pr_bctx pr' \<and> pr_atapi pr = pr_atapi pr' \<and> pr_pending pr = pr_pending pr' \<and>
    pr_ioreq pr = pr_ioreq pr' \<and> pr_iofhd pr = pr_iofhd pr' \<and> pr_iobhd pr = pr_iobhd pr'"
  by (simp add: port_core_def)

lemma same_core_fields:
  assumes "same_core s s'"
  shows "pr_sc (port_of q s') = pr_sc (port_of q s)" "pr_port (port_of q s') = pr_port (port_of q s)"
    "pr_bctx (port_of q s') = pr_bctx (port_of q s)" "pr_atapi (port_of q s') = pr_atapi (port_of q s)"
    "pr_pending (port_of q s') = pr_pending (port_of q s)" "pr_ioreq (port_of q s') = pr_ioreq (port_of q s)"
    "pr_iofhd (port_of q s') = pr_iofhd (port_of q s)" "pr_iobhd (port_of q s') = pr_iobhd (port_of q s)"
  using assms core_port [of "port_of q s'" "port_of q s"] unfolding same_core_def by blast+

lemma calm_upd_port [quiets]:
  assumes "calm s s'" "plain f"
  shows "calm s (upd_port p f s')"
proof -
  have core: "port_core (port_of q (upd_port p f s')) = port_core (port_of q s')"
    and regs: "px_is (rg q (upd_port p f s')) = px_is (rg q s')" "px_ie (rg q (upd_port p f s')) = px_ie (rg q s')" for q
    using assms(2) by (auto simp: port_of_upd_port plain_def)
  have "same_core s' (upd_port p f s')" by (simp add: same_core_def core)
  moreover have "irq_inv (upd_port p f s') = irq_inv s'"
    using core_port [OF core] by (simp add: irq_gen_def Let_def regs)
  ultimately show ?thesis using assms(1) by (auto simp: calm_def intro: same_core_trans)
qed

lemma calm_upd_mem [quiets]: "calm s s' \<Longrightarrow> calm s (upd_mem g s')"
  by (auto simp: calm_def same_core_def irq_gen_def Let_def)

lemma calm_set_mem [quiets]: "calm s s' \<Longrightarrow> calm s (s'\<lparr>bs_mem := m\<rparr>)"
  using calm_upd_mem [of s s' "\<lambda>_. m"] by simp

lemma calm_if [quiets]: "(b \<Longrightarrow> calm s s1) \<Longrightarrow> (\<not> b \<Longrightarrow> calm s s2) \<Longrightarrow> calm s (if b then s1 else s2)"
  by simp

lemma quiet_None [quiets]: "quiet s None"
  by (simp add: quiet_def)

lemma quiet_Some [quiets]: "calm s s' \<Longrightarrow> quiet s (Some s')"
  by (simp add: quiet_def)

lemma quiet_if [quiets]: "(b \<Longrightarrow> quiet s r1) \<Longrightarrow> (\<not> b \<Longrightarrow> quiet s r2) \<Longrightarrow> quiet s (if b then r1 else r2)"
  by simp

lemma quiet_bind: "quiet s r \<Longrightarrow> (\<And>s'. calm s s' \<Longrightarrow> quiet s (f s')) \<Longrightarrow> quiet s (Option.bind r f)"
  by (auto simp: quiet_def bind_eq_Some_conv)

lemma quiet_bind_val: "(\<And>x. r = Some x \<Longrightarrow> quiet s (f x)) \<Longrightarrow> quiet s (Option.bind r f)"
  by (auto simp: quiet_def bind_eq_Some_conv)

lemma quiet_assert [quiets]: "(b \<Longrightarrow> quiet s (f ())) \<Longrightarrow> quiet s (Option.bind (assert_that b) f)"
  by (simp add: quiet_def assert_that_bind)

lemma quiet_option [quiets]:
  "(x = None \<Longrightarrow> quiet s r) \<Longrightarrow> (\<And>y. x = Some y \<Longrightarrow> quiet s (f y)) \<Longrightarrow> quiet s (case x of None \<Rightarrow> r | Some y \<Rightarrow> f y)"
  by (simp split: option.split)

section \<open>Frames and interrupts\<close>

lemma same_core_upd_sc:
  assumes "\<And>sc. asc_port (g sc) = asc_port sc" "\<And>sc. asc_mtx (g sc) = asc_mtx sc" "\<And>sc. asc_ports (g sc) = asc_ports sc"
  shows "same_core s (upd_sc g s)"
  using assms by (simp add: same_core_def port_of_def)

lemma on_asc_pi_core: "on_asc_pi f s = Some s' \<Longrightarrow> same_core s s'"
  by (auto simp: on_asc_pi_def bind_eq_Some_conv intro!: same_core_upd_sc)

lemma port_intr_core:
  assumes "ahci_port_intr p s = Some s'"
  shows "same_core s s'"
proof -
  have sc: "same_core s (upd_sc (\<lambda>sc. sc\<lparr>hba_is := w sc\<rparr>) s)"
    "same_core s (upd_sc (\<lambda>sc. sc\<lparr>asc_lintr := True\<rparr>) (upd_sc (\<lambda>sc. sc\<lparr>hba_is := w sc\<rparr>) s))" for w
    by (auto intro!: same_core_upd_sc intro: same_core_trans)
  show ?thesis
    using assms unfolding ahci_port_intr_def Let_def
    by (auto simp: res_simps split: if_splits intro!: sc dest!: on_asc_pi_core intro: same_core_trans [OF sc(2)])
qed

lemma port_intr_calm:
  assumes "p < 32" "same_core s s'" "irq_inv s \<Longrightarrow> irq_gen {p} s'"
  shows "quiet s (ahci_port_intr p s')"
  unfolding quiet_def calm_def
proof (intro allI impI conjI)
  fix s'' assume run: "ahci_port_intr p s' = Some s''"
  from run have "pr_sc (port_of p s')" by (auto simp: ahci_port_intr_def res_simps)
  with port_intr_ok [of p s'] assms(1,3) run show "irq_inv s''" if "irq_inv s"
    using that by fastforce
  show "same_core s s''" using assms(2) port_intr_core [OF run] by (rule same_core_trans)
qed

lemma irq_gen_upd_regs:
  assumes "irq_inv s"
  shows "irq_gen {p} (upd_rg p f s)"
  using assms by (auto simp: irq_gen_def Let_def port_of_upd_port)

lemma same_core_upd_regs: "same_core s (upd_rg p f s)"
  by (simp add: same_core_def port_of_upd_port port_core_def)

lemma port_intr_upd:
  assumes "p < 32" "calm s s'"
  shows "quiet s (ahci_port_intr p (upd_rg p f s'))"
proof (rule port_intr_calm [OF assms(1)])
  show "same_core s (upd_rg p f s')"
    using assms(2) by (auto simp: calm_def intro: same_core_trans same_core_upd_regs)
  show "irq_gen {p} (upd_rg p f s')" if "irq_inv s"
    using that assms(2) by (simp add: calm_def irq_gen_upd_regs)
qed

lemma quiet_write_fis [quiets]:
  assumes "p < 32" "calm s s'"
  shows "quiet s (ahci_write_fis p ft fis s')"
proof -
  have "plain (\<lambda>pr. pr\<lparr>pr_waitforclear := True\<rparr>)" by (simp add: plain_def port_core_def)
  then have w: "calm s (upd_port p (\<lambda>pr. pr\<lparr>pr_waitforclear := True\<rparr>) s')" using assms(2) by (intro quiets)
  show ?thesis
    unfolding ahci_write_fis_def Let_def
    by (auto intro!: quiets port_intr_upd assms w split: option.split)
qed

lemma plain_regs [quiets]:
  assumes "\<And>r. px_is (f r) = px_is r" "\<And>r. px_ie (f r) = px_ie r"
  shows "plain (\<lambda>pr. pr\<lparr>pr_regs := f (pr_regs pr)\<rparr>)"
  using assms by (simp add: plain_def port_core_def)

lemma plain_err_cfis [quiets]: "plain (\<lambda>pr. pr\<lparr>pr_err_cfis := g pr\<rparr>)"
  by (simp add: plain_def port_core_def)

lemma quiet_fis [quiets]:
  assumes "p < 32" "calm s s'"
  shows "quiet s (ahci_write_fis_piosetup p s')" "quiet s (ahci_write_fis_sdb p slot cfis tfd s')"
    "quiet s (ahci_write_fis_d2h p slot cfis tfd s')" "quiet s (ahci_write_fis_d2h_ncq p slot s')"
    "quiet s (ahci_write_reset_fis_d2h p s')"
  using assms
  by (auto simp: ahci_write_fis_piosetup_def ahci_write_fis_sdb_def ahci_write_fis_d2h_def
      ahci_write_fis_d2h_ncq_def ahci_write_reset_fis_d2h_def Let_def split: prod.split intro!: quiets)

end
