(* ===== verification/AhciQuiet.thy ===== *)
theory AhciQuiet
  imports AhciFrame
begin

text \<open>
  The operations of the disk controller that only talk to the guest are quiet, and so is the whole
  command engine of a port while its disk is locked: a request to the disk does not return then.
\<close>

section \<open>Answers to commands\<close>

lemma plain_fields [quiets]:
  "plain (\<lambda>pr. pr\<lparr>pr_sense_key := k, pr_asc := a\<rparr>)" "plain (\<lambda>pr. pr\<lparr>pr_xfermode := x\<rparr>)"
  "plain (\<lambda>pr. pr\<lparr>pr_mult_sectors := n\<rparr>)" "plain (\<lambda>pr. pr\<lparr>pr_reset := b\<rparr>)"
  "plain (\<lambda>pr. pr\<lparr>pr_ccs := g (pr_ccs pr)\<rparr>)" "plain (\<lambda>pr. pr\<lparr>pr_cmd_lst := c\<rparr>)"
  "plain (\<lambda>pr. pr\<lparr>pr_rfis := c\<rparr>)"
  by (simp_all add: plain_def port_core_def)

lemma quiet_let [quiets]: "(\<And>x. x = t \<Longrightarrow> quiet s (f x)) \<Longrightarrow> quiet s (Let t f)"
  by simp

lemma quiet_prod [quiets]: "(\<And>x y. t = (x, y) \<Longrightarrow> quiet s (f x y)) \<Longrightarrow> quiet s (case t of (x, y) \<Rightarrow> f x y)"
  by (simp split: prod.split)

lemma calm_set_ireason [quiets]: "calm s s' \<Longrightarrow> calm s (set_ireason cfis s')"
  unfolding set_ireason_def by (rule calm_upd_mem)

lemma quiet_write_prdt [quiets]: "calm s s' \<Longrightarrow> quiet s (write_prdt dmap p slot cfis buf s')"
  unfolding write_prdt_def
  by (rule quiet_bind_val) (auto simp: Let_def split: prod.split intro!: quiets)

lemma quiet_atapi_error [quiets]: "p < 32 \<Longrightarrow> calm s s' \<Longrightarrow> quiet s (atapi_error p slot cfis asc s')"
  unfolding atapi_error_def Let_def by (intro quiets)

lemma quiet_answer [quiets]:
  assumes "p < 32" "calm s s'"
  shows "quiet s (atapi_answer dmap p slot cfis buf s')" "quiet s (atapi_answer_first dmap p slot cfis buf s')"
  unfolding atapi_answer_def atapi_answer_first_def
  by (rule quiet_bind; intro quiets assms; assumption)+

lemma quiet_page:
  assumes "p < 32" "calm s s'"
  shows "quiet s (do { s \<leftarrow> ahci_write_fis_piosetup p s'; s \<leftarrow> write_prdt dmap p slot cfis buf s;
    ahci_write_fis_d2h p slot cfis tfd s })"
  by (rule quiet_bind, intro quiets assms, rule quiet_bind, (intro quiets; assumption), intro quiets assms, assumption)

lemma quiet_read_log [quiets]: "p < 32 \<Longrightarrow> calm s s' \<Longrightarrow> quiet s (ahci_handle_read_log dmap p slot cfis s')"
  unfolding ahci_handle_read_log_def Let_def
  by (rule quiet_bind_val, rule quiet_if, intro quiets, assumption+, rule quiet_bind_val, rule quiet_option,
      intro quiets, assumption+, rule quiet_bind, (intro quiets; assumption),
      rule quiet_bind, (intro quiets; assumption), intro quiets, assumption)

lemma quiet_identify [quiets]: "p < 32 \<Longrightarrow> calm s s' \<Longrightarrow> quiet s (handle_identify dmap p slot cfis s')"
  unfolding handle_identify_def Let_def
  by (rule quiet_bind_val, rule quiet_if, intro quiets, assumption+, rule quiet_bind_val, rule quiet_bind_val,
      rule quiet_bind_val, rule quiet_bind_val, rule quiet_bind_val, rule quiet_assert, rule quiet_bind_val,
      rule quiet_bind_val, rule quiet_prod, rule quiet_page)

lemma quiet_atapi_identify [quiets]: "p < 32 \<Longrightarrow> calm s s' \<Longrightarrow> quiet s (handle_atapi_identify dmap p slot cfis s')"
  unfolding handle_atapi_identify_def Let_def
  by (rule quiet_if, intro quiets, assumption+, rule quiet_page)

section \<open>Packet commands\<close>

lemma quiet_packets [quiets]:
  assumes "p < 32" "calm s s'"
  shows "quiet s (atapi_inquiry dmap p slot cfis s')" "quiet s (atapi_report_luns dmap p slot cfis s')"
    "quiet s (atapi_request_sense dmap p slot cfis s')" "quiet s (atapi_start_stop_unit p slot cfis s')"
    "quiet s (atapi_mode_sense dmap p slot cfis s')" "quiet s (atapi_get_event_status_notification dmap p slot cfis s')"
  unfolding atapi_inquiry_def atapi_report_luns_def atapi_request_sense_def atapi_start_stop_unit_def
    atapi_mode_sense_def atapi_get_event_status_notification_def Let_def
  by (intro quiets assms)+

lemma quiet_packet_vals [quiets]:
  assumes "p < 32" "calm s s'"
  shows "quiet s (atapi_read_capacity dmap p slot cfis s')" "quiet s (atapi_read_toc dmap p slot cfis s')"
  unfolding atapi_read_capacity_def atapi_read_toc_def Let_def
  by ((rule quiet_bind_val | intro quiets assms)+)

section \<open>Requests to the disk\<close>

text \<open>
  The operations that issue a request: from a calm state a free element is taken, filled for the
  slot and put on the busy list; the frames that follow are calm; then the disk gets the request.
\<close>

definition take_ioreq :: "nat \<Rightarrow> nat \<Rightarrow> ahci_ioreq \<Rightarrow> ahci_state \<Rightarrow> ahci_state" where
  "take_ioreq p a aior s = issue_ioreq p a aior (upd_port p (\<lambda>pr. pr\<lparr>pr_iofhd := tl (pr_iofhd pr)\<rparr>) s)"

definition issued :: "nat \<Rightarrow> nat \<Rightarrow> ahci_state \<Rightarrow> ahci_state \<Rightarrow> bool" where
  "issued p slot s s' \<longleftrightarrow> (\<exists>s0 a fs aior s1 b op. calm s s0 \<and> pr_iofhd (port_of p s0) = a # fs \<and> io_slot aior = slot \<and>
     br_param (io_req aior) = br_param (io_req (pr_ioreq (port_of p s0) ! a)) \<and> pr_bctx (port_of p s0) = Some b \<and>
     calm (take_ioreq p a aior s0) s1 \<and> blockif_request b (io_req aior) op s1 = Some (0, s'))"

definition drives :: "nat \<Rightarrow> nat \<Rightarrow> ahci_state \<Rightarrow> ahci_state option \<Rightarrow> bool" where
  "drives p slot s r \<longleftrightarrow> (\<forall>s'. r = Some s' \<longrightarrow> calm s s' \<or> issued p slot s s')"

lemma quiet_drives: "quiet s r \<Longrightarrow> drives p slot s r"
  by (simp add: drives_def quiet_def)

lemma issued_after: "calm s s0 \<Longrightarrow> issued p slot s0 s' \<Longrightarrow> issued p slot s s'"
  using calm_trans [of s s0] unfolding issued_def by blast

lemma drives_after: "calm s s0 \<Longrightarrow> drives p slot s0 r \<Longrightarrow> drives p slot s r"
  using calm_trans [of s s0] issued_after [of s s0] unfolding drives_def by blast

lemma core_upd_port:
  "port_of q (take_ioreq p a aior s) =
     (if q = p \<and> p < length (asc_port (ahci_sc s))
      then (port_of p s)\<lparr>pr_iofhd := tl (pr_iofhd (port_of p s)), pr_ioreq := (pr_ioreq (port_of p s))[a := aior],
        pr_pending := pr_pending (port_of p s) OR slot_bit (io_slot aior), pr_iobhd := a # pr_iobhd (port_of p s)\<rparr>
      else port_of q s)"
  by (simp add: take_ioreq_def issue_ioreq_def port_of_upd_port)

lemma take_ioreq_simps [simp]:
  "bs_ctxts (take_ioreq p a aior s) = bs_ctxts s" "bs_mem (take_ioreq p a aior s) = bs_mem s"
  "blockif_sc (take_ioreq p a aior s) = blockif_sc s" "asc_pi (ahci_sc (take_ioreq p a aior s)) = asc_pi (ahci_sc s)"
  "asc_lintr (ahci_sc (take_ioreq p a aior s)) = asc_lintr (ahci_sc s)"
  "hba_is (ahci_sc (take_ioreq p a aior s)) = hba_is (ahci_sc s)"
  "hba_ghc (ahci_sc (take_ioreq p a aior s)) = hba_ghc (ahci_sc s)"
  "asc_ports (ahci_sc (take_ioreq p a aior s)) = asc_ports (ahci_sc s)"
  "asc_mtx (ahci_sc (take_ioreq p a aior s)) = asc_mtx (ahci_sc s)"
  by (simp_all add: take_ioreq_def issue_ioreq_def)

lemma build_iov_slot:
  "ahci_build_iov dmap p cfis n aior s = Some aior' \<Longrightarrow> io_slot aior' = io_slot aior \<and> io_cfis aior' = io_cfis aior \<and>
     br_param (io_req aior') = br_param (io_req aior)"
  by (auto simp: ahci_build_iov_def bind_eq_Some_conv Let_def)

lemma pull_SomeD:
  "pull_ioreq p s = Some (a, s') \<Longrightarrow> \<exists>fs. pr_iofhd (port_of p s) = a # fs \<and>
     s' = upd_port p (\<lambda>pr. pr\<lparr>pr_iofhd := tl (pr_iofhd pr)\<rparr>) s"
  by (auto simp: pull_ioreq_def res_simps neq_Nil_conv)

lemma port_of_pull:
  "pr_ioreq (port_of q (upd_port p (\<lambda>pr. pr\<lparr>pr_iofhd := tl (pr_iofhd pr)\<rparr>) s)) = pr_ioreq (port_of q s)"
  "pr_bctx (port_of q (upd_port p (\<lambda>pr. pr\<lparr>pr_iofhd := tl (pr_iofhd pr)\<rparr>) s)) = pr_bctx (port_of q s)"
  by (simp_all add: port_of_upd_port)

lemma port_of_issue [simp]: "pr_bctx (port_of q (issue_ioreq p a aior s)) = pr_bctx (port_of q s)"
  by (simp add: issue_ioreq_def port_of_upd_port)

lemma issuedI:
  assumes "pr_iofhd (port_of p s) = a # fs" "io_slot aior = slot"
    "br_param (io_req aior) = br_param (io_req (pr_ioreq (port_of p s) ! a))" "pr_bctx (port_of p s) = Some b"
    "calm (take_ioreq p a aior s) s1" "blockif_request b (io_req aior) op s1 = Some (0, s')"
  shows "issued p slot s s'"
  unfolding issued_def using assms calm_refl by blast

lemma drives_flush: "drives p slot s (ahci_handle_flush p slot cfis s)"
  unfolding drives_def
proof (intro allI impI disjI2)
  fix s' assume run: "ahci_handle_flush p slot cfis s = Some s'"
  then obtain a s1 where pull: "pull_ioreq p s = Some (a, s1)" unfolding ahci_handle_flush_def by (elim bind_SomeE) auto
  from pull_SomeD [OF pull] obtain fs where fs: "pr_iofhd (port_of p s) = a # fs"
    and s1: "s1 = upd_port p (\<lambda>pr. pr\<lparr>pr_iofhd := tl (pr_iofhd pr)\<rparr>) s" by blast
  obtain b where b: "pr_bctx (port_of p s) = Some b"
    using run pull by (auto simp: ahci_handle_flush_def Let_def s1 port_of_pull elim!: bind_SomeE)
  let ?aior = "(pr_ioreq (port_of p s) ! a)\<lparr>io_cfis := cfis, io_slot := slot, io_len := 0, io_done := 0, io_more := False\<rparr>"
  have "blockif_request b (io_req ?aior) BOP_FLUSH (take_ioreq p a ?aior s) = Some (0, s')"
    using run pull b unfolding ahci_handle_flush_def Let_def
    by (simp add: res_simps s1 port_of_pull flip: take_ioreq_def) (auto simp: blockif_flush_def res_simps)
  then show "issued p slot s s'" using fs b by (intro issuedI [OF fs _ _ b calm_refl, where aior = ?aior]) simp_all
qed

lemma rw_issues:
  assumes p: "p < 32" and run: "ahci_handle_rw dmap p slot cfis done s = Some s'"
  shows "issued p slot s s'"
proof -
  let ?c = "cfis_byte s cfis"
  define filled where "filled = (\<lambda>a s1 sectsz. ((pr_ioreq (port_of p s1) ! a)\<lparr>io_cfis := cfis, io_slot := slot,
    io_len := rw_len ?c * of_int sectsz, io_done := done, io_req := (io_req (pr_ioreq (port_of p s1) ! a))
      \<lparr>br_offset := rw_lba ?c * of_int sectsz + ucast done\<rparr>\<rparr>))"
  from run obtain hdr b sectsz a s1 aior s2 err where
    b: "pr_bctx (port_of p s) = Some b" and pull: "pull_ioreq p s = Some (a, s1)" and
    iov: "ahci_build_iov dmap p cfis (hdr_prdtl (bs_mem s1) hdr) (filled a s1 sectsz) s1 = Some aior" and
    fis: "(if (?c 2 = ATA_WRITE_FPDMA_QUEUED \<or> ?c 2 = ATA_READ_FPDMA_QUEUED) \<and> done = 0
      then ahci_write_fis_d2h_ncq p slot (issue_ioreq p a aior s1) else Some (issue_ioreq p a aior s1)) = Some s2" and
    req: "(if write_command (?c 2) then blockif_write b (io_req aior) s2 else blockif_read b (io_req aior) s2) = Some (err, s')"
      "err = 0"
    unfolding ahci_handle_rw_def Let_def filled_def
    by (auto elim!: bind_SomeE simp: assert_that_bind split: prod.splits if_splits)
  have aior0: "io_slot (filled a s1 sectsz) = slot"
    "br_param (io_req (filled a s1 sectsz)) = br_param (io_req (pr_ioreq (port_of p s1) ! a))"
    by (simp_all add: filled_def)
  from pull_SomeD [OF pull] obtain fs where fs: "pr_iofhd (port_of p s) = a # fs"
    and s1: "s1 = upd_port p (\<lambda>pr. pr\<lparr>pr_iofhd := tl (pr_iofhd pr)\<rparr>) s" by blast
  have "quiet (issue_ioreq p a aior s1) (if (?c 2 = ATA_WRITE_FPDMA_QUEUED \<or> ?c 2 = ATA_READ_FPDMA_QUEUED) \<and> done = 0
      then ahci_write_fis_d2h_ncq p slot (issue_ioreq p a aior s1) else Some (issue_ioreq p a aior s1))"
    by (intro quiets p)
  with fis have "calm (take_ioreq p a aior s) s2" by (simp add: quiet_def take_ioreq_def s1)
  moreover obtain op where "blockif_request b (io_req aior) op s2 = Some (0, s')"
    using req by (auto simp: blockif_write_def blockif_read_def bind_eq_Some_conv split: if_splits)
  ultimately show "issued p slot s s'"
    using build_iov_slot [OF iov] aior0 b fs by (intro issuedI) (simp_all add: s1 port_of_pull)
qed

lemma drives_rw: "p < 32 \<Longrightarrow> drives p slot s (ahci_handle_rw dmap p slot cfis done s)"
  by (simp add: drives_def rw_issues)

lemma atapi_read_issues:
  assumes p: "p < 32" and run: "atapi_read dmap p slot cfis done s = Some s'"
  shows "issued p slot s s'"
proof -
  let ?c = "cfis_byte s (cfis + 0x40)"
  define blocks :: u32 where "blocks = (if ?c 0 = 0x28 then ucast (be16dec ?c 7) else be32dec ?c 6)"
  define filled where "filled = (\<lambda>a s1. ((pr_ioreq (port_of p s1) ! a)\<lparr>io_cfis := cfis, io_slot := slot,
    io_len := blocks * 2048, io_done := done, io_req := (io_req (pr_ioreq (port_of p s1) ! a))
      \<lparr>br_offset := ucast (be32dec ?c 2) * 2048 + ucast done\<rparr>\<rparr>))"
  from run obtain hdr s0 a s1 aior b err where
    fis: "(if blocks = 0 then ahci_write_fis_d2h p slot cfis TFD_OK (set_ireason cfis s) else Some s) = Some s0" and
    pull: "pull_ioreq p s0 = Some (a, s1)" and
    iov: "ahci_build_iov dmap p cfis (hdr_prdtl (bs_mem s1) hdr) (filled a s1) s1 = Some aior" and
    b: "pr_bctx (port_of p s1) = Some b" and
    req: "blockif_read b (io_req aior) (issue_ioreq p a aior s1) = Some (err, s')" "err = 0"
    unfolding atapi_read_def Let_def filled_def blocks_def [symmetric]
    by (auto elim!: bind_SomeE simp: assert_that_bind split: prod.splits)
  from pull_SomeD [OF pull] obtain fs where fs: "pr_iofhd (port_of p s0) = a # fs"
    and s1: "s1 = upd_port p (\<lambda>pr. pr\<lparr>pr_iofhd := tl (pr_iofhd pr)\<rparr>) s0" by blast
  have "quiet s (if blocks = 0 then ahci_write_fis_d2h p slot cfis TFD_OK (set_ireason cfis s) else Some s)"
    by (intro quiets p)
  with fis have c: "calm s s0" by (simp add: quiet_def)
  have "blockif_request b (io_req aior) BOP_READ (take_ioreq p a aior s0) = Some (0, s')"
    using req by (auto simp: blockif_read_def bind_eq_Some_conv s1 take_ioreq_def)
  moreover have "io_slot (filled a s1) = slot"
    "br_param (io_req (filled a s1)) = br_param (io_req (pr_ioreq (port_of p s1) ! a))"
    by (simp_all add: filled_def)
  ultimately have "issued p slot s0 s'"
    using build_iov_slot [OF iov] b by (intro issuedI [OF fs _ _ _ calm_refl]) (simp_all add: s1 port_of_pull)
  with c show "issued p slot s s'" by (rule issued_after)
qed

lemma drives_atapi_read: "p < 32 \<Longrightarrow> drives p slot s (atapi_read dmap p slot cfis done s)"
  by (simp add: drives_def atapi_read_issues)

section \<open>The end of a command\<close>

text \<open>A change of the core commutes with quiet operations.\<close>

definition corefun :: "(ahci_port \<Rightarrow> ahci_port) \<Rightarrow> bool" where
  "corefun g \<longleftrightarrow> (\<forall>pr pr'. port_core pr = port_core pr' \<longrightarrow> port_core (g pr) = port_core (g pr')) \<and>
     (\<forall>pr. pr_sc (g pr) = pr_sc pr \<and> pr_port (g pr) = pr_port pr \<and> pr_regs (g pr) = pr_regs pr)"

lemma corefun_fields:
  assumes "corefun g"
  shows "pr_sc (port_of q (upd_port p g s)) = pr_sc (port_of q s)" "pr_port (port_of q (upd_port p g s)) = pr_port (port_of q s)"
    "rg q (upd_port p g s) = rg q s"
  using assms by (simp_all add: corefun_def port_of_upd_port)

lemma corefun_irq: "corefun g \<Longrightarrow> irq_gen E (upd_port p g s) = irq_gen E s"
  by (simp add: irq_gen_def Let_def corefun_fields)

lemma corefun_core:
  assumes "corefun g" "same_core s s'"
  shows "same_core (upd_port p g s) (upd_port p g s')"
proof -
  have c: "port_core (port_of q s') = port_core (port_of q s)" for q using assms(2) by (simp add: same_core_def)
  have "port_core (g (port_of q s')) = port_core (g (port_of q s))" for q
    using assms(1) c [of q] unfolding corefun_def by blast
  with c assms(2) show ?thesis by (simp add: same_core_def port_of_upd_port)
qed

lemma calm_core: "corefun g \<Longrightarrow> calm s s' \<Longrightarrow> calm (upd_port p g s) (upd_port p g s')"
  by (simp add: calm_def corefun_irq corefun_core)

definition clr :: "nat \<Rightarrow> ahci_port \<Rightarrow> ahci_port" where
  "clr slot pr = pr\<lparr>pr_pending := pr_pending pr AND NOT (slot_bit slot)\<rparr>"

lemma corefun_clr: "corefun (clr slot)"
  by (simp add: corefun_def clr_def port_core_def)

lemma upd_port_same: "g (port_of p s) = port_of p s \<Longrightarrow> upd_port p g s = s"
  by (cases s) (simp add: upd_port_def port_of_def)

lemma clr_idle:
  assumes "pr_pending (port_of p s) AND slot_bit slot = 0"
  shows "upd_port p (clr slot) s = s"
proof (rule upd_port_same)
  have "w AND NOT m = w" if "w AND m = 0" for w m :: u32
  proof (rule bit_word_eqI)
    fix n assume "n < LENGTH(32)"
    then show "bit (w AND NOT m) n = bit w n"
      using arg_cong [OF that, of "\<lambda>w. bit w n"] by (auto simp: bit_simps)
  qed
  with assms show "clr slot (port_of p s) = port_of p s" by (simp add: clr_def)
qed

lemma calm_check_stopped [quiets]:
  assumes "calm s s'"
  shows "calm s (ahci_check_stopped p s')"
proof -
  have "plain (\<lambda>pr. pr\<lparr>pr_ccs := 0, pr_waitforclear := False,
      pr_regs := (pr_regs pr)\<lparr>px_cmd := px_cmd (pr_regs pr) AND NOT (AHCI_P_CMD_CR OR AHCI_P_CMD_CCS_MASK),
        px_ci := 0, px_sact := 0\<rparr>\<rparr>)"
    by (simp add: plain_def port_core_def)
  then show ?thesis unfolding ahci_check_stopped_def by (intro quiets assms)
qed

lemma trim_cases:
  assumes p: "p < 32" and run: "ahci_handle_dsm_trim hp dmap p slot cfis done s = Some s'"
  shows "issued p slot s s' \<or>
    (\<exists>t. calm (upd_port p (clr slot) s) t \<and> (if done = 0 then s' = t else hp t = Some s'))"
proof -
  let ?c = "cfis_byte s cfis"
  let ?ncq = "?c 2 \<noteq> 0x06"
  define len :: u32 where
    "len = (if ?ncq then push_bit 8 (ucast (?c 11)) OR ucast (?c 3) else push_bit 8 (ucast (?c 13)) OR ucast (?c 12)) * 512"
  from run obtain range where range: "(case range of
       None \<Rightarrow> do {
         s \<leftarrow> (if ?ncq then do {
             s \<leftarrow> (if done = 0 then ahci_write_fis_d2h_ncq p slot s else Some s);
             ahci_write_fis_sdb p slot cfis (ATA_S_READY OR ATA_S_DSC) s
           } else ahci_write_fis_d2h p slot cfis (ATA_S_READY OR ATA_S_DSC) s);
         let s = ahci_check_stopped p (upd_port p (clr slot) s);
         if done = 0 then Some s else hp s
       }
     | Some (elba, elen, done') \<Rightarrow> do {
         (a, s) \<leftarrow> pull_ioreq p s;
         b \<leftarrow> pr_bctx (port_of p s);
         sectsz \<leftarrow> blockif_sectsz b s;
         let aior = (pr_ioreq (port_of p s) ! a)\<lparr>io_cfis := cfis, io_slot := slot, io_len := len,
           io_done := of_nat done', io_more := (len \<noteq> of_nat done')\<rparr>;
         let aior = aior\<lparr>io_req := (io_req aior)\<lparr>br_offset := elba * of_int sectsz,
           br_resid := uint ((elen :: u32) * of_int sectsz)\<rparr>\<rparr>;
         let s = issue_ioreq p a aior s;
         s \<leftarrow> (if ?ncq \<and> done = 0 then ahci_write_fis_d2h_ncq p slot s else Some s);
         (err, s) \<leftarrow> blockif_delete b (io_req aior) s;
         assert_that (err = 0);
         Some s
       }) = Some s'"
    unfolding ahci_handle_dsm_trim_def Let_def len_def clr_def by (elim bind_SomeE) blast
  show ?thesis
  proof (cases range)
    case None
    have "quiet s (if ?ncq then do {
             s \<leftarrow> (if done = 0 then ahci_write_fis_d2h_ncq p slot s else Some s);
             ahci_write_fis_sdb p slot cfis (ATA_S_READY OR ATA_S_DSC) s
           } else ahci_write_fis_d2h p slot cfis (ATA_S_READY OR ATA_S_DSC) s)"
      by (intro quiet_if quiet_bind quiets p; assumption)
    with range None obtain s1 where "calm s s1"
      "(let s = ahci_check_stopped p (upd_port p (clr slot) s1) in if done = 0 then Some s else hp s) = Some s'"
      by (auto simp: quiet_def elim!: bind_SomeE simp del: Let_def)
    then show ?thesis
      using calm_check_stopped [OF calm_core [OF corefun_clr]]
      by (intro disjI2 exI [of _ "ahci_check_stopped p (upd_port p (clr slot) s1)"]) (auto simp: Let_def)
  next
    case (Some r)
    obtain elba elen done' where r: "r = (elba, elen, done')" by (cases r)
    define filled where "filled = (\<lambda>a s1 sectsz.
      let aior = (pr_ioreq (port_of p s1) ! a)\<lparr>io_cfis := cfis, io_slot := slot,
        io_len := len, io_done := of_nat done', io_more := (len \<noteq> of_nat done')\<rparr>
      in aior\<lparr>io_req := (io_req aior)\<lparr>br_offset := elba * of_int sectsz, br_resid := uint (elen * of_int sectsz)\<rparr>\<rparr>)"
    from range obtain a s1 b sectsz s2 err where
      pull: "pull_ioreq p s = Some (a, s1)" and b: "pr_bctx (port_of p s1) = Some b" and
      fis: "(if ?ncq \<and> done = 0 then ahci_write_fis_d2h_ncq p slot (issue_ioreq p a (filled a s1 sectsz) s1)
        else Some (issue_ioreq p a (filled a s1 sectsz) s1)) = Some s2" and
      req: "blockif_delete b (io_req (filled a s1 sectsz)) s2 = Some (err, s')" "err = 0"
      unfolding Some r Let_def filled_def
      by (auto elim!: bind_SomeE simp: assert_that_bind split: prod.splits)
    from pull_SomeD [OF pull] obtain fs where fs: "pr_iofhd (port_of p s) = a # fs"
      and s1: "s1 = upd_port p (\<lambda>pr. pr\<lparr>pr_iofhd := tl (pr_iofhd pr)\<rparr>) s" by blast
    have "quiet (issue_ioreq p a (filled a s1 sectsz) s1) (if ?ncq \<and> done = 0
        then ahci_write_fis_d2h_ncq p slot (issue_ioreq p a (filled a s1 sectsz) s1)
        else Some (issue_ioreq p a (filled a s1 sectsz) s1))"
      by (intro quiets p)
    with fis have c: "calm (take_ioreq p a (filled a s1 sectsz) s) s2" by (simp add: quiet_def take_ioreq_def s1)
    have "blockif_request b (io_req (filled a s1 sectsz)) BOP_DELETE s2 = Some (0, s')"
      using req by (auto simp: blockif_delete_def bind_eq_Some_conv)
    moreover have "io_slot (filled a s1 sectsz) = slot"
      "br_param (io_req (filled a s1 sectsz)) = br_param (io_req (pr_ioreq (port_of p s) ! a))"
      by (simp_all add: filled_def Let_def s1 port_of_pull)
    ultimately show ?thesis using b c by (intro disjI1 issuedI [OF fs]) (simp_all add: s1 port_of_pull)
  qed
qed

section \<open>The engine\<close>

lemma drives_if: "(b \<Longrightarrow> drives p slot s r1) \<Longrightarrow> (\<not> b \<Longrightarrow> drives p slot s r2) \<Longrightarrow> drives p slot s (if b then r1 else r2)"
  by simp

lemma calm_setfeatures [quiets]: "calm s s' \<Longrightarrow> calm s (setfeatures p c s')"
  unfolding setfeatures_def
  by (intro calm_if calm_upd_port quiets) simp_all

lemma calm_set_multi [quiets]: "calm s s' \<Longrightarrow> calm s (set_multi p n s')"
  unfolding set_multi_def
  by (intro calm_if calm_upd_port quiets) simp_all

lemma drives_packet: "p < 32 \<Longrightarrow> drives p slot s (handle_packet_cmd dmap p slot cfis s)"
  unfolding handle_packet_cmd_def Let_def
  by (rule drives_if drives_atapi_read | assumption | (rule quiet_drives, intro quiets, assumption))+

abbreviation slot_idle :: "nat \<Rightarrow> nat \<Rightarrow> ahci_state \<Rightarrow> bool" where
  "slot_idle p slot s \<equiv> pr_pending (port_of p s) AND slot_bit slot = 0"

lemma drives_trim:
  assumes "p < 32" "slot_idle p slot s"
  shows "drives p slot s (ahci_handle_dsm_trim hp dmap p slot cfis 0 s)"
  using trim_cases [OF assms(1), of hp dmap slot cfis 0 s] clr_idle [OF assms(2)] by (auto simp: drives_def)

lemma drives_cmd:
  assumes p: "p < 32" and idle: "slot_idle p slot s"
  shows "drives p slot s (ahci_handle_cmd dmap p slot cfis s)"
proof -
  let ?s = "upd_rg p (\<lambda>r. r\<lparr>px_tfd := px_tfd r OR ATA_S_BUSY\<rparr>) s"
  have c: "calm s ?s" by (intro quiets) simp_all
  have idle': "slot_idle p slot ?s" using idle by (simp add: port_of_upd_port)
  show ?thesis
    unfolding ahci_handle_cmd_def Let_def
    by (intro drives_if; rule drives_after [OF c])
      (rule drives_trim drives_rw drives_flush drives_packet p idle' | (rule quiet_drives, intro quiets p))+
qed

lemma drives_slot:
  assumes p: "p < 32" and idle: "slot_idle p slot s"
  shows "drives p slot s (ahci_handle_slot dmap p slot s)"
  unfolding drives_def
proof (intro allI impI)
  fix s' assume run: "ahci_handle_slot dmap p slot s = Some s'"
  obtain hdr where hdr: "cmd_hdr p slot s = Some hdr" and sc: "pr_sc (port_of p s)"
    using run by (auto simp: ahci_handle_slot_def assert_that_bind elim!: bind_SomeE split: if_splits)
  define cfis where "cfis = paddr_guest2host dmap (hdr_ctba (bs_mem s) hdr) (of_nat (0x80 + hdr_prdtl (bs_mem s) hdr * 16))"
  let ?c = "cfis_byte s cfis"
  define soft where "soft = (if bit (?c 15) 2 then Some (upd_port p (\<lambda>pr. pr\<lparr>pr_reset := True\<rparr>) s)
    else if pr_reset (port_of p s) then ahci_port_reset p (upd_port p (\<lambda>pr. pr\<lparr>pr_reset := False\<rparr>) s) else Some s)"
  have eq: "ahci_handle_slot dmap p slot s = (if ?c 0 \<noteq> fis_code FIS_TYPE_REGH2D then Some s
     else if bit (?c 1) 7 then ahci_handle_cmd dmap p slot cfis s
     else do { s \<leftarrow> soft; Some (upd_rg p (\<lambda>r. r\<lparr>px_ci := px_ci r AND NOT (slot_bit slot)\<rparr>) s) })"
    unfolding ahci_handle_slot_def Let_def cfis_def soft_def hdr Option.bind.simps
    by (simp add: sc)
  have reset: "quiet s (ahci_port_reset p s0)" if "calm s s0" for s0
    unfolding ahci_port_reset_def Let_def
    by (intro quiets p that) (simp_all add: plain_def port_core_def)
  have "quiet s soft" unfolding soft_def by (intro quiets reset)
  then have "quiet s (do { s \<leftarrow> soft; Some (upd_rg p (\<lambda>r. r\<lparr>px_ci := px_ci r AND NOT (slot_bit slot)\<rparr>) s) })"
    by (rule quiet_bind) (intro quiets, simp_all)
  then have "drives p slot s (ahci_handle_slot dmap p slot s)"
    unfolding eq by (intro drives_if drives_cmd quiet_drives p idle quiets)
  with run show "calm s s' \<or> issued p slot s s'" by (simp add: drives_def)
qed

lemma quiet_port_reset [quiets]: "p < 32 \<Longrightarrow> calm s s' \<Longrightarrow> quiet s (ahci_port_reset p s')"
  unfolding ahci_port_reset_def Let_def
  by (intro quiets) (simp_all add: plain_def port_core_def)

text \<open>One round issues at most one request, for a slot that is not in flight.\<close>

lemma round_cases:
  assumes p: "p < 32" and run: "port_round dmap p s = Some s'"
  shows "calm s s' \<or> (\<exists>slot<32. slot_idle p slot s \<and> issued p slot s s')"
proof (cases "px_ci (rg p s) AND NOT (pr_pending (port_of p s)) AND slot_bit (pr_ccs (port_of p s)) \<noteq> 0")
  case False
  with run show ?thesis by (simp add: port_round_def Let_def calm_refl)
next
  case True
  let ?ccs = "pr_ccs (port_of p s)"
  let ?s = "upd_rg p (\<lambda>r. r\<lparr>px_cmd := (px_cmd r AND NOT AHCI_P_CMD_CCS_MASK) OR push_bit 8 (of_nat ?ccs)\<rparr>) s"
  have "?ccs < 32"
  proof (rule ccontr)
    assume "\<not> ?ccs < 32"
    then have "slot_bit ?ccs = 0" by (intro bit_word_eqI) (simp add: slot_bit_def bit_simps)
    with True show False by simp
  qed
  moreover have idle: "slot_idle p ?ccs s"
  proof -
    from True have "NOT (pr_pending (port_of p s)) AND slot_bit ?ccs \<noteq> 0" by (metis and_zero_eq)
    with calculation show ?thesis by (simp add: slot_bit_zero_iff bit_simps)
  qed
  moreover have c: "calm s ?s" by (intro quiets) simp_all
  moreover have "slot_idle p ?ccs ?s" using idle by (simp add: port_of_upd_port)
  ultimately show ?thesis
    using run True drives_slot [OF p, where slot = ?ccs and s = ?s and dmap = dmap]
    by (auto simp: port_round_def Let_def drives_def intro: calm_trans issued_after)
qed

end
