(* ===== verification/DiskQueue.thy ===== *)
theory DiskQueue
  imports BlockIfDisk "HOL-Library.Multiset"
begin

text \<open>
  The interface between the disk controller and the block device: requests are outstanding until
  they are withdrawn, each is known by its parameter, and a bounded number of them is accepted.
\<close>

section \<open>The interface of a queue of requests\<close>

text \<open>
  \<open>kept\<close> is what a call leaves unchanged besides the queue. A client never looks at the order of the
  outstanding requests when it withdraws them.
\<close>

locale request_queue =
  fixes ready :: "'d \<Rightarrow> 's \<Rightarrow> bool"
    and outstanding :: "'d \<Rightarrow> 's \<Rightarrow> 'r list"
    and kept :: "'d \<Rightarrow> 's \<Rightarrow> 's \<Rightarrow> bool"
    and capacity :: nat
    and key :: "'q \<Rightarrow> 'r"
    and submit :: "'d \<Rightarrow> 'q \<Rightarrow> 's \<Rightarrow> (int \<times> 's) option"
    and withdraw :: "'d \<Rightarrow> 'r \<Rightarrow> 's \<Rightarrow> (int \<times> 's) option"
  assumes kept_refl: "ready d s \<Longrightarrow> kept d s s"
    and kept_trans: "kept d s s' \<Longrightarrow> kept d s' s'' \<Longrightarrow> kept d s s''"
    and submit_accepts: "ready d s \<Longrightarrow> length (outstanding d s) < capacity \<Longrightarrow>
      \<exists>s'. submit d q s = Some (0, s') \<and> ready d s' \<and> kept d s s' \<and> outstanding d s' = outstanding d s @ [key q]"
    and submit_refuses: "ready d s \<Longrightarrow> capacity \<le> length (outstanding d s) \<Longrightarrow> \<exists>e. e \<noteq> 0 \<and> submit d q s = Some (e, s)"
    and withdraw_takes: "ready d s \<Longrightarrow> r \<in> set (outstanding d s) \<Longrightarrow>
      \<exists>s'. withdraw d r s = Some (0, s') \<and> ready d s' \<and> kept d s s' \<and>
        mset (outstanding d s) = add_mset r (mset (outstanding d s'))"
begin

text \<open>Submitting never fails to return, and it succeeds exactly when there is room.\<close>

lemma submit_returns:
  assumes "ready d s"
  obtains e s' where "submit d q s = Some (e, s')" "ready d s'" "kept d s s'"
    "e = 0 \<longleftrightarrow> length (outstanding d s) < capacity"
proof (cases "length (outstanding d s) < capacity")
  case True
  with submit_accepts [OF assms] that [of 0] show ?thesis by blast
next
  case False
  with submit_refuses [OF assms] kept_refl [OF assms] that [of _ s] assms show ?thesis by (metis not_less)
qed

text \<open>A request that is withdrawn leaves the others as they were.\<close>

lemma submit_withdraw:
  assumes "ready d s" "length (outstanding d s) < capacity"
  shows "\<exists>s' s''. submit d q s = Some (0, s') \<and> withdraw d (key q) s' = Some (0, s'') \<and> ready d s'' \<and>
    kept d s s'' \<and> mset (outstanding d s'') = mset (outstanding d s)"
proof -
  obtain s' where s': "submit d q s = Some (0, s')" "ready d s'" "kept d s s'" "outstanding d s' = outstanding d s @ [key q]"
    using submit_accepts [OF assms] by blast
  then obtain s'' where "withdraw d (key q) s' = Some (0, s'')" "ready d s''" "kept d s' s''"
      "mset (outstanding d s') = add_mset (key q) (mset (outstanding d s''))"
    using withdraw_takes [of d s' "key q"] by auto
  with s' kept_trans show ?thesis by (intro exI [of _ s'] exI [of _ s'']) auto
qed

text \<open>All outstanding requests can be withdrawn in any order.\<close>

primrec withdraw_each :: "'d \<Rightarrow> 'r list \<Rightarrow> 's \<Rightarrow> 's option" where
  "withdraw_each d [] s = Some s"
| "withdraw_each d (r # rs) s = Option.bind (withdraw d r s) (\<lambda>(e, s). withdraw_each d rs s)"

lemma withdraw_each_empties:
  assumes "ready d s" "mset (outstanding d s) = mset rs"
  shows "\<exists>s'. withdraw_each d rs s = Some s' \<and> ready d s' \<and> kept d s s' \<and> outstanding d s' = []"
  using assms
proof (induction rs arbitrary: s)
  case Nil
  then show ?case using kept_refl by simp
next
  case (Cons r rs)
  have "r \<in> set (outstanding d s)" using mset_eq_setD [OF Cons.prems(2)] by simp
  from withdraw_takes [OF Cons.prems(1) this] obtain s' where s': "withdraw d r s = Some (0, s')" "ready d s'"
    "kept d s s'" "mset (outstanding d s) = add_mset r (mset (outstanding d s'))" by blast
  then have "mset (outstanding d s') = mset rs" using Cons.prems(2) by simp
  from Cons.IH [OF s'(2) this] s' kept_trans show ?case by auto
qed

end

section \<open>The queue of a disk\<close>

abbreviation pend_params :: "'r blockif_ctxt \<Rightarrow> 'r list" where
  "pend_params bc \<equiv> map (\<lambda>x. br_param (fst x)) (pend_reqs bc)"

text \<open>A call changes one context, and there only the queue.\<close>

definition ctxt_kept :: "nat \<Rightarrow> ('r, 'z) blockif_state_scheme \<Rightarrow> ('r, 'z) blockif_state_scheme \<Rightarrow> bool" where
  "ctxt_kept b s s' \<longleftrightarrow> (\<exists>bc bc'. get_ctxt b s = Some bc \<and> s' = put_ctxt b bc' s \<and> queue_frame bc bc')"

definition ctxt_pending :: "nat \<Rightarrow> ('r, 'z) blockif_state_scheme \<Rightarrow> 'r list" where
  "ctxt_pending b s = (case get_ctxt b s of None \<Rightarrow> [] | Some bc \<Rightarrow> pend_params bc)"

lemma ctxt_okE:
  assumes "ctxt_ok b s"
  obtains bc where "get_ctxt b s = Some bc" "bc_magic bc = BLOCKIF_SIG" "mutex_free (bc_mtx bc)" "queue_inv bc"
    "bc_busyq bc = []" "ctxt_pending b s = pend_params bc"
  using assms by (auto simp: ctxt_ok_def ctxt_pending_def)

lemma ctxt_ok_put:
  assumes "get_ctxt b s = Some bc" "bc_magic bc = BLOCKIF_SIG" "mutex_free (bc_mtx bc)"
    and "queue_inv bc'" "queue_frame bc bc'" "bc_busyq bc' = []"
  shows "ctxt_ok b (put_ctxt b bc' s)" "ctxt_kept b s (put_ctxt b bc' s)" "ctxt_pending b (put_ctxt b bc' s) = pend_params bc'"
proof -
  have "get_ctxt b (put_ctxt b bc' s) = Some bc'" using assms(1) by (simp add: get_ctxt_Some)
  then show "ctxt_ok b (put_ctxt b bc' s)" "ctxt_pending b (put_ctxt b bc' s) = pend_params bc'"
    using assms frame_fields [OF assms(5)] by (simp_all add: ctxt_ok_def ctxt_pending_def)
  show "ctxt_kept b s (put_ctxt b bc' s)" using assms(1,5) by (auto simp: ctxt_kept_def)
qed

lemma queue_count:
  assumes "queue_inv bc" "bc_busyq bc = []"
  shows "length (bc_freeq bc) + length (pend_reqs bc) = BLOCKIF_MAXREQ"
proof -
  have "distinct (bc_freeq bc @ bc_pendq bc)" "set (bc_freeq bc @ bc_pendq bc) = {..<BLOCKIF_MAXREQ}"
    using assms by (simp_all add: queue_inv_def)
  then have "length (bc_freeq bc @ bc_pendq bc) = BLOCKIF_MAXREQ" by (metis distinct_card card_lessThan)
  then show ?thesis by (simp add: pend_reqs_def)
qed

section \<open>Cancelling a pending request\<close>

lemma find_req_pend:
  assumes inv: "queue_inv bc" and r: "r \<in> set (pend_params bc)"
  obtains i where "find_req (bc_reqs bc) (bc_pendq bc) r = Some i" "i \<in> set (bc_pendq bc)"
    "br_param (the (be_req (bc_reqs bc ! i))) = r"
proof -
  have some: "be_req (bc_reqs bc ! j) \<noteq> None" if "j \<in> set (bc_pendq bc)" for j
    using inv that by (auto simp: queue_inv_def elems_ok_def)
  from r obtain j where j: "j \<in> set (bc_pendq bc)" "br_param (the (be_req (bc_reqs bc ! j))) = r"
    by (auto simp: pend_reqs_def)
  with some [OF j(1)] have "find_req (bc_reqs bc) (bc_pendq bc) r \<noteq> None"
    by (auto simp: find_req_def find_None_iff)
  then obtain i where i: "find_req (bc_reqs bc) (bc_pendq bc) r = Some i" by blast
  then have "i \<in> set (bc_pendq bc)" "map_option br_param (be_req (bc_reqs bc ! i)) = Some r"
    by (auto simp: find_req_def find_Some_iff)
  with i that [of i] show ?thesis by auto
qed

lemma mset_map_remove1: "i \<in> set is \<Longrightarrow> mset (map f is) = add_mset (f i) (mset (map f (remove1 i is)))"
  by (induction "is") auto

lemma cancel_ok:
  assumes g: "get_ctxt b s = Some bc" and free: "mutex_free (bc_mtx bc)" and inv: "queue_inv bc"
    and magic: "bc_magic bc = BLOCKIF_SIG" and r: "r \<in> set (pend_params bc)"
  obtains bc' where "blockif_cancel b r s = Some (0, put_ctxt b bc' s)" "queue_inv bc'" "queue_frame bc bc'"
    "bc_busyq bc' = bc_busyq bc" "mset (pend_params bc) = add_mset r (mset (pend_params bc'))"
proof -
  let ?bc = "bc\<lparr>bc_mtx := (bc_mtx bc)\<lparr>mutex_lock := 1\<rparr>\<rparr>"
  have b: "b < length (bs_ctxts s)" using g by (simp add: get_ctxt_Some)
  have lock: "lock_bc b s = Some (put_ctxt b ?bc s)"
    using g free by (simp add: lock_bc_def pthread_mutex_lock_def)
  have m: "(bc_mtx bc)\<lparr>mutex_lock := 0\<rparr> = bc_mtx bc" using free by (cases "bc_mtx bc") simp
  obtain i where i: "find_req (bc_reqs bc) (bc_pendq bc) r = Some i" "i \<in> set (bc_pendq bc)"
    "br_param (the (be_req (bc_reqs bc ! i))) = r"
    by (rule find_req_pend [OF inv r])
  have i': "i \<in> set (bc_pendq ?bc) \<union> set (bc_busyq ?bc)" "i \<notin> set (bc_busyq bc)"
    using i(2) inv by (auto simp: queue_inv_def)
  have "queue_inv ?bc" using inv by simp
  from complete_ok [OF this i'(1)] i'(2) obtain bc1 where c: "blockif_complete ?bc i = Some bc1" "queue_inv bc1"
    "queue_frame ?bc bc1" "bc_pendq bc1 = remove1 i (bc_pendq bc)" "bc_busyq bc1 = bc_busyq bc"
    "\<forall>t\<in>set (bc_pendq bc1). be_req (bc_reqs bc1 ! t) = be_req (bc_reqs bc ! t)"
    by (auto simp: remove1_idem)
  let ?bc' = "bc1\<lparr>bc_mtx := bc_mtx bc\<rparr>"
  have run: "blockif_cancel b r s = Some (0, put_ctxt b ?bc' s)"
    using g magic b lock i(1) m c(1) frame_fields [OF c(3)]
    by (simp add: blockif_cancel_def check_magic_def unlock_bc_def pthread_mutex_unlock_def)
  have "queue_frame bc ?bc'"
  proof -
    from c(3) obtain f p q rs where "bc1 = ?bc\<lparr>bc_freeq := f, bc_pendq := p, bc_busyq := q, bc_reqs := rs\<rparr>"
      unfolding queue_frame_def by blast
    then have "?bc' = bc\<lparr>bc_freeq := f, bc_pendq := p, bc_busyq := q, bc_reqs := rs\<rparr>" by (cases bc) simp
    then show ?thesis unfolding queue_frame_def by blast
  qed
  moreover have "mset (pend_params bc) = add_mset r (mset (pend_params ?bc'))"
  proof -
    let ?f = "\<lambda>bc t. br_param (the (be_req (bc_reqs bc ! t)))"
    have "pend_params ?bc' = map (?f bc1) (remove1 i (bc_pendq bc))" using c(4) by (simp add: pend_reqs_def)
    also have "\<dots> = map (?f bc) (remove1 i (bc_pendq bc))" using c(4,6) by (intro map_cong) auto
    finally have "mset (pend_params ?bc') = mset (map (?f bc) (remove1 i (bc_pendq bc)))" by (simp only:)
    moreover have "mset (pend_params bc) = mset (map (?f bc) (bc_pendq bc))" by (simp add: pend_reqs_def comp_def)
    ultimately show ?thesis using mset_map_remove1 [OF i(2), of "?f bc"] i(3) by (simp only:)
  qed
  ultimately show ?thesis using that [of ?bc'] run c(2,5) by simp
qed

section \<open>The block device provides the interface\<close>

interpretation disk: request_queue ctxt_ok ctxt_pending ctxt_kept BLOCKIF_MAXREQ
  "\<lambda>q. br_param (fst q)" "\<lambda>b (r, op). blockif_request b r op" blockif_cancel
proof
  fix b and s s' s'' :: "('r, 'z) blockif_state_scheme" and q :: "'r blockif_req \<times> blockop" and r :: 'r
  show "ctxt_kept b s s" if "ctxt_ok b s"
    using that put_same queue_frame_refl unfolding ctxt_kept_def by (metis ctxt_okE)
  show "ctxt_kept b s s''" if "ctxt_kept b s s'" "ctxt_kept b s' s''"
  proof -
    from that obtain bc bc1 bc2 where "get_ctxt b s = Some bc" "queue_frame bc bc1" "queue_frame bc1 bc2"
      "s'' = put_ctxt b bc2 (put_ctxt b bc1 s)"
      by (auto simp: ctxt_kept_def get_ctxt_Some put_ctxt_def)
    then show ?thesis unfolding ctxt_kept_def by (intro exI [of _ bc] exI [of _ bc2]) (auto intro: queue_frame_trans)
  qed
  show "\<exists>s'. (case q of (r, op) \<Rightarrow> blockif_request b r op) s = Some (0, s') \<and> ctxt_ok b s' \<and> ctxt_kept b s s' \<and>
      ctxt_pending b s' = ctxt_pending b s @ [br_param (fst q)]"
    if ok: "ctxt_ok b s" and room: "length (ctxt_pending b s) < BLOCKIF_MAXREQ"
  proof -
    obtain r op where q: "q = (r, op)" by (cases q)
    obtain bc where bc: "get_ctxt b s = Some bc" "bc_magic bc = BLOCKIF_SIG" "mutex_free (bc_mtx bc)" "queue_inv bc"
      "bc_busyq bc = []" "ctxt_pending b s = pend_params bc"
      using ok by (rule ctxt_okE)
    have "bc_freeq bc \<noteq> []" using room bc(6) queue_count [OF bc(4,5)] by auto
    from request_ok(2) [OF bc(1,3,4) this, of r op] bc(5) obtain bc' where
      "blockif_request b r op s = Some (0, put_ctxt b bc' s)" "queue_inv bc'" "queue_frame bc bc'" "bc_busyq bc' = []"
      "pend_reqs bc' = pend_reqs bc @ [(r, op)]" by auto
    with ctxt_ok_put [OF bc(1-3), of bc'] bc(6) q show ?thesis by auto
  qed
  show "\<exists>e. e \<noteq> 0 \<and> (case q of (r, op) \<Rightarrow> blockif_request b r op) s = Some (e, s)"
    if ok: "ctxt_ok b s" and full: "BLOCKIF_MAXREQ \<le> length (ctxt_pending b s)"
  proof -
    obtain bc where bc: "get_ctxt b s = Some bc" "bc_magic bc = BLOCKIF_SIG" "mutex_free (bc_mtx bc)" "queue_inv bc"
      "bc_busyq bc = []" "ctxt_pending b s = pend_params bc"
      using ok by (rule ctxt_okE)
    have "BLOCKIF_MAXREQ \<le> length (pend_reqs bc)" using full bc(6) by simp
    with queue_count [OF bc(4,5)] have "length (bc_freeq bc) = 0" by linarith
    then have "bc_freeq bc = []" by (rule length_0_conv [THEN iffD1])
    from request_ok(1) [OF bc(1,3,4) this] show ?thesis by (cases q) auto
  qed
  show "\<exists>s'. blockif_cancel b r s = Some (0, s') \<and> ctxt_ok b s' \<and> ctxt_kept b s s' \<and>
      mset (ctxt_pending b s) = add_mset r (mset (ctxt_pending b s'))"
    if ok: "ctxt_ok b s" and r: "r \<in> set (ctxt_pending b s)"
  proof -
    obtain bc where bc: "get_ctxt b s = Some bc" "bc_magic bc = BLOCKIF_SIG" "mutex_free (bc_mtx bc)" "queue_inv bc"
      "bc_busyq bc = []" "ctxt_pending b s = pend_params bc"
      using ok by (rule ctxt_okE)
    from cancel_ok [OF bc(1,3,4,2)] r bc(6) obtain bc' where "blockif_cancel b r s = Some (0, put_ctxt b bc' s)"
      "queue_inv bc'" "queue_frame bc bc'" "bc_busyq bc' = bc_busyq bc"
      "mset (pend_params bc) = add_mset r (mset (pend_params bc'))" by metis
    with ctxt_ok_put [OF bc(1-3), of bc'] bc(5,6) show ?thesis by auto
  qed
qed

text \<open>What the client sees of a call, in terms of the context.\<close>

lemma ctxt_keptE:
  assumes "ctxt_kept b s s'" "get_ctxt b s = Some bc" "ctxt_ok b s'"
  obtains bc' where "s' = put_ctxt b bc' s" "get_ctxt b s' = Some bc'" "queue_inv bc'" "queue_frame bc bc'" "bc_busyq bc' = []"
    "ctxt_pending b s' = pend_params bc'"
proof -
  obtain bc' where "s' = put_ctxt b bc' s" "queue_frame bc bc'" using assms(1,2) by (auto simp: ctxt_kept_def)
  moreover from this assms(2) have "get_ctxt b s' = Some bc'" by (simp add: get_ctxt_Some put_ctxt_def)
  ultimately show ?thesis using that assms(3) by (auto elim: ctxt_okE)
qed

end
