(* ===== verification/AhciCore.thy ===== *)
theory AhciCore
  imports AhciQuiet DiskQueue
begin

text \<open>
  The invariant of the requests of the disk controller. Every port with a disk owns 71 request
  elements; each is free or busy; the commands in flight (\<^verbatim>\<open>pr->pending\<close>) are the slots of the busy
  ones; and the queue of the disk holds exactly the busy requests. So a free element and a place in
  the queue are always there for one more command.
\<close>

section \<open>The invariant\<close>

abbreviation (input) "IOREQS \<equiv> (71::nat)"

definition req_slot :: "ahci_port \<Rightarrow> nat \<Rightarrow> nat" where
  "req_slot pr a = io_slot (pr_ioreq pr ! a)"

definition port_ok :: "nat \<Rightarrow> ahci_port \<Rightarrow> bool" where
  "port_ok p pr \<longleftrightarrow> length (pr_ioreq pr) = IOREQS \<and> distinct (pr_iofhd pr @ pr_iobhd pr) \<and>
     set (pr_iofhd pr @ pr_iobhd pr) = {..<IOREQS} \<and> (\<forall>a<IOREQS. br_param (io_req (pr_ioreq pr ! a)) = (p, a)) \<and>
     distinct (map (req_slot pr) (pr_iobhd pr)) \<and> (\<forall>a\<in>set (pr_iobhd pr). req_slot pr a < 32) \<and>
     (\<forall>i<32. bit (pr_pending pr) i \<longleftrightarrow> i \<in> req_slot pr ` set (pr_iobhd pr))"

text \<open>\<open>X\<close> are busy requests that the queue of the disk does not have, or not any more.\<close>

definition disk_ok :: "ahci_rq multiset \<Rightarrow> nat \<Rightarrow> ahci_port \<Rightarrow> ahci_rq blockif_ctxt \<Rightarrow> bool" where
  "disk_ok X p pr bc \<longleftrightarrow> queue_inv bc \<and> bc_busyq bc = [] \<and> bc_magic bc = BLOCKIF_SIG \<and>
     mset (pend_params bc) + filter_mset (\<lambda>x. fst x = p) X = mset (map (Pair p) (pr_iobhd pr))"

definition rq_gen :: "ahci_rq multiset \<Rightarrow> ahci_state \<Rightarrow> bool" where
  "rq_gen X s \<longleftrightarrow> length (asc_port (ahci_sc s)) = 32 \<and>
     (\<forall>p<32. \<forall>b. pr_bctx (port_of p s) = Some b \<longrightarrow>
        port_ok p (port_of p s) \<and> (\<exists>bc. get_ctxt b s = Some bc \<and> disk_ok X p (port_of p s) bc)) \<and>
     (\<forall>p<32. \<forall>q<32. p \<noteq> q \<longrightarrow> pr_bctx (port_of p s) \<noteq> None \<longrightarrow> pr_bctx (port_of p s) \<noteq> pr_bctx (port_of q s)) \<and>
     (\<forall>b. blockif_sc s = Some (Some b) \<longrightarrow> (\<exists>p<32. pr_bctx (port_of p s) = Some b))"

abbreviation rq_ok :: "ahci_state \<Rightarrow> bool" where
  "rq_ok \<equiv> rq_gen {#}"

definition disks_free :: "ahci_state \<Rightarrow> bool" where
  "disks_free s \<longleftrightarrow> (\<forall>b bc. get_ctxt b s = Some bc \<longrightarrow> mutex_free (bc_mtx bc))"

definition ahci_ok :: "ahci_state \<Rightarrow> bool" where
  "ahci_ok s \<longleftrightarrow> rq_ok s \<and> irq_inv s \<and> disks_free s"

lemma disks_free_cong: "bs_ctxts s' = bs_ctxts s \<Longrightarrow> disks_free s' = disks_free s"
  by (simp add: disks_free_def get_ctxt_def)

lemma disks_free_put: "disks_free s \<Longrightarrow> mutex_free (bc_mtx bc) \<Longrightarrow> disks_free (put_ctxt b bc s)"
  unfolding disks_free_def get_ctxt_Some put_ctxt_def
proof (intro allI impI)
  fix c bc' assume *: "\<forall>b bc. b < length (bs_ctxts s) \<and> bs_ctxts s ! b = bc \<longrightarrow> mutex_free (bc_mtx bc)"
    "mutex_free (bc_mtx bc)" "c < length (bs_ctxts (s\<lparr>bs_ctxts := (bs_ctxts s)[b := bc]\<rparr>)) \<and>
      bs_ctxts (s\<lparr>bs_ctxts := (bs_ctxts s)[b := bc]\<rparr>) ! c = bc'"
  then show "mutex_free (bc_mtx bc')" by (cases "c = b") auto
qed

lemma rq_genD:
  assumes "rq_gen X s" "p < 32" "pr_bctx (port_of p s) = Some b"
  obtains bc where "port_ok p (port_of p s)" "get_ctxt b s = Some bc" "disk_ok X p (port_of p s) bc"
  using assms unfolding rq_gen_def by blast

lemma port_ok_core: "port_core pr = port_core pr' \<Longrightarrow> port_ok p pr = port_ok p pr'"
  using core_port [of pr pr'] by (simp add: port_ok_def req_slot_def [abs_def])

lemma rq_core:
  assumes "same_core s s'"
  shows "rq_gen X s' = rq_gen X s"
proof -
  have c: "port_core (port_of q s') = port_core (port_of q s)" for q using assms by (simp add: same_core_def)
  have "pr_bctx (port_of q s') = pr_bctx (port_of q s)" "pr_iobhd (port_of q s') = pr_iobhd (port_of q s)" for q
    using core_port [OF c [of q]] by simp_all
  moreover have "port_ok q (port_of q s') = port_ok q (port_of q s)" for q by (rule port_ok_core [OF c])
  moreover have "get_ctxt b s' = get_ctxt b s" for b using assms by (simp add: same_core_def get_ctxt_def)
  ultimately show ?thesis using assms by (simp add: rq_gen_def disk_ok_def same_core_def)
qed

lemma calm_ok: "calm s s' \<Longrightarrow> ahci_ok s \<Longrightarrow> ahci_ok s'"
  using rq_core [of s s'] disks_free_cong [of s' s] by (simp add: calm_def ahci_ok_def same_core_def)

text \<open>Changing one port, or one context.\<close>

lemma rq_upd_port:
  assumes "rq_gen X s" and same: "\<And>pr. pr_bctx (g pr) = pr_bctx pr"
    and new: "\<And>b bc. pr_bctx (port_of p s) = Some b \<Longrightarrow> port_ok p (port_of p s) \<Longrightarrow> get_ctxt b s = Some bc \<Longrightarrow>
      disk_ok X p (port_of p s) bc \<Longrightarrow> port_ok p (g (port_of p s)) \<and> disk_ok Y p (g (port_of p s)) bc"
    and other: "\<And>q. q \<noteq> p \<Longrightarrow> filter_mset (\<lambda>x. fst x = q) Y = filter_mset (\<lambda>x. fst x = q) X" and p: "p < 32"
  shows "rq_gen Y (upd_port p g s)"
proof -
  have len: "p < length (asc_port (ahci_sc s))" using assms(1) p by (simp add: rq_gen_def)
  have at: "port_of q (upd_port p g s) = (if q = p then g (port_of q s) else port_of q s)" for q
    using len by (simp add: port_of_upd_port)
  have bctx: "pr_bctx (port_of q (upd_port p g s)) = pr_bctx (port_of q s)" for q by (simp add: at same)
  have ctxt: "get_ctxt b (upd_port p g s) = get_ctxt b s" "blockif_sc (upd_port p g s) = blockif_sc s" for b
    by (simp_all add: get_ctxt_def)
  show ?thesis
    unfolding rq_gen_def bctx ctxt
  proof (intro conjI allI impI)
    fix q b assume q: "q < 32" "pr_bctx (port_of q s) = Some b"
    from rq_genD [OF assms(1) this] obtain bc where bc: "port_ok q (port_of q s)" "get_ctxt b s = Some bc"
      "disk_ok X q (port_of q s) bc" by blast
    have "port_ok q (port_of q (upd_port p g s)) \<and> disk_ok Y q (port_of q (upd_port p g s)) bc"
    proof (cases "q = p")
      case True
      with new [of b bc] q bc show ?thesis by (simp add: at)
    next
      case False
      with bc other [OF False] show ?thesis by (simp add: at disk_ok_def)
    qed
    with bc(2) show "port_ok q (port_of q (upd_port p g s))"
      "\<exists>bc. get_ctxt b s = Some bc \<and> disk_ok Y q (port_of q (upd_port p g s)) bc" by blast+
  qed (use assms(1) in \<open>simp_all add: rq_gen_def\<close>)
qed

lemma rq_put_ctxt:
  assumes "rq_gen X s" and p: "p < 32" and b: "pr_bctx (port_of p s) = Some b"
    and new: "\<And>bc. get_ctxt b s = Some bc \<Longrightarrow> disk_ok X p (port_of p s) bc \<Longrightarrow> disk_ok Y p (port_of p s) bc'"
    and other: "\<And>q. q \<noteq> p \<Longrightarrow> filter_mset (\<lambda>x. fst x = q) Y = filter_mset (\<lambda>x. fst x = q) X"
  shows "rq_gen Y (put_ctxt b bc' s)"
proof -
  have sc: "ahci_sc (put_ctxt b bc' s) = ahci_sc s" "blockif_sc (put_ctxt b bc' s) = blockif_sc s"
    by (simp_all add: put_ctxt_def)
  have port: "port_of q (put_ctxt b bc' s) = port_of q s" for q by simp
  obtain bc0 where bc0: "get_ctxt b s = Some bc0" "disk_ok X p (port_of p s) bc0"
    using rq_genD [OF assms(1) p b] by blast
  show ?thesis
    unfolding rq_gen_def port sc
  proof (intro conjI allI impI)
    fix q c assume q: "q < 32" "pr_bctx (port_of q s) = Some c"
    from rq_genD [OF assms(1) this] obtain bc where bc: "port_ok q (port_of q s)" "get_ctxt c s = Some bc"
      "disk_ok X q (port_of q s) bc" by blast
    show "port_ok q (port_of q s)" by (rule bc(1))
    show "\<exists>bc. get_ctxt c (put_ctxt b bc' s) = Some bc \<and> disk_ok Y q (port_of q s) bc"
    proof (cases "q = p")
      case True
      with q b bc0 new [OF bc0] show ?thesis by (auto simp: get_ctxt_Some put_ctxt_def)
    next
      case False
      then have "c \<noteq> b" using assms(1) q p b unfolding rq_gen_def by (metis option.distinct(1))
      with bc other [OF False] show ?thesis by (auto simp: get_ctxt_Some put_ctxt_def disk_ok_def)
    qed
  qed (use assms(1) in \<open>simp_all add: rq_gen_def\<close>)
qed

section \<open>A new request\<close>

lemma slot_idle_iff: "i < 32 \<Longrightarrow> slot_idle p i s \<longleftrightarrow> \<not> bit (pr_pending (port_of p s)) i"
  by (rule slot_bit_zero_iff)

lemma port_ok_take:
  assumes ok: "port_ok p pr" and free: "pr_iofhd pr = a # fs" and slot: "io_slot aior < 32" "\<not> bit (pr_pending pr) (io_slot aior)"
    and param: "br_param (io_req aior) = br_param (io_req (pr_ioreq pr ! a))"
  shows "port_ok p (pr\<lparr>pr_iofhd := tl (pr_iofhd pr), pr_ioreq := (pr_ioreq pr)[a := aior],
    pr_pending := pr_pending pr OR slot_bit (io_slot aior), pr_iobhd := a # pr_iobhd pr\<rparr>)" (is "port_ok p ?pr")
proof -
  have a: "a < IOREQS" "a \<notin> set fs" "a \<notin> set (pr_iobhd pr)" and len: "length (pr_ioreq pr) = IOREQS"
    using ok free by (auto simp: port_ok_def)
  have old: "req_slot ?pr x = req_slot pr x" if "x \<in> set (pr_iobhd pr)" for x
    using that a(3) by (cases "x = a") (simp_all add: req_slot_def)
  have new: "req_slot ?pr a = io_slot aior" using a(1) len by (simp add: req_slot_def)
  have img: "req_slot ?pr ` set (pr_iobhd pr) = req_slot pr ` set (pr_iobhd pr)"
    and m: "map (req_slot ?pr) (pr_iobhd pr) = map (req_slot pr) (pr_iobhd pr)"
    using old by (auto intro!: image_cong)
  have unused: "io_slot aior \<notin> req_slot pr ` set (pr_iobhd pr)" using ok slot by (simp add: port_ok_def)
  have params: "\<forall>x<IOREQS. br_param (io_req (pr_ioreq ?pr ! x)) = (p, x)"
  proof (intro allI impI)
    fix x assume "x < IOREQS"
    with ok param a(1) len show "br_param (io_req (pr_ioreq ?pr ! x)) = (p, x)" by (cases "x = a") (auto simp: port_ok_def)
  qed
  have slots: "distinct (map (req_slot ?pr) (a # pr_iobhd pr))"
    using ok unused by (simp add: m new img port_ok_def)
  have small: "\<forall>x\<in>set (a # pr_iobhd pr). req_slot ?pr x < 32"
    using ok slot old new by (simp add: port_ok_def)
  have bits: "bit (pr_pending pr OR slot_bit (io_slot aior)) i \<longleftrightarrow> i \<in> req_slot ?pr ` set (a # pr_iobhd pr)" if "i < 32" for i
    using ok that img new by (auto simp: port_ok_def bit_or_slot)
  have lists: "distinct (tl (pr_iofhd pr) @ a # pr_iobhd pr)" "set (tl (pr_iofhd pr) @ a # pr_iobhd pr) = {..<IOREQS}"
    using ok free a by (auto simp: port_ok_def)
  show ?thesis
    unfolding port_ok_def using len params slots small bits lists by simp
qed

lemma rq_take:
  assumes ok: "rq_gen X s" and p: "p < 32" and free: "pr_iofhd (port_of p s) = a # fs"
    and slot: "io_slot aior < 32" "slot_idle p (io_slot aior) s"
    and param: "br_param (io_req aior) = br_param (io_req (pr_ioreq (port_of p s) ! a))"
  shows "rq_gen (add_mset (p, a) X) (take_ioreq p a aior s)"
proof -
  let ?g = "\<lambda>pr. pr\<lparr>pr_iofhd := tl (pr_iofhd pr), pr_ioreq := (pr_ioreq pr)[a := aior],
    pr_pending := pr_pending pr OR slot_bit (io_slot aior), pr_iobhd := a # pr_iobhd pr\<rparr>"
  have eq: "take_ioreq p a aior s = upd_port p ?g s"
  proof -
    have len: "p < length (asc_port (ahci_sc s))" using ok p by (simp add: rq_gen_def)
    show ?thesis using len by (cases s) (simp add: take_ioreq_def issue_ioreq_def upd_port_def)
  qed
  have "\<not> bit (pr_pending (port_of p s)) (io_slot aior)" using slot by (simp add: slot_bit_zero_iff)
  then show ?thesis
    unfolding eq using port_ok_take [OF _ free slot(1) _ param]
    by (intro rq_upd_port [OF ok]) (auto simp: disk_ok_def p)
qed

text \<open>The queue has room for it, and after the request the queue and the busy list agree.\<close>

lemma disk_room:
  assumes "port_ok p pr" "disk_ok X p pr bc"
  shows "length (pend_params bc) < BLOCKIF_MAXREQ"
proof -
  have "length (pr_iobhd pr) = card (set (pr_iobhd pr))" using assms(1) by (simp add: port_ok_def distinct_card)
  also have "\<dots> \<le> card {..<IOREQS}" using assms(1) by (intro card_mono) (auto simp: port_ok_def)
  finally have "length (pr_iobhd pr) \<le> IOREQS" by simp
  moreover have "size (mset (pend_params bc)) \<le> size (mset (map (Pair p) (pr_iobhd pr)))"
    using assms(2) unfolding disk_ok_def by (metis mset_subset_eq_add_left size_mset_mono)
  ultimately show ?thesis by simp
qed

lemma disk_ready:
  "disk_ok X p pr bc \<Longrightarrow> get_ctxt b s = Some bc \<Longrightarrow> mutex_free (bc_mtx bc) \<Longrightarrow>
     ctxt_ok b s \<and> ctxt_pending b s = pend_params bc"
  by (simp add: disk_ok_def ctxt_ok_def ctxt_pending_def)

lemma request_rq:
  assumes ok: "rq_gen (add_mset (p, a) X) s" and p: "p < 32" and b: "pr_bctx (port_of p s) = Some b"
    and r: "br_param r = (p, a)" and run: "blockif_request b r op s = Some (err, s')"
  shows "err = 0 \<and> rq_gen X s' \<and> (\<exists>bc. s' = put_ctxt b bc s \<and> mutex_free (bc_mtx bc))"
proof -
  obtain bc where bc: "port_ok p (port_of p s)" "get_ctxt b s = Some bc" "disk_ok (add_mset (p, a) X) p (port_of p s) bc"
    using rq_genD [OF ok p b] by blast
  have free: "mutex_free (bc_mtx bc)" using run bc(2) by (auto simp: blockif_request_def lock_bc_def bind_eq_Some_conv)
  have ready: "ctxt_ok b s" "ctxt_pending b s = pend_params bc" using disk_ready [OF bc(3,2) free] by simp_all
  from disk.submit_accepts [OF ready(1), of "(r, op)"] disk_room [OF bc(1,3)] ready(2) run
  have s': "err = 0" "ctxt_ok b s'" "ctxt_kept b s s'" "ctxt_pending b s' = pend_params bc @ [(p, a)]"
    using r by auto
  obtain bc' where bc': "s' = put_ctxt b bc' s" "queue_inv bc'" "queue_frame bc bc'" "bc_busyq bc' = []"
    "ctxt_pending b s' = pend_params bc'"
    by (rule ctxt_keptE [OF s'(3) bc(2) s'(2)])
  have m: "bc_magic bc' = bc_magic bc" "bc_mtx bc' = bc_mtx bc" using frame_fields [OF bc'(3)] by simp_all
  have "mset (pend_params bc') = add_mset (p, a) (mset (pend_params bc))" using s'(4) unfolding bc'(5) by simp
  then have "disk_ok X p (port_of p s) bc'"
    using bc(3) bc'(2,4) m unfolding disk_ok_def by simp
  then have "rq_gen X (put_ctxt b bc' s)" by (intro rq_put_ctxt [OF ok p b]) auto
  with s'(1) bc'(1) m free show ?thesis by auto
qed

lemma irq_put_ctxt [simp]: "irq_gen E (put_ctxt b bc s) = irq_gen E s"
  by (simp add: irq_gen_def Let_def) (simp add: put_ctxt_def)

lemma irq_take [simp]: "irq_gen E (take_ioreq p a aior s) = irq_gen E s"
proof -
  have "pr_sc (port_of q (take_ioreq p a aior s)) = pr_sc (port_of q s)"
    "pr_port (port_of q (take_ioreq p a aior s)) = pr_port (port_of q s)"
    "rg q (take_ioreq p a aior s) = rg q s" for q
    by (simp_all add: core_upd_port)
  then show ?thesis by (simp add: irq_gen_def Let_def)
qed

lemma issued_ok:
  assumes i: "issued p slot s s'" and p: "p < 32" and slot: "slot < 32" "slot_idle p slot s" and ok: "ahci_ok s"
  shows "ahci_ok s'"
proof -
  from i obtain s0 a fs aior s1 b op where c: "calm s s0" and free: "pr_iofhd (port_of p s0) = a # fs"
    and aior: "io_slot aior = slot" "br_param (io_req aior) = br_param (io_req (pr_ioreq (port_of p s0) ! a))"
    and b: "pr_bctx (port_of p s0) = Some b" and c1: "calm (take_ioreq p a aior s0) s1"
    and req: "blockif_request b (io_req aior) op s1 = Some (0, s')" unfolding issued_def by blast
  have ok0: "rq_ok s0" "irq_inv s0" "disks_free s0" using calm_ok [OF c ok] by (simp_all add: ahci_ok_def)
  have "pr_pending (port_of p s0) = pr_pending (port_of p s)"
    using c by (simp add: calm_def same_core_fields)
  then have "rq_gen {#(p, a)#} (take_ioreq p a aior s0)"
    using slot aior by (intro rq_take [OF ok0(1) p free]) simp_all
  then have ok1: "rq_gen {#(p, a)#} s1" "irq_inv s1" "disks_free s1"
    using c1 ok0(2,3) disks_free_cong [of s1 s0] rq_core [of "take_ioreq p a aior s0" s1] by (simp_all add: calm_def same_core_def)
  have core: "port_core (port_of p s1) = port_core (port_of p (take_ioreq p a aior s0))"
    using c1 by (simp add: calm_def same_core_def)
  have "pr_bctx (port_of p s1) = Some b" using core_port [OF core] b by (simp add: core_upd_port)
  moreover have "br_param (io_req aior) = (p, a)"
  proof -
    have "port_ok p (port_of p s0)" using rq_genD [OF ok0(1) p b] by blast
    with free aior show ?thesis by (auto simp: port_ok_def)
  qed
  ultimately have "rq_ok s' \<and> (\<exists>bc. s' = put_ctxt b bc s1 \<and> mutex_free (bc_mtx bc))"
    using request_rq [OF ok1(1) p _ _ req] by blast
  with ok1(2,3) disks_free_put show ?thesis by (auto simp: ahci_ok_def)
qed

section \<open>The engine keeps the invariant\<close>

lemma round_ok: "p < 32 \<Longrightarrow> port_round dmap p s = Some s' \<Longrightarrow> ahci_ok s \<Longrightarrow> ahci_ok s'"
  using round_cases [of p dmap s s'] calm_ok issued_ok by blast

lemma next_calm: "calm s (upd_port p (\<lambda>pr. pr\<lparr>pr_ccs := (pr_ccs pr + 1) mod 32\<rparr>) s)"
  by (intro quiets)

lemma loop_round:
  assumes "(if port_idle p s then Some s else Option.bind (port_round dmap p s)
      (\<lambda>s. loop dmap p (upd_port p (\<lambda>pr. pr\<lparr>pr_ccs := (pr_ccs pr + 1) mod 32\<rparr>) s))) = Some s'"
  obtains "s' = s"
    | s1 where "port_round dmap p s = Some s1" "loop dmap p (upd_port p (\<lambda>pr. pr\<lparr>pr_ccs := (pr_ccs pr + 1) mod 32\<rparr>) s1) = Some s'"
  using assms by (auto simp: bind_eq_Some_conv split: if_splits)

lemma port_loop_ok: "port_loop dmap p s = Some s' \<Longrightarrow> p < 32 \<longrightarrow> ahci_ok s \<longrightarrow> ahci_ok s'"
proof (rule port_loop.raw_induct [where P = "\<lambda>dmap p s s'. p < 32 \<longrightarrow> ahci_ok s \<longrightarrow> ahci_ok s'"])
  fix loop dmap p s s'
  assume IH: "\<And>dmap p s s'. loop dmap p s = Some s' \<Longrightarrow> p < 32 \<longrightarrow> ahci_ok s \<longrightarrow> ahci_ok s'"
    and body: "(if port_idle p s then Some s else Option.bind (port_round dmap p s)
      (\<lambda>s. loop dmap p (upd_port p (\<lambda>pr. pr\<lparr>pr_ccs := (pr_ccs pr + 1) mod 32\<rparr>) s))) = Some s'"
  show "p < 32 \<longrightarrow> ahci_ok s \<longrightarrow> ahci_ok s'"
  proof (rule loop_round [of p s dmap loop s', OF body])
    fix s1 assume s1: "port_round dmap p s = Some s1"
      "loop dmap p (upd_port p (\<lambda>pr. pr\<lparr>pr_ccs := (pr_ccs pr + 1) mod 32\<rparr>) s1) = Some s'"
    let ?s = "upd_port p (\<lambda>pr. pr\<lparr>pr_ccs := (pr_ccs pr + 1) mod 32\<rparr>) s1"
    have "p < 32 \<longrightarrow> ahci_ok ?s \<longrightarrow> ahci_ok s'" by (rule IH [of dmap p ?s s']) (rule s1(2))
    with round_ok [OF _ s1(1)] calm_ok [OF next_calm] show ?thesis by blast
  qed simp
qed

lemma handle_port_ok: "p < 32 \<Longrightarrow> ahci_handle_port dmap p s = Some s' \<Longrightarrow> ahci_ok s \<Longrightarrow> ahci_ok s'"
  using port_loop_ok [of dmap p s s'] by (auto simp: ahci_handle_port_def split: if_splits)

text \<open>While the disk is locked no request is issued.\<close>

definition held :: "nat \<Rightarrow> ahci_state \<Rightarrow> bool" where
  "held p s \<longleftrightarrow> (\<forall>b. pr_bctx (port_of p s) = Some b \<longrightarrow> lock_bc b s = None)"

lemma lock_ctxts: "bs_ctxts s' = bs_ctxts s \<Longrightarrow> lock_bc b s' = None \<longleftrightarrow> lock_bc b s = None"
  by (auto simp: lock_bc_def get_ctxt_def bind_eq_None_conv)

lemma held_calm: "calm s s' \<Longrightarrow> held p s \<Longrightarrow> held p s'"
  using lock_ctxts [of s' s] same_core_fields(3) [of s s' p] by (simp add: held_def calm_def same_core_def)

lemma held_take: "held p s \<Longrightarrow> held p (take_ioreq p a aior s)"
  using lock_ctxts [of "take_ioreq p a aior s" s] by (simp add: held_def core_upd_port)

lemma held_issued:
  assumes h: "held p s" and i: "issued p slot s s'"
  shows False
proof -
  from i obtain s0 a aior s1 b op where c: "calm s s0" and b: "pr_bctx (port_of p s0) = Some b"
    and c1: "calm (take_ioreq p a aior s0) s1" and req: "blockif_request b (io_req aior) op s1 = Some (0, s')"
    unfolding issued_def by blast
  have "held p s1" using held_calm [OF c1] held_take held_calm [OF c h] by blast
  moreover have "pr_bctx (port_of p s1) = Some b"
    using c1 b same_core_fields(3) [of "take_ioreq p a aior s0" s1 p] by (simp add: calm_def core_upd_port)
  ultimately have "lock_bc b s1 = None" by (simp add: held_def)
  with req show False by (simp add: blockif_request_def)
qed

lemma held_loop: "port_loop dmap p s = Some s' \<Longrightarrow> p < 32 \<longrightarrow> held p s \<longrightarrow> calm s s'"
proof (rule port_loop.raw_induct [where P = "\<lambda>dmap p s s'. p < 32 \<longrightarrow> held p s \<longrightarrow> calm s s'"])
  fix loop dmap p s s'
  assume IH: "\<And>dmap p s s'. loop dmap p s = Some s' \<Longrightarrow> p < 32 \<longrightarrow> held p s \<longrightarrow> calm s s'"
    and body: "(if port_idle p s then Some s else Option.bind (port_round dmap p s)
      (\<lambda>s. loop dmap p (upd_port p (\<lambda>pr. pr\<lparr>pr_ccs := (pr_ccs pr + 1) mod 32\<rparr>) s))) = Some s'"
  show "p < 32 \<longrightarrow> held p s \<longrightarrow> calm s s'"
  proof (rule loop_round [of p s dmap loop s', OF body])
    fix s1 assume s1: "port_round dmap p s = Some s1"
      "loop dmap p (upd_port p (\<lambda>pr. pr\<lparr>pr_ccs := (pr_ccs pr + 1) mod 32\<rparr>) s1) = Some s'"
    let ?s = "upd_port p (\<lambda>pr. pr\<lparr>pr_ccs := (pr_ccs pr + 1) mod 32\<rparr>) s1"
    show ?thesis
    proof (intro impI)
      assume p: "p < 32" and h: "held p s"
      have "calm s s1" using round_cases [OF p s1(1)] held_issued [OF h] by blast
      then have c: "calm s ?s" by (rule calm_trans [OF _ next_calm])
      have "p < 32 \<longrightarrow> held p ?s \<longrightarrow> calm ?s s'" by (rule IH [of dmap p ?s s']) (rule s1(2))
      with p held_calm [OF c h] have "calm ?s s'" by blast
      with c show "calm s s'" by (rule calm_trans)
    qed
  qed (simp add: calm_refl)
qed

lemma held_handle_port: "p < 32 \<Longrightarrow> held p s \<Longrightarrow> ahci_handle_port dmap p s = Some s' \<Longrightarrow> calm s s'"
  using held_loop [of dmap p s s'] by (auto simp: ahci_handle_port_def calm_refl split: if_splits)

section \<open>Stopping a port\<close>

text \<open>Releasing a busy element together with its command.\<close>

definition give_back :: "nat \<Rightarrow> nat \<Rightarrow> ahci_port \<Rightarrow> ahci_port" where
  "give_back a slot pr = pr\<lparr>pr_pending := pr_pending pr AND NOT (slot_bit slot),
     pr_iobhd := remove1 a (pr_iobhd pr), pr_iofhd := pr_iofhd pr @ [a]\<rparr>"

lemma corefun_give_back: "corefun (give_back a slot)"
  by (simp add: corefun_def give_back_def port_core_def)

lemma port_ok_give_back:
  assumes ok: "port_ok p pr" and a: "a \<in> set (pr_iobhd pr)"
  shows "port_ok p (give_back a (req_slot pr a) pr)" (is "port_ok p ?pr")
proof -
  have d: "distinct (pr_iobhd pr)" "distinct (map (req_slot pr) (pr_iobhd pr))" "a \<notin> set (pr_iofhd pr)"
    using ok a by (auto simp: port_ok_def)
  have slots: "req_slot ?pr = req_slot pr" by (simp add: give_back_def req_slot_def [abs_def])
  have set: "set (remove1 a (pr_iobhd pr)) = set (pr_iobhd pr) - {a}" using d(1) by (rule set_remove1_eq)
  have inj: "inj_on (req_slot pr) (set (pr_iobhd pr))" using d(2) by (simp add: distinct_map)
  have img: "req_slot pr ` (set (pr_iobhd pr) - {a}) = req_slot pr ` set (pr_iobhd pr) - {req_slot pr a}"
    using inj a by (auto simp: inj_on_def)
  have "bit (pr_pending pr AND NOT (slot_bit (req_slot pr a))) i \<longleftrightarrow> bit (pr_pending pr) i \<and> i \<noteq> req_slot pr a" if "i < 32" for i
    using that by (auto simp: bit_simps slot_bit_def)
  then have bits: "\<forall>i<32. bit (pr_pending pr AND NOT (slot_bit (req_slot pr a))) i \<longleftrightarrow> i \<in> req_slot pr ` (set (pr_iobhd pr) - {a})"
    using ok unfolding img port_ok_def by blast
  have inj': "inj_on (req_slot pr) (set (pr_iobhd pr) - {a})" using inj by (rule inj_on_subset) blast
  have lists: "distinct ((pr_iofhd pr @ [a]) @ remove1 a (pr_iobhd pr))"
    "set ((pr_iofhd pr @ [a]) @ remove1 a (pr_iobhd pr)) = {..<IOREQS}"
    using ok a d by (auto simp: port_ok_def set distinct_remove1)
  have small: "\<forall>x\<in>set (pr_iobhd pr) - {a}. req_slot pr x < 32" using ok by (simp add: port_ok_def)
  show ?thesis
    unfolding port_ok_def slots
    using ok bits inj' lists small d(1) by (simp add: give_back_def set distinct_map port_ok_def)
qed

lemma disk_ok_give_back:
  assumes "disk_ok X p pr bc" "a \<in> set (pr_iobhd pr)" "X = add_mset (p, a) Y"
  shows "disk_ok Y p (give_back a slot pr) bc"
proof -
  have "mset (map (Pair p) (pr_iobhd pr)) = add_mset (p, a) (mset (map (Pair p) (remove1 a (pr_iobhd pr))))"
    using assms(2) by (simp add: image_mset_add_mset [symmetric] del: image_mset_add_mset)
  with assms(1,3) show ?thesis by (simp add: disk_ok_def give_back_def)
qed

lemma rq_give_back:
  assumes ok: "rq_gen (add_mset (p, a) X) s" and p: "p < 32" and a: "a \<in> set (pr_iobhd (port_of p s))"
    and slot: "slot = req_slot (port_of p s) a"
  shows "rq_gen X (upd_port p (give_back a slot) s)"
proof (rule rq_upd_port [OF ok _ _ _ p])
  show "pr_bctx (give_back a slot pr) = pr_bctx pr" for pr by (simp add: give_back_def)
  show "port_ok p (give_back a slot (port_of p s)) \<and> disk_ok X p (give_back a slot (port_of p s)) bc"
    if "port_ok p (port_of p s)" "disk_ok (add_mset (p, a) X) p (port_of p s) bc" for bc
    using port_ok_give_back [OF that(1) a] disk_ok_give_back [OF that(2) a refl] by (simp add: slot)
qed simp

end
