(* ===== verification/AhciStop.thy ===== *)
theory AhciStop
  imports AhciCore
begin

text \<open>
  Stopping a port cancels every request in flight: each is found in the queue of the disk, so that
  no cancellation fails or waits.
\<close>

section \<open>Stopping\<close>

text \<open>One request of a port.\<close>

lemma cancel_busy:
  assumes ok: "ahci_ok s" and p: "p < 32" and b: "pr_bctx (port_of p s) = Some b" and a: "a \<in> set (pr_iobhd (port_of p s))"
  obtains bc where "blockif_cancel b (br_param (io_req (pr_ioreq (port_of p s) ! a))) s = Some (0, put_ctxt b bc s)"
    "rq_gen {#(p, a)#} (put_ctxt b bc s)" "mutex_free (bc_mtx bc)"
proof -
  have rq: "rq_ok s" using ok by (simp add: ahci_ok_def)
  from rq_genD [OF rq p b] obtain bc where bc: "port_ok p (port_of p s)" "get_ctxt b s = Some bc"
    "disk_ok {#} p (port_of p s) bc" by blast
  have free: "mutex_free (bc_mtx bc)" using ok bc(2) by (auto simp: ahci_ok_def disks_free_def)
  have ready: "ctxt_ok b s" "ctxt_pending b s = pend_params bc" using disk_ready [OF bc(3,2) free] by simp_all
  have pend: "mset (pend_params bc) = mset (map (Pair p) (pr_iobhd (port_of p s)))" using bc(3) by (simp add: disk_ok_def)
  have "a < IOREQS" using bc(1) a by (auto simp: port_ok_def)
  then have param: "br_param (io_req (pr_ioreq (port_of p s) ! a)) = (p, a)" using bc(1) by (simp add: port_ok_def)
  from mset_eq_setD [OF pend] a have "(p, a) \<in> set (ctxt_pending b s)" unfolding ready(2) by simp
  from disk.withdraw_takes [OF ready(1) this] obtain s' where s': "blockif_cancel b (p, a) s = Some (0, s')" "ctxt_ok b s'"
    "ctxt_kept b s s'" "mset (pend_params bc) = add_mset (p, a) (mset (ctxt_pending b s'))" unfolding ready(2) by blast
  obtain bc' where c: "s' = put_ctxt b bc' s" "queue_inv bc'" "queue_frame bc bc'" "bc_busyq bc' = []"
    "ctxt_pending b s' = pend_params bc'"
    by (rule ctxt_keptE [OF s'(3) bc(2) s'(2)])
  have "disk_ok {#(p, a)#} p (port_of p s) bc'"
    using bc(3) c(2,4,5) s'(4) pend frame_fields [OF c(3)] by (simp add: disk_ok_def)
  then have "rq_gen {#(p, a)#} (put_ctxt b bc' s)" by (intro rq_put_ctxt [OF rq p b]) auto
  then show ?thesis using that [of bc'] s'(1) c(1) param frame_fields [OF c(3)] free by simp
qed

lemma cancel_all_ok:
  assumes "ahci_ok s" "p < 32" "pr_bctx (port_of p s) = Some b" "pr_iobhd (port_of p s) = as"
  shows "\<exists>s'. cancel_all p b as s = Some s' \<and> ahci_ok s' \<and> pr_iobhd (port_of p s') = [] \<and>
    px_cmd (rg p s') = px_cmd (rg p s) \<and> pr_bctx (port_of p s') = Some b"
  using assms
proof (induction as arbitrary: s)
  case (Cons a as)
  let ?aior = "pr_ioreq (port_of p s) ! a"
  let ?sb = "slot_bit (io_slot ?aior)"
  have a: "a \<in> set (pr_iobhd (port_of p s))" using Cons.prems(4) by simp
  obtain bc where bc: "blockif_cancel b (br_param (io_req ?aior)) s = Some (0, put_ctxt b bc s)"
    "rq_gen {#(p, a)#} (put_ctxt b bc s)" "mutex_free (bc_mtx bc)"
    by (rule cancel_busy [OF Cons.prems(1-3) a])
  define s1 where "s1 = (if ncq_command (bs_mem (put_ctxt b bc s) (io_cfis ?aior + 2))
    then upd_rg p (\<lambda>r. r\<lparr>px_sact := px_sact r AND NOT ?sb\<rparr>) (put_ctxt b bc s)
    else upd_rg p (\<lambda>r. r\<lparr>px_ci := px_ci r AND NOT ?sb\<rparr>) (put_ctxt b bc s))"
  define s2 where "s2 = upd_port p (give_back a (io_slot ?aior)) s1"
  have c: "calm (put_ctxt b bc s) s1" unfolding s1_def by (intro quiets) simp_all
  then have core: "same_core (put_ctxt b bc s) s1" by (simp add: calm_def)
  have f: "pr_ioreq (port_of p s1) = pr_ioreq (port_of p s)" "pr_iobhd (port_of p s1) = a # as" "pr_bctx (port_of p s1) = Some b"
    using same_core_fields [OF core] Cons.prems(3,4) by simp_all
  have "rq_gen {#(p, a)#} s1" using bc(2) rq_core [OF core] by simp
  then have rq: "rq_ok s2"
    unfolding s2_def using rq_give_back [OF _ Cons.prems(2), of a "{#}" s1] f by (simp add: req_slot_def)
  have irq: "irq_inv s2"
    using c Cons.prems(1) by (simp add: s2_def corefun_irq [OF corefun_give_back] calm_def ahci_ok_def)
  have free: "disks_free s2"
    using disks_free_put [of s bc b] bc(3) Cons.prems(1) core disks_free_cong [of s1 "put_ctxt b bc s"] disks_free_cong [of s2 s1]
    by (simp add: s2_def same_core_def ahci_ok_def)
  have len: "p < length (asc_port (ahci_sc s1))" using \<open>rq_gen {#(p, a)#} s1\<close> Cons.prems(2) by (simp add: rq_gen_def)
  have p2: "pr_iobhd (port_of p s2) = as" "pr_bctx (port_of p s2) = Some b"
    using f len by (simp_all add: s2_def port_of_upd_port give_back_def)
  have cmd: "px_cmd (rg p s2) = px_cmd (rg p s)"
    using len by (simp add: s2_def s1_def port_of_upd_port give_back_def split: if_splits)
  have step: "cancel_all p b (a # as) s = cancel_all p b as s2"
    using bc(1) by (simp add: Let_def s1_def s2_def give_back_def [abs_def])
  have "ahci_ok s2" using rq irq free by (simp add: ahci_ok_def)
  from Cons.IH [OF this Cons.prems(2) p2(2,1)] show ?case unfolding step cmd .
qed simp

lemma port_stop_run:
  assumes ok: "ahci_ok s" and p: "p < 32" and sc: "pr_sc (port_of p s)" and owned: "mutex_lock (asc_mtx (ahci_sc s)) \<noteq> 0"
    and b: "pr_bctx (port_of p s) = Some b"
  obtains s' where "ahci_port_stop p s = Some (ahci_check_stopped p s')" "ahci_ok s'" "pr_iobhd (port_of p s') = []"
    "px_cmd (rg p s') = px_cmd (rg p s)" "pr_bctx (port_of p s') = Some b"
proof -
  obtain s' where s': "cancel_all p b (pr_iobhd (port_of p s)) s = Some s'" "ahci_ok s'" "pr_iobhd (port_of p s') = []"
    "px_cmd (rg p s') = px_cmd (rg p s)" "pr_bctx (port_of p s') = Some b"
    using cancel_all_ok [OF ok p b refl] by blast
  then have "ahci_port_stop p s = Some (ahci_check_stopped p s')"
    using sc owned b
    by (cases "pr_iobhd (port_of p s)") (simp_all add: ahci_port_stop_def pthread_mutex_isowned_np_def)
  with s' that show ?thesis by blast
qed

lemma port_stop_ok:
  assumes run: "ahci_port_stop p s = Some s'" and ok: "ahci_ok s" and p: "p < 32"
  shows "ahci_ok s'"
proof (cases "pr_bctx (port_of p s)")
  case None
  then have "s' = ahci_check_stopped p s"
    using run by (auto simp: ahci_port_stop_def res_simps split: list.splits)
  then show ?thesis using calm_ok [OF calm_check_stopped [OF calm_refl] ok] by simp
next
  case (Some b)
  have "pr_sc (port_of p s)" "mutex_lock (asc_mtx (ahci_sc s)) \<noteq> 0"
    using run by (auto simp: ahci_port_stop_def res_simps pthread_mutex_isowned_np_def split: list.splits)
  from port_stop_run [OF ok p this Some] obtain s1 where "s' = ahci_check_stopped p s1" "ahci_ok s1"
    using run by auto
  then show ?thesis using calm_ok [OF calm_check_stopped [OF calm_refl]] by simp
qed

section \<open>The interrupts of the controller\<close>

lemma bit_global_is:
  "n \<le> 32 \<Longrightarrow> bit (global_is n s) i \<longleftrightarrow> bit (hba_is (ahci_sc s)) i \<or> i < n \<and> px_is (rg i s) AND px_ie (rg i s) \<noteq> 0"
proof (induction n)
  case (Suc n)
  let ?f = "\<lambda>w i. if px_is (rg i s) AND px_ie (rg i s) \<noteq> 0 then w OR slot_bit i else w"
  have "global_is (Suc n) s = ?f (global_is n s) n" by (simp add: global_is_def)
  with Suc show ?case by (auto simp: bit_or_slot less_Suc_eq)
qed (simp add: global_is_def)

text \<open>What does not depend on the line.\<close>

definition irq_pre :: "ahci_state \<Rightarrow> bool" where
  "irq_pre s \<longleftrightarrow> (let sc = ahci_sc s in lintr_ok (asc_pi sc) \<and> caps_fine (asc_pi sc) \<and> msi_enabled (pi_msi (asc_pi sc)) = 0 \<and>
     (asc_lintr sc \<longleftrightarrow> requested (asc_pi sc)) \<and> 0 < asc_ports sc \<and> asc_ports sc \<le> 32 \<and>
     (\<forall>q<32. pr_sc (port_of q s) \<longrightarrow> pr_port (port_of q s) = q))"

lemma generate_intr_ok:
  assumes pre: "irq_pre s"
  shows "\<exists>pi w l. ahci_generate_intr msk s = Some (irq_upd pi w l s) \<and> irq_inv (irq_upd pi w l s)"
proof -
  let ?sc = "ahci_sc s"
  let ?w = "global_is (asc_ports ?sc) s"
  let ?on = "?w \<noteq> 0 \<and> hba_ghc ?sc AND AHCI_GHC_IE \<noteq> 0"
  let ?s = "irq_upd (asc_pi ?sc) ?w (asc_lintr ?sc) s"
  have f: "lintr_ok (asc_pi ?sc)" "pci_msi_maxmsgnum (asc_pi ?sc) = 0" "asc_lintr ?sc \<longleftrightarrow> requested (asc_pi ?sc)"
    using pre by (auto simp: irq_pre_def Let_def pci_msi_maxmsgnum_def)
  have eq: "upd_sc (\<lambda>sc. sc\<lparr>hba_is := global_is (asc_ports sc) s\<rparr>) s = ?s" by (cases s) (simp add: irq_upd_def)
  have lin: "upd_sc (\<lambda>sc. sc\<lparr>asc_lintr := l\<rparr>) (irq_upd pi w l' s) = irq_upd pi w l s" for pi w l l'
    by (cases s) (simp add: irq_upd_def)
  have run: "ahci_generate_intr msk s =
      (if \<not> ?on then
         (if asc_lintr ?sc then do { s \<leftarrow> on_asc_pi pci_lintr_deassert ?s; Some (upd_sc (\<lambda>sc. sc\<lparr>asc_lintr := False\<rparr>) s) }
          else Some ?s)
       else if \<not> asc_lintr ?sc then on_asc_pi pci_lintr_assert (irq_upd (asc_pi ?sc) ?w True s) else Some ?s)"
    using f(2) unfolding ahci_generate_intr_def Let_def eq by (simp add: lin)
  have inv: "irq_inv (irq_upd pi ?w l s)"
    if "lintr_ok pi" "lintr_frame (asc_pi ?sc) pi" "requested pi = l" "l = ?on" for pi l
    using that pre lintr_frame_simps(6) [OF that(2)] caps_fine_frame [OF that(2)]
    by (auto simp: irq_gen_def irq_pre_def Let_def bit_global_is)
  have same: "lintr_frame (asc_pi ?sc) (asc_pi ?sc)" by (intro lintr_frames)
  consider "?on" "asc_lintr ?sc" | "\<not> ?on" "\<not> asc_lintr ?sc" | "?on" "\<not> asc_lintr ?sc" | "\<not> ?on" "asc_lintr ?sc" by blast
  then show ?thesis
  proof cases
    case 1
    with run inv [OF f(1) same, of True] f(3) show ?thesis by (intro exI [of _ "asc_pi ?sc"] exI [of _ ?w] exI [of _ True]) simp
  next
    case 2
    with run inv [OF f(1) same, of False] f(3) show ?thesis by (intro exI [of _ "asc_pi ?sc"] exI [of _ ?w] exI [of _ False]) auto
  next
    case 3
    have "lintr_ok (asc_pi (ahci_sc (irq_upd (asc_pi ?sc) ?w True s)))" using f(1) by simp
    then obtain pi where pi: "on_asc_pi pci_lintr_assert (irq_upd (asc_pi ?sc) ?w True s) = Some (irq_upd pi ?w True s)"
      "lintr_ok pi" "requested pi" "lintr_frame (asc_pi ?sc) pi"
      by (rule asc_line_up) simp
    with run inv [OF pi(2,4), of True] 3 show ?thesis by (intro exI [of _ pi] exI [of _ ?w] exI [of _ True]) simp
  next
    case 4
    have "lintr_ok (asc_pi (ahci_sc ?s))" using f(1) by simp
    then obtain pi where pi: "on_asc_pi pci_lintr_deassert ?s = Some (irq_upd pi ?w (asc_lintr ?sc) s)"
      "lintr_ok pi" "\<not> requested pi" "lintr_frame (asc_pi ?sc) pi"
      by (rule asc_line_down) simp
    with run inv [OF pi(2,4), of False] 4 lin show ?thesis by (intro exI [of _ pi] exI [of _ ?w] exI [of _ False]) auto
  qed
qed

end
