(* ===== verification/AhciInv.thy ===== *)
theory AhciInv
  imports AhciStop
begin

text \<open>
  The register writes of the guest and the worker of the disk keep the invariant of the controller.
\<close>

section \<open>Reset\<close>

lemma irq_inv_pre: "irq_gen E s \<Longrightarrow> irq_pre s"
  by (simp add: irq_gen_def irq_pre_def Let_def)

lemma fis_off: "px_cmd (rg p s) AND AHCI_P_CMD_FRE = 0 \<Longrightarrow> ahci_write_fis p ft fis s = Some s"
  by (simp add: ahci_write_fis_def split: option.split)

lemma upd_port_twice:
  "p < length (asc_port (ahci_sc s)) \<Longrightarrow> upd_port p g (upd_port p f s) = upd_port p (\<lambda>pr. g (f pr)) s"
  by (cases s) (simp add: upd_port_def)

text \<open>What the reset of the ports \<open>I\<close> keeps, and that it disables their interrupts.\<close>

definition ports_reset :: "nat set \<Rightarrow> ahci_state \<Rightarrow> ahci_state \<Rightarrow> bool" where
  "ports_reset I s s' \<longleftrightarrow> same_core s s' \<and> (\<forall>i\<in>I. px_ie (rg i s') = 0) \<and> (\<forall>q. q \<notin> I \<longrightarrow> rg q s' = rg q s) \<and>
     asc_pi (ahci_sc s') = asc_pi (ahci_sc s) \<and> asc_lintr (ahci_sc s') = asc_lintr (ahci_sc s) \<and>
     hba_is (ahci_sc s') = hba_is (ahci_sc s) \<and> hba_ghc (ahci_sc s') = hba_ghc (ahci_sc s) \<and> bs_mem s' = bs_mem s"

lemma reset_sc:
  assumes "ports_reset I s s'"
  shows "asc_pi (ahci_sc s') = asc_pi (ahci_sc s)" "asc_lintr (ahci_sc s') = asc_lintr (ahci_sc s)"
    "hba_is (ahci_sc s') = hba_is (ahci_sc s)" "hba_ghc (ahci_sc s') = hba_ghc (ahci_sc s)"
    "asc_ports (ahci_sc s') = asc_ports (ahci_sc s)"
  using assms by (simp_all add: ports_reset_def same_core_def)

lemma reset_step:
  assumes s1: "s1 = upd_port i (\<lambda>pr. pr\<lparr>pr_regs := (pr_regs pr)\<lparr>px_ie := 0, px_is := 0,
       px_cmd := AHCI_P_CMD_SUD OR AHCI_P_CMD_POD OR (if pr_bctx pr \<noteq> None then AHCI_P_CMD_CPS else 0),
       px_sctl := 0\<rparr>\<rparr>) s" and len: "i < length (asc_port (ahci_sc s))" and run: "ahci_port_reset i s1 = Some s'"
  shows "ports_reset {i} s s'"
proof -
  let ?ie = "\<lambda>t. px_ie (rg i t) = 0 \<and> px_cmd (rg i t) AND AHCI_P_CMD_FRE = 0"
  have regs: "same_core s (upd_rg i f s)" for f s by (rule same_core_upd_regs)
  have start: "?ie s1" using len by (simp add: s1 port_of_upd_port)
  have core1: "same_core s s1" by (simp add: s1 same_core_def port_of_upd_port port_core_def)
  have other: "rg q s1 = rg q s" if "q \<noteq> i" for q using that by (simp add: s1 port_of_upd_port)
  define s2 where "s2 = upd_port i (\<lambda>pr. pr\<lparr>pr_xfermode := ATA_UDMA6, pr_mult_sectors := 128,
            pr_regs := (pr_regs pr)\<lparr>px_serr := 0, px_sact := 0\<rparr>\<rparr>) s1"
  have core2: "same_core s s2"
    by (rule same_core_trans [OF core1]) (simp add: s2_def same_core_def port_of_upd_port port_core_def)
  have "\<exists>g. s' = upd_rg i g s2 \<and> (\<forall>r. px_ie (g r) = px_ie r)"
  proof (cases "pr_bctx (port_of i s2)")
    case None
    with run have "s' = upd_rg i (\<lambda>r. r\<lparr>px_ssts := 0, px_sig := 0xFFFFFFFF, px_tfd := 0x7F\<rparr>) s2"
      unfolding ahci_port_reset_def Let_def s2_def [symmetric] by simp
    then show ?thesis by (intro exI [of _ "\<lambda>r. r\<lparr>px_ssts := 0, px_sig := 0xFFFFFFFF, px_tfd := 0x7F\<rparr>"]) simp
  next
    case (Some b)
    let ?spd = "px_sctl (rg i s2) AND ATA_SS_SPD_MASK"
    let ?g1 = "\<lambda>r. r\<lparr>px_ssts := 0x103 OR (if ?spd \<noteq> 0 then ?spd else 0x30)\<rparr>"
    let ?g2 = "\<lambda>r. r\<lparr>px_tfd := 0x100 OR ATA_S_DSC OR ATA_S_DMA OR (if pr_atapi (port_of i s2) then 0 else ATA_S_READY),
                  px_sig := (if pr_atapi (port_of i s2) then PxSIG_ATAPI else PxSIG_ATA)\<rparr>"
    let ?s3 = "upd_rg i ?g2 (upd_rg i ?g1 s2)"
    have "px_cmd (rg i ?s3) AND AHCI_P_CMD_FRE = 0"
      using start len by (simp add: s2_def s1 port_of_upd_port)
    with run Some have "s' = ?s3"
      unfolding ahci_port_reset_def Let_def s2_def [symmetric] ahci_write_reset_fis_d2h_def by (simp add: fis_off)
    also have "\<dots> = upd_rg i (\<lambda>r. ?g2 (?g1 r)) s2"
      using upd_port_twice [of i s2] same_core_fields core2 len by (simp add: same_core_def)
    finally show ?thesis by (intro exI [of _ "\<lambda>r. ?g2 (?g1 r)"]) simp
  qed
  then obtain g where g: "s' = upd_rg i g s2" "\<forall>r. px_ie (g r) = px_ie r" by blast
  have core: "same_core s s'" unfolding g(1) by (rule same_core_trans [OF core2 same_core_upd_regs])
  have "px_ie (rg i s') = 0" using start len by (simp add: g s2_def s1 port_of_upd_port)
  moreover have "rg q s' = rg q s" if "q \<noteq> i" for q using that by (simp add: g(1) s2_def s1 port_of_upd_port)
  moreover have "asc_pi (ahci_sc s') = asc_pi (ahci_sc s)" "asc_lintr (ahci_sc s') = asc_lintr (ahci_sc s)"
    "hba_is (ahci_sc s') = hba_is (ahci_sc s)" "hba_ghc (ahci_sc s') = hba_ghc (ahci_sc s)" "bs_mem s' = bs_mem s"
    by (simp_all add: g(1) s2_def s1)
  ultimately show ?thesis using core unfolding ports_reset_def by blast
qed

lemma ports_reset_refl: "ports_reset {} s s"
  by (simp add: ports_reset_def)

lemma ports_reset_trans:
  assumes "ports_reset I s s1" "ports_reset J s1 s2"
  shows "ports_reset (I \<union> J) s s2"
proof -
  have "px_ie (rg i s2) = 0" if "i \<in> I \<union> J" for i
    using that assms unfolding ports_reset_def by (cases "i \<in> J") auto
  with assms show ?thesis using same_core_trans [of s s1 s2] unfolding ports_reset_def by simp
qed

lemma reset_ports_run:
  assumes "reset_ports is s = Some s'" "\<forall>i\<in>set is. i < length (asc_port (ahci_sc s))"
  shows "ports_reset (set is) s s'"
  using assms
proof (induction "is" arbitrary: s)
  case (Cons i "is")
  define s1 where "s1 = upd_port i (\<lambda>pr. pr\<lparr>pr_regs := (pr_regs pr)\<lparr>px_ie := 0, px_is := 0,
       px_cmd := AHCI_P_CMD_SUD OR AHCI_P_CMD_POD OR (if pr_bctx pr \<noteq> None then AHCI_P_CMD_CPS else 0),
       px_sctl := 0\<rparr>\<rparr>) s"
  from Cons.prems(1) obtain s2 where s2: "ahci_port_reset i s1 = Some s2" "reset_ports is s2 = Some s'"
    by (auto simp: s1_def bind_eq_Some_conv)
  have r: "ports_reset {i} s s2" using reset_step [OF s1_def _ s2(1)] Cons.prems(2) by simp
  then have "\<forall>i\<in>set is. i < length (asc_port (ahci_sc s2))"
    using Cons.prems(2) by (simp add: ports_reset_def same_core_def)
  from ports_reset_trans [OF r Cons.IH [OF s2(2) this]] show ?case by simp
qed (simp add: ports_reset_refl)

lemma reset_ports_ok:
  assumes "reset_ports is s = Some s'" "irq_gen (set is \<union> E) s" "\<forall>i\<in>set is. i < length (asc_port (ahci_sc s))"
  shows "irq_gen E s' \<and> same_core s s'"
proof -
  have r: "ports_reset (set is) s s'" using assms(1,3) by (rule reset_ports_run)
  have core: "same_core s s'" using r by (simp add: ports_reset_def)
  have "bit (hba_is (ahci_sc s)) q" if "q < asc_ports (ahci_sc s)" "q \<notin> E" "px_is (rg q s') AND px_ie (rg q s') \<noteq> 0" for q
  proof -
    have "q \<notin> set is" using that(3) r by (auto simp: ports_reset_def)
    with that assms(2) r show ?thesis by (auto simp: irq_gen_def Let_def ports_reset_def)
  qed
  moreover have "irq_pre s" using assms(2) by (rule irq_inv_pre)
  ultimately have "irq_gen E s'"
    using assms(2) unfolding irq_gen_def irq_pre_def Let_def reset_sc [OF r] same_core_fields(1,2) [OF core] by blast
  with core show ?thesis by blast
qed

lemma reset_ok:
  assumes run: "ahci_reset s = Some s'" and inv: "irq_inv s" and len: "length (asc_port (ahci_sc s)) = 32"
  shows "irq_inv s' \<and> same_core s s'"
proof -
  let ?s1 = "upd_sc (\<lambda>sc. sc\<lparr>hba_ghc := AHCI_GHC_AE, hba_is := 0\<rparr>) s"
  have ports: "asc_ports (ahci_sc s) \<le> 32" using inv by (simp add: irq_gen_def Let_def)
  from run obtain s2 where s2: "(if asc_lintr (ahci_sc ?s1) then do {
         s \<leftarrow> on_asc_pi pci_lintr_deassert ?s1;
         Some (upd_sc (\<lambda>sc. sc\<lparr>asc_lintr := False\<rparr>) s)
       } else Some ?s1) = Some s2" "reset_ports [0..<asc_ports (ahci_sc s2)] s2 = Some s'"
    unfolding ahci_reset_def Let_def by (elim bind_SomeE)
  have "lintr_ok (asc_pi (ahci_sc ?s1))" using inv by (simp add: irq_gen_def Let_def)
  then obtain pi where pi: "on_asc_pi pci_lintr_deassert ?s1 = Some (upd_sc (\<lambda>sc. sc\<lparr>asc_pi := pi\<rparr>) ?s1)"
    "lintr_ok pi" "\<not> requested pi" "lintr_frame (asc_pi (ahci_sc ?s1)) pi" by (rule asc_line_down)
  define pi' where "pi' = (if asc_lintr (ahci_sc s) then pi else asc_pi (ahci_sc s))"
  have s2': "s2 = upd_sc (\<lambda>sc. sc\<lparr>hba_ghc := AHCI_GHC_AE, hba_is := 0, asc_pi := pi', asc_lintr := False\<rparr>) s"
    using s2(1) pi(1) by (cases s; cases "ahci_sc s") (auto simp: pi'_def split: if_splits)
  have pi'_ok: "lintr_ok pi'" "caps_fine pi'" "\<not> requested pi'" "pi_msi pi' = pi_msi (asc_pi (ahci_sc s))"
    using inv pi lintr_frame_simps(6) [OF pi(4)] caps_fine_frame [OF pi(4)] by (auto simp: pi'_def irq_gen_def Let_def)
  have core: "same_core s s2" by (simp add: s2' same_core_def port_of_def)
  have "irq_gen {0..<asc_ports (ahci_sc s)} s2"
    using inv pi'_ok by (auto simp: s2' irq_gen_def Let_def port_of_def)
  moreover have "asc_ports (ahci_sc s2) = asc_ports (ahci_sc s)" "length (asc_port (ahci_sc s2)) = 32"
    using core len by (simp_all add: same_core_def)
  ultimately have "irq_inv s' \<and> same_core s2 s'"
    using reset_ports_ok [OF s2(2), of "{}"] ports by auto
  with core show ?thesis by (blast intro: same_core_trans)
qed

section \<open>Register writes\<close>

text \<open>An operation is safe when the state that it returns is sound.\<close>

definition safe :: "ahci_state option \<Rightarrow> bool" where
  "safe r \<longleftrightarrow> (\<forall>s'. r = Some s' \<longrightarrow> ahci_ok s')"

named_theorems safes \<open>operations that keep the invariant\<close>

lemma safe_Some [safes]: "ahci_ok s \<Longrightarrow> safe (Some s)"
  by (simp add: safe_def)

lemma safe_if [safes]: "(b \<Longrightarrow> safe r1) \<Longrightarrow> (\<not> b \<Longrightarrow> safe r2) \<Longrightarrow> safe (if b then r1 else r2)"
  by simp

lemma safe_bind [safes]: "safe r \<Longrightarrow> (\<And>s. ahci_ok s \<Longrightarrow> safe (f s)) \<Longrightarrow> safe (Option.bind r f)"
  by (auto simp: safe_def bind_eq_Some_conv)

lemma safe_quiet: "quiet s r \<Longrightarrow> ahci_ok s \<Longrightarrow> safe r"
  by (auto simp: quiet_def safe_def intro: calm_ok)

lemma ok_if [safes]: "(b \<Longrightarrow> ahci_ok s1) \<Longrightarrow> (\<not> b \<Longrightarrow> ahci_ok s2) \<Longrightarrow> ahci_ok (if b then s1 else s2)"
  by simp

lemma ok_upd_port [safes]: "ahci_ok s \<Longrightarrow> plain f \<Longrightarrow> ahci_ok (upd_port p f s)"
  using calm_ok [OF calm_upd_port [OF calm_refl]] by blast

lemma safe_engine [safes]:
  assumes "p < 32" "ahci_ok s"
  shows "safe (ahci_handle_port dmap p s)" "safe (ahci_port_stop p s)" "safe (ahci_port_reset p s)"
    "safe (ahci_port_intr p (upd_rg p f s))"
proof -
  show "safe (ahci_handle_port dmap p s)" "safe (ahci_port_stop p s)"
    using handle_port_ok [OF assms(1) _ assms(2)] port_stop_ok [OF _ assms(2,1)] by (simp_all add: safe_def)
  show "safe (ahci_port_reset p s)" "safe (ahci_port_intr p (upd_rg p f s))"
    by (rule safe_quiet [OF quiet_port_reset [OF assms(1) calm_refl] assms(2)])
      (rule safe_quiet [OF port_intr_upd [OF assms(1) calm_refl] assms(2)])
qed

lemma safe_cmd_write [safes]: "p < 32 \<Longrightarrow> ahci_ok s \<Longrightarrow> safe (port_cmd_write dmap p value s)"
  unfolding port_cmd_write_def Let_def
  by (intro safes; (assumption | rule plain_fields | rule plain_regs; simp))

lemma port_index:
  assumes "0x100 \<le> offset" "offset < port_space s" "irq_inv s"
  shows "unat ((offset - 0x100) div 0x80) < asc_ports (ahci_sc s) \<and> unat ((offset - 0x100) div 0x80) < 32"
proof -
  have n: "asc_ports (ahci_sc s) \<le> 32" using assms(3) by (simp add: irq_gen_def Let_def)
  have "unat (port_space s) = 0x100 + asc_ports (ahci_sc s) * 0x80"
    using n unfolding port_space_def by (simp add: unat_word_ariths unat_of_nat)
  then have "unat offset < 0x100 + asc_ports (ahci_sc s) * 0x80" using assms(2) by (simp add: word_less_nat_alt)
  moreover have "unat (offset - 0x100) = unat offset - 0x100" "0x100 \<le> unat offset"
    using unat_sub [OF assms(1)] assms(1) by (simp_all add: word_le_nat_alt)
  ultimately have "unat (offset - 0x100) < asc_ports (ahci_sc s) * 0x80" by linarith
  then have "unat (offset - 0x100) div 0x80 < asc_ports (ahci_sc s)" by (rule less_mult_imp_div_less)
  then show ?thesis using n by (simp add: unat_div)
qed

lemma safe_port_write:
  assumes "0x100 \<le> offset" "offset < port_space s" "ahci_ok s"
  shows "safe (pci_ahci_port_write dmap offset value s)"
proof -
  have "unat ((offset - 0x100) div 0x80) < 32" using port_index [OF assms(1,2)] assms(3) by (simp add: ahci_ok_def)
  then show ?thesis
    unfolding pci_ahci_port_write_def Let_def
    by (intro safes) ((assumption | rule assms(3) | rule plain_fields | rule plain_regs; simp)+)
qed

lemma irq_upd_ok: "rq_ok s \<Longrightarrow> disks_free s \<Longrightarrow> irq_inv (irq_upd pi w l s) \<Longrightarrow> ahci_ok (irq_upd pi w l s)"
  using rq_core [OF irq_upd_core] disks_free_cong [of "irq_upd pi w l s" s] by (simp add: ahci_ok_def)

lemma safe_generate:
  assumes ok: "ahci_ok s" and g: "\<And>sc. asc_pi (g sc) = asc_pi sc" "\<And>sc. asc_mtx (g sc) = asc_mtx sc"
    "\<And>sc. asc_ports (g sc) = asc_ports sc" "\<And>sc. asc_lintr (g sc) = asc_lintr sc" "\<And>sc. asc_port (g sc) = asc_port sc"
  shows "safe (ahci_generate_intr msk (upd_sc g s))"
proof -
  have core: "same_core s (upd_sc g s)" by (simp add: same_core_def port_of_def g)
  have "irq_pre (upd_sc g s)"
    using ok by (auto simp: irq_pre_def ahci_ok_def irq_gen_def Let_def g port_of_def)
  then obtain pi w l where "ahci_generate_intr msk (upd_sc g s) = Some (irq_upd pi w l (upd_sc g s))"
    "irq_inv (irq_upd pi w l (upd_sc g s))" using generate_intr_ok by blast
  moreover have "rq_ok (upd_sc g s)" "disks_free (upd_sc g s)"
    using ok rq_core [OF core] disks_free_cong [of "upd_sc g s" s] by (simp_all add: ahci_ok_def)
  ultimately show ?thesis using irq_upd_ok by (simp add: safe_def)
qed

lemma safe_host_write: "ahci_ok s \<Longrightarrow> safe (pci_ahci_host_write offset value s)"
  unfolding pci_ahci_host_write_def
proof (intro safe_if)
  assume ok: "ahci_ok s"
  show "safe (ahci_reset s)"
    unfolding safe_def
  proof (intro allI impI)
    fix s' assume "ahci_reset s = Some s'"
    moreover have "irq_inv s" "length (asc_port (ahci_sc s)) = 32" using ok by (simp_all add: ahci_ok_def rq_gen_def)
    ultimately have "irq_inv s'" "same_core s s'" using reset_ok by blast+
    then have "calm s s'" by (simp add: calm_def)
    then show "ahci_ok s'" using ok by (rule calm_ok)
  qed
  show "safe (ahci_generate_intr 0xffffffff (upd_sc (\<lambda>sc. sc\<lparr>hba_ghc :=
           (if value AND 2 \<noteq> 0 then hba_ghc sc OR AHCI_GHC_IE else hba_ghc sc AND NOT AHCI_GHC_IE)\<rparr>) s))"
    by (rule safe_generate [OF ok]) simp_all
  show "safe (ahci_generate_intr (ucast value) (upd_sc (\<lambda>sc. sc\<lparr>hba_is := hba_is sc AND NOT (ucast value)\<rparr>) s))"
    by (rule safe_generate [OF ok]) simp_all
qed (simp add: safe_Some)

text \<open>The mutex of the controller is not part of the invariant.\<close>

lemma ok_mtx: "ahci_ok (upd_sc (\<lambda>sc. sc\<lparr>asc_mtx := m\<rparr>) s) = ahci_ok s"
  by (simp add: ahci_ok_def irq_gen_def Let_def rq_gen_def port_of_def disks_free_def get_ctxt_def)

lemma lock_sc_ok: "lock_sc s = Some s' \<Longrightarrow> ahci_ok s \<Longrightarrow> ahci_ok s'"
  "unlock_sc s = Some s' \<Longrightarrow> ahci_ok s \<Longrightarrow> ahci_ok s'"
  by (auto simp: lock_sc_def unlock_sc_def bind_eq_Some_conv ok_mtx)

lemma ahci_write_ok:
  assumes run: "pci_ahci_write dmap baridx offset sz value s = Some s'" and ok: "ahci_ok s"
  shows "ahci_ok s'"
proof -
  from run obtain s1 s2 where s1: "lock_sc s = Some s1" and
    s2: "(if offset < 0x100 then pci_ahci_host_write offset value s1
        else if offset < port_space s1 then pci_ahci_port_write dmap offset value s1 else Some s1) = Some s2" and
    s3: "unlock_sc s2 = Some s'"
    by (auto simp: pci_ahci_write_def assert_that_bind elim!: bind_SomeE split: if_splits)
  have ok1: "ahci_ok s1" using lock_sc_ok(1) [OF s1 ok] .
  have "safe (if offset < 0x100 then pci_ahci_host_write offset value s1
        else if offset < port_space s1 then pci_ahci_port_write dmap offset value s1 else Some s1)"
    by (intro safes safe_host_write safe_port_write ok1) simp_all
  with s2 have "ahci_ok s2" by (simp add: safe_def)
  then show ?thesis using lock_sc_ok(2) [OF s3] by simp
qed

lemma ahci_read_ok:
  assumes "pci_ahci_read baridx offset sz s = Some (v, s')" "ahci_ok s"
  shows "ahci_ok s'"
  using assms lock_sc_ok by (auto simp: pci_ahci_read_def assert_that_bind Let_def elim!: bind_SomeE split: if_splits)

end
