(* ===== verification/AhciWork.thy ===== *)
theory AhciWork
  imports AhciInv
begin

text \<open>
  The completion of requests. The worker calls back with the disk locked, so that a callback that
  returns has issued no request: it gives the element back, ends the command and starts others that
  need no disk. The worker keeps the invariant of the controller and empties the queue.
\<close>

section \<open>The callbacks\<close>

text \<open>What a callback does to the core, between taking and giving back the mutex of the controller.\<close>

definition completes :: "nat \<Rightarrow> nat \<Rightarrow> nat \<Rightarrow> ahci_state \<Rightarrow> ahci_state \<Rightarrow> bool" where
  "completes p a slot s s' \<longleftrightarrow> a \<in> set (pr_iobhd (port_of p s)) \<and> calm (upd_port p (give_back a slot) s) s'"

definition put_back :: "nat \<Rightarrow> ahci_port \<Rightarrow> ahci_port" where
  "put_back a pr = pr\<lparr>pr_iobhd := remove1 a (pr_iobhd pr), pr_iofhd := pr_iofhd pr @ [a]\<rparr>"

lemma clr_put_back: "upd_port p (clr slot) (upd_port p (put_back a) s) = upd_port p (give_back a slot) s"
proof (cases "p < length (asc_port (ahci_sc s))")
  case True
  have "clr slot (put_back a pr) = give_back a slot pr" for pr
    by (cases pr) (simp add: clr_def put_back_def give_back_def)
  then show ?thesis unfolding upd_port_twice [OF True] by simp
qed (simp add: upd_port_def list_update_beyond)

lemma held_upd: "held p s \<Longrightarrow> (\<And>pr. pr_bctx (g pr) = pr_bctx pr) \<Longrightarrow> held p (upd_port q g s)"
  using lock_ctxts [of "upd_port q g s" s] by (simp add: held_def port_of_upd_port)

lemma release_SomeD:
  "release_ioreq p a s = Some s' \<Longrightarrow> a \<in> set (pr_iobhd (port_of p s)) \<and> s' = upd_port p (put_back a) s"
  by (auto simp: release_ioreq_def assert_that_bind put_back_def [abs_def] split: if_splits)

lemma finish_calm:
  assumes p: "p < 32" and held: "held p s" and c: "calm s s1" and run: "finish_command dmap p slot s1 = Some s'"
  shows "calm (upd_port p (clr slot) s) s'"
proof -
  let ?s = "ahci_check_stopped p (upd_port p (clr slot) s1)"
  have c1: "calm (upd_port p (clr slot) s) ?s" by (intro calm_check_stopped calm_core corefun_clr c)
  have "held p (upd_port p (clr slot) s)" using held by (rule held_upd) (simp add: clr_def)
  then have "held p ?s" by (rule held_calm [OF c1])
  moreover have "ahci_handle_port dmap p ?s = Some s'" using run by (simp add: finish_command_def clr_def [abs_def])
  ultimately show ?thesis using calm_trans [OF c1 held_handle_port [OF p]] by blast
qed

lemma set_prdbc_quiet [quiets]: "calm s s' \<Longrightarrow> quiet s (set_prdbc p slot v s')"
  unfolding set_prdbc_def by (rule quiet_bind_val) (intro quiets)

lemma drives_held: "held p s \<Longrightarrow> drives p slot s r \<Longrightarrow> r = Some s' \<Longrightarrow> calm s s'"
  using held_issued [of p s slot s'] by (auto simp: drives_def)

text \<open>A part of a transfer that is to go on needs the disk, and cannot return.\<close>

lemma held_rw:
  assumes "p < 32" "held p s"
  shows "ahci_handle_rw dmap p slot cfis done s = None" "atapi_read dmap p slot cfis done s = None"
proof -
  have "\<not> issued p slot s s'" for s' using held_issued [OF assms(2)] by blast
  moreover have "ahci_handle_rw dmap p slot cfis done s = Some s' \<Longrightarrow> issued p slot s s'"
    "atapi_read dmap p slot cfis done s = Some s' \<Longrightarrow> issued p slot s s'" for s'
    using rw_issues [OF assms(1)] atapi_read_issues [OF assms(1)] by blast+
  ultimately show "ahci_handle_rw dmap p slot cfis done s = None" "atapi_read dmap p slot cfis done s = None"
    by (meson not_None_eq)+
qed

lemma ata_cb_completes:
  assumes p: "p < 32" and held: "held p s" and br: "br_param br = (p, a)" and run: "ata_ioreq_cb dmap br err s = Some s'"
  shows "\<exists>s1 s2. lock_sc s = Some s1 \<and> completes p a (io_slot (pr_ioreq (port_of p s) ! a)) s1 s2 \<and> unlock_sc s2 = Some s'"
proof -
  let ?aior = "pr_ioreq (port_of p s) ! a"
  let ?cfis = "io_cfis ?aior" and ?slot = "io_slot ?aior"
  let ?c = "cfis_byte s ?cfis"
  define ncq where "ncq = ncq_command (?c 2)"
  define dsm where "dsm \<longleftrightarrow> ?c 2 = 0x06 \<or> ?c 2 = ATA_SEND_FPDMA_QUEUED \<and> ?c 13 AND 0x1f = 0"
  from run obtain s1 s2 s3 s4 where s1: "lock_sc s = Some s1" and s2: "release_ioreq p a s1 = Some s2" and
    s3: "(if err = 0 then set_prdbc p ?slot (io_done ?aior) s2 else Some s2) = Some s3" and
    s4: "(if err = 0 \<and> io_more ?aior then
          (if dsm then ahci_handle_dsm_trim (ahci_handle_port dmap p) dmap p ?slot ?cfis (io_done ?aior) s3
           else ahci_handle_rw dmap p ?slot ?cfis (io_done ?aior) s3)
        else do {
          let tfd = (if err = 0 then TFD_OK else TFD_ABORT);
          s \<leftarrow> (if ncq then ahci_write_fis_sdb p ?slot ?cfis tfd s3 else ahci_write_fis_d2h p ?slot ?cfis tfd s3);
          finish_command dmap p ?slot s
        }) = Some s4" and s5: "unlock_sc s4 = Some s'"
    unfolding ata_ioreq_cb_def br Let_def prod.case ncq_def [symmetric] dsm_def [symmetric] by (elim bind_SomeE)
  have s2': "a \<in> set (pr_iobhd (port_of p s1))" "s2 = upd_port p (put_back a) s1" using release_SomeD [OF s2] by simp_all
  have "held p s1"
    using held s1 lock_ctxts [of s1 s] by (auto simp: held_def lock_sc_def bind_eq_Some_conv port_of_def)
  then have h2: "held p s2" unfolding s2' by (rule held_upd) (simp add: put_back_def)
  have "quiet s2 (if err = 0 then set_prdbc p ?slot (io_done ?aior) s2 else Some s2)" by (intro quiets)
  with s3 have c3: "calm s2 s3" by (simp add: quiet_def)
  have h3: "held p s3" by (rule held_calm [OF c3 h2])
  have "calm (upd_port p (clr ?slot) s2) s4"
  proof (cases "err = 0 \<and> io_more ?aior")
    case True
    with s4 held_rw(1) [OF p h3] have "ahci_handle_dsm_trim (ahci_handle_port dmap p) dmap p ?slot ?cfis (io_done ?aior) s3 = Some s4"
      by (auto split: if_splits)
    from trim_cases [OF p this] held_issued [OF h3] obtain t where t: "calm (upd_port p (clr ?slot) s3) t"
      "if io_done ?aior = 0 then s4 = t else ahci_handle_port dmap p t = Some s4" by blast
    have ct: "calm (upd_port p (clr ?slot) s2) t" by (rule calm_trans [OF calm_core [OF corefun_clr c3] t(1)])
    have "held p (upd_port p (clr ?slot) s2)" using h2 by (rule held_upd) (simp add: clr_def)
    then have "held p t" by (rule held_calm [OF ct])
    with t(2) held_handle_port [OF p] have "calm t s4" by (metis calm_refl)
    with ct show ?thesis by (rule calm_trans)
  next
    case False
    with s4 obtain tfd s5 where f: "(if ncq then ahci_write_fis_sdb p ?slot ?cfis tfd s3 else ahci_write_fis_d2h p ?slot ?cfis tfd s3) = Some s5"
      "finish_command dmap p ?slot s5 = Some s4" by (auto simp: bind_eq_Some_conv Let_def)
    have "quiet s2 (if ncq then ahci_write_fis_sdb p ?slot ?cfis tfd s3 else ahci_write_fis_d2h p ?slot ?cfis tfd s3)"
      by (intro quiets p c3)
    with f(1) have "calm s2 s5" by (simp add: quiet_def)
    then show ?thesis using f(2) by (rule finish_calm [OF p h2])
  qed
  then have "completes p a ?slot s1 s4" unfolding completes_def using s2' by (simp add: clr_put_back)
  with s1 s5 show ?thesis by blast
qed

lemma atapi_cb_completes:
  assumes p: "p < 32" and held: "held p s" and br: "br_param br = (p, a)" and run: "atapi_ioreq_cb dmap br err s = Some s'"
  shows "\<exists>s1 s2. lock_sc s = Some s1 \<and> completes p a (io_slot (pr_ioreq (port_of p s) ! a)) s1 s2 \<and> unlock_sc s2 = Some s'"
proof -
  let ?aior = "pr_ioreq (port_of p s) ! a"
  let ?cfis = "io_cfis ?aior" and ?slot = "io_slot ?aior"
  from run obtain s1 s2 s3 s4 where s1: "lock_sc s = Some s1" and s2: "release_ioreq p a s1 = Some s2" and
    s3: "(if err = 0 then set_prdbc p ?slot (io_done ?aior) s2 else Some s2) = Some s3" and
    s4: "(if err = 0 \<and> io_more ?aior then atapi_read dmap p ?slot ?cfis (io_done ?aior) s3
        else do {
          s \<leftarrow> (if err = 0 then ahci_write_fis_d2h p ?slot ?cfis TFD_OK (set_ireason ?cfis s3)
                else atapi_error p ?slot ?cfis 0x21 s3);
          finish_command dmap p ?slot s
        }) = Some s4" and s5: "unlock_sc s4 = Some s'"
    unfolding atapi_ioreq_cb_def br Let_def prod.case by (elim bind_SomeE)
  have s2': "a \<in> set (pr_iobhd (port_of p s1))" "s2 = upd_port p (put_back a) s1" using release_SomeD [OF s2] by simp_all
  have "held p s1"
    using held s1 lock_ctxts [of s1 s] by (auto simp: held_def lock_sc_def bind_eq_Some_conv port_of_def)
  then have h2: "held p s2" unfolding s2' by (rule held_upd) (simp add: put_back_def)
  have "quiet s2 (if err = 0 then set_prdbc p ?slot (io_done ?aior) s2 else Some s2)" by (intro quiets)
  with s3 have c3: "calm s2 s3" by (simp add: quiet_def)
  have "\<not> (err = 0 \<and> io_more ?aior)" using s4 held_rw(2) [OF p held_calm [OF c3 h2]] by auto
  with s4 obtain s5 where f: "(if err = 0 then ahci_write_fis_d2h p ?slot ?cfis TFD_OK (set_ireason ?cfis s3)
      else atapi_error p ?slot ?cfis 0x21 s3) = Some s5" "finish_command dmap p ?slot s5 = Some s4"
    by (auto simp: bind_eq_Some_conv)
  have "quiet s2 (if err = 0 then ahci_write_fis_d2h p ?slot ?cfis TFD_OK (set_ireason ?cfis s3)
      else atapi_error p ?slot ?cfis 0x21 s3)"
    by (intro quiets p c3)
  with f(1) have "calm s2 s5" by (simp add: quiet_def)
  then have "calm (upd_port p (clr ?slot) s2) s4" using f(2) by (rule finish_calm [OF p h2])
  then have "completes p a ?slot s1 s4" unfolding completes_def using s2' by (simp add: clr_put_back)
  with s1 s5 show ?thesis by blast
qed

text \<open>The mutex of the controller is taken and given back.\<close>

lemma irq_mtx: "irq_inv (upd_sc (\<lambda>sc. sc\<lparr>asc_mtx := m\<rparr>) s) = irq_inv s"
  by (simp add: irq_gen_def Let_def port_of_def)

lemma cb_ok:
  assumes p: "p < 32" and held: "held p s" and br: "br_param br = (p, a)" and run: "ahci_cb dmap br err s = Some s'"
  shows "a \<in> set (pr_iobhd (port_of p s)) \<and> (irq_inv s \<longrightarrow> irq_inv s') \<and> bs_ctxts s' = bs_ctxts s \<and>
    same_core (upd_port p (give_back a (req_slot (port_of p s) a)) s) (upd_sc (\<lambda>sc. sc\<lparr>asc_mtx := asc_mtx (ahci_sc s)\<rparr>) s')"
proof -
  obtain s1 s2 where s1: "lock_sc s = Some s1" and c: "completes p a (io_slot (pr_ioreq (port_of p s) ! a)) s1 s2"
    and s': "unlock_sc s2 = Some s'"
    using ata_cb_completes [OF p held br, of dmap err s'] atapi_cb_completes [OF p held br, of dmap err s'] run
    by (auto simp: ahci_cb_def br split: if_splits)
  let ?g = "give_back a (req_slot (port_of p s) a)"
  have s1': "s1 = upd_sc (\<lambda>sc. sc\<lparr>asc_mtx := (asc_mtx sc)\<lparr>mutex_lock := 1\<rparr>\<rparr>) s"
    using s1 by (cases s; cases "ahci_sc s") (auto simp: lock_sc_def bind_eq_Some_conv)
  have c1: "a \<in> set (pr_iobhd (port_of p s))" "calm (upd_port p ?g s1) s2"
    using c by (simp_all add: completes_def s1' port_of_def req_slot_def)
  obtain m where m: "s' = upd_sc (\<lambda>sc. sc\<lparr>asc_mtx := m\<rparr>) s2" using s' by (auto simp: unlock_sc_def bind_eq_Some_conv)
  have irq1: "irq_inv s1 = irq_inv s"
    using irq_mtx [of "(asc_mtx (ahci_sc s))\<lparr>mutex_lock := 1\<rparr>" s] unfolding s1' by (simp add: irq_gen_def Let_def port_of_def)
  have "irq_inv s \<longrightarrow> irq_inv s'"
    using c1(2) by (simp add: m irq_mtx calm_def corefun_irq [OF corefun_give_back] irq1)
  moreover have core: "same_core (upd_port p ?g s1) s2" using c1(2) by (simp add: calm_def)
  then have "bs_ctxts s' = bs_ctxts s" by (simp add: m same_core_def s1')
  moreover have "port_of q (upd_port p ?g s1) = port_of q (upd_port p ?g s)" for q
    by (simp add: s1' port_of_upd_port) (simp add: port_of_def)
  then have "same_core (upd_port p ?g s) (upd_sc (\<lambda>sc. sc\<lparr>asc_mtx := asc_mtx (ahci_sc s)\<rparr>) s')"
    using core unfolding same_core_def m s1' by (simp add: port_of_def)
  ultimately show ?thesis using c1(1) by blast
qed

section \<open>The worker\<close>

lemma rq_mtx: "rq_gen X (upd_sc (\<lambda>sc. sc\<lparr>asc_mtx := m\<rparr>) s) = rq_gen X s"
  by (simp add: rq_gen_def port_of_def get_ctxt_def)

lemma io_param: "blockif_io bc op r m = Some (err, m', r') \<Longrightarrow> br_param r' = br_param r"
  by (auto simp: blockif_io_def bind_eq_Some_conv split: blockop.splits if_splits)

text \<open>One request: what the queue loses, the port gets back.\<close>

lemma work_round:
  assumes rq: "rq_ok s" and irq: "irq_inv s" and p: "p < 32" and bp: "pr_bctx (port_of p s) = Some b"
    and g: "get_ctxt b s = Some bc" and lock: "mutex_lock (bc_mtx bc) = 1" and pend: "bc_pendq bc = i # is"
    and deq: "blockif_dequeue bc 0 = Some (Some j, bc1)" and proc: "blockif_proc (ahci_cb dmap) b j (put_ctxt b bc1 s) = Some s1"
    and c2: "get_ctxt b s1 = Some bc2" and com: "blockif_complete bc2 j = Some bc3"
  shows "rq_ok (put_ctxt b bc3 s1) \<and> irq_inv (put_ctxt b bc3 s1) \<and> bs_ctxts (put_ctxt b bc3 s1) = (bs_ctxts s)[b := bc3] \<and>
    queue_frame bc bc3 \<and> bc_pendq bc3 = is \<and> pr_bctx (port_of p (put_ctxt b bc3 s1)) = Some b \<and> blockif_sc s1 = blockif_sc s"
proof -
  have b: "b < length (bs_ctxts s)" using g by (simp add: get_ctxt_Some)
  have d: "port_ok p (port_of p s)" "disk_ok {#} p (port_of p s) bc" using rq_genD [OF rq p bp] g by auto
  have q: "queue_inv bc" "bc_busyq bc = []" "bc_magic bc = BLOCKIF_SIG"
    "mset (pend_params bc) = mset (map (Pair p) (pr_iobhd (port_of p s)))" using d(2) by (simp_all add: disk_ok_def)
  from dequeue_head [OF q(1,2) pend, of 0] deq have j: "j = i" and bc1: "queue_inv bc1" "queue_frame bc bc1" "bc_pendq bc1 = is"
    "bc_busyq bc1 = [i]" "bc_reqs bc1 = (bc_reqs bc)[i := (bc_reqs bc ! i)\<lparr>be_status := BST_BUSY, be_tid := 0\<rparr>]" by auto
  have i: "i < length (bc_reqs bc)" "i \<notin> set is"
    using q(1) pend queue_inv_index [OF q(1), of i] by (auto simp: queue_inv_def)
  obtain r where r: "be_req (bc_reqs bc ! i) = Some r" using q(1) pend by (auto simp: queue_inv_def elems_ok_def)
  let ?P = "map (\<lambda>t. br_param (the (be_req (bc_reqs bc ! t))))"
  have params: "mset (map (Pair p) (pr_iobhd (port_of p s))) = add_mset (br_param r) (mset (?P is))"
    using q(4) pend r by (simp add: pend_reqs_def comp_def)
  then have "br_param r \<in># mset (map (Pair p) (pr_iobhd (port_of p s)))" by simp
  then obtain a where a: "br_param r = (p, a)" by auto
  let ?op = "be_op (bc_reqs bc ! i)"
  have at_i: "be_req (bc_reqs bc1 ! i) = Some r" "be_op (bc_reqs bc1 ! i) = ?op" using i(1) r by (simp_all add: bc1(5))
  from proc j at_i b obtain err m r' where io: "blockif_io bc1 ?op r (bs_mem (put_ctxt b bc1 s)) = Some (err, m, r')" and
    cb: "ahci_cb dmap r' err (put_ctxt b (upd_elem i (\<lambda>be. be\<lparr>be_req := Some r', be_status := BST_DONE\<rparr>) bc1)
      ((put_ctxt b bc1 s)\<lparr>bs_mem := m\<rparr>)) = Some s1"
    by (auto simp: blockif_proc_def bind_eq_Some_conv)
  define bcx where "bcx = upd_elem i (\<lambda>be. be\<lparr>be_req := Some r', be_status := BST_DONE\<rparr>) bc1"
  let ?t = "put_ctxt b bcx ((put_ctxt b bc1 s)\<lparr>bs_mem := m\<rparr>)"
  have bcx: "queue_inv bcx" "i \<in> set (bc_busyq bcx)" "bc_pendq bcx = is" "bc_busyq bcx = [i]" "queue_frame bc bcx"
    using upd_busy_inv [OF bc1(1), of i r'] bc1(3,4) queue_frame_trans [OF bc1(2) upd_elem_frame] by (simp_all add: bcx_def)
  have old: "bc_reqs bcx ! t = bc_reqs bc ! t" if "t \<in> set is" for t
  proof -
    have "t \<noteq> i" using that i(2) by auto
    then show ?thesis by (simp add: bcx_def bc1(5))
  qed
  have ct: "bs_ctxts ?t = (bs_ctxts s)[b := bcx]" "blockif_sc ?t = blockif_sc s" "ahci_sc ?t = ahci_sc s"
    by (simp_all add: put_ctxt_def)
  have port: "port_of x ?t = port_of x s" for x by simp
  have "mutex_lock (bc_mtx bcx) = 1" using lock frame_fields [OF bcx(5)] by simp
  then have held: "held p ?t" using bp b by (auto simp: held_def lock_bc_def get_ctxt_def ct port)
  have br: "br_param r' = (p, a)" using io_param [OF io] a by simp
  let ?g = "give_back a (req_slot (port_of p s) a)"
  from cb_ok [OF p held br cb [folded bcx_def]] have a_busy: "a \<in> set (pr_iobhd (port_of p s))" and
    irq1: "irq_inv ?t \<longrightarrow> irq_inv s1" and ct1: "bs_ctxts s1 = (bs_ctxts s)[b := bcx]" and
    core: "same_core (upd_port p ?g ?t) (upd_sc (\<lambda>sc. sc\<lparr>asc_mtx := asc_mtx (ahci_sc s)\<rparr>) s1)"
    by (simp_all add: port ct)
  have "bc2 = bcx" using c2 ct1 b by (auto simp: get_ctxt_def)
  with com j have com': "blockif_complete bcx i = Some bc3" by simp
  from complete_ok [OF bcx(1), of i] bcx(2-4) com' have bc3: "queue_inv bc3" "queue_frame bcx bc3" "bc_pendq bc3 = remove1 i is"
    "bc_busyq bc3 = []" "\<forall>t\<in>set (bc_pendq bc3). be_req (bc_reqs bc3 ! t) = be_req (bc_reqs bcx ! t)" by auto
  have is3: "bc_pendq bc3 = is" using bc3(3) i(2) by (simp add: remove1_idem)
  have frame: "queue_frame bc bc3" using bcx(5) bc3(2) by (rule queue_frame_trans)
  have p3: "pend_params bc3 = ?P is"
  proof -
    have "pend_params bc3 = map (\<lambda>t. br_param (the (be_req (bc_reqs bc3 ! t)))) is" by (simp add: pend_reqs_def is3)
    also have "\<dots> = ?P is" using bc3(5) old by (intro map_cong) (auto simp: is3)
    finally show ?thesis .
  qed
  have "disk_ok {#(p, a)#} p (port_of p s) bc3"
    using bc3(1,4) q(3) frame_fields [OF frame] params a unfolding disk_ok_def p3 by simp
  then have "rq_gen {#(p, a)#} (put_ctxt b bc3 s)" by (intro rq_put_ctxt [OF rq p bp]) auto
  then have rq3: "rq_ok (upd_port p ?g (put_ctxt b bc3 s))"
    by (intro rq_give_back) (simp_all add: p a_busy)
  have "same_core (upd_port p ?g (put_ctxt b bc3 s)) (upd_sc (\<lambda>sc. sc\<lparr>asc_mtx := asc_mtx (ahci_sc s)\<rparr>) (put_ctxt b bc3 s1))"
    using core unfolding same_core_def
    by (simp add: port_of_upd_port ct ct1) (simp add: put_ctxt_def ct1 port_of_def)
  from rq_core [OF this] rq3 have "rq_ok (put_ctxt b bc3 s1)" by (simp only: rq_mtx)
  moreover have "irq_inv (put_ctxt b bc3 s1)"
  proof -
    have "irq_inv ?t" using irq unfolding irq_gen_def Let_def ct port .
    with irq1 show ?thesis by simp
  qed
  moreover have "pr_bctx (port_of p (put_ctxt b bc3 s1)) = Some b" "blockif_sc s1 = blockif_sc s"
    using same_core_fields(3) [OF core, of p] core bp
    by (simp_all add: same_core_def ct port port_of_upd_port give_back_def port_of_upd_sc split: if_splits)
  ultimately show ?thesis using ct1 frame is3 by (simp add: put_ctxt_def)
qed

lemma thr_rounds:
  assumes "(case blockif_dequeue bc 0 of None \<Rightarrow> None | Some (be, bc) \<Rightarrow> (case be of
         None \<Rightarrow> Some (put_ctxt b bc s)
       | Some i \<Rightarrow> Option.bind (blockif_proc cb b i (put_ctxt b bc s)) (\<lambda>s. Option.bind (get_ctxt b s) (\<lambda>bc.
           Option.bind (blockif_complete bc i) (\<lambda>bc. loop cb b (put_ctxt b bc s)))))) = Some s'"
  obtains bc1 where "blockif_dequeue bc 0 = Some (None, bc1)" "s' = put_ctxt b bc1 s"
    | i bc1 s1 bc2 bc3 where "blockif_dequeue bc 0 = Some (Some i, bc1)" "blockif_proc cb b i (put_ctxt b bc1 s) = Some s1"
      "get_ctxt b s1 = Some bc2" "blockif_complete bc2 i = Some bc3" "loop cb b (put_ctxt b bc3 s1) = Some s'"
  using assms by (auto simp: bind_eq_Some_conv split: option.splits prod.splits)

lemma put_list [simp]: "bs_ctxts (put_ctxt b bc s) = (bs_ctxts s)[b := bc]" "blockif_sc (put_ctxt b bc s) = blockif_sc s"
  by (simp_all add: put_ctxt_def)

text \<open>What a run of the loop over the queue of the disk of port \<open>p\<close> gives.\<close>

abbreviation (input) work_spec where
  "work_spec dmap p cb b s s' \<equiv> (\<forall>bc. cb = ahci_cb dmap \<longrightarrow> rq_ok s \<longrightarrow> irq_inv s \<longrightarrow> p < 32 \<longrightarrow>
     pr_bctx (port_of p s) = Some b \<longrightarrow> get_ctxt b s = Some bc \<longrightarrow> mutex_lock (bc_mtx bc) = 1 \<longrightarrow>
     rq_ok s' \<and> irq_inv s' \<and> (\<exists>bc'. bs_ctxts s' = (bs_ctxts s)[b := bc'] \<and> queue_frame bc bc' \<and> bc_pendq bc' = []) \<and>
     pr_bctx (port_of p s') = Some b \<and> blockif_sc s' = blockif_sc s)"

lemma work_loop: "thr_loop cb b s = Some s' \<Longrightarrow> work_spec dmap p cb b s s'"
proof (rule thr_loop.raw_induct [where P = "\<lambda>cb b s s'. work_spec dmap p cb b s s'"])
  fix loop cb b s s'
  assume IH: "\<And>cb b s s'. loop cb b s = Some s' \<Longrightarrow> work_spec dmap p cb b s s'"
    and body: "Option.bind (get_ctxt b s) (\<lambda>bc. Option.bind (blockif_dequeue bc 0) (\<lambda>(be, bc).
       case be of
         None \<Rightarrow> Some (put_ctxt b bc s)
       | Some i \<Rightarrow> Option.bind (blockif_proc cb b i (put_ctxt b bc s)) (\<lambda>s. Option.bind (get_ctxt b s) (\<lambda>bc.
           Option.bind (blockif_complete bc i) (\<lambda>bc. loop cb b (put_ctxt b bc s)))))) = Some s'"
  show "work_spec dmap p cb b s s'"
  proof (intro allI impI)
    fix bc assume cb: "cb = ahci_cb dmap" and rq: "rq_ok s" and irq: "irq_inv s" and p: "p < 32"
      and bp: "pr_bctx (port_of p s) = Some b" and g: "get_ctxt b s = Some bc" and lock: "mutex_lock (bc_mtx bc) = 1"
    have q: "queue_inv bc" "bc_busyq bc = []" using rq_genD [OF rq p bp] g by (auto simp: disk_ok_def)
    have body': "(case blockif_dequeue bc 0 of None \<Rightarrow> None | Some (be, bc) \<Rightarrow> (case be of
         None \<Rightarrow> Some (put_ctxt b bc s)
       | Some i \<Rightarrow> Option.bind (blockif_proc cb b i (put_ctxt b bc s)) (\<lambda>s. Option.bind (get_ctxt b s) (\<lambda>bc.
           Option.bind (blockif_complete bc i) (\<lambda>bc. loop cb b (put_ctxt b bc s)))))) = Some s'"
      using body g by (cases "blockif_dequeue bc 0") simp_all
    show "rq_ok s' \<and> irq_inv s' \<and> (\<exists>bc'. bs_ctxts s' = (bs_ctxts s)[b := bc'] \<and> queue_frame bc bc' \<and> bc_pendq bc' = []) \<and>
      pr_bctx (port_of p s') = Some b \<and> blockif_sc s' = blockif_sc s"
    proof (cases "bc_pendq bc")
      case Nil
      then have "s' = s" using body' put_same [OF g] by (simp add: dequeue_empty)
      moreover have "bs_ctxts s = (bs_ctxts s)[b := bc]" using g by (auto simp: get_ctxt_Some)
      ultimately show ?thesis using rq irq bp Nil queue_frame_refl by blast
    next
      case (Cons i "is")
      show ?thesis
      proof (rule thr_rounds [where bc = bc and b = b and s = s and cb = cb and loop = loop and s' = s', OF body'])
        fix bc1 assume "blockif_dequeue bc 0 = Some (None, bc1)"
        with dequeue_head [OF q Cons, of 0] show ?thesis by auto
      next
        fix j bc1 s1 bc2 bc3
        assume r: "blockif_dequeue bc 0 = Some (Some j, bc1)" "blockif_proc cb b j (put_ctxt b bc1 s) = Some s1"
          "get_ctxt b s1 = Some bc2" "blockif_complete bc2 j = Some bc3" "loop cb b (put_ctxt b bc3 s1) = Some s'"
        from work_round [OF rq irq p bp g lock Cons r(1) r(2) [unfolded cb] r(3,4)] have
          w: "rq_ok (put_ctxt b bc3 s1)" "irq_inv (put_ctxt b bc3 s1)" "bs_ctxts (put_ctxt b bc3 s1) = (bs_ctxts s)[b := bc3]"
            "queue_frame bc bc3" "pr_bctx (port_of p (put_ctxt b bc3 s1)) = Some b" "blockif_sc s1 = blockif_sc s" by simp_all
        have "get_ctxt b (put_ctxt b bc3 s1) = Some bc3" using g unfolding get_ctxt_Some w(3) by simp
        moreover have "mutex_lock (bc_mtx bc3) = 1" using lock frame_fields [OF w(4)] by simp
        ultimately have "rq_ok s' \<and> irq_inv s' \<and> (\<exists>bc'. bs_ctxts s' = (bs_ctxts (put_ctxt b bc3 s1))[b := bc'] \<and>
            queue_frame bc3 bc' \<and> bc_pendq bc' = []) \<and> pr_bctx (port_of p s') = Some b \<and> blockif_sc s' = blockif_sc s1"
          using IH [OF r(5)] cb w(1,2,5) p by (metis put_list(2))
        then show ?thesis unfolding w(3) using queue_frame_trans [OF w(4)] w(6) by auto
      qed
    qed
  qed
qed

end
