(* ===== verification/AhciStart.thy ===== *)
theory AhciStart
  imports AhciWork
begin

text \<open>
  The start of the disk controller establishes the invariant, and a run of the worker keeps it.
\<close>

section \<open>A run of the worker\<close>

lemma thr_ok_ahci:
  assumes run: "blockif_thr (ahci_cb dmap) s = Some s'" and ok: "ahci_ok s"
  shows "ahci_ok s' \<and> blockif_sc s' = blockif_sc s \<and> (\<forall>b p. blockif_sc s = Some (Some b) \<longrightarrow> p < 32 \<longrightarrow> pr_bctx (port_of p s) = Some b \<longrightarrow>
    pr_bctx (port_of p s') = Some b \<and> (\<exists>bc. get_ctxt b s' = Some bc \<and> bc_pendq bc = []))"
proof (cases "blockif_sc s")
  case None
  with run ok show ?thesis by (auto simp: blockif_thr_def)
next
  case (Some ptr)
  then obtain b where sc: "blockif_sc s = Some (Some b)" using run by (cases ptr) (auto simp: blockif_thr_def)
  have rq: "rq_ok s" "irq_inv s" "disks_free s" using ok by (simp_all add: ahci_ok_def)
  obtain p where p: "p < 32" "pr_bctx (port_of p s) = Some b" using rq(1) sc unfolding rq_gen_def by blast
  have unique: "q = p" if "q < 32" "pr_bctx (port_of q s) = Some b" for q
    using rq(1) p that unfolding rq_gen_def by (metis option.distinct(1))
  obtain bc where g: "get_ctxt b s = Some bc" and d: "disk_ok {#} p (port_of p s) bc" using rq_genD [OF rq(1) p] by blast
  have free: "mutex_free (bc_mtx bc)" using rq(3) g by (simp add: disks_free_def)
  have b: "b < length (bs_ctxts s)" using g by (simp add: get_ctxt_Some)
  let ?bc = "bc\<lparr>bc_mtx := (bc_mtx bc)\<lparr>mutex_lock := 1\<rparr>\<rparr>"
  let ?s = "put_ctxt b ?bc s"
  have lock: "lock_bc b s = Some ?s" using g free by (simp add: lock_bc_def pthread_mutex_lock_def)
  then obtain s1 where s1: "thr_loop (ahci_cb dmap) b ?s = Some s1" "unlock_bc b s1 = Some s'"
    using run sc by (auto simp: blockif_thr_def bind_eq_Some_conv)
  have "disk_ok {#} p (port_of p s) ?bc" using d by (simp add: disk_ok_def)
  then have rq': "rq_ok ?s" by (intro rq_put_ctxt [OF rq(1) p]) simp_all
  have "get_ctxt b ?s = Some ?bc" "irq_inv ?s" "pr_bctx (port_of p ?s) = Some b" using b rq(2) p(2) by simp_all
  with work_loop [OF s1(1), of dmap p] rq' p obtain bc1 where
    w: "rq_ok s1" "irq_inv s1" "bs_ctxts s1 = (bs_ctxts ?s)[b := bc1]" "queue_frame ?bc bc1" "bc_pendq bc1 = []"
      "pr_bctx (port_of p s1) = Some b" "blockif_sc s1 = blockif_sc s" by auto
  have g1: "get_ctxt b s1 = Some bc1" using b w(3) by (simp add: get_ctxt_def)
  let ?bc' = "bc1\<lparr>bc_mtx := (bc_mtx bc1)\<lparr>mutex_lock := 0\<rparr>\<rparr>"
  have s': "s' = put_ctxt b ?bc' s1" using s1(2) g1 by (auto simp: unlock_bc_def bind_eq_Some_conv)
  have "rq_ok s'" unfolding s'
    by (rule rq_put_ctxt [OF w(1) p(1) w(6)]) (simp_all add: disk_ok_def g1)
  moreover have "irq_inv s'" using w(2) by (simp add: s')
  moreover have "disks_free s'"
  proof -
    have "bs_ctxts s' = (bs_ctxts s)[b := ?bc']" by (simp add: s' w(3))
    moreover have "disks_free (put_ctxt b ?bc' s)" using rq(3) by (rule disks_free_put) simp
    ultimately show ?thesis using disks_free_cong [of s' "put_ctxt b ?bc' s"] by simp
  qed
  moreover have "pr_bctx (port_of p s') = Some b" "get_ctxt b s' = Some ?bc'"
    using w(6) g1 by (simp_all add: s' get_ctxt_Some)
  moreover have "blockif_sc s' = blockif_sc s" using w(7) by (simp add: s')
  ultimately show ?thesis using sc unique w(5) by (auto simp: ahci_ok_def)
qed

section \<open>Start\<close>

text \<open>The state while the ports are set up: the ports from \<open>p\<close> on are untouched.\<close>

definition start_inv :: "nat \<Rightarrow> ahci_rq blockif_state \<Rightarrow> pci_ahci_softc \<Rightarrow> bool" where
  "start_inv p w sc \<longleftrightarrow> rq_ok (with_sc w sc) \<and> disks_free (with_sc w sc) \<and> \<not> asc_lintr sc \<and> asc_ports sc = 0 \<and>
     (\<forall>q. p \<le> q \<longrightarrow> q < 32 \<longrightarrow> asc_port sc ! q = ahci_port_zero) \<and>
     (\<forall>q<32. pr_sc (asc_port sc ! q) \<longrightarrow> pr_port (asc_port sc ! q) = q)"

lemma port_with_sc [simp]: "port_of q (with_sc w sc) = asc_port sc ! q"
  by (simp add: port_of_def with_sc_def)

lemma with_sc_simps [simp]:
  "bs_ctxts (with_sc w sc) = bs_ctxts w" "blockif_sc (with_sc w sc) = blockif_sc w" "ahci_sc (with_sc w sc) = sc"
  "get_ctxt b (with_sc w sc) = get_ctxt b w"
  by (simp_all add: with_sc_def get_ctxt_def)

lemma start_zero:
  "bs_ctxts w = [] \<Longrightarrow> blockif_sc w = None \<Longrightarrow> start_inv 0 w (ahci_softc_zero pi)"
  by (simp add: start_inv_def rq_gen_def disks_free_def ahci_softc_zero_def ahci_port_zero_def get_ctxt_def)

lemma ioreq_init_ok:
  assumes "pr_pending pr = 0"
  shows "port_ok p (pci_ahci_ioreq_init p IOREQS pr)"
  using assms by (auto simp: port_ok_def pci_ahci_ioreq_init_def ioreq_zero_def atLeast0LessThan)

lemma start_disk:
  assumes inv: "start_inv p w sc" and p: "p < 32" and op: "blockif_open physmem ok w = (Some b, w')"
    and pr_def: "pr = (asc_port sc ! p)\<lparr>pr_bctx := Some b, pr_sc := True, pr_port := p, pr_atapi := atapi, pr_ident := ident\<rparr>"
  shows "start_inv (Suc p) w' (sc\<lparr>asc_port := (asc_port sc)[p := pci_ahci_ioreq_init p IOREQS pr], hba_pi := pi\<rparr>)"
proof -
  have rq: "rq_ok (with_sc w sc)" using inv by (simp add: start_inv_def)
  have okb: "ok" using op by (auto simp: blockif_open_def split: if_splits)
  then have op': "blockif_open physmem True w = (Some b, w')" using op by simp
  obtain bc where w': "b = length (bs_ctxts w)" "bs_ctxts w' = bs_ctxts w @ [bc]" "blockif_sc w' = Some (Some b)"
    using op' by (auto simp: blockif_open_def Let_def)
  have g: "get_ctxt b w' = Some bc" using w' by (simp add: get_ctxt_def)
  from open_ok [OF op'] g have bc: "queue_inv bc" "bc_busyq bc = []" "bc_magic bc = BLOCKIF_SIG" "mutex_free (bc_mtx bc)"
    by (auto simp: ctxt_ok_def)
  have pend: "pend_reqs bc = []"
    using op' g by (auto simp: blockif_open_def Let_def get_ctxt_def pend_reqs_def split: if_splits)
  have old: "get_ctxt c w' = get_ctxt c w" if "c < length (bs_ctxts w)" for c
    using that w' by (simp add: get_ctxt_def nth_append)
  have zero: "asc_port sc ! p = ahci_port_zero" using inv p by (simp add: start_inv_def)
  let ?new = "pci_ahci_ioreq_init p IOREQS pr"
  have new: "port_ok p ?new" "pr_bctx ?new = Some b" "pr_iobhd ?new = []" "pr_sc ?new" "pr_port ?new = p"
    using ioreq_init_ok [of pr p] by (simp_all add: pr_def zero ahci_port_zero_def pci_ahci_ioreq_init_def)
  have len: "length (asc_port sc) = 32" using rq by (simp add: rq_gen_def)
  let ?ports = "(asc_port sc)[p := ?new]"
  have fresh: "pr_bctx (asc_port sc ! q) \<noteq> Some b" if "q < 32" for q
  proof
    assume "pr_bctx (asc_port sc ! q) = Some b"
    with rq_genD [OF rq that] obtain bc where "get_ctxt b w = Some bc" by auto
    then show False by (simp add: get_ctxt_def w'(1))
  qed
  have at: "?ports ! q = (if q = p then ?new else asc_port sc ! q)" if "q < 32" for q
    using that len by (simp add: nth_list_update)
  have "rq_ok (with_sc w' (sc\<lparr>asc_port := ?ports, hba_pi := pi\<rparr>))"
    unfolding rq_gen_def
  proof (intro conjI allI impI)
    fix q c assume q: "q < 32" "pr_bctx (port_of q (with_sc w' (sc\<lparr>asc_port := ?ports, hba_pi := pi\<rparr>))) = Some c"
    have both: "port_ok q (?ports ! q) \<and> (\<exists>bc. get_ctxt c w' = Some bc \<and> disk_ok {#} q (?ports ! q) bc)"
    proof (cases "q = p")
      case True
      with q new g bc pend at [OF q(1)] show ?thesis by (auto simp: disk_ok_def)
    next
      case False
      then have c: "pr_bctx (asc_port sc ! q) = Some c" using q at [OF q(1)] by simp
      with rq_genD [OF rq q(1)] obtain bc where "port_ok q (asc_port sc ! q)" "get_ctxt c w = Some bc"
        "disk_ok {#} q (asc_port sc ! q) bc" by auto
      then show ?thesis using old [of c] False at [OF q(1)] by (auto simp: get_ctxt_Some)
    qed
    then show "port_ok q (port_of q (with_sc w' (sc\<lparr>asc_port := ?ports, hba_pi := pi\<rparr>)))" by simp
    from both show "\<exists>bc. get_ctxt c (with_sc w' (sc\<lparr>asc_port := ?ports, hba_pi := pi\<rparr>)) = Some bc \<and>
      disk_ok {#} q (port_of q (with_sc w' (sc\<lparr>asc_port := ?ports, hba_pi := pi\<rparr>))) bc" by simp
  next
    fix q q' assume qs: "q < 32" "q' < 32" "q \<noteq> q'" "pr_bctx (port_of q (with_sc w' (sc\<lparr>asc_port := ?ports, hba_pi := pi\<rparr>))) \<noteq> None"
    have "pr_bctx (asc_port sc ! q) \<noteq> pr_bctx (asc_port sc ! q')" if "pr_bctx (asc_port sc ! q) \<noteq> None"
      using rq qs(1-3) that by (simp add: rq_gen_def)
    then show "pr_bctx (port_of q (with_sc w' (sc\<lparr>asc_port := ?ports, hba_pi := pi\<rparr>))) \<noteq>
        pr_bctx (port_of q' (with_sc w' (sc\<lparr>asc_port := ?ports, hba_pi := pi\<rparr>)))"
      using qs fresh [OF qs(1)] fresh [OF qs(2)] new(2) at [OF qs(1)] at [OF qs(2)] by auto
  next
    fix c assume "blockif_sc (with_sc w' (sc\<lparr>asc_port := ?ports, hba_pi := pi\<rparr>)) = Some (Some c)"
    then show "\<exists>q<32. pr_bctx (port_of q (with_sc w' (sc\<lparr>asc_port := ?ports, hba_pi := pi\<rparr>))) = Some c"
      using w'(3) p new(2) len by (intro exI [of _ p]) simp
  qed (simp add: len)
  moreover have "disks_free (with_sc w' (sc\<lparr>asc_port := ?ports, hba_pi := pi\<rparr>))"
    using inv bc(4) w'(2) by (auto simp: start_inv_def disks_free_def get_ctxt_def nth_append split: if_splits)
  moreover have "?ports ! q = ahci_port_zero" if "Suc p \<le> q" "q < 32" for q
    using that inv at [OF that(2)] by (simp add: start_inv_def)
  moreover have "pr_port (?ports ! q) = q" if "q < 32" "pr_sc (?ports ! q)" for q
    using that inv new at [OF that(1)] by (auto simp: start_inv_def split: if_splits)
  ultimately show ?thesis using inv by (simp add: start_inv_def)
qed

lemma init_ports_ok:
  assumes "init_ports md5 physmem calloc_ok n p opts atapi slots w sc = Some (True, p', slots', w', sc')"
    "start_inv p w sc" "p + n = 32"
  shows "start_inv p' w' sc' \<and> p' \<le> 32"
  using assms
proof (induction md5 physmem calloc_ok n p opts atapi slots w sc rule: init_ports.induct)
  case (3 md5 physmem calloc_ok n p opts atapi slots w sc)
  obtain atapi' opts' nxt where o: "port_opts atapi opts = (atapi', opts', nxt)" by (cases "port_opts atapi opts")
  show ?case
  proof (cases "opts' = []")
    case True
    have "start_inv (Suc p) w sc" using 3(4) by (simp add: start_inv_def)
    with 3 o True show ?thesis by simp
  next
    case False
    with 3(3) o obtain b w1 where op: "blockif_open physmem calloc_ok w = (Some b, w1)"
      by (auto split: prod.splits option.splits)
    then obtain bc where "bs_ctxts w1 = bs_ctxts w @ [bc]" "bc_magic bc = BLOCKIF_SIG" "b = length (bs_ctxts w)"
      by (auto simp: blockif_open_def Let_def split: if_splits)
    then have qsz: "blockif_queuesz b w1 = Some IOREQS"
      by (simp add: blockif_queuesz_def check_magic_def get_ctxt_def)
    have p: "p < 32" using 3(5) by simp
    show ?thesis
      using 3(2) [OF o [symmetric] refl refl False op [symmetric] refl qsz refl refl] 3(3,5) o False op qsz
        start_disk [OF 3(4) p op refl]
      by (simp add: Let_def)
  qed
qed simp_all

text \<open>The rest of the start leaves the disks alone.\<close>

lemma register_mem_more: "register_mem s r = (e, s') \<Longrightarrow> mem_state.more s' = mem_state.more s"
  by (auto simp: register_mem_def register_mem_int_def Let_def split: if_splits option.splits prod.splits)

lemma world_mem: "mem_state.more s' = mem_state.more s \<Longrightarrow> sys_world s' = sys_world (s :: ('a, 'w) pci_sys)"
  by (cases s; cases s') simp

lemma alloc_bar_world: "pci_emul_alloc_bar s pi idx type sz = Some (e, s', pi') \<Longrightarrow> sys_world s' = sys_world (s :: ('a, 'w) pci_sys)"
  by (auto simp: pci_emul_alloc_bar_def pci_emul_alloc_pbar_def register_bar_def modify_bar_registration_def set_base_def
      bind_eq_Some_conv assert_that_bind Let_def
      split: if_splits option.splits pcibar_type.splits bar_base.splits prod.splits dest!: register_mem_more world_mem)

lemma lintr_request_world: "pci_lintr_request s pi = Some (s', pi') \<Longrightarrow> sys_world s' = sys_world s"
  by (auto simp: pci_lintr_request_def upd_slot_def bind_eq_Some_conv assert_that_bind Let_def split: if_splits)

lemma start_ok:
  assumes run: "pci_ahci_init md5 physmem calloc_ok atapi s pi opts = Some (0, s', pi', sc)"
    and fresh: "bs_ctxts (sys_world s) = []" "blockif_sc (sys_world s) = None"
    and line: "caps_fine pi'" "lintr_ok pi'" "\<not> requested pi'" "msi_enabled (pi_msi pi') = 0"
  shows "ahci_ok (with_sc (sys_world s') sc)"
proof -
  from run obtain p slots w sc0 where i: "init_ports md5 physmem calloc_ok MAX_PORTS 0 opts atapi 32 (sys_world s) (ahci_softc_zero pi) =
      Some (True, p, slots, w, sc0)"
    by (auto simp: pci_ahci_init_def bind_eq_Some_conv split: if_splits)
  define ports where "ports = (if p < DEF_PORTS then DEF_PORTS else p)"
  define sc1 where "sc1 = sc0\<lparr>asc_ports := ports,
         hba_cap := 0xff30e020 OR push_bit 8 (of_nat (slots - 1)) OR of_nat (ports - 1),
         hba_vs := 0x10300, hba_cap2 := 0x4\<rparr>"
  from run i obtain st sw where st: "ahci_reset (with_sc w sc1) = Some st" and sc: "sc = (ahci_sc st)\<lparr>asc_pi := pi'\<rparr>"
    and sw: "sys_world s' = blockif_state.truncate st"
    by (auto simp: pci_ahci_init_def bind_eq_Some_conv Let_def sc1_def ports_def dest!: alloc_bar_world lintr_request_world
        split: prod.splits)
  have inv: "start_inv p w sc0" "p \<le> 32" using init_ports_ok [OF i start_zero [OF fresh]] by simp_all
  have ports: "0 < ports" "ports \<le> 32" using inv(2) by (simp_all add: ports_def)
  let ?s1 = "with_sc w sc1"
  have c: "asc_port sc1 = asc_port sc0" "\<not> asc_lintr sc1" "asc_ports sc1 = ports"
    using inv(1) by (simp_all add: sc1_def start_inv_def)
  have rq: "rq_ok (with_sc w sc0)" "disks_free (with_sc w sc0)" using inv(1) by (simp_all add: start_inv_def)
  have len: "length (asc_port sc1) = 32" using rq(1) by (simp add: rq_gen_def c)
  let ?s2 = "upd_sc (\<lambda>sc. sc\<lparr>hba_ghc := AHCI_GHC_AE, hba_is := 0\<rparr>) ?s1"
  have "reset_ports [0..<ports] ?s2 = Some st" using st c(2,3) by (simp add: ahci_reset_def Let_def)
  moreover have "\<forall>i\<in>set [0..<ports]. i < length (asc_port (ahci_sc ?s2))" using len ports(2) by simp
  ultimately have r: "ports_reset (set [0..<ports]) ?s2 st" by (rule reset_ports_run)
  have core: "same_core ?s2 st" using r by (simp add: ports_reset_def)
  let ?f = "with_sc (sys_world s') sc"
  have port: "asc_port sc ! q = port_of q st" "length (asc_port sc) = length (asc_port (ahci_sc st))" for q
    by (simp_all add: sc port_of_def)
  have port2: "port_of q ?s2 = asc_port sc0 ! q" for q by (simp add: port_of_upd_sc c)
  have ctxt: "get_ctxt b (sys_world s') = get_ctxt b st" "blockif_sc (sys_world s') = blockif_sc st" for b
    by (simp_all add: sw get_ctxt_def blockif_state.truncate_def)
  have "rq_ok ?s2" using rq(1) by (simp add: rq_gen_def c port_of_def get_ctxt_def)
  then have "rq_ok st" using rq_core [OF core] by simp
  then have "rq_ok ?f" by (simp add: rq_gen_def port ctxt)
  moreover have "disks_free ?f"
  proof -
    have "bs_ctxts st = bs_ctxts w" using core by (simp add: same_core_def)
    with rq(2) show ?thesis by (simp add: disks_free_def ctxt) (simp add: get_ctxt_def)
  qed
  moreover have "irq_inv ?f"
  proof -
    have "pr_port (port_of q st) = q" if "q < 32" "pr_sc (port_of q st)" for q
      using that same_core_fields(1,2) [OF core, of q] inv(1) by (simp add: port2 start_inv_def)
    moreover have "px_ie (rg q st) = 0" if "q < ports" for q using r that by (simp add: ports_reset_def)
    ultimately show ?thesis
      using line ports reset_sc [OF r] c
      by (auto simp: irq_gen_def Let_def sc port_of_def [of _ st, symmetric])
  qed
  ultimately show ?thesis by (simp add: ahci_ok_def)
qed

end
