(* ===== verification/SystemFrame.thy ===== *)
theory SystemFrame
  imports System AhciStart
begin

text \<open>
  What the accesses of the guest leave alone: a configuration access changes one device instance and
  the registry of memory ranges, an access to a BAR is a call of the driver of one device.
\<close>

section \<open>The bus table\<close>

lemma dev_at_set_dev:
  assumes "dev_at s ref = Some (Some d)"
  shows "dev_at (set_dev s ref d') ref' = (if ref' = ref then Some (Some d') else dev_at s ref')"
proof -
  obtain b f k where ref: "ref = (b, f, k)" by (cases ref) auto
  obtain b' f' k' where ref': "ref' = (b', f', k')" by (cases ref') auto
  obtain bi si fi where at: "businfo_at s b = Some (Some bi)" "slot_of bi f = Some si" "func_of si k = Some fi"
    using assms unfolding ref by (auto simp: dev_at_def bind_eq_Some_conv split: option.splits)
  have len: "b < length (pci_businfo s)" "pci_businfo s ! b = Some bi" "f < length (bi_slotinfo bi)"
    "bi_slotinfo bi ! f = si" "k < length (si_funcs si)"
    using at by (auto simp: businfo_at_def slot_of_def func_of_def split: if_splits)
  show ?thesis
  proof (cases "b' = b")
    case False
    then show ?thesis
      by (auto simp: ref ref' dev_at_def set_dev_def upd_func_def upd_slot_def businfo_at_def)
  next
    case True
    show ?thesis
    proof (cases "f' = f")
      case False
      with True len show ?thesis
        by (auto simp: ref ref' dev_at_def set_dev_def upd_func_def upd_slot_def businfo_at_def slot_of_def)
    next
      case f: True
      with True len show ?thesis
        by (cases "k' = k")
          (auto simp: ref ref' dev_at_def set_dev_def upd_func_def upd_slot_def businfo_at_def slot_of_def func_of_def)
    qed
  qed
qed

lemma set_dev_world [simp]: "sys_world (set_dev s ref d) = sys_world s"
  by (cases ref) (simp add: set_dev_def upd_func_def upd_slot_def)

lemma dev_at_cong: "pci_businfo s' = pci_businfo s \<Longrightarrow> dev_at s' ref = dev_at s ref"
  by (cases ref) (simp add: dev_at_def businfo_at_def)

lemma dev_at_simps [simp]:
  "dev_at (s\<lparr>mmio_hint := h\<rparr>) ref = dev_at s ref" "dev_at (s\<lparr>sys_world := w\<rparr>) ref = dev_at s ref"
  by (rule dev_at_cong, simp)+

section \<open>The registry\<close>

lemma unregister_mem_more: "unregister_mem s r = Some (e, s') \<Longrightarrow> mem_state.more s' = mem_state.more s"
  by (auto simp: unregister_mem_def assert_that_bind Let_def split: sum.splits if_splits)

lemma modify_bar_more:
  "modify_bar_registration s pi idx reg = Some s' \<Longrightarrow> mem_state.more s' = mem_state.more s"
proof -
  assume run: "modify_bar_registration s pi idx reg = Some s'"
  let ?b = "pi_bar pi ! idx"
  have *: "mem_state.more t = mem_state.more s"
    if "(if reg then Some (register_mem s (bar_range pi idx ?b)) else unregister_mem s (bar_range pi idx ?b)) = Some (e, t)" for e t
    using that by (cases reg) (simp_all add: register_mem_more unregister_mem_more)
  from run obtain e t where "(case bar_type ?b of
          PCIBAR_IO \<Rightarrow>
            if reg then Some (register_inout (bar_inout pi ?b IOPORT_F_INOUT), s)
            else Some (unregister_inout (bar_inout pi ?b 0), s)
        | PCIBAR_MEM32 \<Rightarrow> if reg then Some (register_mem s (bar_range pi idx ?b)) else unregister_mem s (bar_range pi idx ?b)
        | PCIBAR_MEM64 \<Rightarrow> if reg then Some (register_mem s (bar_range pi idx ?b)) else unregister_mem s (bar_range pi idx ?b)
        | _ \<Rightarrow> Some (EINVAL, s)) = Some (e, t)" "s' = t"
    by (auto simp: modify_bar_registration_def Let_def assert_that_bind split: if_splits elim!: bind_SomeE)
  then show ?thesis using * by (cases "bar_type ?b") (auto split: if_splits)
qed

lemma update_bar_more: "update_bar_address s pi addr idx type = Some (s', pi') \<Longrightarrow> mem_state.more s' = mem_state.more s"
  by (auto simp: update_bar_address_def register_bar_def unregister_bar_def Let_def assert_that_bind
      split: if_splits elim!: bind_SomeE dest!: modify_bar_more)

lemma bar_select_more: "bar_select s pi idx eax = Some (s', pi', bar) \<Longrightarrow> mem_state.more s' = mem_state.more s"
  by (cases "bar_type (pi_bar pi ! idx)")
    (auto simp: bar_select_def Let_def assert_that_bind split: if_splits elim!: bind_SomeE dest: update_bar_more)

lemma bar_write_more: "bar_write s pi coff bytes eax = Some (s', pi') \<Longrightarrow> mem_state.more s' = mem_state.more s"
  by (auto simp: bar_write_def Let_def assert_that_bind split: if_splits elim!: bind_SomeE dest: bar_select_more)

lemma cmdsts_bars_more: "cmdsts_bars s pi changed is = Some s' \<Longrightarrow> mem_state.more s' = mem_state.more s"
proof (induction s pi changed "is" rule: cmdsts_bars.induct)
  case (2 s pi changed i "is")
  have step: "mem_state.more t = mem_state.more s" if "(if b then register_bar s pi i else unregister_bar s pi i) = Some t" for b t
    using that by (cases b) (simp_all add: register_bar_def unregister_bar_def modify_bar_more)
  from 2(2) obtain t where t: "(case bar_type (pi_bar pi ! i) of
          PCIBAR_NONE \<Rightarrow> Some s
        | PCIBAR_MEMHI64 \<Rightarrow> Some s
        | PCIBAR_IO \<Rightarrow>
            if changed AND ucast PCIM_CMD_PORTEN \<noteq> 0 then do {
              en \<leftarrow> porten pi;
              if en then register_bar s pi i else unregister_bar s pi i
            } else Some s
        | _ \<Rightarrow>
            if changed AND ucast PCIM_CMD_MEMEN \<noteq> 0 then do {
              en \<leftarrow> memen pi;
              if en then register_bar s pi i else unregister_bar s pi i
            } else Some s) = Some t" "cmdsts_bars t pi changed is = Some s'"
    unfolding cmdsts_bars.simps by (elim bind_SomeE)
  have "mem_state.more t = mem_state.more s"
    using t(1) step by (cases "bar_type (pi_bar pi ! i)") (auto split: if_splits elim!: bind_SomeE)
  with 2(1) [OF t(1)] t(2) show ?case by simp
qed simp

lemma cfg_write_more: "cfg_write_default s pi coff bytes eax = Some (s', pi') \<Longrightarrow> mem_state.more s' = mem_state.more s"
proof -
  have cmd: "mem_state.more s' = mem_state.more s" if run: "pci_emul_cmdsts_write s pi coff eax bytes = Some (s', pi')"
  proof -
    from run obtain pi1 ch where "cmdsts_bars s pi1 ch [0..<PCI_BARMAX + 1] = Some s'"
      by (auto simp: pci_emul_cmdsts_write_def Let_def assert_that_bind split: if_splits elim!: bind_SomeE)
    then show ?thesis by (rule cmdsts_bars_more)
  qed
  assume "cfg_write_default s pi coff bytes eax = Some (s', pi')"
  then show ?thesis
    by (auto simp: cfg_write_default_def split: if_splits elim!: bind_SomeE dest: bar_write_more cmd)
qed

lemma cfg_write_world:
  assumes "cfg_write_default s pi coff bytes eax = Some (s', pi')"
  shows "sys_world s' = sys_world (s :: ('a, 'w) pci_sys)" "pci_businfo s' = pci_businfo s"
  using cfg_write_more [OF assms] by (cases s; cases s'; simp)+

section \<open>The line under configuration writes\<close>

text \<open>A configuration write may move the line between pending and asserted, which is no request.\<close>

lemma CFGWRITE_requested: "CFGWRITE pi coff val bytes = Some pi' \<Longrightarrow> requested pi' = requested pi"
  by (auto simp: CFGWRITE_def pci_set_cfgdata8_def pci_set_cfgdata16_def pci_set_cfgdata32_def requested_def
      assert_that_bind split: if_splits)

lemma lintr_update_requested: "pci_lintr_update pi = Some pi' \<Longrightarrow> requested pi' = requested pi"
  by (auto simp: pci_lintr_update_def lock_lintr_def unlock_lintr_def requested_def
      pci_irq_assert_def pci_irq_deassert_def assert_that_bind Let_def split: if_splits elim!: bind_SomeE)

lemma capwrite_requested:
  assumes "pci_emul_capwrite pi offset bytes val = Some pi'"
  shows "requested pi' = requested pi"
proof -
  have msi: "requested p' = requested p" if "msicap_cfgwrite p c off b v = Some p'" for p p' c off b v
    using that by (auto simp: msicap_cfgwrite_def Let_def requested_def split: if_splits elim!: bind_SomeE
        dest!: lintr_update_requested CFGWRITE_requested)
  have msix: "requested p' = requested p" if "msixcap_cfgwrite p c off b v = Some p'" for p p' c off b v
    using that by (auto simp: msixcap_cfgwrite_def Let_def requested_def split: if_splits elim!: bind_SomeE
        dest!: lintr_update_requested CFGWRITE_requested)
  from assms show ?thesis
    by (auto simp: pci_emul_capwrite_def pciecap_cfgwrite_def Let_def assert_that_bind split: if_splits elim!: bind_SomeE
        dest!: msi msix CFGWRITE_requested)
qed

lemma cfg_write_requested:
  assumes "cfg_write_default s pi coff bytes eax = Some (s', pi')"
  shows "requested pi' = requested pi"
proof -
  have bar: "requested pi' = requested pi" if "bar_write s pi coff bytes eax = Some (s', pi')"
    using that
  proof (cases rule: bar_write_cases)
    case (written pi1 v)
    then show ?thesis
      by (auto simp: bar_frame_def pci_set_cfgdata32_def requested_def assert_that_bind split: if_splits)
  qed simp
  have cmd: "requested pi' = requested pi" if run: "pci_emul_cmdsts_write s pi coff eax bytes = Some (s', pi')"
  proof -
    from run obtain pi1 v where "CFGWRITE pi coff v bytes = Some pi1" "pci_lintr_update pi1 = Some pi'"
      by (auto simp: pci_emul_cmdsts_write_def Let_def assert_that_bind split: if_splits elim!: bind_SomeE)
    then show ?thesis using CFGWRITE_requested lintr_update_requested by simp
  qed
  from assms bar cmd show ?thesis
    by (auto simp: cfg_write_default_def split: if_splits elim!: bind_SomeE dest!: capwrite_requested CFGWRITE_requested)
qed

end
