(* ===== verification/AhciIov.thy ===== *)
theory AhciIov
  imports AhciDev BlockIfDisk
begin

text \<open>
  Scatter/gather vectors of the disk controller: the addresses that the table of the guest
  describes, one after the other, and the addresses of the vectors that a transfer uses.
\<close>

section \<open>Address streams\<close>

text \<open>The direct map of the operating system adds a constant.\<close>

definition direct_map :: "(u64 \<Rightarrow> u64) \<Rightarrow> bool" where
  "direct_map dmap \<longleftrightarrow> (\<forall>a k. dmap (a + k) = dmap a + k)"

definition addrs :: "u64 \<Rightarrow> nat \<Rightarrow> u64 list" where
  "addrs a n = map (\<lambda>k. a + of_nat k) [0..<n]"

lemma length_addrs [simp]: "length (addrs a n) = n"
  by (simp add: addrs_def)

lemma addrs_0 [simp]: "addrs a 0 = []"
  by (simp add: addrs_def)

lemma addrs_nth: "i < n \<Longrightarrow> addrs a n ! i = a + of_nat i"
  by (simp add: addrs_def)

lemma take_addrs: "take k (addrs a n) = addrs a (min k n)"
  by (rule nth_equalityI) (auto simp: addrs_nth)

lemma drop_addrs: "drop k (addrs a n) = addrs (a + of_nat k) (n - k)"
  by (rule nth_equalityI) (auto simp: addrs_nth add.assoc)

text \<open>What the guest describes from entry \<open>i\<close> on, and what a list of vectors describes.\<close>

fun prdt_addrs :: "(u64 \<Rightarrow> u64) \<Rightarrow> host_memory \<Rightarrow> u64 \<Rightarrow> nat \<Rightarrow> nat \<Rightarrow> u64 list" where
  "prdt_addrs dmap m cfis i 0 = []"
| "prdt_addrs dmap m cfis i (Suc n) =
     addrs (dmap (prdt_dba m (prdt_entry cfis i))) (prdt_size m (prdt_entry cfis i)) @
     prdt_addrs dmap m cfis (Suc i) n"

fun iov_addrs :: "iovec list \<Rightarrow> u64 list" where
  "iov_addrs [] = []"
| "iov_addrs (v # vs) = (case iov_base v of Host a \<Rightarrow> addrs a (iov_len v) | Hdr _ \<Rightarrow> []) @ iov_addrs vs"

lemma iov_addrs_append [simp]: "iov_addrs (vs @ ws) = iov_addrs vs @ iov_addrs ws"
  by (induction vs) simp_all

lemma length_iov_addrs: "host_iov vs \<Longrightarrow> length (iov_addrs vs) = iov_total vs"
  by (induction vs) auto

lemma prdt_size_pos: "0 < prdt_size m e"
proof -
  have "unat (mem_get32 m (e + 12) AND 0x3fffff) < 2 ^ 22"
    using unat_drop_bit_and_mask [of 0 "mem_get32 m (e + 12)" 22] by (simp add: mask_eq_exp_minus_1)
  then have "unat (mem_get32 m (e + 12) AND 0x3fffff) + 1 < 2 ^ 32" by simp
  then show ?thesis
    unfolding prdt_size_def by (subst unat_add_lem [THEN iffD1]) simp_all
qed

lemma sint_small: "x < 0x80000000 \<Longrightarrow> sint (x :: u32) = int (unat x)"
  using signed_take_bit_int_eq_self [of 31 "uint x"] uint_ge_0 [of x]
  by (simp add: sint_uint word_less_def del: uint_ge_0 unsigned_greater_eq)

lemma host_iov_append [simp]: "host_iov (vs @ ws) \<longleftrightarrow> host_iov vs \<and> host_iov ws"
  by (auto simp: host_iov_def)

section \<open>The loop over the table\<close>

text \<open>What the loop adds: a piece of the stream, all that is wanted and there unless it is limited.\<close>

definition loop_result ::
  "u64 list \<Rightarrow> nat \<Rightarrow> int \<Rightarrow> iovec list \<Rightarrow> nat \<Rightarrow> iovec list \<Rightarrow> nat \<Rightarrow> bool" where
  "loop_result stream skip left iov todo iov' todo' \<longleftrightarrow> (\<exists>new. iov' = iov @ new \<and> host_iov new \<and>
     (\<forall>v\<in>set new. 0 < iov_len v) \<and> todo' = todo + iov_total new \<and> int (iov_total new) \<le> max 0 left \<and>
     iov_addrs new = take (iov_total new) (drop skip stream) \<and>
     (length iov \<le> BLOCKIF_IOV_MAX \<longrightarrow> length iov' \<le> BLOCKIF_IOV_MAX) \<and>
     (length iov' < BLOCKIF_IOV_MAX \<longrightarrow> iov_total new = min (nat left) (length stream - skip)))"

lemma loop_result_stop:
  assumes "\<not> (length iov < BLOCKIF_IOV_MAX \<and> 0 < left) \<or> stream = []"
  shows "loop_result stream skip left iov todo iov todo"
  unfolding loop_result_def by (rule exI [of _ "[]"]) (use assms in auto)

lemma prdt_loop_ok:
  assumes "direct_map dmap" "prdt_loop dmap m cfis i n skip iov todo left = (i', iov', todo')"
  shows "loop_result (prdt_addrs dmap m cfis i n) skip left iov todo iov' todo'"
  using assms(2)
proof (induction n arbitrary: i skip iov todo left)
  case 0
  then show ?case by (simp add: loop_result_stop)
next
  case (Suc n)
  let ?e = "prdt_entry cfis i"
  let ?size = "prdt_size m ?e" and ?dba = "prdt_dba m ?e"
  let ?rest = "prdt_addrs dmap m cfis (Suc i) n"
  consider "\<not> (length iov < BLOCKIF_IOV_MAX \<and> 0 < left)"
    | "length iov < BLOCKIF_IOV_MAX" "0 < left" "?size \<le> skip"
    | "length iov < BLOCKIF_IOV_MAX" "0 < left" "skip < ?size" by linarith
  then show ?case
  proof cases
    case 1
    with Suc.prems show ?thesis by (simp add: loop_result_stop)
  next
    case 2
    with Suc.prems have "prdt_loop dmap m cfis (Suc i) n (skip - ?size) iov todo left = (i', iov', todo')"
      by (simp add: Let_def)
    from Suc.IH [OF this] 2(3) show ?thesis by (simp add: loop_result_def add.commute)
  next
    case 3
    define k where "k = min (?size - skip) (nat left)"
    define v where "v = \<lparr>iov_base = Host (dmap (?dba + of_nat skip)), iov_len = k\<rparr>"
    have k: "0 < k" "int k \<le> left" "k \<le> ?size - skip" using 3 by (auto simp: k_def)
    have "prdt_loop dmap m cfis (Suc i) n 0 (iov @ [v]) (todo + k) (left - int k) = (i', iov', todo')"
      using Suc.prems 3 by (simp add: Let_def k_def v_def paddr_guest2host_def)
    from Suc.IH [OF this] obtain new where new: "iov' = (iov @ [v]) @ new" "host_iov new" "\<forall>v\<in>set new. 0 < iov_len v"
      "todo' = todo + k + iov_total new" "int (iov_total new) \<le> max 0 (left - int k)"
      "iov_addrs new = take (iov_total new) ?rest"
      "length (iov @ [v]) \<le> BLOCKIF_IOV_MAX \<longrightarrow> length iov' \<le> BLOCKIF_IOV_MAX"
      "length iov' < BLOCKIF_IOV_MAX \<longrightarrow> iov_total new = min (nat (left - int k)) (length ?rest)"
      unfolding loop_result_def by auto
    have dm: "dmap (?dba + of_nat skip) = dmap ?dba + of_nat skip"
      using assms(1) by (simp add: direct_map_def)
    have full: "k = ?size - skip" if "0 < iov_total new"
      using that new(5) 3 by (auto simp: k_def)
    have piece: "iov_addrs (v # new) = take (iov_total (v # new)) (drop skip (addrs (dmap ?dba) ?size @ ?rest))"
    proof (cases "0 < iov_total new")
      case True
      with full show ?thesis
        using 3 dm new(6) by (simp add: v_def drop_addrs take_addrs)
    next
      case False
      then have z0: "iov_total new = 0" by linarith
      have z: "iov_addrs new = []" "iov_total (v # new) = k"
        by (simp only: new(6) z0 take_0) (simp only: list.map sum_list.Cons z0, simp add: v_def)
      then show ?thesis unfolding z(2) using 3 k dm z(1) by (simp add: v_def drop_addrs take_addrs)
    qed
    have all: "iov_total (v # new) = min (nat left) (length (addrs (dmap ?dba) ?size @ ?rest) - skip)"
      if "length iov' < BLOCKIF_IOV_MAX"
    proof -
      have "iov_total new = min (nat (left - int k)) (length ?rest)" using new(8) that by blast
      moreover have "iov_total (v # new) = k + iov_total new" by (simp add: v_def)
      ultimately show ?thesis using 3 by (simp add: k_def) linarith
    qed
    have "int (iov_total (v # new)) \<le> max 0 left" using new(5) k by (simp add: v_def)
    moreover have "host_iov (v # new)" "\<forall>w\<in>set (v # new). 0 < iov_len w" using new(2,3) k by (simp_all add: v_def)
    ultimately show ?thesis
      unfolding loop_result_def prdt_addrs.simps
      by (intro exI [of _ "v # new"]) (use new(1,4,7) piece all 3 in \<open>auto simp: v_def\<close>)
  qed
qed

section \<open>Rounding down\<close>

lemma trim_iov_ok:
  assumes "trim_iov vs n = Some ws" "host_iov vs" "n \<le> iov_total vs"
  shows "host_iov ws \<and> iov_total ws = iov_total vs - n \<and> length ws \<le> length vs \<and>
    iov_addrs (rev ws) = take (iov_total vs - n) (iov_addrs (rev vs))"
  using assms
proof (induction vs n rule: trim_iov.induct)
  case (1 vs)
  have "length (iov_addrs (rev vs)) = iov_total vs"
    using length_iov_addrs [of "rev vs"] 1(2) by (simp add: rev_map [symmetric] host_iov_def)
  with 1 show ?case by simp
next
  case (3 v vs n)
  obtain a where a: "iov_base v = Host a" using 3(3) by auto
  have len: "length (iov_addrs (rev vs)) = iov_total vs"
    using length_iov_addrs [of "rev vs"] 3(3) by (simp add: rev_map [symmetric] host_iov_def)
  show ?case
  proof (cases "Suc n < iov_len v")
    case True
    with 3(2) have ws: "ws = v\<lparr>iov_len := iov_len v - Suc n\<rparr> # vs" by simp
    have "iov_total (v # vs) - Suc n = iov_total vs + (iov_len v - Suc n)" using True by simp
    with True 3(3) a len show ?thesis unfolding ws by (simp add: take_addrs)
  next
    case False
    with 3(2) have "trim_iov vs (Suc n - iov_len v) = Some ws" by simp
    from 3(1) [OF False this] 3(3,4) False have IH: "host_iov ws" "iov_total ws = iov_total vs - (Suc n - iov_len v)"
      "length ws \<le> length vs" "iov_addrs (rev ws) = take (iov_total vs - (Suc n - iov_len v)) (iov_addrs (rev vs))" by auto
    have "iov_total (v # vs) - Suc n = iov_total vs - (Suc n - iov_len v)" using False by simp
    with IH False len show ?thesis by simp
  qed
qed simp

lemma trim_iov_total: "n \<le> iov_total vs \<Longrightarrow> trim_iov vs n \<noteq> None"
  by (induction vs n rule: trim_iov.induct) auto

section \<open>The vectors of a transfer\<close>

lemma iov_total_rev [simp]: "iov_total (rev vs) = iov_total vs"
  by (simp add: rev_map [symmetric])

lemma host_iov_rev [simp]: "host_iov (rev vs) = host_iov vs"
  by (simp add: host_iov_def)

lemma ahci_iov_ok:
  assumes dm: "direct_map dmap" and run: "ahci_iov dmap m cfis prdtl (Some 512) len done = Some (i, iov, todo)"
    and le: "done \<le> len" and small: "len < 0x80000000"
  defines "stream \<equiv> prdt_addrs dmap m cfis 0 prdtl"
  shows "host_iov iov \<and> length iov \<le> BLOCKIF_IOV_MAX \<and> iov_total iov = todo \<and> todo \<le> unat len - unat done \<and>
    iov_addrs iov = take todo (drop (unat done) stream) \<and>
    (todo = min (unat len - unat done) (length stream - unat done) \<or> 512 dvd todo \<and> 0 < todo)"
proof -
  obtain i1 iov1 todo1 where l: "prdt_loop dmap m cfis 0 prdtl (unat done) [] 0 (sint (len - done)) = (i1, iov1, todo1)"
    by (cases "prdt_loop dmap m cfis 0 prdtl (unat done) [] 0 (sint (len - done))")
  have "unat (len - done) = unat len - unat done" using le by (rule unat_sub)
  moreover have "len - done < 0x80000000"
    using small le by (metis word_le_less_eq word_sub_le order_le_less_trans)
  ultimately have left: "sint (len - done) = int (unat len - unat done)"
    by (simp add: sint_small)
  from prdt_loop_ok [OF dm l] obtain new where new: "iov1 = new" "host_iov iov1" "todo1 = iov_total iov1"
    "iov_total iov1 \<le> unat len - unat done" "iov_addrs iov1 = take todo1 (drop (unat done) stream)" "length iov1 \<le> BLOCKIF_IOV_MAX"
    "length iov1 < BLOCKIF_IOV_MAX \<longrightarrow> todo1 = min (unat len - unat done) (length stream - unat done)"
    unfolding loop_result_def stream_def left by auto
  show ?thesis
  proof (cases "length iov1 = BLOCKIF_IOV_MAX")
    case False
    then have "i = i1" "iov = iov1" "todo = todo1" using run l by (simp_all add: ahci_iov_def)
    with new False show ?thesis by simp
  next
    case True
    let ?x = "todo1 mod 512"
    from run l True obtain ws where ws: "0 < todo1 - ?x" "trim_iov (rev iov1) ?x = Some ws" "iov = rev ws" "todo = todo1 - ?x"
      by (auto simp: ahci_iov_def res_simps)
    have "?x \<le> iov_total (rev iov1)" using new(3) by simp
    from trim_iov_ok [OF ws(2) _ this] new(2,3) have
      t: "host_iov ws" "iov_total ws = todo" "length ws \<le> length iov1" "iov_addrs (rev ws) = take todo (iov_addrs iov1)"
      by (simp_all add: ws(4))
    have "512 dvd todo" unfolding ws(4) by (rule dvd_minus_mod)
    moreover have "todo \<le> todo1" by (simp add: ws(4))
    ultimately show ?thesis using t new ws(1,3,4) by (auto simp: take_take min_def)
  qed
qed

lemma build_iov_exact:
  assumes dm: "direct_map dmap" and run: "ahci_build_iov dmap p cfis prdtl aior s = Some aior'"
    and sect: "port_sectsz p s = Some 512" and le: "io_done aior \<le> io_len aior" and small: "io_len aior < 0x80000000"
  defines "stream \<equiv> prdt_addrs dmap (bs_mem s) cfis 0 prdtl" and "vs \<equiv> br_iov (io_req aior')"
  shows "host_iov vs \<and> length vs \<le> BLOCKIF_IOV_MAX \<and> br_resid (io_req aior') = int (iov_total vs) \<and>
    br_offset (io_req aior') = br_offset (io_req aior) \<and>
    iov_addrs vs = take (iov_total vs) (drop (unat (io_done aior)) stream) \<and>
    unat (io_done aior') = unat (io_done aior) + iov_total vs \<and> io_done aior' \<le> io_len aior \<and>
    (iov_total vs = min (unat (io_len aior) - unat (io_done aior)) (length stream - unat (io_done aior)) \<or>
     512 dvd iov_total vs \<and> 0 < iov_total vs)"
proof -
  from run obtain i iov todo where i: "ahci_iov dmap (bs_mem s) cfis prdtl (Some 512) (io_len aior) (io_done aior) = Some (i, iov, todo)"
    and aior': "br_iov (io_req aior') = iov" "br_resid (io_req aior') = int todo" "io_done aior' = io_done aior + of_nat todo"
      "br_offset (io_req aior') = br_offset (io_req aior)"
    by (auto simp: ahci_build_iov_def sect bind_eq_Some_conv Let_def)
  note r = ahci_iov_ok [OF dm i le small, folded stream_def]
  have "todo \<le> unat (io_len aior) - unat (io_done aior)" using r by blast
  moreover have len: "unat (io_done aior) \<le> unat (io_len aior)" using le by (simp add: word_le_nat_alt)
  ultimately have bound: "unat (io_done aior) + todo \<le> unat (io_len aior)" by simp
  moreover have "unat (io_len aior) < 2 ^ 32" using unsigned_less [of "io_len aior"] by simp
  ultimately have "unat (io_done aior) + todo < 2 ^ 32" by linarith
  then have done': "unat (io_done aior') = unat (io_done aior) + todo"
    unfolding aior'(3) by (simp add: unat_word_ariths unat_of_nat)
  then have "io_done aior' \<le> io_len aior" using bound by (simp add: word_le_nat_alt)
  with r aior' done' show ?thesis unfolding vs_def by auto
qed

section \<open>Regions as addresses\<close>

lemma set_addrs: "set (addrs a n) = region a n"
  by (auto simp: addrs_def region_def)

lemma iov_region_addrs: "host_iov vs \<Longrightarrow> iov_region vs = set (iov_addrs vs)"
  by (induction vs) (auto simp: set_addrs)

lemma host_bytes_addrs: "host_iov vs \<Longrightarrow> host_bytes m vs = map m (iov_addrs vs)"
  by (induction vs) (auto simp: addrs_def mem_bytes_def)

lemma distinct_iov_disjoint: "host_iov vs \<Longrightarrow> distinct (iov_addrs vs) \<Longrightarrow> iov_disjoint vs"
proof (induction vs)
  case (Cons v vs)
  then obtain a where "iov_base v = Host a" by auto
  with Cons show ?case by (simp add: iov_region_addrs set_addrs)
qed simp

end
