(* ===== verification/AhciProps.thy ===== *)
theory AhciProps
  imports AhciStart AhciIov
begin

text \<open>
  The properties of the disk controller: its requests and its interrupts in every history, the end
  of commands, the vectors of a transfer, and the accesses with which a guest stops the model.
\<close>

section \<open>Histories\<close>

text \<open>
  Register accesses of the guest, writes of the guest to its memory, and runs of the worker of the
  disk, in any order.
\<close>

inductive ctl_step :: "(u64 \<Rightarrow> u64) \<Rightarrow> ahci_state \<Rightarrow> ahci_state \<Rightarrow> bool" for dmap where
  ctl_write: "pci_ahci_write dmap baridx offset sz value s = Some s' \<Longrightarrow> ctl_step dmap s s'"
| ctl_read: "pci_ahci_read baridx offset sz s = Some (value, s') \<Longrightarrow> ctl_step dmap s s'"
| ctl_memory: "ctl_step dmap s (s\<lparr>bs_mem := m\<rparr>)"
| ctl_work: "blockif_thr (ahci_cb dmap) s = Some s' \<Longrightarrow> ctl_step dmap s s'"

inductive_cases ctl_stepE: "ctl_step dmap s s'"

lemma ctl_step_ok: "ctl_step dmap s s' \<Longrightarrow> ahci_ok s \<Longrightarrow> ahci_ok s'"
  by (erule ctl_stepE)
    (auto intro: ahci_write_ok ahci_read_ok calm_ok [OF calm_set_mem [OF calm_refl]] dest: thr_ok_ahci)

lemma ctl_steps_ok: "(ctl_step dmap)\<^sup>*\<^sup>* s s' \<Longrightarrow> ahci_ok s \<Longrightarrow> ahci_ok s'"
  by (induction rule: rtranclp_induct) (auto intro: ctl_step_ok)

lemma few_busy:
  assumes "port_ok p pr"
  shows "length (pr_iobhd pr) \<le> 32"
proof -
  have "distinct (map (req_slot pr) (pr_iobhd pr))" "set (map (req_slot pr) (pr_iobhd pr)) \<subseteq> {..<32}"
    using assms by (auto simp: port_ok_def)
  then have "length (map (req_slot pr) (pr_iobhd pr)) \<le> card {..<32::nat}"
    by (metis card_mono distinct_card finite_lessThan)
  then show ?thesis by simp
qed

text \<open>C6. No request of the disk controller is lost or forged, in any history of register accesses,
memory writes of the guest and runs of the disk. Every port with a disk owns 71 request elements, each
on exactly one of its lists; the commands in flight are the slots of the busy ones, no slot twice; the
queue of the disk holds exactly the busy requests; and for a further command there are a free element
and a place in the queue, so that the assertions of the code about them hold.\<close>

theorem controller_requests_conserved:
  assumes "ahci_ok s" "(ctl_step dmap)\<^sup>*\<^sup>* s s'" "p < 32" "pr_bctx (port_of p s') = Some b"
  defines "pr \<equiv> port_of p s'"
  shows "distinct (pr_iofhd pr @ pr_iobhd pr) \<and> set (pr_iofhd pr @ pr_iobhd pr) = {..<IOREQS} \<and>
    distinct (map (req_slot pr) (pr_iobhd pr)) \<and>
    {i. i < 32 \<and> bit (pr_pending pr) i} = req_slot pr ` set (pr_iobhd pr) \<and>
    (\<exists>bc. get_ctxt b s' = Some bc \<and> queue_inv bc \<and>
       mset (pend_params bc) = mset (map (Pair p) (pr_iobhd pr)) \<and> bc_freeq bc \<noteq> []) \<and> pr_iofhd pr \<noteq> []"
proof -
  have ok: "ahci_ok s'" using ctl_steps_ok assms(1,2) by blast
  then have "rq_ok s'" by (simp add: ahci_ok_def)
  from rq_genD [OF this assms(3,4)] obtain bc where bc: "port_ok p pr" "get_ctxt b s' = Some bc" "disk_ok {#} p pr bc"
    unfolding pr_def by blast
  have busy: "length (pr_iobhd pr) \<le> 32" using bc(1) by (rule few_busy)
  have q: "queue_inv bc" "bc_busyq bc = []" "mset (pend_params bc) = mset (map (Pair p) (pr_iobhd pr))"
    using bc(3) by (simp_all add: disk_ok_def)
  then have "length (pend_params bc) = length (pr_iobhd pr)" by (metis length_map size_mset)
  then have "length (bc_pendq bc) \<le> 32" using busy by (simp add: pend_reqs_def)
  moreover have "length (bc_freeq bc @ bc_pendq bc) = BLOCKIF_MAXREQ"
    using q distinct_card [of "bc_freeq bc @ bc_pendq bc"] by (simp add: queue_inv_def)
  ultimately have "bc_freeq bc \<noteq> []" by auto
  moreover have "length (pr_iofhd pr @ pr_iobhd pr) = IOREQS"
    using bc(1) distinct_card [of "pr_iofhd pr @ pr_iobhd pr"] by (simp add: port_ok_def)
  then have "pr_iofhd pr \<noteq> []" using busy by auto
  moreover have "{i. i < 32 \<and> bit (pr_pending pr) i} = req_slot pr ` set (pr_iobhd pr)"
    using bc(1) by (auto simp: port_ok_def)
  ultimately show ?thesis using bc(1,2) q unfolding port_ok_def by blast
qed

text \<open>C13. With legacy interrupts the interrupts of the disk controller agree with its registers in every
history: its line is requested exactly when the global status has a bit and interrupts are enabled,
every port with an enabled cause has its bit in the global status, and the interrupt is signalled
exactly when the guest permits it.\<close>

theorem controller_interrupts_exact:
  assumes "ahci_ok s" "(ctl_step dmap)\<^sup>*\<^sup>* s s'"
  defines "sc \<equiv> ahci_sc s'"
  shows "(requested (asc_pi sc) \<longleftrightarrow> hba_is sc \<noteq> 0 \<and> hba_ghc sc AND AHCI_GHC_IE \<noteq> 0) \<and>
    (signalled (asc_pi sc) \<longleftrightarrow> requested (asc_pi sc) \<and> permitted (asc_pi sc)) \<and>
    (\<forall>q<asc_ports sc. px_is (rg q s') AND px_ie (rg q s') \<noteq> 0 \<longrightarrow> bit (hba_is sc) q)"
  using ctl_steps_ok [OF assms(2,1)] by (auto simp: ahci_ok_def irq_gen_def Let_def sc_def lintr_ok_def)


section \<open>The end of commands\<close>

lemma idle_pending:
  assumes "port_ok p pr" "pr_iobhd pr = []"
  shows "pr_pending pr = 0"
proof (rule bit_word_eqI)
  fix i assume "i < LENGTH(32)"
  with assms show "bit (pr_pending pr) i = bit 0 i" by (simp add: port_ok_def)
qed

text \<open>C14. Stopping a port cancels everything: with the controller locked the code returns, every request
in flight is found in the queue of the disk and taken out of it, all elements are free again, and with
the start bit off no command is pending, issued or active.\<close>

theorem port_stop_cancels_all:
  assumes "ahci_ok s" "p < 32" "pr_sc (port_of p s)" "mutex_lock (asc_mtx (ahci_sc s)) \<noteq> 0"
    and "pr_bctx (port_of p s) = Some b" "px_cmd (rg p s) AND AHCI_P_CMD_ST = 0"
  shows "\<exists>s' bc. ahci_port_stop p s = Some s' \<and> ahci_ok s' \<and> pr_iobhd (port_of p s') = [] \<and>
    length (pr_iofhd (port_of p s')) = IOREQS \<and> pr_pending (port_of p s') = 0 \<and> px_ci (rg p s') = 0 \<and>
    px_sact (rg p s') = 0 \<and> get_ctxt b s' = Some bc \<and> bc_pendq bc = []"
proof -
  obtain s1 where s1: "ahci_port_stop p s = Some (ahci_check_stopped p s1)" "ahci_ok s1" "pr_iobhd (port_of p s1) = []"
    "px_cmd (rg p s1) = px_cmd (rg p s)" "pr_bctx (port_of p s1) = Some b"
    by (rule port_stop_run [OF assms(1-5)])
  have rq: "rq_ok s1" using s1(2) by (simp add: ahci_ok_def)
  from rq_genD [OF rq assms(2) s1(5)] obtain bc where bc: "port_ok p (port_of p s1)" "get_ctxt b s1 = Some bc"
    "disk_ok {#} p (port_of p s1) bc" by blast
  let ?s' = "ahci_check_stopped p s1"
  have calm: "calm s1 ?s'" by (intro quiets)
  then have core: "same_core s1 ?s'" by (simp add: calm_def)
  have pend: "pr_pending (port_of p s1) = 0" using bc(1) s1(3) by (rule idle_pending)
  have len: "p < length (asc_port (ahci_sc s1))" using rq assms(2) by (simp add: rq_gen_def)
  have regs: "px_ci (rg p ?s') = 0" "px_sact (rg p ?s') = 0"
    using pend assms(6) s1(4) len by (simp_all add: ahci_check_stopped_def port_of_upd_port)
  have "length (pr_iofhd (port_of p s1)) = IOREQS"
    using bc(1) s1(3) distinct_card [of "pr_iofhd (port_of p s1)"] by (simp add: port_ok_def)
  moreover have "mset (pend_params bc) = {#}" using bc(3) s1(3) by (simp add: disk_ok_def)
  then have "bc_pendq bc = []" by (simp add: pend_reqs_def)
  moreover have "get_ctxt b ?s' = Some bc" using bc(2) core by (simp add: same_core_def get_ctxt_def)
  ultimately show ?thesis
    using s1(1,3) calm_ok [OF calm s1(2)] regs pend same_core_fields [OF core, of p] by auto
qed

text \<open>A run of the worker ends the commands of its disk: when it returns, the queue is empty and the
port that owns the disk has no request in flight, all elements are free again.\<close>

lemma worker_ends_commands:
  assumes "ahci_ok s" "blockif_sc s = Some (Some b)" "p < 32" "pr_bctx (port_of p s) = Some b"
    and "blockif_thr (ahci_cb dmap) s = Some s'"
  shows "ahci_ok s' \<and> pr_iobhd (port_of p s') = [] \<and> length (pr_iofhd (port_of p s')) = IOREQS \<and>
    pr_pending (port_of p s') = 0"
proof -
  from thr_ok_ahci [OF assms(5,1)] assms(2-4) obtain bc where r: "ahci_ok s'" "pr_bctx (port_of p s') = Some b"
    "get_ctxt b s' = Some bc" "bc_pendq bc = []" by blast
  have rq: "rq_ok s'" using r(1) by (simp add: ahci_ok_def)
  have ok: "port_ok p (port_of p s')" "disk_ok {#} p (port_of p s') bc" using rq_genD [OF rq assms(3) r(2)] r(3) by auto
  then have busy: "pr_iobhd (port_of p s') = []" using r(4) by (simp add: disk_ok_def pend_reqs_def)
  have "pr_pending (port_of p s') = 0" using ok(1) busy by (rule idle_pending)
  moreover have "length (pr_iofhd (port_of p s')) = IOREQS"
    using ok(1) busy distinct_card [of "pr_iofhd (port_of p s')"] by (simp add: port_ok_def)
  ultimately show ?thesis using r(1) busy by blast
qed

section \<open>Transfers\<close>

text \<open>The vectors of a transfer are a piece of what the guest describes: in order and without a gap they
cover the bytes of the table from the ones done on, at most 33 vectors, none beyond the length of the
command; and they are all that is left, or whole sectors and at least one.\<close>

lemma transfer_vectors_exact:
  assumes "direct_map dmap" "ahci_build_iov dmap p cfis prdtl aior s = Some aior'" "port_sectsz p s = Some 512"
    and "io_done aior \<le> io_len aior" "io_len aior < 0x80000000"
  defines "stream \<equiv> prdt_addrs dmap (bs_mem s) cfis 0 prdtl" and "vs \<equiv> br_iov (io_req aior')"
  shows "host_iov vs \<and> length vs \<le> BLOCKIF_IOV_MAX \<and> br_resid (io_req aior') = int (iov_total vs) \<and>
    iov_addrs vs = take (iov_total vs) (drop (unat (io_done aior)) stream) \<and>
    unat (io_done aior') = unat (io_done aior) + iov_total vs \<and> io_done aior' \<le> io_len aior \<and>
    (iov_total vs = min (unat (io_len aior) - unat (io_done aior)) (length stream - unat (io_done aior)) \<or>
     512 dvd iov_total vs \<and> 0 < iov_total vs)"
  using build_iov_exact [OF assms(1-5)] unfolding stream_def vs_def by blast


section \<open>New commands\<close>

text \<open>A further command is always accepted: for a slot that is not in flight a flush takes a free
element, is appended to the queue of the disk, and leaves the controller sound with the slot pending.\<close>

lemma flush_accepted:
  assumes "ahci_ok s" "p < 32" "pr_bctx (port_of p s) = Some b" "slot < 32" "slot_idle p slot s"
    and "get_ctxt b s = Some bc"
  shows "\<exists>s' a bc'. ahci_handle_flush p slot cfis s = Some s' \<and> ahci_ok s' \<and>
    pr_iobhd (port_of p s') = a # pr_iobhd (port_of p s) \<and> req_slot (port_of p s') a = slot \<and>
    bit (pr_pending (port_of p s')) slot \<and> get_ctxt b s' = Some bc' \<and>
    (\<exists>r. pend_reqs bc' = pend_reqs bc @ [(r, BOP_FLUSH)] \<and> br_param r = (p, a))"
proof -
  have rq: "rq_ok s" using assms(1) by (simp add: ahci_ok_def)
  have ok: "port_ok p (port_of p s)" "disk_ok {#} p (port_of p s) bc" using rq_genD [OF rq assms(2,3)] assms(6) by auto
  have "length (pr_iofhd (port_of p s) @ pr_iobhd (port_of p s)) = IOREQS"
    using ok(1) distinct_card [of "pr_iofhd (port_of p s) @ pr_iobhd (port_of p s)"] by (simp add: port_ok_def)
  then have "pr_iofhd (port_of p s) \<noteq> []" using few_busy [OF ok(1)] by auto
  then obtain a fs where free: "pr_iofhd (port_of p s) = a # fs" by (cases "pr_iofhd (port_of p s)") auto
  let ?aior = "(pr_ioreq (port_of p s) ! a)\<lparr>io_cfis := cfis, io_slot := slot, io_len := 0, io_done := 0, io_more := False\<rparr>"
  let ?s = "take_ioreq p a ?aior s"
  have a: "a < IOREQS" using ok(1) free by (auto simp: port_ok_def)
  have param: "br_param (io_req ?aior) = (p, a)" using ok(1) a by (simp add: port_ok_def)
  have rq1: "rq_gen {#(p, a)#} ?s"
    by (rule rq_take [OF rq assms(2) free]) (use assms(4,5) in simp_all)
  have b: "pr_bctx (port_of p ?s) = Some b" using assms(3) by (simp add: core_upd_port)
  have g: "get_ctxt b ?s = Some bc" using assms(6) by (simp add: get_ctxt_def)
  have ok1: "port_ok p (port_of p ?s)" "disk_ok {#(p, a)#} p (port_of p ?s) bc"
    using rq_genD [OF rq1 assms(2) b] g by auto
  have free_b: "mutex_free (bc_mtx bc)" using assms(1,6) by (auto simp: ahci_ok_def disks_free_def)
  have q: "queue_inv bc" "bc_magic bc = BLOCKIF_SIG" using ok(2) by (simp_all add: disk_ok_def)
  have "bc_freeq bc \<noteq> []" using disk_room [OF ok1] queue_count [OF q(1)] ok(2) by (auto simp: disk_ok_def)
  from request_ok(2) [OF g free_b q(1) this, of "io_req ?aior" BOP_FLUSH] obtain bc' where
    req: "blockif_request b (io_req ?aior) BOP_FLUSH ?s = Some (0, put_ctxt b bc' ?s)"
      "pend_reqs bc' = pend_reqs bc @ [(io_req ?aior, BOP_FLUSH)]" by auto
  have flush: "blockif_flush b (io_req ?aior) ?s = Some (0, put_ctxt b bc' ?s)"
    using req(1) g q(2) by (simp add: blockif_flush_def check_magic_def)
  have run: "ahci_handle_flush p slot cfis s = Some (put_ctxt b bc' ?s)"
    using free b flush
    by (simp add: ahci_handle_flush_def pull_ioreq_def port_of_pull take_ioreq_def Let_def)
  from drives_flush [of p slot s cfis] run have "calm s (put_ctxt b bc' ?s) \<or> issued p slot s (put_ctxt b bc' ?s)"
    by (simp add: drives_def)
  then have "ahci_ok (put_ctxt b bc' ?s)" using calm_ok issued_ok assms(1,2,4,5) by blast
  moreover have "get_ctxt b (put_ctxt b bc' ?s) = Some bc'" using g by (simp add: get_ctxt_Some)
  moreover have len: "p < length (asc_port (ahci_sc s))" "length (pr_ioreq (port_of p s)) = IOREQS"
    using rq assms(2) ok(1) by (simp_all add: rq_gen_def port_ok_def)
  then have "pr_iobhd (port_of p (put_ctxt b bc' ?s)) = a # pr_iobhd (port_of p s)"
    "req_slot (port_of p (put_ctxt b bc' ?s)) a = slot" "bit (pr_pending (port_of p (put_ctxt b bc' ?s))) slot"
    using a assms(4) by (simp_all add: core_upd_port req_slot_def bit_or_slot)
  ultimately show ?thesis using run req(2) param by blast
qed

section \<open>Pages\<close>

lemma ahci_checksum_zero: "buf \<noteq> [] \<Longrightarrow> sum_list (ahci_checksum buf) = 0 \<and> length (ahci_checksum buf) = length buf"
proof -
  assume "buf \<noteq> []"
  then obtain xs x where "buf = xs @ [x]" by (metis rev_exhaust)
  then show ?thesis by (simp add: ahci_checksum_def)
qed

lemma length_put_le16 [simp]: "length (put_le16 b i v) = length b"
  by (simp add: put_le16_def)

lemma length_put_words [simp]: "length (put_words ws b) = length b"
proof (induction ws arbitrary: b)
  case (Cons w ws)
  then show ?case by (cases w) (simp add: put_words_def)
qed (simp add: put_words_def)

lemma length_or_word [simp]: "length (or_word i v b) = length b"
  by (simp add: or_word_def)

lemma length_ata_string [simp]: "length (ata_string b off str n) = length b"
proof -
  have "length (foldl (\<lambda>b i. b[off + (if even i then i + 1 else i - 1) := char_at str i]) b is) = length b" for "is"
    by (induction "is" arbitrary: b) simp_all
  then show ?thesis by (simp add: ata_string_def)
qed

text \<open>The pages with which the drives describe themselves are 512 bytes, and they and the log of queued
errors add up to 0 modulo 256, as the standard wants of the integrity word, whatever the state of the
port, the size and the geometry.\<close>

lemma pages_have_checksum:
  "length (identify_page pr sectors sectsz psectsz psectoff candelete ro chs) = 512 \<and>
   sum_list (identify_page pr sectors sectsz psectsz psectoff candelete ro chs) = 0 \<and>
   length (atapi_identify_page pr) = 512 \<and> sum_list (atapi_identify_page pr) = 0 \<and> sum_list (ncq_log pr) = 0"
proof -
  have *: "length (ahci_checksum b) = 512" "sum_list (ahci_checksum b) = 0" if "length b = 512" for b
    using ahci_checksum_zero [of b] that by (cases b; simp)+
  have "length (identify_page pr sectors sectsz psectsz psectoff candelete ro chs) = 512 \<and>
      sum_list (identify_page pr sectors sectsz psectsz psectoff candelete ro chs) = 0"
    unfolding identify_page_def Let_def by (cases chs) (simp add: *)
  moreover have "length (atapi_identify_page pr) = 512 \<and> sum_list (atapi_identify_page pr) = 0"
    unfolding atapi_identify_page_def Let_def by (simp add: *)
  moreover have "sum_list (ncq_log pr) = 0"
    using ahci_checksum_zero [of "take 20 (pr_err_cfis pr) @ replicate 492 0"] by (simp add: ncq_log_def)
  ultimately show ?thesis by blast
qed

section \<open>Accesses that stop the model\<close>

lemma lock_sc_free: "mutex_free (asc_mtx (ahci_sc s)) \<Longrightarrow>
    lock_sc s = Some (upd_sc (\<lambda>sc. sc\<lparr>asc_mtx := (asc_mtx (ahci_sc s))\<lparr>mutex_lock := 1\<rparr>\<rparr>) s)"
  by (simp add: lock_sc_def pthread_mutex_lock_def)

lemma intr_no_disk: "\<not> pr_sc (port_of p s) \<Longrightarrow> ahci_port_intr p s = None"
  by (simp add: ahci_port_intr_def)

lemma stop_no_disk: "\<not> pr_sc (port_of p s) \<Longrightarrow> ahci_port_stop p s = None"
  by (simp add: ahci_port_stop_def)

lemma sc_upd_regs [simp]: "pr_sc (port_of q (upd_rg p f s)) = pr_sc (port_of q s)"
  by (simp add: port_of_upd_port)

text \<open>C40. A port without a disk has registers but no controller: a write of the guest to its interrupt
status or interrupt enable register, or one to its command register with the start bit off, follows
the null pointer of the port and never returns.\<close>

theorem no_disk_port_stops_model:
  assumes "asc_ports (ahci_sc s) \<le> 32" "p < asc_ports (ahci_sc s)" "\<not> pr_sc (port_of p s)" "mutex_free (asc_mtx (ahci_sc s))"
  shows "pci_ahci_write dmap 5 (0x110 + 0x80 * of_nat p) sz v s = None \<and>
    pci_ahci_write dmap 5 (0x114 + 0x80 * of_nat p) sz v s = None \<and>
    (even v \<longrightarrow> pci_ahci_write dmap 5 (0x118 + 0x80 * of_nat p) sz v s = None)"
proof -
  let ?m = "(asc_mtx (ahci_sc s))\<lparr>mutex_lock := 1\<rparr>"
  let ?s = "upd_sc (\<lambda>sc. sc\<lparr>asc_mtx := ?m\<rparr>) s"
  have sc: "\<not> pr_sc (port_of p ?s)" using assms(3) by (simp add: port_of_def)
  have ports: "asc_ports (ahci_sc ?s) = asc_ports (ahci_sc s)" by simp
  have go: "pci_ahci_write dmap 5 (0x100 + r + 0x80 * of_nat p) sz v s = None"
    if "pci_ahci_port_write dmap (0x100 + r + 0x80 * of_nat p) v ?s = None" "r \<in> {0x10, 0x14, 0x18}" for r
  proof -
    let ?a = "0x100 + r + 0x80 * of_nat p :: u64"
    have ua: "unat ?a = 0x100 + unat r + 0x80 * p" using that(2) assms(1,2) by (auto simp: unat_word_ariths unat_of_nat)
    have "unat (port_space ?s) = 0x100 + asc_ports (ahci_sc s) * 0x80"
      using assms(1) unfolding port_space_def ports by (simp add: unat_word_ariths unat_of_nat)
    then have "?a < port_space ?s" using ua that(2) assms(2) by (auto simp: word_less_nat_alt)
    moreover have "\<not> ?a < 0x100" using ua by (simp add: word_less_nat_alt)
    moreover have "?a mod 4 = 0"
    proof -
      have "unat ?a mod 4 = 0" unfolding ua using that(2) by auto
      then show ?thesis by (simp add: unat_mod word_unat_eq_iff)
    qed
    ultimately show ?thesis
      using that(1) by (simp add: pci_ahci_write_def lock_sc_free [OF assms(4)])
  qed
  have idx: "unat ((0x100 + r + 0x80 * of_nat p - 0x100) div 0x80 :: u64) = p" "(0x100 + r + 0x80 * of_nat p - 0x100) mod 0x80 = r"
    if "r \<in> {0x10, 0x14, 0x18}" for r :: u64
  proof -
    have u: "unat (0x100 + r + 0x80 * of_nat p - 0x100 :: u64) = unat r + 0x80 * p"
      using that assms(1,2) by (auto simp: unat_word_ariths unat_of_nat)
    show "unat ((0x100 + r + 0x80 * of_nat p - 0x100) div 0x80 :: u64) = p" unfolding unat_div u using that by auto
    show "(0x100 + r + 0x80 * of_nat p - 0x100) mod 0x80 = r"
      by (rule word_unat_eq_iff [THEN iffD2]) (unfold unat_mod u, use that in auto)
  qed
  have mem: "0x10 \<in> {0x10, 0x14, 0x18 :: u64}" "0x14 \<in> {0x10, 0x14, 0x18 :: u64}" "0x18 \<in> {0x10, 0x14, 0x18 :: u64}"
    by simp_all
  have "pci_ahci_write dmap 5 (0x100 + 0x10 + 0x80 * of_nat p) sz v s = None"
    by (rule go [OF _ mem(1)], simp only: pci_ahci_port_write_def Let_def idx [OF mem(1)], simp add: intr_no_disk port_of_upd_port sc)
  moreover have "pci_ahci_write dmap 5 (0x100 + 0x14 + 0x80 * of_nat p) sz v s = None"
    by (rule go [OF _ mem(2)], simp only: pci_ahci_port_write_def Let_def idx [OF mem(2)], simp add: intr_no_disk port_of_upd_port sc)
  moreover have "pci_ahci_write dmap 5 (0x100 + 0x18 + 0x80 * of_nat p) sz v s = None" if "even v"
  proof (rule go [OF _ mem(3)])
    have "bit (ucast v :: u32) 0 = bit v 0" by (simp add: bit_simps)
    with that have "ucast v AND AHCI_P_CMD_ST = (0 :: u32)"
      by (simp add: bit_0 and_one_eq even_iff_mod_2_eq_zero [symmetric])
    then show "pci_ahci_port_write dmap (0x100 + 0x18 + 0x80 * of_nat p) v ?s = None"
      by (simp only: pci_ahci_port_write_def Let_def idx [OF mem(3)]) (simp add: port_cmd_write_def stop_no_disk port_of_upd_port sc)
  qed
  ultimately show ?thesis by simp
qed

text \<open>The command bytes of reads and writes.\<close>

definition rw_command :: "u8 \<Rightarrow> bool" where
  "rw_command c \<longleftrightarrow>
     c \<in> {0x20, 0x30, 0x24, 0x34, 0xc4, 0xc5, 0x29, 0x39, 0xc8, 0xca, 0x25, 0x35, 0x60, 0x61}"

text \<open>A command whose frame is not a command frame hangs the port: the code returns from it without
clearing its bit in the command issue register, and looks at the slots for ever.\<close>

lemma wrong_frame_hangs:
  assumes "px_cmd (rg p s) AND AHCI_P_CMD_ST \<noteq> 0" "px_ci (rg p s) AND NOT (pr_pending (port_of p s)) \<noteq> 0"
    and "px_tfd (rg p s) AND (ATA_S_BUSY OR ATA_S_DRQ) = 0" "\<not> pr_waitforclear (port_of p s)"
    and "\<And>slot hdr. cmd_hdr p slot s = Some hdr \<Longrightarrow>
      bs_mem s (dmap (hdr_ctba (bs_mem s) hdr)) \<noteq> fis_code FIS_TYPE_REGH2D"
  shows "ahci_handle_port dmap p s = None"
proof -
  define stuck where "stuck t \<longleftrightarrow> px_ci (rg p t) AND NOT (pr_pending (port_of p t)) \<noteq> 0 \<and>
      px_tfd (rg p t) AND (ATA_S_BUSY OR ATA_S_DRQ) = 0 \<and> \<not> pr_waitforclear (port_of p t) \<and>
      pr_cmd_lst (port_of p t) = pr_cmd_lst (port_of p s) \<and> bs_mem t = bs_mem s" for t
  have upd: "stuck (upd_port p f t)" if "stuck t" "\<And>pr. px_ci (pr_regs (f pr)) = px_ci (pr_regs pr)"
    "\<And>pr. px_tfd (pr_regs (f pr)) = px_tfd (pr_regs pr)" "\<And>pr. pr_pending (f pr) = pr_pending pr"
    "\<And>pr. pr_waitforclear (f pr) = pr_waitforclear pr" "\<And>pr. pr_cmd_lst (f pr) = pr_cmd_lst pr" for f t
    using that by (simp add: stuck_def port_of_upd_port)
  have slot: "t' = t" if "stuck t" "ahci_handle_slot dmap p slot t = Some t'" for t t' slot
  proof -
    have hdr: "cmd_hdr p slot t = cmd_hdr p slot s" "bs_mem t = bs_mem s" using that(1) by (simp_all add: stuck_def cmd_hdr_def)
    then show ?thesis
      using that(2) assms(5) [of slot]
      by (auto simp: ahci_handle_slot_def Let_def paddr_guest2host_def bind_eq_Some_conv assert_that_bind split: if_splits)
  qed
  have round: "stuck t'" if st: "stuck t" and run: "port_round dmap p t = Some t'" for t t'
  proof -
    let ?t = "upd_rg p (\<lambda>r. r\<lparr>px_cmd := (px_cmd r AND NOT AHCI_P_CMD_CCS_MASK) OR push_bit 8 (of_nat (pr_ccs (port_of p t)))\<rparr>) t"
    have "stuck ?t" using st by (rule upd) simp_all
    then show ?thesis using run st slot [of ?t _ t'] by (auto simp: port_round_def Let_def split: if_splits)
  qed
  have "port_loop dmap' p' t = Some t' \<Longrightarrow> dmap' = dmap \<longrightarrow> p' = p \<longrightarrow> stuck t \<longrightarrow> False" for dmap' p' t t'
  proof (rule port_loop.raw_induct [where P = "\<lambda>dmap' p' t t'. dmap' = dmap \<longrightarrow> p' = p \<longrightarrow> stuck t \<longrightarrow> False"])
    fix loop dmap' p' t t'
    assume IH: "\<And>dmap' p' t t'. loop dmap' p' t = Some t' \<Longrightarrow> dmap' = dmap \<longrightarrow> p' = p \<longrightarrow> stuck t \<longrightarrow> False"
      and body: "(if port_idle p' t then Some t else Option.bind (port_round dmap' p' t)
        (\<lambda>t. loop dmap' p' (upd_port p' (\<lambda>pr. pr\<lparr>pr_ccs := (pr_ccs pr + 1) mod 32\<rparr>) t))) = Some t'"
    show "dmap' = dmap \<longrightarrow> p' = p \<longrightarrow> stuck t \<longrightarrow> False"
    proof (intro impI)
      assume e: "dmap' = dmap" "p' = p" and st: "stuck t"
      then have "\<not> port_idle p' t" by (simp add: port_idle_def stuck_def)
      with body e obtain t1 where t1: "port_round dmap p t = Some t1"
        "loop dmap p (upd_port p (\<lambda>pr. pr\<lparr>pr_ccs := (pr_ccs pr + 1) mod 32\<rparr>) t1) = Some t'"
        by (auto simp: bind_eq_Some_conv)
      have "stuck (upd_port p (\<lambda>pr. pr\<lparr>pr_ccs := (pr_ccs pr + 1) mod 32\<rparr>) t1)"
        using round [OF st t1(1)] by (rule upd) simp_all
      with IH [of dmap p "upd_port p (\<lambda>pr. pr\<lparr>pr_ccs := (pr_ccs pr + 1) mod 32\<rparr>) t1" t'] t1(2) show False by blast
    qed
  qed
  from this [of dmap p s] have "False" if "port_loop dmap p s = Some t" for t
    using that assms(2-4) by (auto simp: stuck_def)
  then have "port_loop dmap p s = None" by (cases "port_loop dmap p s") auto
  then show ?thesis using assms(1) by (simp add: ahci_handle_port_def)
qed

text \<open>The worker calls back with its disk locked, and the callback that has more to do for a long read or
write locks the disk again: it never returns. A transfer of more than 33 regions does not survive its
first part, on a disk or on an optical drive.\<close>

lemma long_transfer_never_returns:
  assumes "p < 32" "pr_bctx (port_of p s) = Some b" "lock_bc b s = None" "br_param br = (p, a)"
    and "io_more (pr_ioreq (port_of p s) ! a)"
    and "\<not> pr_atapi (port_of p s) \<Longrightarrow> rw_command (bs_mem s (io_cfis (pr_ioreq (port_of p s) ! a) + 2))"
  shows "ahci_cb dmap br 0 s = None"
proof (rule ccontr)
  assume "ahci_cb dmap br 0 s \<noteq> None"
  then obtain s' where run: "ahci_cb dmap br 0 s = Some s'" by blast
  have held: "held p s" using assms(2,3) by (simp add: held_def)
  let ?aior = "pr_ioreq (port_of p s) ! a"
  have h3: "held p s3" if "lock_sc s = Some s1" "release_ioreq p a s1 = Some s2"
    "set_prdbc p (io_slot ?aior) (io_done ?aior) s2 = Some s3" for s1 s2 s3
  proof -
    have "held p s1" using held that(1) lock_ctxts [of s1 s] by (auto simp: held_def lock_sc_def bind_eq_Some_conv port_of_def)
    then have h2: "held p s2" using release_SomeD [OF that(2)] by (simp add: held_upd put_back_def)
    have "quiet s2 (set_prdbc p (io_slot ?aior) (io_done ?aior) s2)" by (intro quiets)
    with that(3) held_calm h2 show ?thesis by (auto simp: quiet_def)
  qed
  show False
  proof (cases "pr_atapi (port_of p s)")
    case True
    with run assms(4,5) show False
      by (auto simp: ahci_cb_def atapi_ioreq_cb_def Let_def held_rw(2) [OF assms(1) h3] elim!: bind_SomeE)
  next
    case False
    then have cmd: "bs_mem s (io_cfis ?aior + 2) \<noteq> 0x06" "bs_mem s (io_cfis ?aior + 2) \<noteq> ATA_SEND_FPDMA_QUEUED"
      using assms(6) by (auto simp: rw_command_def)
    with False run assms(4,5) show False
      by (auto simp: ahci_cb_def ata_ioreq_cb_def Let_def held_rw(1) [OF assms(1) h3] elim!: bind_SomeE)
  qed
qed


end
