(* ===== verification/SystemProps.thy ===== *)
theory SystemProps
  imports SystemFrame AhciProps PciProps E1000IntrProps
begin

text \<open>
  The whole program: the invariants of the disk controller hold in every history of the main loop,
  of interrupts of the network and of writes of the guest to its memory, whatever the guest requests.
\<close>

section \<open>The invariant of the system\<close>

definition disk_state :: "'n dm_sys \<Rightarrow> ahci_state option" where
  "disk_state s = map_option (\<lambda>(d, sc). with_sc (disk_world (sys_world s)) sc) (disk_dev s)"

text \<open>The disk controller has slot 1, and no other function runs its driver.\<close>

definition drivers_ok :: "'n dm_sys \<Rightarrow> bool" where
  "drivers_ok s \<longleftrightarrow> (\<forall>ref d. dev_at s ref = Some (Some d) \<longrightarrow>
     dev_emu d = (if ref = disk_ref then ''ahci-hd'' else ''e1000''))"

definition sys_ok :: "'n dm_sys \<Rightarrow> bool" where
  "sys_ok s \<longleftrightarrow> drivers_ok s \<and> (\<exists>t. disk_state s = Some t \<and> ahci_ok t)"

text \<open>The guest leaves the message signalled interrupts of the disk controller off.\<close>

definition disk_msi_off :: "'n dm_sys \<Rightarrow> bool" where
  "disk_msi_off s \<longleftrightarrow> (\<forall>d. dev_at s disk_ref = Some (Some d) \<longrightarrow> msi_enabled (pi_msi (dev_pi d)) = 0)"

lemma disk_state_Some:
  "disk_state s = Some t \<longleftrightarrow> (\<exists>d sc. dev_at s disk_ref = Some (Some d) \<and> dev_arg d = Disk sc \<and>
     t = with_sc (disk_world (sys_world s)) (sc\<lparr>asc_pi := dev_pi d\<rparr>))"
  by (auto simp: disk_state_def disk_dev_def split: option.splits softc.splits)

lemma sys_okE:
  assumes "sys_ok s"
  obtains d sc where "drivers_ok s" "dev_at s disk_ref = Some (Some d)" "dev_arg d = Disk sc" "dev_emu d = ''ahci-hd''"
    "ahci_ok (with_sc (disk_world (sys_world s)) (sc\<lparr>asc_pi := dev_pi d\<rparr>))"
  using assms by (auto simp: sys_ok_def disk_state_Some drivers_ok_def)

lemma sys_okI:
  "drivers_ok s \<Longrightarrow> dev_at s disk_ref = Some (Some d) \<Longrightarrow> dev_arg d = Disk sc \<Longrightarrow>
     ahci_ok (with_sc (disk_world (sys_world s)) (sc\<lparr>asc_pi := dev_pi d\<rparr>)) \<Longrightarrow> sys_ok s"
  by (auto simp: sys_ok_def disk_state_Some)

lemma drivers_set_dev:
  assumes "drivers_ok s" "dev_at s ref = Some (Some d)" "dev_emu d' = dev_emu d"
  shows "drivers_ok (set_dev s ref d')"
  using assms dev_at_set_dev [OF assms(2)] by (auto simp: drivers_ok_def)

lemma drivers_cong: "pci_businfo s' = pci_businfo s \<Longrightarrow> drivers_ok s' = drivers_ok s"
  using dev_at_cong [of s' s] by (simp add: drivers_ok_def)

lemma sys_ok_cong: "pci_businfo s' = pci_businfo s \<Longrightarrow> sys_world s' = sys_world s \<Longrightarrow> sys_ok s' = sys_ok s"
  using dev_at_cong [of s' s] drivers_cong [of s' s] by (simp add: sys_ok_def disk_state_def disk_dev_def)

text \<open>Memory, network and the other devices do not matter to the disk controller.\<close>

lemma ahci_ok_mem: "ahci_ok t \<Longrightarrow> ahci_ok (t\<lparr>bs_mem := m\<rparr>)"
  by (rule calm_ok [OF calm_set_mem [OF calm_refl]])

lemma sys_ok_world:
  assumes "sys_ok s" "bs_ctxts w = bs_ctxts (sys_world s)" "blockif_sc w = blockif_sc (sys_world s)"
  shows "sys_ok (s\<lparr>sys_world := w\<rparr>)"
proof -
  obtain d sc where d: "drivers_ok s" "dev_at s disk_ref = Some (Some d)" "dev_arg d = Disk sc"
    "ahci_ok (with_sc (disk_world (sys_world s)) (sc\<lparr>asc_pi := dev_pi d\<rparr>))"
    using assms(1) by (rule sys_okE)
  have "with_sc (disk_world w) (sc\<lparr>asc_pi := dev_pi d\<rparr>) =
      (with_sc (disk_world (sys_world s)) (sc\<lparr>asc_pi := dev_pi d\<rparr>))\<lparr>bs_mem := bs_mem w\<rparr>"
    using assms(2,3) by (simp add: with_sc_def disk_world_def)
  then have "ahci_ok (with_sc (disk_world w) (sc\<lparr>asc_pi := dev_pi d\<rparr>))" using ahci_ok_mem [OF d(4)] by simp
  then show ?thesis using d drivers_cong [of "s\<lparr>sys_world := w\<rparr>" s] by (intro sys_okI [of _ d sc]) simp_all
qed

lemma sys_ok_other:
  assumes "sys_ok s" "dev_at s ref = Some (Some d)" "ref \<noteq> disk_ref" "dev_emu d' = dev_emu d"
  shows "sys_ok (set_dev s ref d')"
proof -
  obtain e sc where e: "drivers_ok s" "dev_at s disk_ref = Some (Some e)" "dev_arg e = Disk sc"
    "ahci_ok (with_sc (disk_world (sys_world s)) (sc\<lparr>asc_pi := dev_pi e\<rparr>))"
    using assms(1) by (rule sys_okE)
  then show ?thesis
    using drivers_set_dev [OF e(1) assms(2,4)] dev_at_set_dev [OF assms(2)] assms(3)
    by (intro sys_okI [of _ e sc]) simp_all
qed

lemma sys_ok_disk:
  assumes "drivers_ok s" "dev_at s disk_ref = Some (Some d)" "dev_emu d' = dev_emu d" "dev_arg d' = Disk sc"
    and "ahci_ok (with_sc (disk_world w) (sc\<lparr>asc_pi := dev_pi d'\<rparr>))"
  shows "sys_ok (set_dev (s\<lparr>sys_world := w\<rparr>) disk_ref d')"
proof -
  have at: "dev_at (s\<lparr>sys_world := w\<rparr>) disk_ref = Some (Some d)" using assms(2) by simp
  have "drivers_ok (s\<lparr>sys_world := w\<rparr>)" using assms(1) drivers_cong [of "s\<lparr>sys_world := w\<rparr>" s] by simp
  then show ?thesis
    using drivers_set_dev [OF _ at assms(3)] dev_at_set_dev [OF at] assms(4,5)
    by (intro sys_okI [of _ d' sc]) simp_all
qed

text \<open>The device instance may change, but not what it requests.\<close>

lemma ahci_ok_pi:
  assumes "ahci_ok (with_sc w sc)" "lintr_ok pi" "caps_fine pi" "msi_enabled (pi_msi pi) = 0"
    and "requested pi = requested (asc_pi sc)"
  shows "ahci_ok (with_sc w (sc\<lparr>asc_pi := pi\<rparr>))"
proof -
  have "rq_ok (with_sc w (sc\<lparr>asc_pi := pi\<rparr>))" "disks_free (with_sc w (sc\<lparr>asc_pi := pi\<rparr>))"
    using assms(1) by (simp_all add: ahci_ok_def rq_gen_def disks_free_def)
  moreover have "irq_inv (with_sc w (sc\<lparr>asc_pi := pi\<rparr>))"
    using assms by (auto simp: ahci_ok_def irq_gen_def Let_def)
  ultimately show ?thesis by (simp add: ahci_ok_def)
qed

section \<open>Accesses of the guest\<close>

lemma find_driver:
  "pci_emul_finddev (pci_devemu_set md5 physmem ok dmap) ''e1000'' = Some (card_devemu dmap)"
  "pci_emul_finddev (pci_devemu_set md5 physmem ok dmap) ''ahci-hd'' =
     Some (disk_devemu md5 physmem ok dmap ''ahci-hd'' False)"
  by (simp_all add: pci_emul_finddev_def pci_devemu_set_def card_devemu_def disk_devemu_def Let_def
      pci_de_e82545_def ahci_devemu_def)

text \<open>What a driver does to its device and to the machine.\<close>

definition driver_ok :: "'n dm_sys \<Rightarrow> pci_ref \<Rightarrow> softc pci_dev \<Rightarrow> 'n machine \<times> softc pci_dev \<Rightarrow> bool" where
  "driver_ok s ref d wd \<longleftrightarrow> dev_emu (snd wd) = dev_emu d \<and> sys_ok (set_dev (s\<lparr>sys_world := fst wd\<rparr>) ref (snd wd))"

lemma put_disk_world_simps [simp]:
  "disk_world (put_disk_world w m) = w" "put_disk_world (disk_world m) m = m"
  by (cases w; cases m; simp add: disk_world_def put_disk_world_def)+

lemma with_sc_truncate [simp]: "with_sc (blockif_state.truncate t) (ahci_sc t) = t"
  by (cases t) (simp add: with_sc_def blockif_state.truncate_def)

lemma asc_pi_self [simp]: "sc\<lparr>asc_pi := asc_pi sc\<rparr> = sc"
  by (cases sc) simp

lemma disk_driver_ok:
  assumes ok: "sys_ok s" and at: "dev_at s disk_ref = Some (Some d)" and arg: "dev_arg d' = Disk (ahci_sc t)"
    and d': "dev_emu d' = dev_emu d" "dev_pi d' = asc_pi (ahci_sc t)" and t: "ahci_ok t"
  shows "driver_ok s disk_ref d (put_disk_world (blockif_state.truncate t) (sys_world s), d')"
proof -
  obtain e where "drivers_ok s" "dev_at s disk_ref = Some (Some e)" using ok by (rule sys_okE)
  then show ?thesis
    using sys_ok_disk [OF _ at d'(1) arg, of "put_disk_world (blockif_state.truncate t) (sys_world s)"] t d'
    by (simp add: driver_ok_def)
qed

lemma card_driver_ok:
  assumes "sys_ok s" "dev_at s ref = Some (Some d)" "ref \<noteq> disk_ref" "dev_emu d' = dev_emu d"
    and "bs_ctxts w = bs_ctxts (sys_world s)" "blockif_sc w = blockif_sc (sys_world s)"
  shows "driver_ok s ref d (w, d')"
  using sys_ok_other [OF sys_ok_world [OF assms(1,5,6)] _ assms(3,4)] assms(2,4) by (simp add: driver_ok_def)

lemma bar_access_ok:
  assumes ok: "sys_ok s" and at: "dev_at s ref = Some (Some d)"
    and pe: "pci_emul_finddev (pci_devemu_set md5 physmem cok dmap) (dev_emu d) = Some pe"
  shows "pe_barwrite pe (sys_world s) d i off sz v = Some (w, d') \<Longrightarrow> driver_ok s ref d (w, d')"
    and "pe_barread pe (sys_world s) d i off sz = Some (x, w, d') \<Longrightarrow> driver_ok s ref d (w, d')"
proof -
  obtain e sc where e: "drivers_ok s" "dev_at s disk_ref = Some (Some e)" "dev_arg e = Disk sc" "dev_emu e = ''ahci-hd''"
    "ahci_ok (with_sc (disk_world (sys_world s)) (sc\<lparr>asc_pi := dev_pi e\<rparr>))"
    using ok by (rule sys_okE)
  have emu: "dev_emu d = (if ref = disk_ref then ''ahci-hd'' else ''e1000'')" using e(1) at unfolding drivers_ok_def by blast
  show "driver_ok s ref d (w, d')" if run: "pe_barwrite pe (sys_world s) d i off sz v = Some (w, d')"
  proof (cases "ref = disk_ref")
    case True
    with at e(2) have [simp]: "e = d" by simp
    have "pe = disk_devemu md5 physmem cok dmap ''ahci-hd'' False" using pe True emu by (simp add: find_driver)
    with run e(3) obtain t where "pci_ahci_write dmap i off sz v (with_sc (disk_world (sys_world s)) (sc\<lparr>asc_pi := dev_pi d\<rparr>)) = Some t"
      "w = put_disk_world (blockif_state.truncate t) (sys_world s)" "dev_arg d' = Disk (ahci_sc t)"
      "dev_emu d' = dev_emu d" "dev_pi d' = asc_pi (ahci_sc t)"
      by (auto simp: disk_devemu_def ahci_devemu_def Let_def with_arg_def elim!: bind_SomeE)
    with disk_driver_ok [OF ok] at True e(5) ahci_write_ok show ?thesis by auto
  next
    case False
    have "pe = card_devemu dmap" using pe False emu by (simp add: find_driver)
    with run have "w = sys_world s" "dev_emu d' = dev_emu d"
      by (auto simp: card_devemu_def pci_de_e82545_def Let_def with_arg_def split: softc.splits elim!: bind_SomeE)
    then show ?thesis using card_driver_ok [OF ok at False] by simp
  qed
  show "driver_ok s ref d (w, d')" if run: "pe_barread pe (sys_world s) d i off sz = Some (x, w, d')"
  proof (cases "ref = disk_ref")
    case True
    with at e(2) have [simp]: "e = d" by simp
    have "pe = disk_devemu md5 physmem cok dmap ''ahci-hd'' False" using pe True emu by (simp add: find_driver)
    with run e(3) obtain y t where "pci_ahci_read i off sz (with_sc (disk_world (sys_world s)) (sc\<lparr>asc_pi := dev_pi d\<rparr>)) = Some (y, t)"
      "w = put_disk_world (blockif_state.truncate t) (sys_world s)" "dev_arg d' = Disk (ahci_sc t)"
      "dev_emu d' = dev_emu d" "dev_pi d' = asc_pi (ahci_sc t)"
      by (auto simp: disk_devemu_def ahci_devemu_def Let_def with_arg_def elim!: bind_SomeE)
    with disk_driver_ok [OF ok] at True e(5) ahci_read_ok show ?thesis by auto
  next
    case False
    have "pe = card_devemu dmap" using pe False emu by (simp add: find_driver)
    with run have "w = sys_world s" "dev_emu d' = dev_emu d"
      by (auto simp: card_devemu_def pci_de_e82545_def Let_def with_arg_def split: softc.splits elim!: bind_SomeE)
    then show ?thesis using card_driver_ok [OF ok at False] by simp
  qed
qed

lemma call_write_ok:
  assumes "sys_ok s" "dev_at s ref = Some (Some d)"
    and "pci_emul_finddev (pci_devemu_set md5 physmem cok dmap) (dev_emu d) = Some pe"
    and "call_barwrite pe s ref d i off sz v = Some (s', d')"
  shows "sys_ok s' \<and> dev_at s' ref = Some (Some d') \<and> dev_emu d' = dev_emu d"
proof -
  obtain w where w: "pe_barwrite pe (sys_world s) d i off sz v = Some (w, d')" "s' = set_dev (s\<lparr>sys_world := w\<rparr>) ref d'"
    using assms(4) by (auto simp: call_barwrite_def elim!: bind_SomeE)
  have at: "dev_at (s\<lparr>sys_world := w\<rparr>) ref = Some (Some d)" using assms(2) by simp
  from bar_access_ok(1) [OF assms(1-3) w(1)] show ?thesis
    using dev_at_set_dev [OF at] by (simp add: driver_ok_def w(2))
qed

lemma call_read_ok:
  assumes "sys_ok s" "dev_at s ref = Some (Some d)"
    and "pci_emul_finddev (pci_devemu_set md5 physmem cok dmap) (dev_emu d) = Some pe"
    and "call_barread pe s ref d i off sz = Some (v, s', d')"
  shows "sys_ok s' \<and> dev_at s' ref = Some (Some d') \<and> dev_emu d' = dev_emu d"
proof -
  obtain w where w: "pe_barread pe (sys_world s) d i off sz = Some (v, w, d')" "s' = set_dev (s\<lparr>sys_world := w\<rparr>) ref d'"
    using assms(4) by (auto simp: call_barread_def elim!: bind_SomeE)
  have at: "dev_at (s\<lparr>sys_world := w\<rparr>) ref = Some (Some d)" using assms(2) by simp
  from bar_access_ok(2) [OF assms(1-3) w(1)] show ?thesis
    using dev_at_set_dev [OF at] by (simp add: driver_ok_def w(2))
qed

lemma mem_handler_ok:
  assumes "sys_ok s"
    and "pci_emul_mem_handler (pci_devemu_set md5 physmem cok dmap) s dir addr sz v arg1 arg2 = Some (e, v', s')"
  shows "sys_ok s' \<and> e = 0"
proof -
  let ?devs = "pci_devemu_set md5 physmem cok dmap"
  from assms(2) obtain ref d pe where at: "dev_at s ref = Some (Some d)" and pe: "pci_emul_finddev ?devs (dev_emu d) = Some pe"
    and run: "(let bidx = nat arg2; offset = addr - bar_addr (pi_bar (dev_pi d) ! bidx)
      in if dir = MEM_F_WRITE then
       (if sz = 8 then do {
          (s, d) \<leftarrow> call_barwrite pe s ref d bidx offset 4 (v AND 0xffffffff);
          (s, d) \<leftarrow> call_barwrite pe s ref d bidx (offset + 4) 4 (drop_bit 32 v);
          Some (0, v, s)
        } else do {
          (s, d) \<leftarrow> call_barwrite pe s ref d bidx offset sz v;
          Some (0, v, s)
        })
     else
       (if sz = 8 then do {
          (lo, s, d) \<leftarrow> call_barread pe s ref d bidx offset 4;
          (hi, s, d) \<leftarrow> call_barread pe s ref d bidx (offset + 4) 4;
          Some (0, lo OR push_bit 32 hi, s)
        } else do {
          (v, s, d) \<leftarrow> call_barread pe s ref d bidx offset sz;
          Some (0, v, s)
        })) = Some (e, v', s')"
    unfolding pci_emul_mem_handler_def Let_def assert_that_bind
    by (auto split: if_splits elim!: bind_SomeE)
  let ?i = "nat arg2" and ?off = "addr - bar_addr (pi_bar (dev_pi d) ! nat arg2)"
  have w: "sys_ok s1 \<and> (\<forall>off n v s2 d2. call_barwrite pe s1 ref d1 ?i off n v = Some (s2, d2) \<longrightarrow> sys_ok s2)"
    if "call_barwrite pe s ref d ?i off n v = Some (s1, d1)" for off n v s1 d1
    using call_write_ok [OF assms(1) at pe that] call_write_ok [of s1 ref d1 md5 physmem cok dmap pe ?i] pe by auto
  have r: "sys_ok s1 \<and> (\<forall>off n x s2 d2. call_barread pe s1 ref d1 ?i off n = Some (x, s2, d2) \<longrightarrow> sys_ok s2)"
    if "call_barread pe s ref d ?i off n = Some (x, s1, d1)" for off n x s1 d1
    using call_read_ok [OF assms(1) at pe that] call_read_ok [of s1 ref d1 md5 physmem cok dmap pe ?i] pe by auto
  consider (w8) s1 d1 d2 where "call_barwrite pe s ref d ?i ?off 4 (v AND 0xffffffff) = Some (s1, d1)"
      "call_barwrite pe s1 ref d1 ?i (?off + 4) 4 (drop_bit 32 v) = Some (s', d2)" "e = 0"
    | (w) d1 where "call_barwrite pe s ref d ?i ?off sz v = Some (s', d1)" "e = 0"
    | (r8) x y s1 d1 d2 where "call_barread pe s ref d ?i ?off 4 = Some (x, s1, d1)"
      "call_barread pe s1 ref d1 ?i (?off + 4) 4 = Some (y, s', d2)" "e = 0"
    | (r) x d1 where "call_barread pe s ref d ?i ?off sz = Some (x, s', d1)" "e = 0"
    using run unfolding Let_def by (auto split: if_splits elim!: bind_SomeE)
  then show ?thesis
  proof cases
    case w8
    then show ?thesis using w [OF w8(1)] by blast
  next
    case w
    then show ?thesis using w(1) call_write_ok [OF assms(1) at pe] by blast
  next
    case r8
    then show ?thesis using r [OF r8(1)] by blast
  next
    case r
    then show ?thesis using call_read_ok [OF assms(1) at pe] by blast
  qed
qed

text \<open>A configuration write to the disk controller, or to another device.\<close>

lemma cfg_write_sys_ok:
  assumes ok: "sys_ok s" and at: "dev_at s ref = Some (Some d)" and al: "access_width_ok bytes" "coff mod bytes = 0" "coff \<le> PCI_REGMAX"
    and run: "cfg_write_default s (dev_pi d) coff bytes eax = Some (s1, pi)"
    and msi: "ref = disk_ref \<Longrightarrow> msi_enabled (pi_msi pi) = 0"
  shows "sys_ok (set_dev s1 ref (d\<lparr>dev_pi := pi\<rparr>))"
proof -
  note same = cfg_write_world [OF run]
  have ok1: "sys_ok s1" using ok sys_ok_cong [OF same(2,1)] by simp
  have at1: "dev_at s1 ref = Some (Some d)" using at dev_at_cong [OF same(2)] by simp
  show ?thesis
  proof (cases "ref = disk_ref")
    case False
    then show ?thesis by (rule sys_ok_other [OF ok1 at1]) simp
  next
    case True
    obtain e sc where e: "drivers_ok s1" "dev_at s1 disk_ref = Some (Some e)" "dev_arg e = Disk sc"
      "ahci_ok (with_sc (disk_world (sys_world s1)) (sc\<lparr>asc_pi := dev_pi e\<rparr>))"
      using ok1 by (rule sys_okE)
    with True at1 have [simp]: "e = d" by simp
    obtain cs where inv: "dev_inv (dev_pi d) cs"
      using e(4) by (auto simp: ahci_ok_def irq_gen_def Let_def caps_fine_def dev_inv_def)
    have pi: "lintr_ok pi" "caps_fine pi" "requested pi = requested (dev_pi d)"
      using cfg_write_inv [OF inv al run] cfg_write_requested [OF run] by (auto simp: dev_inv_def caps_fine_def)
    have "ahci_ok (with_sc (disk_world (sys_world s1)) (sc\<lparr>asc_pi := pi\<rparr>))"
      using ahci_ok_pi [OF e(4) pi(1,2) msi] pi(3) True by simp
    then show ?thesis
      using sys_ok_disk [OF e(1,2), of "d\<lparr>dev_pi := pi\<rparr>" sc "sys_world s1"] e(3) True by simp
  qed
qed

lemma cfgrw_ok:
  fixes s :: "'n dm_sys"
  assumes ok: "sys_ok s" and run: "pci_cfgrw (pci_devemu_set md5 physmem cok dmap) s inp bus slot func coff bytes eax = Some (v, s')"
    and msi: "disk_msi_off s'"
  shows "sys_ok s'"
proof -
  let ?devs = "pci_devemu_set md5 physmem cok dmap :: (softc, 'n machine) pci_devemu list"
  let ?ref = "(bus, slot, func)"
  obtain p where p: "dev_at s ?ref = Some p" using run by (auto simp: pci_cfgrw_def elim!: bind_SomeE)
  show ?thesis
  proof (cases "(p = None \<or> (bytes \<noteq> 1 \<and> bytes \<noteq> 2 \<and> bytes \<noteq> 4) \<or> int coff AND (int bytes - 1) \<noteq> 0) \<or> coff \<ge> PCI_REGMAX + 1")
    case True
    then have "s' = s" using run p by (auto simp: pci_cfgrw_def split: if_splits)
    with ok show ?thesis by simp
  next
    case False
    then obtain d where d: "dev_at s ?ref = Some (Some d)" and al: "access_width_ok bytes" "coff mod bytes = 0" "coff \<le> PCI_REGMAX"
      using p int_and_aligned [of bytes coff] by (auto simp: access_width_ok_def)
    have "dev_emu d = ''e1000'' \<or> dev_emu d = ''ahci-hd''"
      using sys_okE [OF ok] d unfolding drivers_ok_def by metis
    then obtain pe where pe: "pci_emul_finddev ?devs (dev_emu d) = Some pe" "pe_cfgread pe = None" "pe_cfgwrite pe = None"
      by (auto simp: find_driver card_devemu_def disk_devemu_def Let_def)
    show ?thesis
    proof (cases inp)
      case True
      then have "s' = set_dev s ?ref d"
        using run False by (auto simp: pci_cfgrw_def d pe True Let_def split: if_splits elim!: bind_SomeE)
      then show ?thesis using set_dev_same [OF d] ok by simp
    next
      case w: False
      then obtain s1 pi where r: "cfg_write_default s (dev_pi d) coff bytes eax = Some (s1, pi)"
        "s' = set_dev s1 ?ref (d\<lparr>dev_pi := pi\<rparr>)"
        using run False by (auto simp: pci_cfgrw_def d pe w Let_def split: if_splits elim!: bind_SomeE)
      have at1: "dev_at s1 ?ref = Some (Some d)" using d dev_at_cong [OF cfg_write_world(2) [OF r(1)]] by simp
      have "msi_enabled (pi_msi pi) = 0" if "?ref = disk_ref"
        using msi dev_at_set_dev [OF at1, of "d\<lparr>dev_pi := pi\<rparr>" disk_ref] that by (simp add: disk_msi_off_def r(2))
      then show ?thesis using cfg_write_sys_ok [OF ok d al r(1)] r(2) by simp
    qed
  qed
qed

lemma mem_func_ok:
  assumes "sys_ok s" "disk_msi_off s'"
    and "pci_mem_func (pci_devemu_set md5 physmem cok dmap) h s vcpu dir addr sz v arg1 arg2 = Some (e, v', s')"
  shows "sys_ok s' \<and> e = 0"
proof (cases h)
  case Pci_emul_mem_handler
  with assms mem_handler_ok show ?thesis by (simp add: pci_mem_func_def)
next
  case Pci_emul_ecfg_handler
  with assms cfgrw_ok [OF assms(1) _ assms(2)] show ?thesis
    by (auto simp: pci_mem_func_def pci_emul_ecfg_handler_def Let_def elim!: bind_SomeE)
qed

text \<open>The registry calls a handler, or nothing answers.\<close>

lemma emulate_mem_runs:
  fixes call :: "('h, 'p, ('h, 'p, 'z) mem_state_scheme) mem_func"
  assumes "emulate_mem call s vcpu a write width v = Some (e, v', s')"
  obtains h where "e = ESRCH" "s' = s\<lparr>mmio_hint := h\<rparr>"
    | h dir and r :: "('h, 'p) mem_range" where "call (mem_handler r) (s\<lparr>mmio_hint := h\<rparr>) vcpu dir a width v (mem_arg1 r) (mem_arg2 r) = Some (e, v', s')"
proof -
  let ?cb = "emulate_mem_cb call vcpu a" and ?ema = "\<lparr>ema_write = write, ema_access_width = width, ema_val = v\<rparr>"
  obtain ema where run: "access_memory s vcpu a ?cb ?ema = Some (e, ema, s')" "v' = ema_val ema"
    using assms by (auto simp: emulate_mem_def elim!: bind_SomeE)
  have cb: "\<exists>dir. call (mem_handler r) t vcpu dir a width v (mem_arg1 r) (mem_arg2 r) = Some (e, v', s')"
    if "?cb r ?ema t = Some (e, ema, s')" for r t
    using that run(2) by (cases "write = 0") (auto simp: emulate_mem_cb_def elim!: bind_SomeE)
  have "(e = ESRCH \<and> s' = s) \<or> (\<exists>r h. ?cb r ?ema (s\<lparr>mmio_hint := h\<rparr>) = Some (e, ema, s'))"
  proof -
    have same: "s = s\<lparr>mmio_hint := mmio_hint s\<rparr>" by simp
    define cached where "cached = (case mmio_hint s ! vcpu of
         Some h \<Rightarrow> if mr_base h \<le> a \<and> a \<le> mr_end h then Some h else None
       | None \<Rightarrow> None)"
    from run(1) have "(case cached of
       Some entry \<Rightarrow> ?cb (mr_param entry) ?ema s
     | None \<Rightarrow>
         (case mmio_rb_lookup (mmio_rb_root s) a of
            Inr entry \<Rightarrow> ?cb (mr_param entry) ?ema (s\<lparr>mmio_hint := (mmio_hint s)[vcpu := Some entry]\<rparr>)
          | Inl _ \<Rightarrow>
              (case mmio_rb_lookup (mmio_rb_fallback s) a of
                 Inl _ \<Rightarrow> Some (ESRCH, ?ema, s)
               | Inr entry \<Rightarrow> ?cb (mr_param entry) ?ema s))) = Some (e, ema, s')"
      unfolding access_memory_def Let_def assert_that_bind cached_def by (simp split: if_splits)
    then consider r where "?cb r ?ema s = Some (e, ema, s')" | r h where "?cb r ?ema (s\<lparr>mmio_hint := h\<rparr>) = Some (e, ema, s')"
      | "e = ESRCH" "s' = s"
      by (auto split: option.splits sum.splits)
    then show ?thesis
    proof cases
      case (1 r)
      with same have "?cb r ?ema (s\<lparr>mmio_hint := mmio_hint s\<rparr>) = Some (e, ema, s')" by simp
      then show ?thesis by blast
    qed blast+
  qed
  then show thesis
  proof (elim disjE exE)
    assume "e = ESRCH \<and> s' = s"
    then show thesis using that(1) [of "mmio_hint s"] by simp
  next
    fix r h assume "?cb r ?ema (s\<lparr>mmio_hint := h\<rparr>) = Some (e, ema, s')"
    from cb [OF this] obtain dir where "call (mem_handler r) (s\<lparr>mmio_hint := h\<rparr>) vcpu dir a width v (mem_arg1 r)
      (mem_arg2 r) = Some (e, v', s')" by blast
    then show thesis by (rule that(2))
  qed
qed

lemma sys_ok_hint [simp]: "sys_ok (s\<lparr>mmio_hint := h\<rparr>) = sys_ok s"
  by (rule sys_ok_cong) simp_all

lemma emul_mem_ok:
  assumes ok: "sys_ok s" and run: "emul_mem (pci_devemu_set md5 physmem cok dmap) s req = Some (e, req', s')"
  shows "(disk_msi_off s' \<longrightarrow> sys_ok s') \<and> (e \<noteq> 0 \<longrightarrow> sys_ok s')"
proof -
  obtain wr v v' where e: "emulate_mem (pci_mem_func (pci_devemu_set md5 physmem cok dmap)) s 0 (req_addr req) wr (data_len req) v =
      Some (e, v', s')"
    using run by (auto simp: emul_mem_def assert_that_bind split: if_splits elim!: bind_SomeE)
  show ?thesis
  proof (rule emulate_mem_runs [OF e])
    fix h assume "e = ESRCH" "s' = s\<lparr>mmio_hint := h\<rparr>"
    with ok show ?thesis by simp
  next
    fix h and r :: "(mem_handler_fn, pci_ref) mem_range" and dir
    assume c: "pci_mem_func (pci_devemu_set md5 physmem cok dmap) (mem_handler r) (s\<lparr>mmio_hint := h\<rparr>) 0 dir (req_addr req)
      (data_len req) v (mem_arg1 r) (mem_arg2 r) = Some (e, v', s')"
    have okh: "sys_ok (s\<lparr>mmio_hint := h\<rparr>)" using ok by simp
    from mem_func_ok [OF this _ c] have "disk_msi_off s' \<longrightarrow> sys_ok s'" by blast
    moreover have "e = 0"
      using c by (cases "mem_handler r") (auto simp: pci_mem_func_def pci_emul_ecfg_handler_def Let_def elim!: bind_SomeE
        dest: mem_handler_ok [OF okh])
    ultimately show ?thesis by simp
  qed
qed

lemma request_sys_ok:
  assumes ok: "sys_ok s" and run: "dm_request (pci_devemu_set md5 physmem cok dmap) satp s req = Some (e, req', s')"
    and msi: "disk_msi_off s'"
  shows "sys_ok s'"
proof -
  have pci: "sys_ok s'" if "emul_pci (pci_devemu_set md5 physmem cok dmap) elink s req = Some (req', s')" for elink req'
  proof -
    from that obtain e1 req1 s1 where m: "emul_mem (pci_devemu_set md5 physmem cok dmap) s req = Some (e1, req1, s1)"
      by (auto simp: emul_pci_def assert_that_bind Let_def split: if_splits elim!: bind_SomeE)
    show ?thesis
    proof (cases "e1 = 0")
      case True
      then have "s' = s1" using that m by (auto simp: emul_pci_def assert_that_bind Let_def split: if_splits)
      with emul_mem_ok [OF ok m] msi show ?thesis by simp
    next
      case False
      then have ok1: "sys_ok s1" using emul_mem_ok [OF ok m] by simp
      from that m False obtain inp bus slot func coff n v v' where
        "pci_cfgrw (pci_devemu_set md5 physmem cok dmap) s1 inp bus slot func coff n v = Some (v', s')"
        by (auto simp: emul_pci_def assert_that_bind bhyve_pci_cfgrw_def Let_def split: if_splits elim!: bind_SomeE)
      from cfgrw_ok [OF ok1 this msi] show ?thesis .
    qed
  qed
  show ?thesis
    using run ok pci
    by (auto simp: dm_request_def emul_map_def split: if_splits elim!: bind_SomeE)
qed

section \<open>The card and the worker\<close>

lemma put_card_ok:
  assumes ok: "sys_ok s" and dev: "card_dev s = Some (d, sc0)"
  shows "sys_ok (put_card d sc w s)"
proof -
  have d: "dev_at s card_ref = Some (Some d)"
    using dev by (auto simp: card_dev_def split: option.splits softc.splits)
  have "sys_ok (s\<lparr>sys_world := put_card_world w (sys_world s)\<rparr>)"
    by (rule sys_ok_world [OF ok]) (simp_all add: put_card_world_def)
  then show ?thesis unfolding put_card_def by (rule sys_ok_other) (use d in simp_all)
qed

lemma poll_ok: "sys_ok s \<Longrightarrow> loop_poll dmap s = Some s' \<Longrightarrow> sys_ok s'"
  by (auto simp: loop_poll_def split: option.splits prod.splits elim!: bind_SomeE intro: put_card_ok)

lemma net_intr_ok: "sys_ok s \<Longrightarrow> net_intr dmap vread vintr s = Some s' \<Longrightarrow> sys_ok s'"
  by (auto simp: net_intr_def elim!: bind_SomeE intro: put_card_ok)

text \<open>What a run of the worker leaves: no port whose disk it serves has a request in flight.\<close>

definition served :: "ahci_state \<Rightarrow> bool" where
  "served t \<longleftrightarrow> (\<forall>b p. blockif_sc t = Some (Some b) \<longrightarrow> p < 32 \<longrightarrow> pr_bctx (port_of p t) = Some b \<longrightarrow>
     pr_iobhd (port_of p t) = [] \<and> pr_pending (port_of p t) = 0)"

lemma thr_served:
  assumes run: "blockif_thr (ahci_cb dmap) t = Some t'" and ok: "ahci_ok t"
  shows "ahci_ok t' \<and> served t'"
proof -
  note r = thr_ok_ahci [OF run ok]
  have rq: "rq_ok t" "rq_ok t'" using ok r by (simp_all add: ahci_ok_def)
  have "pr_iobhd (port_of p t') = [] \<and> pr_pending (port_of p t') = 0"
    if b: "blockif_sc t' = Some (Some b)" and p: "p < 32" "pr_bctx (port_of p t') = Some b" for b p
  proof -
    have sc: "blockif_sc t = Some (Some b)" using b r by simp
    with rq(1) obtain q where q: "q < 32" "pr_bctx (port_of q t) = Some b" unfolding rq_gen_def by blast
    with r sc obtain bc where bc: "pr_bctx (port_of q t') = Some b" "get_ctxt b t' = Some bc" "bc_pendq bc = []" by blast
    have "q = p" using rq(2) p q(1) bc(1) unfolding rq_gen_def by (metis option.distinct(1))
    then have ok': "port_ok p (port_of p t')" "disk_ok {#} p (port_of p t') bc"
      using rq_genD [OF rq(2) p] bc(2) by auto
    then have "pr_iobhd (port_of p t') = []" using bc(3) by (simp add: disk_ok_def pend_reqs_def)
    with ok'(1) idle_pending show ?thesis by blast
  qed
  with r show ?thesis by (simp add: served_def)
qed

lemma disk_state_put:
  assumes "dev_at s disk_ref = Some (Some d)"
  shows "disk_state (put_disk d t s) = Some t"
proof -
  let ?w = "put_disk_world (blockif_state.truncate t) (sys_world s)" and ?d = "d\<lparr>dev_pi := asc_pi (ahci_sc t), dev_arg := Disk (ahci_sc t)\<rparr>"
  have "dev_at (s\<lparr>sys_world := ?w\<rparr>) disk_ref = Some (Some d)" using assms by simp
  then have "dev_at (put_disk d t s) disk_ref = Some (Some ?d)" unfolding put_disk_def by (subst dev_at_set_dev) simp_all
  then show ?thesis by (simp add: disk_state_Some) (simp add: put_disk_def)
qed

lemma loop_thr_ok:
  assumes ok: "sys_ok s" and run: "loop_thr dmap s = Some s'"
  shows "sys_ok s' \<and> (\<exists>t. disk_state s' = Some t \<and> served t)"
proof -
  obtain d sc where d: "drivers_ok s" "dev_at s disk_ref = Some (Some d)" "dev_arg d = Disk sc" "dev_emu d = ''ahci-hd''"
    "ahci_ok (with_sc (disk_world (sys_world s)) (sc\<lparr>asc_pi := dev_pi d\<rparr>))"
    using ok by (rule sys_okE)
  have "disk_dev s = Some (d, sc\<lparr>asc_pi := dev_pi d\<rparr>)" using d(2,3) by (simp add: disk_dev_def)
  with run obtain t where t: "blockif_thr (ahci_cb dmap) (with_sc (disk_world (sys_world s)) (sc\<lparr>asc_pi := dev_pi d\<rparr>)) = Some t"
    "s' = put_disk d t s"
    by (auto simp: loop_thr_def elim!: bind_SomeE)
  have r: "ahci_ok t" "served t" using thr_served [OF t(1) d(5)] by simp_all
  have "sys_ok s'"
    unfolding t(2) put_disk_def by (rule sys_ok_disk [OF d(1,2), where sc = "ahci_sc t"]) (simp_all add: r)
  moreover have "disk_state s' = Some t" unfolding t(2) by (rule disk_state_put [OF d(2)])
  ultimately show ?thesis using r by blast
qed

section \<open>Histories of the program\<close>

text \<open>
  Rounds of the main loop with any request or none, interrupts of the network and expiries of the
  throttling timer of the card between them, and writes of the guest to its memory.
\<close>

definition keeps_msi_off :: "(softc, 'n machine) pci_devemu list \<Rightarrow> u64 \<Rightarrow> 'n dm_sys \<Rightarrow> epw_request option \<Rightarrow> bool" where
  "keeps_msi_off devs satp s ro \<longleftrightarrow>
     (\<forall>req e reply s1. ro = Some req \<longrightarrow> dm_request devs satp s req = Some (e, reply, s1) \<longrightarrow> disk_msi_off s1)"

inductive dm_step ::
  "(softc, 'n machine) pci_devemu list \<Rightarrow> (u64 \<Rightarrow> u64) \<Rightarrow> 'n net_reader \<Rightarrow> ('n \<Rightarrow> 'n) \<Rightarrow> 'n dm_sys \<Rightarrow> 'n dm_sys \<Rightarrow> bool"
  for devs dmap vread vintr where
  step_round: "keeps_msi_off devs satp s ro \<Longrightarrow> dm_round devs dmap satp ro s = Some (reply, s') \<Longrightarrow>
    dm_step devs dmap vread vintr s s'"
| step_intr: "net_intr dmap vread vintr s = Some s' \<Longrightarrow> dm_step devs dmap vread vintr s s'"
| step_timer: "card_dev s = Some (d, sc) \<Longrightarrow> mevpitr_callout (esc_int sc) \<noteq> None \<Longrightarrow> itr_expires sc = Some sc' \<Longrightarrow>
    dm_step devs dmap vread vintr s (put_card d sc' (card_world (sys_world s)) s)"
| step_memory: "dm_step devs dmap vread vintr s (s\<lparr>sys_world := (sys_world s)\<lparr>bs_mem := m\<rparr>\<rparr>)"

inductive_cases dm_stepE: "dm_step devs dmap vread vintr s s'"

lemma loop_round_ok:
  assumes ok: "sys_ok s" and msi: "keeps_msi_off (pci_devemu_set md5 physmem cok dmap) satp s ro"
    and run: "dm_round (pci_devemu_set md5 physmem cok dmap) dmap' satp ro s = Some (reply, s')"
  shows "sys_ok s' \<and> (\<exists>t. disk_state s' = Some t \<and> served t)"
proof -
  obtain s1 s2 where s1: "(case ro of
         None \<Rightarrow> Some (None, s)
       | Some req \<Rightarrow> do {
           (_, req, s) \<leftarrow> dm_request (pci_devemu_set md5 physmem cok dmap) satp s req;
           Some (Some req, s)
         }) = Some (reply, s1)" and s2: "loop_poll dmap' s1 = Some s2" "loop_thr dmap' s2 = Some s'"
    using run by (auto simp: dm_round_def elim!: bind_SomeE)
  have "sys_ok s1"
  proof (cases ro)
    case None
    with s1 ok show ?thesis by simp
  next
    case (Some req)
    with s1 obtain e req' where r: "dm_request (pci_devemu_set md5 physmem cok dmap) satp s req = Some (e, req', s1)"
      by (auto elim!: bind_SomeE)
    with msi Some have "disk_msi_off s1" by (simp add: keeps_msi_off_def)
    with request_sys_ok [OF ok r] show ?thesis .
  qed
  with poll_ok s2(1) have "sys_ok s2" by blast
  with loop_thr_ok s2(2) show ?thesis by blast
qed

lemma dm_step_ok:
  assumes "dm_step (pci_devemu_set md5 physmem cok dmap) dmap' vread vintr s s'" "sys_ok s"
  shows "sys_ok s'"
  using assms(1)
proof (rule dm_stepE)
  fix satp ro reply
  assume "keeps_msi_off (pci_devemu_set md5 physmem cok dmap) satp s ro"
    "dm_round (pci_devemu_set md5 physmem cok dmap) dmap' satp ro s = Some (reply, s')"
  with loop_round_ok assms(2) show ?thesis by blast
next
  assume "net_intr dmap' vread vintr s = Some s'"
  with net_intr_ok assms(2) show ?thesis by blast
next
  fix d sc sc' assume "card_dev s = Some (d, sc)" "s' = put_card d sc' (card_world (sys_world s)) s"
  with put_card_ok assms(2) show ?thesis by blast
next
  fix m assume "s' = s\<lparr>sys_world := (sys_world s)\<lparr>bs_mem := m\<rparr>\<rparr>"
  with sys_ok_world [OF assms(2), of "(sys_world s)\<lparr>bs_mem := m\<rparr>"] show ?thesis by simp
qed

lemma dm_steps_ok:
  "(dm_step (pci_devemu_set md5 physmem cok dmap) dmap' vread vintr)\<^sup>*\<^sup>* s s' \<Longrightarrow> sys_ok s \<Longrightarrow> sys_ok s'"
  by (induction rule: rtranclp_induct) (auto intro: dm_step_ok)

text \<open>C2. The whole program keeps the disk controller sound: from a sound state, in any history of rounds of
the main loop with any requests of the guest, network interrupts, timer expiries and memory writes of
the guest, the controller stays in slot 1 with its invariants, as long as no request switches its message signalled
interrupts on: its line is requested exactly when its registers want it, and every port with a disk
has a free element for one more command.\<close>

theorem program_keeps_disk_sound:
  assumes "sys_ok s" "(dm_step (pci_devemu_set md5 physmem calloc_ok dmap) dmap vread vintr)\<^sup>*\<^sup>* s s'"
  shows "\<exists>t. disk_state s' = Some t \<and> ahci_ok t \<and>
    (requested (asc_pi (ahci_sc t)) \<longleftrightarrow> hba_is (ahci_sc t) \<noteq> 0 \<and> hba_ghc (ahci_sc t) AND AHCI_GHC_IE \<noteq> 0) \<and>
    (\<forall>p<32. \<forall>b. pr_bctx (port_of p t) = Some b \<longrightarrow> pr_iofhd (port_of p t) \<noteq> [])"
proof -
  obtain t where t: "disk_state s' = Some t" "ahci_ok t" using dm_steps_ok [OF assms(2,1)] by (auto simp: sys_ok_def)
  have "pr_iofhd (port_of p t) \<noteq> []" if "p < 32" "pr_bctx (port_of p t) = Some b" for p b
  proof -
    have "rq_ok t" using t(2) by (simp add: ahci_ok_def)
    from rq_genD [OF this that] have ok: "port_ok p (port_of p t)" by blast
    then have "length (pr_iofhd (port_of p t) @ pr_iobhd (port_of p t)) = IOREQS"
      using distinct_card [of "pr_iofhd (port_of p t) @ pr_iobhd (port_of p t)"] by (simp add: port_ok_def)
    then show ?thesis using few_busy [OF ok] by auto
  qed
  with t show ?thesis by (auto simp: ahci_ok_def irq_gen_def Let_def)
qed

text \<open>C3. A round of the main loop that returns ends the commands of the disk: whatever the guest requested,
and whatever was in flight before, afterwards the port whose disk the worker serves has no command in
flight, and the controller is sound.\<close>

theorem round_ends_commands:
  assumes "sys_ok s" "keeps_msi_off (pci_devemu_set md5 physmem calloc_ok dmap) satp s ro"
    and "dm_round (pci_devemu_set md5 physmem calloc_ok dmap) dmap satp ro s = Some (reply, s')"
  shows "\<exists>t. disk_state s' = Some t \<and> ahci_ok t \<and>
    (\<forall>b p. blockif_sc t = Some (Some b) \<longrightarrow> p < 32 \<longrightarrow> pr_bctx (port_of p t) = Some b \<longrightarrow>
       pr_iobhd (port_of p t) = [] \<and> pr_pending (port_of p t) = 0)"
  using loop_round_ok [OF assms] by (auto simp: sys_ok_def served_def)

end
