(* ===== verification/AhciWitness.thy ===== *)
theory AhciWitness
  imports AhciProps PciWitness
begin

text \<open>
  Concrete instances of the properties of the disk controller: a controller with six ports and a disk
  at port 0, idle, with a flush in flight, and with frames that a guest wrote.
\<close>

section \<open>A controller with one disk\<close>

definition wit_blk :: "ahci_rq blockif_state" where
  "wit_blk = \<lparr>bs_ctxts = [], blockif_sc = None, bs_mem = (\<lambda>_. 0)\<rparr>"

definition wit_blk1 :: "ahci_rq blockif_state" where
  "wit_blk1 = snd (blockif_open 0x80000000 True wit_blk)"

definition wit_asc :: pci_ahci_softc where
  "wit_asc = (ahci_softc_zero wit_pi0)\<lparr>asc_port := (asc_port (ahci_softc_zero wit_pi0))
     [0 := pci_ahci_ioreq_init 0 IOREQS (ahci_port_zero\<lparr>pr_bctx := Some 0, pr_sc := True, pr_port := 0,
        pr_atapi := False, pr_ident := ''BHYVE''\<rparr>)], hba_pi := 1\<rparr>"

definition wit_idle :: ahci_state where
  "wit_idle = with_sc wit_blk1 (wit_asc\<lparr>asc_ports := 6, hba_ghc := AHCI_GHC_AE\<rparr>)"

definition wit_ctl0 :: ahci_state where
  "wit_ctl0 = upd_port 0 (\<lambda>pr. pr\<lparr>pr_cmd_lst := Some 0x2000\<rparr>) wit_idle"

lemma wit_ahci_open: "blockif_open 0x80000000 True wit_blk = (Some 0, wit_blk1)"
  by (simp add: wit_blk1_def wit_blk_def blockif_open_def Let_def)

lemma wit_start: "start_inv 1 wit_blk1 wit_asc"
proof -
  have "start_inv 0 wit_blk (ahci_softc_zero wit_pi0)" by (rule start_zero) (simp_all add: wit_blk_def)
  from start_disk [OF this _ wit_ahci_open refl, where atapi = False and ident = "''BHYVE''" and pi = 1]
  show ?thesis by (simp add: wit_asc_def ahci_softc_zero_def ahci_port_zero_def)
qed

lemma wit_idle_ok: "ahci_ok wit_idle"
proof -
  have "rq_ok wit_idle" "disks_free wit_idle"
    using wit_start by (simp_all add: start_inv_def wit_idle_def rq_gen_def disks_free_def)
  moreover have "irq_inv wit_idle"
    using wit_start wit_pi0_line wit_pi0_caps
    by (auto simp: caps_fine_def start_inv_def irq_gen_def Let_def wit_idle_def wit_asc_def ahci_softc_zero_def ahci_port_zero_def
        pci_ahci_ioreq_init_def wit_pi0_def pci_devinst_zero_def nth_list_update less_Suc_eq numeral_eq_Suc ahci_regs_zero_def)
  ultimately show ?thesis by (simp add: ahci_ok_def)
qed

lemma wit_ctl0_ok: "ahci_ok wit_ctl0"
proof -
  have "plain (\<lambda>pr. pr\<lparr>pr_cmd_lst := Some 0x2000\<rparr>)" by (intro plainI) (simp_all add: port_core_def)
  then have "calm wit_idle wit_ctl0" unfolding wit_ctl0_def by (intro quiets)
  then show ?thesis using wit_idle_ok by (rule calm_ok)
qed


lemma wit_ctl0_state:
  "pr_bctx (port_of 0 wit_ctl0) = Some 0" "pr_sc (port_of 0 wit_ctl0)" "blockif_sc wit_ctl0 = Some (Some 0)"
  "slot_idle 0 3 wit_ctl0" "get_ctxt 0 wit_ctl0 \<noteq> None" "px_cmd (rg 0 wit_ctl0) = 0" "\<not> pr_sc (port_of 1 wit_ctl0)"
  "mutex_free (asc_mtx (ahci_sc wit_ctl0))" "asc_ports (ahci_sc wit_ctl0) = 6" "port_sectsz 0 wit_ctl0 = Some 512"
  by code_simp+

text \<open>The same with a flush in flight in slot 3.\<close>

definition wit_ctl :: ahci_state where
  "wit_ctl = the (ahci_handle_flush 0 3 0x1000 wit_ctl0)"

lemma wit_ctl_ok: "ahci_ok wit_ctl"
proof -
  obtain bc where "get_ctxt 0 wit_ctl0 = Some bc" using wit_ctl0_state(5) by blast
  from flush_accepted [OF wit_ctl0_ok _ wit_ctl0_state(1) _ wit_ctl0_state(4) this, of "0x1000"]
  show ?thesis by (auto simp: wit_ctl_def)
qed

lemma wit_ctl_state:
  "pr_bctx (port_of 0 wit_ctl) = Some 0" "pr_sc (port_of 0 wit_ctl)" "blockif_sc wit_ctl = Some (Some 0)"
  "pr_pending (port_of 0 wit_ctl) = 8" "px_cmd (rg 0 wit_ctl) = 0" "length (pr_iobhd (port_of 0 wit_ctl)) = 1"
  by code_simp+

declare thr_loop.simps [code]

lemma wit_ctl_runs: "blockif_thr (ahci_cb (\<lambda>a. a)) wit_ctl \<noteq> None"
  by code_simp

theorem controller_requests_conserved_witness:
  "length (pr_iobhd (port_of 0 wit_ctl)) = 1 \<and> pr_iofhd (port_of 0 wit_ctl) \<noteq> [] \<and>
   (\<exists>bc. get_ctxt 0 wit_ctl = Some bc \<and> mset (pend_params bc) = mset (map (Pair 0) (pr_iobhd (port_of 0 wit_ctl))))"
  using controller_requests_conserved [OF wit_ctl_ok rtranclp.rtrancl_refl, of 0 0] wit_ctl_state by auto

theorem controller_interrupts_exact_witness:
  "\<exists>s'. ctl_step (\<lambda>a. a) wit_ctl s' \<and> (requested (asc_pi (ahci_sc s')) \<longleftrightarrow> hba_is (ahci_sc s') \<noteq> 0 \<and> hba_ghc (ahci_sc s') AND AHCI_GHC_IE \<noteq> 0)"
proof -
  obtain s' where "blockif_thr (ahci_cb (\<lambda>a. a)) wit_ctl = Some s'" using wit_ctl_runs by blast
  then have step: "ctl_step (\<lambda>a. a) wit_ctl s'" by (rule ctl_work)
  from controller_interrupts_exact [OF wit_ctl_ok r_into_rtranclp [where r = "ctl_step (\<lambda>a. a)", OF step]] step
  show ?thesis by blast
qed

lemma worker_ends_commands_witness:
  "\<exists>s'. blockif_thr (ahci_cb (\<lambda>a. a)) wit_ctl = Some s' \<and> pr_pending (port_of 0 wit_ctl) = 8 \<and>
     pr_pending (port_of 0 s') = 0"
proof -
  obtain s' where run: "blockif_thr (ahci_cb (\<lambda>a. a)) wit_ctl = Some s'" using wit_ctl_runs by blast
  with worker_ends_commands [OF wit_ctl_ok wit_ctl_state(3) _ wit_ctl_state(1) run] wit_ctl_state(4)
  show ?thesis by simp
qed

text \<open>With the controller locked, as its operations call the stop.\<close>

definition wit_locked :: ahci_state where
  "wit_locked = the (lock_sc wit_ctl)"

lemma wit_locked_state:
  "pr_bctx (port_of 0 wit_locked) = Some 0" "pr_sc (port_of 0 wit_locked)" "mutex_lock (asc_mtx (ahci_sc wit_locked)) \<noteq> 0"
  "px_cmd (rg 0 wit_locked) AND AHCI_P_CMD_ST = 0" "pr_pending (port_of 0 wit_locked) = 8" "lock_sc wit_ctl \<noteq> None"
  by code_simp+

theorem port_stop_cancels_all_witness:
  "\<exists>s'. ahci_port_stop 0 wit_locked = Some s' \<and> pr_pending (port_of 0 wit_locked) = 8 \<and> pr_pending (port_of 0 s') = 0"
proof -
  have "ahci_ok wit_locked"
    using wit_ctl_ok wit_locked_state(6)
    by (auto simp: wit_locked_def lock_sc_def bind_eq_Some_conv ahci_ok_def rq_gen_def irq_gen_def disks_free_def Let_def
        port_of_def get_ctxt_def pthread_mutex_lock_def)
  from port_stop_cancels_all [OF this _ wit_locked_state(2,3,1,4)] wit_locked_state(5) show ?thesis by auto
qed

theorem no_disk_port_stops_model_witness:
  "pci_ahci_write (\<lambda>a. a) 5 0x190 4 0 wit_ctl0 = None \<and> pci_ahci_write (\<lambda>a. a) 5 0x198 4 0 wit_ctl0 = None"
  using no_disk_port_stops_model [of wit_ctl0 1 "\<lambda>a. a" 4 0] wit_ctl0_state by simp

section \<open>Frames\<close>

text \<open>A table with one region of two bytes, and a command of two bytes.\<close>

definition wit_table :: host_memory where
  "wit_table = (\<lambda>_. 0)(0x108c := 1)"

definition wit_dmap :: "u64 \<Rightarrow> u64" where
  "wit_dmap a = a + 0x80000000"

definition wit_aior :: ahci_ioreq where
  "wit_aior = (pr_ioreq (port_of 0 wit_ctl0) ! 0)\<lparr>io_cfis := 0x1000, io_len := 2\<rparr>"

definition wit_xfer :: ahci_state where
  "wit_xfer = wit_ctl0\<lparr>bs_mem := wit_table\<rparr>"

lemma wit_xfer_state:
  "port_sectsz 0 wit_xfer = Some 512" "io_done wit_aior = 0" "io_len wit_aior = 2" "br_offset (io_req wit_aior) = 0"
  "prdt_addrs wit_dmap (bs_mem wit_xfer) 0x1000 0 1 = [0x80000000, 0x80000001]"
  "map_option (\<lambda>r. br_resid (io_req r)) (ahci_build_iov wit_dmap 0 0x1000 1 wit_aior wit_xfer) = Some 2"
  "bc_base (bs_ctxts wit_ctl0 ! 0) = 0x83000000"
  by code_simp+


text \<open>A port whose command engine runs, with the disk locked by the worker and a frame at \<open>0x3000\<close>.\<close>

definition wit_frame :: "u8 \<Rightarrow> ahci_state" where
  "wit_frame t = upd_rg 0 (\<lambda>r. r\<lparr>px_cmd := AHCI_P_CMD_ST, px_ci := 1\<rparr>)
     ((the (lock_bc 0 wit_ctl0))\<lparr>bs_mem := (\<lambda>_. 0)(0x3000 := t, 0x3001 := 0x80, 0x3002 := 0x25)\<rparr>)"

lemma wit_frame_state:
  "pr_bctx (port_of 0 (wit_frame t)) = Some 0" "lock_bc 0 (wit_frame t) = None"
  "px_cmd (rg 0 (wit_frame t)) AND AHCI_P_CMD_ST \<noteq> 0" "\<not> port_idle 0 (wit_frame t)"
  "px_ci (rg 0 (wit_frame t)) AND NOT (pr_pending (port_of 0 (wit_frame t))) AND slot_bit (pr_ccs (port_of 0 (wit_frame t))) \<noteq> 0"
  "cmd_hdr 0 (pr_ccs (port_of 0 (wit_frame t))) (wit_frame t) = Some 0x2000"
  "px_ci (rg 0 (wit_frame t)) AND NOT (pr_pending (port_of 0 (wit_frame t))) \<noteq> 0"
  "px_tfd (rg 0 (wit_frame t)) AND (ATA_S_BUSY OR ATA_S_DRQ) = 0" "\<not> pr_waitforclear (port_of 0 (wit_frame t))"
  by code_simp+

lemma wit_frame_mem: "bs_mem (wit_frame t) = (\<lambda>_. 0)(0x3000 := t, 0x3001 := 0x80, 0x3002 := 0x25)"
  by (simp add: wit_frame_def)


lemma wrong_frame_hangs_witness:
  "ahci_handle_port (\<lambda>_. 0x3000) 0 (wit_frame 0x34) = None"
  by (rule wrong_frame_hangs [OF wit_frame_state(3,7-9)]) (simp add: wit_frame_mem)

section \<open>Start\<close>

definition wit_asys :: "(unit, ahci_rq blockif_state) pci_sys" where
  "wit_asys = \<lparr>mmio_rb_root = [], mmio_rb_fallback = [], mmio_hint = [None], mem_ptr = 0,
     mem_alloc_ok = (\<lambda>_. True), pci_emul_iobase = PCI_EMUL_IOBASE,
     pci_emul_membase32 = 0x60010000, pci_emul_membase64 = PCI_EMUL_MEMBASE64,
     pci_businfo = Some businfo_zero # replicate 255 None,
     sys_world = \<lparr>bs_ctxts = [], blockif_sc = None, bs_mem = (\<lambda>_. 0)\<rparr>\<rparr>"

definition wit_init where
  "wit_init = pci_ahci_init (\<lambda>_. replicate 16 0) 0x80000000 True False wit_asys wit_pi0 (Some ''hd:disk'')"

lemma wit_init_state:
  "map_option (\<lambda>(e, s', pi', sc). (e, caps_ok pi' [0x40], lintr_ok pi', requested pi', msi_enabled (pi_msi pi'), asc_ports sc)) wit_init =
     Some (0, True, True, False, 0, 6)"
  by code_simp


end
