(* ===== verification/SystemWitness.thy ===== *)
theory SystemWitness
  imports SystemProps AhciWitness
begin

text \<open>
  Concrete instances of the properties of the whole program: a bus with the disk controller in slot 1,
  with a flush in flight, and a round of the main loop without a request.
\<close>

definition wit_disk_dev :: "softc pci_dev" where
  "wit_disk_dev = \<lparr>dev_pi = asc_pi (ahci_sc wit_ctl), dev_emu = ''ahci-hd'', dev_arg = Disk (ahci_sc wit_ctl)\<rparr>"

definition wit_dm :: "unit dm_sys" where
  "wit_dm = \<lparr>mmio_rb_root = [], mmio_rb_fallback = [], mmio_hint = [None], mem_ptr = 0,
     mem_alloc_ok = (\<lambda>_. True), pci_emul_iobase = PCI_EMUL_IOBASE,
     pci_emul_membase32 = 0x60010000, pci_emul_membase64 = PCI_EMUL_MEMBASE64,
     pci_businfo = Some (businfo_zero\<lparr>bi_slotinfo := [slotinfo_zero\<lparr>si_funcs := []\<rparr>, slotinfo_zero\<lparr>si_funcs :=
         [\<lparr>fi_name = Some ''ahci-hd'', fi_param = None, fi_devi = Some wit_disk_dev\<rparr>]\<rparr>]\<rparr>) #
       replicate 255 None,
     sys_world = \<lparr>bs_ctxts = bs_ctxts wit_ctl, blockif_sc = blockif_sc wit_ctl, bs_mem = bs_mem wit_ctl,
       mc_net = (), mc_sent = []\<rparr>\<rparr>"

lemma wit_dm_dev:
  "dev_at wit_dm ref = Some (Some d) \<longleftrightarrow> ref = disk_ref \<and> d = wit_disk_dev"
proof -
  obtain b f k where ref: "ref = (b, f, k)" by (cases ref) auto
  show ?thesis
  proof (cases b)
    case 0
    then show ?thesis
      by (auto simp: ref wit_dm_def dev_at_def businfo_at_def slot_of_def func_of_def less_Suc_eq split: if_splits)
  next
    case (Suc c)
    then show ?thesis
      by (auto simp: ref wit_dm_def dev_at_def businfo_at_def split: if_splits)
  qed
qed

lemma wit_dm_none: "card_dev wit_dm = None"
  using wit_dm_dev [of card_ref] by (auto simp: card_dev_def split: option.splits)

lemma wit_dm_state: "disk_state wit_dm = Some wit_ctl"
  by (simp add: disk_state_Some wit_dm_dev) (simp add: wit_disk_dev_def wit_dm_def disk_world_def with_sc_def)

lemma wit_dm_ok: "sys_ok wit_dm"
  using wit_ctl_ok by (auto simp: sys_ok_def wit_dm_state drivers_ok_def wit_dm_dev) (simp_all add: wit_disk_dev_def)

abbreviation wit_devs :: "(softc, unit machine) pci_devemu list" where
  "wit_devs \<equiv> pci_devemu_set (\<lambda>_. replicate 16 0) 0x80000000 True (\<lambda>a. a)"

lemma wit_work_state:
  "map_option (\<lambda>t. (blockif_sc t, pr_bctx (port_of 0 t))) (blockif_thr (ahci_cb (\<lambda>a. a)) wit_ctl) = Some (Some (Some 0), Some 0)"
  by code_simp

lemma wit_round_runs:
  obtains s' t where "dm_round wit_devs (\<lambda>a. a) 0 None wit_dm = Some (None, s')" "keeps_msi_off wit_devs 0 wit_dm None"
    "disk_state s' = Some t" "blockif_sc t = Some (Some 0)" "pr_bctx (port_of 0 t) = Some 0"
proof -
  obtain t where t: "blockif_thr (ahci_cb (\<lambda>a. a)) wit_ctl = Some t" "blockif_sc t = Some (Some 0)" "pr_bctx (port_of 0 t) = Some 0"
    using wit_work_state by auto
  obtain d sc where d: "disk_dev wit_dm = Some (d, sc)" "with_sc (disk_world (sys_world wit_dm)) sc = wit_ctl"
    using wit_dm_state by (auto simp: disk_state_def)
  have "dev_at wit_dm disk_ref = Some (Some d)" using d(1) by (auto simp: disk_dev_def split: option.splits softc.splits)
  then have "disk_state (put_disk d t wit_dm) = Some t" by (rule disk_state_put)
  moreover have "dm_round wit_devs (\<lambda>a. a) 0 None wit_dm = Some (None, put_disk d t wit_dm)"
    using t d by (simp add: dm_round_def loop_poll_def e1000_poll_def wit_dm_none loop_thr_def)
  ultimately show ?thesis using t by (intro that [of "put_disk d t wit_dm" t]) (simp_all add: keeps_msi_off_def)
qed

theorem round_ends_commands_witness:
  "\<exists>s' t. dm_round wit_devs (\<lambda>a. a) 0 None wit_dm = Some (None, s') \<and> pr_pending (port_of 0 wit_ctl) = 8 \<and>
     disk_state wit_dm = Some wit_ctl \<and> disk_state s' = Some t \<and> pr_pending (port_of 0 t) = 0"
proof -
  obtain s' t where run: "dm_round wit_devs (\<lambda>a. a) 0 None wit_dm = Some (None, s')" "keeps_msi_off wit_devs 0 wit_dm None"
    "disk_state s' = Some t" "blockif_sc t = Some (Some 0)" "pr_bctx (port_of 0 t) = Some 0"
    by (rule wit_round_runs)
  from round_ends_commands [OF wit_dm_ok run(2,1)] run have "pr_pending (port_of 0 t) = 0" by auto
  with run wit_ctl_state(4) wit_dm_state show ?thesis by auto
qed

theorem program_keeps_disk_sound_witness:
  "\<exists>s' t. dm_step wit_devs (\<lambda>a. a) (\<lambda>st n. (0, [], st)) (\<lambda>st. st) wit_dm s' \<and> disk_state s' = Some t \<and> ahci_ok t"
proof -
  obtain s' t where run: "dm_round wit_devs (\<lambda>a. a) 0 None wit_dm = Some (None, s')" "keeps_msi_off wit_devs 0 wit_dm None"
    by (rule wit_round_runs)
  then have step: "dm_step wit_devs (\<lambda>a. a) (\<lambda>st n. (0, [], st)) (\<lambda>st. st) wit_dm s'" by (intro step_round)
  then have "(dm_step wit_devs (\<lambda>a. a) (\<lambda>st n. (0, [], st)) (\<lambda>st. st))\<^sup>*\<^sup>* wit_dm s'" by blast
  from program_keeps_disk_sound [OF wit_dm_ok this] step show ?thesis by blast
qed

end
