(* ===== verification/Spec2Isabelle.thy ===== *)
theory Spec2Isabelle
  imports PciWitness E1000Witness DeviceWitness BlockIfWitness SystemWitness
begin

text \<open>
  Verification of the device model for RISC-V.
\<close>

end
